(* ===== verification/Prelude.thy ===== *)
theory Prelude
  imports
    Main
    "HOL-Library.Char_ord"
    "HOL-Library.Code_Target_Nat"
    "HOL-Library.Sublist"
    "HOL-Library.State_Monad"
begin

text \<open>
  Shared vocabulary of the development: the fact collections the component theories fill
  (each one a simp set or a set of proof rules), the names of the basic types, and generic
  lemmas on lists and options that the component proofs reuse.

  A Go \<open>string\<close> is a sequence of bytes, so it is modelled as HOL's \<open>string\<close> (a list of
  8-bit \<open>char\<close>s), byte for byte. An instant of time is an \<open>int\<close>: nanoseconds since Go's zero
  time (January 1 of year 1, UTC), so that \<open>time.Time{}\<close> is 0. A duration is an \<open>int\<close> number of
  nanoseconds. A Go error that the code only compares with \<open>nil\<close> is the \<open>None\<close> of an option; an
  error that the code distinguishes is a constructor of an error datatype, in a sum.
\<close>

named_theorems go_str
  "facts about the byte-string functions of the Go standard library"

named_theorems go_url
  "facts about the URL functions of the Go standard library"

named_theorems http_simps
  "unfolding rules for headers, cookies, responses and forms"

named_theorems vcg
  "rules that push a postcondition backwards through a handler of the gateway"

type_synonym time = int
type_synonym duration = int
type_synonym key_value = "string \<times> string"

subsection \<open>Durations\<close>

abbreviation second :: duration where
  "second \<equiv> 1000000000"

abbreviation minute :: duration where
  "minute \<equiv> 60 * second"

subsection \<open>Lists and options\<close>

text \<open>Go's \<open>if err != nil { return err }\<close>, on results that are an error or a value.\<close>

fun and_then :: "'e + 'a \<Rightarrow> ('a \<Rightarrow> 'e + 'b) \<Rightarrow> 'e + 'b" where
  "and_then (Inl e) f = Inl e"
| "and_then (Inr x) f = f x"

lemma and_then_Inr: "and_then r f = Inr y \<longleftrightarrow> (\<exists>x. r = Inr x \<and> f x = Inr y)"
  by (cases r) auto

text \<open>The first value that \<open>f\<close> finds in a list, as a Go loop that returns from its body does.\<close>

fun find_map :: "('a \<Rightarrow> 'b option) \<Rightarrow> 'a list \<Rightarrow> 'b option" where
  "find_map f [] = None"
| "find_map f (x # xs) = (case f x of Some y \<Rightarrow> Some y | None \<Rightarrow> find_map f xs)"

lemma find_map_SomeD: "find_map f xs = Some y \<Longrightarrow> \<exists>x \<in> set xs. f x = Some y"
  by (induction xs) (auto split: option.splits)

lemma find_map_None_iff: "find_map f xs = None \<longleftrightarrow> (\<forall>x \<in> set xs. f x = None)"
  by (induction xs) (auto split: option.splits)

lemma no_key_in_map_filter:
  assumes "\<And>p n v. p \<in> set ps \<Longrightarrow> f p = Some (n, v) \<Longrightarrow> \<not> P n"
  shows "\<not> list_ex P (map fst (List.map_filter f ps))"
  using assms by (fastforce simp: List.map_filter_def list_ex_iff)

text \<open>Keep the first occurrence of every element, in the order of first occurrence.\<close>

fun dedup :: "'a list \<Rightarrow> 'a list" where
  "dedup [] = []"
| "dedup (x # xs) = x # filter (\<lambda>y. y \<noteq> x) (dedup xs)"

lemma set_dedup [simp]: "set (dedup xs) = set xs"
  by (induction xs) auto

lemma distinct_dedup [simp]: "distinct (dedup xs)"
  by (induction xs) auto

lemma dedup_distinct: "distinct xs \<Longrightarrow> dedup xs = xs"
proof (induction xs)
  case (Cons x xs)
  then have "filter (\<lambda>y. y \<noteq> x) xs = xs" by (auto simp: filter_id_conv)
  with Cons show ?case by simp
qed simp

lemma filter_dedup: "filter P (dedup xs) = dedup (filter P xs)"
proof (induction xs)
  case (Cons x xs)
  show ?case
  proof (cases "P x")
    case True
    then show ?thesis by (auto simp: conj_commute simp flip: Cons.IH)
  next
    case False
    then have "filter P (filter (\<lambda>y. y \<noteq> x) (dedup xs)) = filter P (dedup xs)"
      by (auto simp: filter_filter intro: filter_cong)
    with False Cons show ?thesis by simp
  qed
qed simp

lemma dedup_idem [simp]: "dedup (dedup xs) = dedup xs"
  by (rule dedup_distinct) simp

lemma prefix_hd: "prefix p s \<Longrightarrow> p \<noteq> [] \<Longrightarrow> s \<noteq> [] \<and> hd s = hd p"
  by (cases p) (auto simp: prefix_def)

lemma takeWhile_neq_notin: "c \<notin> set (takeWhile (\<lambda>x. x \<noteq> c) xs)"
  by (auto dest: set_takeWhileD)

lemma takeWhile_notin: "c \<notin> set xs \<Longrightarrow> takeWhile (\<lambda>x. x \<noteq> c) xs = xs"
  by (induction xs) auto

lemma dropWhile_notin: "c \<notin> set xs \<Longrightarrow> dropWhile (\<lambda>x. x \<noteq> c) xs = []"
  by (induction xs) auto

lemma takeWhile_neq_append [simp]:
  "c \<notin> set xs \<Longrightarrow> takeWhile (\<lambda>x. x \<noteq> c) (xs @ c # ys) = xs"
  by (induction xs) auto

lemma dropWhile_neq_append [simp]:
  "c \<notin> set xs \<Longrightarrow> dropWhile (\<lambda>x. x \<noteq> c) (xs @ c # ys) = c # ys"
  by (induction xs) auto

end
