(* ===== verification/Go_Strings.thy ===== *)
theory Go_Strings
  imports Prelude
begin

text \<open>
  The functions of Go's \<open>strings\<close> package that the gateway calls, on byte strings: \<open>Split\<close>,
  \<open>Join\<close>, \<open>Cut\<close>, \<open>TrimSpace\<close>, \<open>Trim\<close>, \<open>TrimRight\<close>, \<open>TrimSuffix\<close>, \<open>Fields\<close>, \<open>ToLower\<close>, \<open>EqualFold\<close>,
  \<open>Contains\<close> and \<open>ContainsAny\<close>. \<open>TrimSpace\<close> and \<open>Fields\<close> remove the Unicode white space of
  \<open>unicode.IsSpace\<close>, written as its UTF-8 encodings.
\<close>

subsection \<open>Prefixes, suffixes, membership\<close>

abbreviation has_prefix :: "string \<Rightarrow> string \<Rightarrow> bool" where
  "has_prefix s p \<equiv> prefix p s"

abbreviation has_suffix :: "string \<Rightarrow> string \<Rightarrow> bool" where
  "has_suffix s p \<equiv> suffix p s"

abbreviation str_contains :: "string \<Rightarrow> string \<Rightarrow> bool" where
  "str_contains s p \<equiv> sublist p s"

abbreviation contains_char :: "string \<Rightarrow> char \<Rightarrow> bool" where
  "contains_char s c \<equiv> List.member s c"

definition contains_any :: "string \<Rightarrow> string \<Rightarrow> bool" where
  "contains_any s cs \<longleftrightarrow> list_ex (\<lambda>c. List.member cs c) s"

lemma contains_any_iff [go_str]: "contains_any s cs \<longleftrightarrow> (\<exists>c \<in> set s. c \<in> set cs)"
  by (auto simp: contains_any_def list_ex_iff)

definition trim_suffix :: "string \<Rightarrow> string \<Rightarrow> string" where
  "trim_suffix s p = (if suffix p s then take (length s - length p) s else s)"

lemma trim_suffix_append [simp, go_str]: "trim_suffix (s @ p) p = s"
  by (simp add: trim_suffix_def suffix_def)

lemma trim_suffix_prefix: "prefix (trim_suffix s p) s"
  by (simp add: trim_suffix_def take_is_prefix)

subsection \<open>Split, Cut and Join\<close>

text \<open>\<open>strings.Split(s, c)\<close> for a one-byte separator: always at least one part.\<close>

fun split_on :: "char \<Rightarrow> string \<Rightarrow> string list" where
  "split_on c [] = [[]]"
| "split_on c (x # xs) =
     (if x = c then [] # split_on c xs
      else case split_on c xs of [] \<Rightarrow> [[x]] | p # ps \<Rightarrow> (x # p) # ps)"

text \<open>\<open>strings.Cut(s, c)\<close>: what is before and after the first separator, and whether it is there.\<close>

definition cut :: "char \<Rightarrow> string \<Rightarrow> string \<times> string \<times> bool" where
  "cut c s = (takeWhile (\<lambda>x. x \<noteq> c) s, drop 1 (dropWhile (\<lambda>x. x \<noteq> c) s), List.member s c)"

text \<open>What is before the last separator and what is after it (\<open>strings.LastIndex\<close>).\<close>

definition cut_last :: "char \<Rightarrow> string \<Rightarrow> string \<times> string \<times> bool" where
  "cut_last c s =
     (if List.member s c
      then (rev (drop 1 (dropWhile (\<lambda>x. x \<noteq> c) (rev s))), rev (takeWhile (\<lambda>x. x \<noteq> c) (rev s)), True)
      else (s, [], False))"

text \<open>\<open>strings.Join\<close>.\<close>

fun join :: "string \<Rightarrow> string list \<Rightarrow> string" where
  "join sep [] = []"
| "join sep [x] = x"
| "join sep (x # y # ys) = x @ sep @ join sep (y # ys)"

lemma split_on_neq_Nil [simp]: "split_on c s \<noteq> []"
  by (induction s) (auto split: list.splits)

lemma split_on_no_sep: "p \<in> set (split_on c s) \<Longrightarrow> c \<notin> set p"
  by (induction s arbitrary: p) (auto split: list.splits if_splits)

lemma set_split_on: "p \<in> set (split_on c s) \<Longrightarrow> set p \<subseteq> set s"
proof (induction s arbitrary: p)
  case (Cons x xs)
  then show ?case
    by (cases "split_on c xs") (auto split: if_splits, blast+)
qed simp

lemma split_on_append_sep:
  "c \<notin> set p \<Longrightarrow> split_on c (p @ c # s) = p # split_on c s"
  by (induction p) (auto split: list.splits)

lemma split_on_notin: "c \<notin> set p \<Longrightarrow> split_on c p = [p]"
  by (induction p) auto

lemma split_on_hd: "hd (split_on c s) = takeWhile (\<lambda>x. x \<noteq> c) s"
  by (induction s) (auto split: list.splits)

lemma join_Cons: "xs \<noteq> [] \<Longrightarrow> join sep (x # xs) = x @ sep @ join sep xs"
  by (cases xs) auto

lemma join_split_on [simp]: "join [c] (split_on c s) = s"
proof (induction s)
  case (Cons x xs)
  then show ?case
    by (cases "split_on c xs"; cases "tl (split_on c xs)") (auto simp: join_Cons split: list.splits)
qed simp

lemma split_on_join:
  assumes "ps \<noteq> []" and "\<And>p. p \<in> set ps \<Longrightarrow> c \<notin> set p"
  shows "split_on c (join [c] ps) = ps"
  using assms
proof (induction "[c]" ps rule: join.induct)
  case (2 x)
  then show ?case by (simp add: split_on_notin)
next
  case (3 x y ys)
  then show ?case by (simp add: split_on_append_sep)
qed simp

lemma set_join: "set (join sep ps) \<subseteq> \<Union> (set ` set ps) \<union> set sep"
  by (induction sep ps rule: join.induct) auto

text \<open>Splitting at the first byte of a two-byte separator leaves its second byte in front.\<close>

lemma split_on_join2:
  assumes "ps \<noteq> []" and "\<And>p. p \<in> set ps \<Longrightarrow> c \<notin> set p" and "d \<noteq> c"
  shows "split_on c (join [c, d] ps) = hd ps # map (\<lambda>p. d # p) (tl ps)"
  using assms
proof (induction "[c, d]" ps rule: join.induct)
  case (2 x)
  then show ?case by (simp add: split_on_notin)
next
  case (3 x y ys)
  then have "split_on c (join [c, d] (y # ys)) = y # map (\<lambda>p. d # p) ys" by simp
  then have "split_on c (d # join [c, d] (y # ys)) = (d # y) # map (\<lambda>p. d # p) ys"
    using 3(4) by simp
  with 3 show ?case by (simp add: split_on_append_sep)
qed simp

lemma cut_notin: "c \<notin> set s \<Longrightarrow> cut c s = (s, [], False)"
  by (simp add: cut_def takeWhile_notin dropWhile_notin)

lemma cut_append: "c \<notin> set p \<Longrightarrow> cut c (p @ c # s) = (p, s, True)"
  by (simp add: cut_def)

lemma cut_eq:
  assumes "cut c s = (a, b, found)"
  shows "c \<notin> set a" and "s = (if found then a @ c # b else a)" and "\<not> found \<Longrightarrow> b = []"
proof -
  from assms have a: "a = takeWhile (\<lambda>x. x \<noteq> c) s" and b: "b = drop 1 (dropWhile (\<lambda>x. x \<noteq> c) s)"
    and f: "found \<longleftrightarrow> c \<in> set s" by (auto simp: cut_def)
  show "c \<notin> set a" by (simp add: a takeWhile_neq_notin)
  have "s = a @ dropWhile (\<lambda>x. x \<noteq> c) s" by (simp add: a)
  moreover have "dropWhile (\<lambda>x. x \<noteq> c) s = (if found then c # b else [])"
  proof (cases found)
    case True
    with f obtain xs ys where "s = xs @ c # ys" "c \<notin> set xs" by (meson split_list_first)
    with True b show ?thesis by simp
  next
    case False
    with f show ?thesis by (simp add: dropWhile_notin)
  qed
  ultimately show "s = (if found then a @ c # b else a)" by (auto split: if_splits)
  show "\<not> found \<Longrightarrow> b = []" using f by (simp add: b dropWhile_notin)
qed

subsection \<open>White space and trimming\<close>

definition ascii_space :: "char \<Rightarrow> bool" where
  "ascii_space c \<longleftrightarrow>
     List.member [CHR 0x09, CHR 0x0A, CHR 0x0B, CHR 0x0C, CHR 0x0D, CHR 0x20] c"

text \<open>The UTF-8 encodings of the white space beyond ASCII (\<open>unicode.IsSpace\<close>).\<close>

definition unicode_spaces :: "string list" where
  "unicode_spaces =
     [[CHR 0xC2, CHR 0x85], [CHR 0xC2, CHR 0xA0], [CHR 0xE1, CHR 0x9A, CHR 0x80],
      [CHR 0xE2, CHR 0x80, CHR 0x80], [CHR 0xE2, CHR 0x80, CHR 0x81], [CHR 0xE2, CHR 0x80, CHR 0x82],
      [CHR 0xE2, CHR 0x80, CHR 0x83], [CHR 0xE2, CHR 0x80, CHR 0x84], [CHR 0xE2, CHR 0x80, CHR 0x85],
      [CHR 0xE2, CHR 0x80, CHR 0x86], [CHR 0xE2, CHR 0x80, CHR 0x87], [CHR 0xE2, CHR 0x80, CHR 0x88],
      [CHR 0xE2, CHR 0x80, CHR 0x89], [CHR 0xE2, CHR 0x80, CHR 0x8A], [CHR 0xE2, CHR 0x80, CHR 0xA8],
      [CHR 0xE2, CHR 0x80, CHR 0xA9], [CHR 0xE2, CHR 0x80, CHR 0xAF], [CHR 0xE2, CHR 0x81, CHR 0x9F],
      [CHR 0xE3, CHR 0x80, CHR 0x80]]"

text \<open>
  Remove leading white space, where the multi-byte spaces are the strings \<open>rs\<close>: the encodings
  for the left end, their reversals for the right end of a reversed string.
\<close>

function trim_left_by :: "string list \<Rightarrow> string \<Rightarrow> string" where
  "trim_left_by rs [] = []"
| "trim_left_by rs (c # cs) =
     (if ascii_space c then trim_left_by rs cs
      else case find (\<lambda>r. r \<noteq> [] \<and> prefix r (c # cs)) rs of
             None \<Rightarrow> c # cs
           | Some r \<Rightarrow> trim_left_by rs (drop (length r) (c # cs)))"
  by pat_completeness auto
termination
  by (relation "measure (\<lambda>(rs, s). length s)") (auto simp: find_Some_iff)

declare trim_left_by.simps [simp del]

definition trim_left :: "string \<Rightarrow> string" where
  "trim_left s = trim_left_by unicode_spaces s"

definition trim_right :: "string \<Rightarrow> string" where
  "trim_right s = rev (trim_left_by (map rev unicode_spaces) (rev s))"

definition trim_space :: "string \<Rightarrow> string" where
  "trim_space s = trim_right (trim_left s)"

lemma trim_left_by_suffix: "suffix (trim_left_by rs s) s"
proof (induction rs s rule: trim_left_by.induct)
  case (2 rs c cs)
  show ?case
  proof (cases "find (\<lambda>r. r \<noteq> [] \<and> prefix r (c # cs)) rs")
    case None
    with 2 show ?thesis by (auto simp: trim_left_by.simps suffix_ConsI)
  next
    case (Some r)
    with 2(2) have "\<not> ascii_space c \<Longrightarrow>
        suffix (trim_left_by rs (drop (length r) (c # cs))) (drop (length r) (c # cs))" by simp
    with Some 2(1) show ?thesis
      by (auto simp: trim_left_by.simps suffix_ConsI intro: suffix_order.trans suffix_drop)
  qed
qed (simp add: trim_left_by.simps)

lemma trim_left_by_idem [simp]: "trim_left_by rs (trim_left_by rs s) = trim_left_by rs s"
  by (induction rs s rule: trim_left_by.induct)
     (auto simp: trim_left_by.simps split: option.splits if_splits)

text \<open>Trimming at one end gives a string that needs no trimming there; so does every prefix of it.\<close>

lemma trim_left_by_fixed_prefix:
  assumes "trim_left_by rs s = s" and "prefix t s"
  shows "trim_left_by rs t = t"
proof (cases t)
  case (Cons c t')
  with assms(2) obtain s' where s: "s = c # s'" and pre: "prefix t' s'"
    by (cases s) auto
  have nsp: "\<not> ascii_space c"
  proof
    assume "ascii_space c"
    then have "suffix s s'"
      using assms(1) trim_left_by_suffix [of rs s'] by (simp add: s trim_left_by.simps)
    then show False by (auto simp: s dest: suffix_length_le)
  qed
  have "find (\<lambda>r. r \<noteq> [] \<and> prefix r (c # s')) rs = None"
  proof (rule ccontr)
    assume "find (\<lambda>r. r \<noteq> [] \<and> prefix r (c # s')) rs \<noteq> None"
    then obtain r where r: "find (\<lambda>r. r \<noteq> [] \<and> prefix r (c # s')) rs = Some r" by blast
    then have "r \<noteq> []" by (auto simp: find_Some_iff)
    moreover have "suffix s (drop (length r) s)"
      using assms(1) r nsp trim_left_by_suffix [of rs "drop (length r) s"]
      by (simp add: s trim_left_by.simps)
    ultimately show False by (cases r) (auto simp: s dest!: suffix_length_le)
  qed
  then have "find (\<lambda>r. r \<noteq> [] \<and> prefix r (c # t')) rs = None"
    using pre by (auto simp: find_None_iff) (meson Cons_prefix_Cons prefix_order.trans)
  with nsp show ?thesis by (simp add: Cons trim_left_by.simps)
qed (simp add: trim_left_by.simps)

lemma trim_right_prefix: "prefix (trim_right s) s"
  using trim_left_by_suffix [of "map rev unicode_spaces" "rev s"]
  by (simp add: trim_right_def suffix_to_prefix)

lemma trim_left_suffix: "suffix (trim_left s) s"
  by (simp add: trim_left_def trim_left_by_suffix)

lemma trim_left_trim_space: "trim_left (trim_space s) = trim_space s"
  unfolding trim_space_def trim_left_def
  by (rule trim_left_by_fixed_prefix [OF _ trim_right_prefix]) simp

lemma trim_space_idem [simp, go_str]: "trim_space (trim_space s) = trim_space s"
proof -
  have "trim_right (trim_space s) = trim_space s" by (simp add: trim_space_def trim_right_def)
  then show ?thesis using trim_left_trim_space [of s] by (simp add: trim_space_def)
qed

lemma set_trim_space: "set (trim_space s) \<subseteq> set s"
  unfolding trim_space_def
  using set_mono_prefix [OF trim_right_prefix] set_mono_suffix [OF trim_left_suffix] by blast

lemma trim_space_notin [go_str]: "c \<notin> set s \<Longrightarrow> c \<notin> set (trim_space s)"
  using set_trim_space by blast

lemma trim_space_Nil [simp, go_str]: "trim_space [] = []"
  by (simp add: trim_space_def trim_left_def trim_right_def trim_left_by.simps)

lemma trim_space_blank_Cons [simp, go_str]: "trim_space (CHR 0x20 # s) = trim_space s"
  by (simp add: trim_space_def trim_left_def trim_left_by.simps ascii_space_def)

text \<open>A trimmed string does not begin with an ASCII space.\<close>

lemma trim_left_by_hd: "trim_left_by rs s = c # cs \<Longrightarrow> \<not> ascii_space c"
proof
  assume c: "trim_left_by rs s = c # cs" and sp: "ascii_space c"
  then have "trim_left_by rs cs = c # cs"
    using trim_left_by_idem [of rs s] by (simp add: trim_left_by.simps)
  then show False
    using suffix_length_le [OF trim_left_by_suffix [of rs cs]] by simp
qed

lemma trim_space_hd: "trim_space s = c # cs \<Longrightarrow> \<not> ascii_space c"
  using trim_left_trim_space [of s] trim_left_by_hd by (metis trim_left_def)

lemma trim_space_last: "trim_space s = cs @ [c] \<Longrightarrow> \<not> ascii_space c"
  unfolding trim_space_def trim_right_def
  by (metis rev_eq_Cons_iff rev_rev_ident trim_left_by_hd)

text \<open>A string that needs no trimming on the left is not trimmed away on the right.\<close>

definition starts_blank :: "string list \<Rightarrow> string \<Rightarrow> bool" where
  "starts_blank rs s \<longleftrightarrow>
     (s \<noteq> [] \<and> ascii_space (hd s)) \<or> list_ex (\<lambda>r. r \<noteq> [] \<and> prefix r s) rs"

lemma starts_blank_append: "starts_blank rs s \<Longrightarrow> starts_blank rs (s @ t)"
  by (auto simp: starts_blank_def list_ex_iff)

lemma trim_left_by_all:
  "trim_left_by (map rev rs) t = [] \<Longrightarrow> t \<noteq> [] \<Longrightarrow> starts_blank rs (rev t)"
proof (induction "map rev rs" t rule: trim_left_by.induct)
  case (2 c cs)
  show ?case
  proof (cases "ascii_space c")
    case True
    then show ?thesis
      using 2 starts_blank_append [of rs "rev cs" "[c]"]
      by (cases "cs = []") (auto simp: starts_blank_def trim_left_by.simps)
  next
    case False
    then obtain r where r: "find (\<lambda>r. r \<noteq> [] \<and> prefix r (c # cs)) (map rev rs) = Some r"
      using 2(3) by (auto simp: trim_left_by.simps split: option.splits)
    then have "r \<noteq> []" "prefix r (c # cs)" and mem: "rev r \<in> set rs"
      by (auto simp: find_Some_iff in_set_conv_nth)
    then obtain t where t: "c # cs = r @ t" by (auto simp: prefix_def)
    show ?thesis
    proof (cases "t = []")
      case True
      then show ?thesis using t mem \<open>r \<noteq> []\<close> by (auto simp: starts_blank_def list_ex_iff)
    next
      case ne: False
      have "trim_left_by (map rev rs) (drop (length r) (c # cs)) = []"
        using 2(3) False r by (simp add: trim_left_by.simps)
      then have "starts_blank rs (rev t)"
        using 2(2) [OF False r] ne by (simp add: t)
      then show ?thesis by (simp add: t starts_blank_append)
    qed
  qed
qed simp

lemma trim_left_by_starts_blank:
  assumes "trim_left_by rs s = s"
  shows "\<not> starts_blank rs s"
proof (cases s)
  case (Cons c cs)
  have nsp: "\<not> ascii_space c" using trim_left_by_hd assms Cons by metis
  have "find (\<lambda>r. r \<noteq> [] \<and> prefix r (c # cs)) rs = None"
  proof (rule ccontr)
    assume "find (\<lambda>r. r \<noteq> [] \<and> prefix r (c # cs)) rs \<noteq> None"
    then obtain r where r: "find (\<lambda>r. r \<noteq> [] \<and> prefix r (c # cs)) rs = Some r" by blast
    then have "r \<noteq> []" by (auto simp: find_Some_iff)
    moreover have "suffix s (drop (length r) s)"
      using assms r nsp trim_left_by_suffix [of rs "drop (length r) s"]
      by (simp add: Cons trim_left_by.simps)
    ultimately show False by (cases r) (auto simp: Cons dest!: suffix_length_le)
  qed
  then show ?thesis using nsp by (auto simp: starts_blank_def Cons find_None_iff list_ex_iff)
qed (auto simp: starts_blank_def list_ex_iff)

lemma trim_space_neq_Nil: "trim_left s = s \<Longrightarrow> s \<noteq> [] \<Longrightarrow> trim_space s \<noteq> []"
  using trim_left_by_all [of unicode_spaces "rev s"] trim_left_by_starts_blank [of unicode_spaces s]
  by (auto simp: trim_space_def trim_left_def trim_right_def)

subsection \<open>Trim, TrimRight, Fields\<close>

definition trim_right_chars :: "string \<Rightarrow> string \<Rightarrow> string" where
  "trim_right_chars s cs = rev (dropWhile (\<lambda>c. List.member cs c) (rev s))"

definition trim_chars :: "string \<Rightarrow> string \<Rightarrow> string" where
  "trim_chars s cs = dropWhile (\<lambda>c. List.member cs c) (trim_right_chars s cs)"

text \<open>\<open>strings.Fields\<close>: the maximal runs of bytes that are no white space.\<close>

function fields_aux :: "string \<Rightarrow> string \<Rightarrow> string list" where
  "fields_aux acc [] = (if acc = [] then [] else [rev acc])"
| "fields_aux acc (c # cs) =
     (if ascii_space c then (if acc = [] then [] else [rev acc]) @ fields_aux [] cs
      else case find (\<lambda>r. r \<noteq> [] \<and> prefix r (c # cs)) unicode_spaces of
             None \<Rightarrow> fields_aux (c # acc) cs
           | Some r \<Rightarrow> (if acc = [] then [] else [rev acc])
                       @ fields_aux [] (drop (length r) (c # cs)))"
  by pat_completeness auto
termination
  by (relation "measure (\<lambda>(acc, s). length s)") (auto simp: find_Some_iff)

definition fields :: "string \<Rightarrow> string list" where
  "fields s = fields_aux [] s"

lemma fields_aux_nonempty: "f \<in> set (fields_aux acc s) \<Longrightarrow> f \<noteq> []"
  by (induction acc s rule: fields_aux.induct) (auto split: option.splits if_splits)

subsection \<open>Letter case\<close>

definition ascii_lower :: "char \<Rightarrow> char" where
  "ascii_lower c =
     (if CHR ''A'' \<le> c \<and> c \<le> CHR ''Z''
      then (case c of Char b0 b1 b2 b3 b4 b5 b6 b7 \<Rightarrow> Char b0 b1 b2 b3 b4 True b6 b7) else c)"

text \<open>
  \<open>strings.ToLower\<close>, as far as a comparison of its result with ASCII text can tell: ASCII capitals,
  and the two code points beyond ASCII whose lower case is an ASCII letter (U+0130, an I with a dot,
  and U+212A, the Kelvin sign). The other bytes stay as they are. The gateway only compares the
  result with ASCII text, or looks ASCII text up in it.
\<close>

fun to_lower :: "string \<Rightarrow> string" where
  "to_lower [] = []"
| "to_lower (c # cs) =
     (if prefix [CHR 0xC4, CHR 0xB0] (c # cs) then CHR ''i'' # to_lower (tl cs)
      else if prefix [CHR 0xE2, CHR 0x84, CHR 0xAA] (c # cs) then CHR ''k'' # to_lower (tl (tl cs))
      else ascii_lower c # to_lower cs)"

text \<open>
  \<open>strings.EqualFold(s, t)\<close> for an ASCII \<open>t\<close>: the simple folding of an ASCII letter is its other
  case, and also the Kelvin sign for k and U+017F (long s) for s.
\<close>

fun fold_ascii :: "string \<Rightarrow> string" where
  "fold_ascii [] = []"
| "fold_ascii (c # cs) =
     (if prefix [CHR 0xC5, CHR 0xBF] (c # cs) then CHR ''s'' # fold_ascii (tl cs)
      else if prefix [CHR 0xE2, CHR 0x84, CHR 0xAA] (c # cs) then CHR ''k'' # fold_ascii (tl (tl cs))
      else ascii_lower c # fold_ascii cs)"

definition equal_fold :: "string \<Rightarrow> string \<Rightarrow> bool" where
  "equal_fold s t \<longleftrightarrow> fold_ascii s = fold_ascii t"

lemma to_lower_examples:
  "to_lower ''DoMain'' = ''domain''" "to_lower ''SameSite=NONE'' = ''samesite=none''"
  "equal_fold ''WebSocket'' ''websocket''" "\<not> equal_fold ''websockets'' ''websocket''"
  by code_simp+

lemma trim_space_examples:
  "trim_space [CHR 0x20, CHR 0x09, CHR ''a'', CHR 0x20, CHR ''b'', CHR 0xC2, CHR 0xA0, CHR 0x0A]
     = ''a b''"
  "fields ''  a bc  d '' = [''a'', ''bc'', ''d'']"
  "trim_chars ''/n8n/users//'' ''/'' = ''n8n/users''"
  "split_on CHR '';'' ''a;b;;c'' = [''a'', ''b'', '''', ''c'']"
  by code_simp+

end
