(* ===== verification/Go_Url.thy ===== *)
theory Go_Url
  imports Go_Strings
begin

text \<open>
  The part of Go's \<open>net/url\<close> package that the gateway calls: percent-encoding in the modes of the
  package (path, query component, host, zone, user information), \<open>Parse\<close> and \<open>ParseRequestURI\<close>
  with every error branch, \<open>RequestURI\<close>, \<open>EscapedPath\<close>, and \<open>ParseQuery\<close>. The version is that of
  Go 1.24, which \<open>src/go.mod\<close> names. The code compares these errors only with \<open>nil\<close>, so an
  error is \<open>None\<close>.
\<close>

subsection \<open>Hexadecimal digits\<close>

definition is_digit :: "char \<Rightarrow> bool" where
  "is_digit c \<longleftrightarrow> CHR ''0'' \<le> c \<and> c \<le> CHR ''9''"

definition is_alpha :: "char \<Rightarrow> bool" where
  "is_alpha c \<longleftrightarrow> (CHR ''a'' \<le> c \<and> c \<le> CHR ''z'') \<or> (CHR ''A'' \<le> c \<and> c \<le> CHR ''Z'')"

definition ishex :: "char \<Rightarrow> bool" where
  "ishex c \<longleftrightarrow> is_digit c \<or> (CHR ''a'' \<le> c \<and> c \<le> CHR ''f'') \<or> (CHR ''A'' \<le> c \<and> c \<le> CHR ''F'')"

definition unhex :: "char \<Rightarrow> nat" where
  "unhex c =
     (if is_digit c then of_char c - 48
      else if CHR ''a'' \<le> c \<and> c \<le> CHR ''f'' then of_char c - 97 + 10
      else if CHR ''A'' \<le> c \<and> c \<le> CHR ''F'' then of_char c - 65 + 10
      else 0)"

definition upperhex :: "nat \<Rightarrow> char" where
  "upperhex n = (if n < 16 then ''0123456789ABCDEF'' ! n else CHR ''0'')"

definition hex_byte :: "char \<Rightarrow> char \<Rightarrow> char" where
  "hex_byte a b = char_of (16 * unhex a + unhex b)"

text \<open>A byte as the two hexadecimal digits of its percent-encoding, and back.\<close>

definition pct :: "char \<Rightarrow> string" where
  "pct c = [CHR 0x25, upperhex (of_char c div 16), upperhex (of_char c mod 16)]"

text \<open>Facts about the sixteen digits are checked one by one, by evaluation.\<close>

lemma hex_digits_table:
  "list_all (\<lambda>n. unhex (upperhex n) = n \<and> ishex (upperhex n)) [0..<16]"
  by code_simp

lemma unhex_upperhex [go_url]:
  assumes "n < 16"
  shows "unhex (upperhex n) = n" "ishex (upperhex n)"
  using hex_digits_table assms by (simp_all add: list_all_iff)

lemma of_char_div16 [go_url]: "(of_char c :: nat) div 16 < 16"
proof -
  have "(of_char c :: nat) < 16 * 16" using nat_of_char_less_256 [of c] by simp
  then show ?thesis by (rule less_mult_imp_div_less)
qed

lemma hex_byte_pct [go_url]:
  "hex_byte (upperhex (of_char c div 16)) (upperhex (of_char c mod 16)) = c"
  by (simp add: hex_byte_def unhex_upperhex of_char_div16)

subsection \<open>Percent-encoding\<close>

datatype encoding =
  EncodePath | EncodeUserPassword | EncodeQueryComponent | EncodeFragment | EncodeHost | EncodeZone

definition should_escape :: "char \<Rightarrow> encoding \<Rightarrow> bool" where
  "should_escape c m =
     (if is_alpha c \<or> is_digit c then False
      else if (m = EncodeHost \<or> m = EncodeZone) \<and> List.member ''!$&'' c then False
      else if (m = EncodeHost \<or> m = EncodeZone) \<and> List.member [CHR 0x27, CHR 0x22] c then False
      else if (m = EncodeHost \<or> m = EncodeZone) \<and> List.member ''()*+,;=:[]<>'' c then False
      else if List.member ''-_.~'' c then False
      else if List.member ''$&+,/:;=?@'' c then
        (case m of EncodePath \<Rightarrow> c = CHR ''?''
         | EncodeUserPassword \<Rightarrow> List.member ''@/?:'' c
         | EncodeQueryComponent \<Rightarrow> True
         | EncodeFragment \<Rightarrow> False
         | _ \<Rightarrow> True)
      else if m = EncodeFragment \<and> List.member ''!()*'' c then False
      else True)"

text \<open>Which percent-triple may stand in a host or a zone (everywhere else any may).\<close>

definition pct_allowed :: "encoding \<Rightarrow> char \<Rightarrow> char \<Rightarrow> bool" where
  "pct_allowed m a b =
     (case m of
        EncodeHost \<Rightarrow> \<not> (unhex a < 8 \<and> [a, b] \<noteq> ''25'')
      | EncodeZone \<Rightarrow>
          \<not> ([a, b] \<noteq> ''25'' \<and> hex_byte a b \<noteq> CHR 0x20 \<and> should_escape (hex_byte a b) EncodeHost)
      | _ \<Rightarrow> True)"

text \<open>\<open>unescape\<close>: \<open>None\<close> for a malformed escape, or for a byte that the mode forbids.\<close>

fun unescape :: "encoding \<Rightarrow> string \<Rightarrow> string option" where
  "unescape m [] = Some []"
| "unescape m (c # cs) =
     (if c = CHR 0x25 then
        (case cs of
           a # b # rest \<Rightarrow>
             if ishex a \<and> ishex b \<and> pct_allowed m a b
             then map_option ((#) (hex_byte a b)) (unescape m rest) else None
         | _ \<Rightarrow> None)
      else if (m = EncodeHost \<or> m = EncodeZone) \<and> c < CHR 0x80 \<and> should_escape c m then None
      else map_option
             ((#) (if c = CHR ''+'' \<and> m = EncodeQueryComponent then CHR 0x20 else c))
             (unescape m cs))"

definition escape :: "encoding \<Rightarrow> string \<Rightarrow> string" where
  "escape m s =
     concat (map (\<lambda>c. if c = CHR 0x20 \<and> m = EncodeQueryComponent then ''+''
                      else if should_escape c m then pct c else [c]) s)"

abbreviation path_unescape :: "string \<Rightarrow> string option" where
  "path_unescape s \<equiv> unescape EncodePath s"

abbreviation query_unescape :: "string \<Rightarrow> string option" where
  "query_unescape s \<equiv> unescape EncodeQueryComponent s"

abbreviation query_escape :: "string \<Rightarrow> string" where
  "query_escape s \<equiv> escape EncodeQueryComponent s"

lemma escape_Nil [simp, go_url]: "escape m [] = []"
  by (simp add: escape_def)

lemma escape_Cons [go_url]:
  "escape m (c # cs) =
     (if c = CHR 0x20 \<and> m = EncodeQueryComponent then ''+''
      else if should_escape c m then pct c else [c]) @ escape m cs"
  by (simp add: escape_def)

lemma should_escape_pct: "should_escape CHR 0x25 m"
  by (cases m) (simp_all add: should_escape_def is_alpha_def is_digit_def)

lemma should_escape_plus: "should_escape CHR ''+'' EncodeQueryComponent"
  by (simp add: should_escape_def is_alpha_def is_digit_def)

text \<open>What a page's query escapes, the reader of the query gets back.\<close>

lemma unescape_query_escape [go_url]: "query_unescape (query_escape s @ t) = map_option ((@) s) (query_unescape t)"
proof (induction s)
  case Nil
  show ?case by (cases "query_unescape t") simp_all
next
  case (Cons c s)
  show ?case
  proof (cases "c = CHR 0x20")
    case True
    with Cons show ?thesis by (simp add: escape_Cons option.map_comp comp_def)
  next
    case nsp: False
    show ?thesis
    proof (cases "should_escape c EncodeQueryComponent")
      case True
      with Cons nsp show ?thesis
        by (simp add: escape_Cons pct_def hex_byte_pct unhex_upperhex of_char_div16 pct_allowed_def
            option.map_comp comp_def)
    next
      case False
      then have "c \<noteq> CHR 0x25" "c \<noteq> CHR ''+''"
        using should_escape_pct should_escape_plus by blast+
      with False Cons nsp show ?thesis by (simp add: escape_Cons option.map_comp comp_def)
    qed
  qed
qed

lemma query_roundtrip: "query_unescape (query_escape s) = Some s"
  using unescape_query_escape [of s "[]"] by simp

text \<open>An escaped query component is made of unreserved characters, percent signs and plus signs.\<close>

definition query_safe :: "char \<Rightarrow> bool" where
  "query_safe c \<longleftrightarrow> is_alpha c \<or> is_digit c \<or> List.member ''-_.~+%'' c"

lemma upperhex_safe_table: "list_all (\<lambda>n. query_safe (upperhex n)) [0..<16]"
  by code_simp

lemma upperhex_safe: "query_safe (upperhex n)"
proof (cases "n < 16")
  case True
  then show ?thesis using upperhex_safe_table by (simp add: list_all_iff)
qed (simp add: upperhex_def query_safe_def is_digit_def)

lemma not_should_escape_safe: "\<not> should_escape c EncodeQueryComponent \<Longrightarrow> query_safe c"
  by (auto simp: should_escape_def query_safe_def split: if_splits)

lemma query_safe_marks: "query_safe CHR 0x25" "query_safe CHR ''+''"
  by (simp_all add: query_safe_def)

lemma query_escape_safe: "c \<in> set (query_escape s) \<Longrightarrow> query_safe c"
proof (induction s)
  case (Cons x s)
  then show ?case
    by (auto simp: escape_Cons pct_def upperhex_safe not_should_escape_safe query_safe_marks
        split: if_splits)
qed simp

subsection \<open>URLs\<close>

text \<open>\<open>url.URL\<close>; the user information is a name with an optional password.\<close>

record url =
  u_scheme :: string
  u_opaque :: string
  u_user :: "(string \<times> string option) option"
  u_host :: string
  u_path :: string
  u_raw_path :: string
  u_omit_host :: bool
  u_force_query :: bool
  u_raw_query :: string
  u_fragment :: string

definition empty_url :: url where
  "empty_url =
     \<lparr>u_scheme = [], u_opaque = [], u_user = None, u_host = [], u_path = [], u_raw_path = [],
      u_omit_host = False, u_force_query = False, u_raw_query = [], u_fragment = []\<rparr>"

definition contains_ctl :: "string \<Rightarrow> bool" where
  "contains_ctl s \<longleftrightarrow> list_ex (\<lambda>c. c < CHR 0x20 \<or> c = CHR 0x7F) s"

text \<open>\<open>getScheme\<close>: the scheme (empty if there is none) and the rest; \<open>acc\<close> holds the bytes read.\<close>

fun get_scheme_from :: "string \<Rightarrow> string \<Rightarrow> (string \<times> string) option" where
  "get_scheme_from acc [] = Some ([], rev acc)"
| "get_scheme_from acc (c # cs) =
     (if is_alpha c then get_scheme_from (c # acc) cs
      else if is_digit c \<or> List.member ''+-.'' c
      then (if acc = [] then Some ([], c # cs) else get_scheme_from (c # acc) cs)
      else if c = CHR '':'' then (if acc = [] then None else Some (rev acc, cs))
      else Some ([], rev acc @ c # cs))"

definition get_scheme :: "string \<Rightarrow> (string \<times> string) option" where
  "get_scheme s = get_scheme_from [] s"

definition valid_userinfo :: "string \<Rightarrow> bool" where
  "valid_userinfo s \<longleftrightarrow>
     list_all (\<lambda>c. is_alpha c \<or> is_digit c \<or> List.member ''-._:~!$&()*+,;=%@'' c \<or> c = CHR 0x27) s"

definition valid_optional_port :: "string \<Rightarrow> bool" where
  "valid_optional_port s \<longleftrightarrow> (case s of [] \<Rightarrow> True | c # cs \<Rightarrow> c = CHR '':'' \<and> list_all is_digit cs)"

text \<open>\<open>s\<close> up to the first occurrence of \<open>p\<close>, and the rest from there on.\<close>

fun break_at :: "string \<Rightarrow> string \<Rightarrow> (string \<times> string) option" where
  "break_at p [] = (if p = [] then Some ([], []) else None)"
| "break_at p (c # cs) =
     (if prefix p (c # cs) then Some ([], c # cs)
      else map_option (\<lambda>(a, b). (c # a, b)) (break_at p cs))"

definition parse_host :: "string \<Rightarrow> string option" where
  "parse_host host =
     (if prefix ''['' host then
        (case cut_last CHR '']'' host of
           (_, _, False) \<Rightarrow> None
         | (before, port, True) \<Rightarrow>
             if \<not> valid_optional_port port then None
             else
               (case break_at ''%25'' before of
                  Some (h1, zone) \<Rightarrow>
                    (case (unescape EncodeHost h1, unescape EncodeZone zone,
                           unescape EncodeHost ('']'' @ port)) of
                       (Some a, Some b, Some c) \<Rightarrow> Some (a @ b @ c)
                     | _ \<Rightarrow> None)
                | None \<Rightarrow> unescape EncodeHost host))
      else
        (case cut_last CHR '':'' host of
           (_, port, True) \<Rightarrow>
             if valid_optional_port ('':'' @ port) then unescape EncodeHost host else None
         | _ \<Rightarrow> unescape EncodeHost host))"

definition parse_authority :: "string \<Rightarrow> ((string \<times> string option) option \<times> string) option" where
  "parse_authority authority =
     (case cut_last CHR ''@'' authority of
        (_, _, False) \<Rightarrow> map_option (\<lambda>h. (None, h)) (parse_host authority)
      | (userinfo, host, True) \<Rightarrow>
          (case parse_host host of
             None \<Rightarrow> None
           | Some h \<Rightarrow>
               if \<not> valid_userinfo userinfo then None
               else
                 (case cut CHR '':'' userinfo of
                    (name, _, False) \<Rightarrow>
                      map_option (\<lambda>n. (Some (n, None), h)) (unescape EncodeUserPassword name)
                  | (name, password, True) \<Rightarrow>
                      (case (unescape EncodeUserPassword name, unescape EncodeUserPassword password) of
                         (Some n, Some p) \<Rightarrow> Some (Some (n, Some p), h)
                       | _ \<Rightarrow> None))))"

text \<open>\<open>setPath\<close>: the decoded path, and the raw one where the default encoding differs from it.\<close>

definition set_path :: "string \<Rightarrow> url \<Rightarrow> url option" where
  "set_path p u =
     (case path_unescape p of
        None \<Rightarrow> None
      | Some path \<Rightarrow>
          Some (u\<lparr>u_path := path,
                 u_raw_path := (if p = escape EncodePath path then [] else p)\<rparr>))"

text \<open>The query: a lone final question mark sets \<open>ForceQuery\<close>.\<close>

definition split_query :: "string \<Rightarrow> string \<times> string \<times> bool" where
  "split_query rest =
     (if suffix ''?'' rest \<and> count_list rest CHR ''?'' = 1 then (butlast rest, [], True)
      else case cut CHR ''?'' rest of (a, b, _) \<Rightarrow> (a, b, False))"

text \<open>The unexported \<open>parse(rawURL, viaRequest)\<close>.\<close>

definition parse_raw :: "bool \<Rightarrow> string \<Rightarrow> url option" where
  "parse_raw via_request raw =
     (if contains_ctl raw then None
      else if raw = [] \<and> via_request then None
      else if raw = ''*'' then Some (empty_url\<lparr>u_path := ''*''\<rparr>)
      else
        (case get_scheme raw of
           None \<Rightarrow> None
         | Some (scheme0, rest0) \<Rightarrow>
             (case split_query rest0 of
                (rest, query, force) \<Rightarrow>
                  (let scheme = to_lower scheme0;
                       u = empty_url\<lparr>u_scheme := scheme, u_raw_query := query, u_force_query := force\<rparr>
                   in
                     if \<not> prefix ''/'' rest \<and> scheme \<noteq> [] then Some (u\<lparr>u_opaque := rest\<rparr>)
                     else if \<not> prefix ''/'' rest \<and> via_request then None
                     else if \<not> prefix ''/'' rest \<and> List.member (fst (cut CHR ''/'' rest)) CHR '':''
                     then None
                     else if (scheme \<noteq> [] \<or> \<not> via_request \<and> \<not> prefix ''///'' rest) \<and> prefix ''//'' rest
                     then
                       (case parse_authority (takeWhile (\<lambda>c. c \<noteq> CHR ''/'') (drop 2 rest)) of
                          None \<Rightarrow> None
                        | Some (user, host) \<Rightarrow>
                            set_path (dropWhile (\<lambda>c. c \<noteq> CHR ''/'') (drop 2 rest))
                              (u\<lparr>u_user := user, u_host := host\<rparr>))
                     else set_path rest (u\<lparr>u_omit_host := scheme \<noteq> [] \<and> prefix ''/'' rest\<rparr>)))))"

text \<open>\<open>url.Parse\<close> and \<open>url.ParseRequestURI\<close> (what the HTTP server applies to a request target).\<close>

definition url_parse :: "string \<Rightarrow> url option" where
  "url_parse raw =
     (case cut CHR ''#'' raw of
        (u, frag, _) \<Rightarrow>
          (case parse_raw False u of
             None \<Rightarrow> None
           | Some p \<Rightarrow>
               if frag = [] then Some p
               else map_option (\<lambda>f. p\<lparr>u_fragment := f\<rparr>) (unescape EncodeFragment frag)))"

definition parse_request_uri :: "string \<Rightarrow> url option" where
  "parse_request_uri raw = parse_raw True raw"

definition is_abs :: "url \<Rightarrow> bool" where
  "is_abs u \<longleftrightarrow> u_scheme u \<noteq> []"

definition valid_encoded_path :: "string \<Rightarrow> bool" where
  "valid_encoded_path s \<longleftrightarrow>
     list_all (\<lambda>c. List.member ''!$&()*+,;=:@[]%'' c \<or> c = CHR 0x27 \<or> \<not> should_escape c EncodePath) s"

definition escaped_path :: "url \<Rightarrow> string" where
  "escaped_path u =
     (if u_raw_path u \<noteq> [] \<and> valid_encoded_path (u_raw_path u)
         \<and> path_unescape (u_raw_path u) = Some (u_path u)
      then u_raw_path u
      else if u_path u = ''*'' then ''*''
      else escape EncodePath (u_path u))"

definition request_uri :: "url \<Rightarrow> string" where
  "request_uri u =
     (let base =
        (if u_opaque u = [] then (if escaped_path u = [] then ''/'' else escaped_path u)
         else if prefix ''//'' (u_opaque u) then u_scheme u @ '':'' @ u_opaque u else u_opaque u)
      in base @ (if u_force_query u \<or> u_raw_query u \<noteq> [] then ''?'' @ u_raw_query u else []))"

subsection \<open>Queries\<close>

text \<open>
  \<open>url.Values\<close> as the list of its entries in the order they were added: \<open>Get\<close> is the first entry
  with the key. \<open>parse_query_piece\<close> gives the entry that a piece contributes, and whether the piece
  is malformed; malformed pieces are skipped, and the first of their errors is returned.
\<close>

type_synonym url_values = "key_value list"

definition parse_query_piece :: "string \<Rightarrow> key_value option \<times> bool" where
  "parse_query_piece piece =
     (if List.member piece CHR '';'' then (None, True)
      else if piece = [] then (None, False)
      else
        (case cut CHR ''='' piece of
           (k, v, _) \<Rightarrow>
             (case (query_unescape k, query_unescape v) of
                (Some key, Some val) \<Rightarrow> (Some (key, val), False)
              | _ \<Rightarrow> (None, True))))"

definition parse_query :: "string \<Rightarrow> url_values \<times> bool" where
  "parse_query q =
     (let pieces = map parse_query_piece (split_on CHR ''&'' q)
      in (List.map_filter fst pieces, list_ex snd pieces))"

definition values_get :: "url_values \<Rightarrow> string \<Rightarrow> string" where
  "values_get vs k = (case map_of vs k of Some v \<Rightarrow> v | None \<Rightarrow> [])"

text \<open>\<open>r.URL.Query().Get(key)\<close>: the query is parsed and its errors are ignored.\<close>

definition query_get :: "url \<Rightarrow> string \<Rightarrow> string" where
  "query_get u k = values_get (fst (parse_query (u_raw_query u))) k"

subsection \<open>Writing a URL\<close>

text \<open>\<open>URL.String()\<close>, with the default encoding of the fragment.\<close>

definition userinfo_string :: "string \<times> string option \<Rightarrow> string" where
  "userinfo_string ui =
     escape EncodeUserPassword (fst ui)
     @ (case snd ui of None \<Rightarrow> [] | Some p \<Rightarrow> '':'' @ escape EncodeUserPassword p)"

definition url_authority :: "url \<Rightarrow> string" where
  "url_authority u =
     (if u_scheme u = [] \<and> u_host u = [] \<and> u_user u = None then []
      else if u_omit_host u \<and> u_host u = [] \<and> u_user u = None then []
      else (if u_host u \<noteq> [] \<or> u_path u \<noteq> [] \<or> u_user u \<noteq> None then ''//'' else [])
           @ (case u_user u of None \<Rightarrow> [] | Some ui \<Rightarrow> userinfo_string ui @ ''@'')
           @ escape EncodeHost (u_host u))"

definition url_string :: "url \<Rightarrow> string" where
  "url_string u =
     (let scheme = (if u_scheme u \<noteq> [] then u_scheme u @ '':'' else []);
          path = escaped_path u;
          before = scheme @ url_authority u
                   @ (if path \<noteq> [] \<and> hd path \<noteq> CHR ''/'' \<and> u_host u \<noteq> [] then ''/'' else []);
          dot = (if before = [] \<and> List.member (takeWhile (\<lambda>c. c \<noteq> CHR ''/'') path) CHR '':''
                 then ''./'' else [])
      in (if u_opaque u \<noteq> [] then scheme @ u_opaque u else before @ dot @ path)
         @ (if u_force_query u \<or> u_raw_query u \<noteq> [] then ''?'' @ u_raw_query u else [])
         @ (if u_fragment u \<noteq> [] then ''#'' @ escape EncodeFragment (u_fragment u) else []))"

end
