(* ===== verification/Go_Path.thy ===== *)
theory Go_Path
  imports Go_Strings
begin

text \<open>
  Go's \<open>path\<close> package as the gateway uses it: \<open>Clean\<close> (the lexical normalisation that the route
  classifier relies on, and that \<open>http.Redirect\<close> applies to a location), \<open>Split\<close> and \<open>Join\<close>.
  \<open>Clean\<close> is written on path segments: empty and \<open>.\<close> segments go, and a \<open>..\<close> segment takes the
  segment before it away, or goes itself at the root of an absolute path.
\<close>

definition normal_segment :: "string \<Rightarrow> bool" where
  "normal_segment p \<longleftrightarrow> p \<noteq> [] \<and> p \<noteq> ''.'' \<and> p \<noteq> ''..'' \<and> CHR ''/'' \<notin> set p"

text \<open>The stack holds the segments kept so far, the last one on top.\<close>

fun clean_segments :: "bool \<Rightarrow> string list \<Rightarrow> string list \<Rightarrow> string list" where
  "clean_segments rooted stack [] = rev stack"
| "clean_segments rooted stack (p # ps) =
     (if p = [] \<or> p = ''.'' then clean_segments rooted stack ps
      else if p = ''..'' then
        (case stack of
           [] \<Rightarrow> if rooted then clean_segments rooted [] ps else clean_segments rooted [''..''] ps
         | q # qs \<Rightarrow>
             if q = ''..'' then clean_segments rooted (''..'' # stack) ps
             else clean_segments rooted qs ps)
      else clean_segments rooted (p # stack) ps)"

definition path_clean :: "string \<Rightarrow> string" where
  "path_clean s =
     (if s = [] then ''.''
      else
        (let rooted = (hd s = CHR ''/'');
             out = join ''/'' (clean_segments rooted [] (split_on CHR ''/'' s))
         in if rooted then CHR ''/'' # out else if out = [] then ''.'' else out))"

text \<open>The directory part of \<open>path.Split\<close>: up to and with the last slash.\<close>

definition path_dir :: "string \<Rightarrow> string" where
  "path_dir s = rev (dropWhile (\<lambda>c. c \<noteq> CHR ''/'') (rev s))"

text \<open>\<open>path.Join\<close>: empty elements are ignored, the result is cleaned.\<close>

definition path_join :: "string list \<Rightarrow> string" where
  "path_join elems =
     (let ne = filter (\<lambda>e. e \<noteq> []) elems in if ne = [] then [] else path_clean (join ''/'' ne))"

subsection \<open>Cleaning an absolute path\<close>

lemma clean_segments_normal:
  assumes "\<And>p. p \<in> set ps \<Longrightarrow> CHR ''/'' \<notin> set p" and "\<And>p. p \<in> set st \<Longrightarrow> normal_segment p"
  shows "p \<in> set (clean_segments True st ps) \<Longrightarrow> normal_segment p"
  using assms
proof (induction True st ps rule: clean_segments.induct)
  case (2 stack p ps)
  then show ?case
    by (cases stack) (auto simp: normal_segment_def split: if_splits)
qed auto

lemma clean_segments_id:
  assumes "\<And>p. p \<in> set ps \<Longrightarrow> normal_segment p"
  shows "clean_segments rooted st ps = rev st @ ps"
  using assms
  by (induction rooted st ps rule: clean_segments.induct) (auto simp: normal_segment_def)

text \<open>The segments of a cleaned absolute path; \<open>/\<close> has none.\<close>

definition rooted_segments :: "string \<Rightarrow> string list" where
  "rooted_segments s = clean_segments True [] (split_on CHR ''/'' s)"

lemma rooted_segments_normal: "p \<in> set (rooted_segments s) \<Longrightarrow> normal_segment p"
  unfolding rooted_segments_def
  by (rule clean_segments_normal) (auto dest: split_on_no_sep)

lemma path_clean_rooted: "prefix ''/'' s \<Longrightarrow> path_clean s = CHR ''/'' # join ''/'' (rooted_segments s)"
  by (cases s) (auto simp: path_clean_def rooted_segments_def)

lemma clean_segments_subset:
  "p \<in> set (clean_segments r st ps) \<Longrightarrow> p \<in> set st \<or> p = ''..'' \<or> (p \<in> set ps \<and> p \<noteq> [])"
  by (induction r st ps rule: clean_segments.induct) (auto split: list.splits if_splits)

lemma join_not_slash:
  assumes "\<And>p. p \<in> set ps \<Longrightarrow> p \<noteq> [] \<and> CHR ''/'' \<notin> set p"
  shows "\<not> prefix ''/'' (join ''/'' ps)"
proof (cases ps)
  case (Cons p qs)
  then obtain c cs where "p = c # cs" "c \<noteq> CHR ''/''"
    using assms [of p] by (cases p) auto
  with Cons show ?thesis by (cases qs) auto
qed simp

lemma path_clean_not_double_slash: "\<not> prefix ''//'' (path_clean s)"
proof -
  have "\<not> prefix ''/'' (join ''/'' (clean_segments r [] (split_on CHR ''/'' s)))" for r
    by (rule join_not_slash) (auto dest!: clean_segments_subset split_on_no_sep)
  then show ?thesis
    by (cases s) (auto simp: path_clean_def Let_def prefix_def)
qed

lemma rooted_segments_join:
  assumes "\<And>p. p \<in> set ps \<Longrightarrow> normal_segment p"
  shows "rooted_segments (CHR ''/'' # join ''/'' ps) = ps"
proof (cases "ps = []")
  case True
  then show ?thesis by (simp add: rooted_segments_def)
next
  case False
  have "split_on CHR ''/'' (join ''/'' ps) = ps"
    using assms False by (intro split_on_join) (auto simp: normal_segment_def)
  then show ?thesis
    using assms by (simp add: rooted_segments_def clean_segments_id)
qed

lemma rooted_segments_path_clean:
  "prefix ''/'' s \<Longrightarrow> rooted_segments (path_clean s) = rooted_segments s"
  by (simp add: path_clean_rooted rooted_segments_join rooted_segments_normal)

lemma path_clean_idem:
  assumes "prefix ''/'' s"
  shows "path_clean (path_clean s) = path_clean s"
proof -
  have "path_clean (path_clean s) = CHR ''/'' # join ''/'' (rooted_segments (path_clean s))"
    using assms by (intro path_clean_rooted) (simp add: path_clean_rooted)
  also have "rooted_segments (path_clean s) = rooted_segments s"
    using assms by (rule rooted_segments_path_clean)
  also have "CHR ''/'' # join ''/'' (rooted_segments s) = path_clean s"
    using assms by (rule path_clean_rooted [symmetric])
  finally show ?thesis .
qed

lemma path_clean_examples:
  "path_clean ''//rest/../rest/login'' = ''/rest/login''"
  "path_clean ''/a/./b//c/..'' = ''/a/b''" "path_clean ''../../x'' = ''../../x''"
  "path_clean ''/..'' = ''/''" "path_clean ''a/..'' = ''.''" "path_clean ''/rest/login/'' = ''/rest/login''"
  by code_simp+

lemma set_path_clean: "set (path_clean s) \<subseteq> set s \<union> {CHR ''/'', CHR ''.''}"
proof -
  have "c \<in> set s \<union> {CHR ''/'', CHR ''.''}"
    if "p \<in> set (clean_segments r [] (split_on CHR ''/'' s))" and "c \<in> set p" for r p c
    using clean_segments_subset [OF that(1)] set_split_on [of p _ s] that(2) by auto
  then have "set (join ''/'' (clean_segments r [] (split_on CHR ''/'' s)))
      \<subseteq> set s \<union> {CHR ''/'', CHR ''.''}" for r
    using set_join [of "''/''" "clean_segments r [] (split_on CHR ''/'' s)"] by fastforce
  then show ?thesis by (auto simp: path_clean_def Let_def)
qed

lemma set_path_dir: "set (path_dir s) \<subseteq> set s"
  by (auto simp: path_dir_def dest: set_dropWhileD)

end
