(* ===== verification/Routes.thy ===== *)
theory Routes
  imports Go_Url Go_Path
begin

text \<open>
  The route classifier, \<open>src/internal/httpserver/routes.go\<close>, with the default bypass prefixes of
  \<open>src/internal/config/config.go\<close>. Every request is put in one of five classes by its method and by
  its path, which is decoded once more and cleaned first; the order of the tests is the security
  policy.
\<close>

datatype RouteClass =
    RouteInternal
  | RoutePublicExecution
  | RouteBlockedNativeLogin
  | RouteNativeLoginAlias
  | RouteProtectedConsole

fun route_class_name :: "RouteClass \<Rightarrow> string" where
  "route_class_name RouteInternal = ''internal''"
| "route_class_name RoutePublicExecution = ''public_execution''"
| "route_class_name RouteBlockedNativeLogin = ''blocked_native_login''"
| "route_class_name RouteNativeLoginAlias = ''native_login_alias''"
| "route_class_name RouteProtectedConsole = ''protected_console''"

definition CleanPath :: "string \<Rightarrow> string" where
  "CleanPath rawPath =
     (if rawPath = [] then ''/''
      else
        (let unescaped = (case path_unescape rawPath of None \<Rightarrow> rawPath | Some u \<Rightarrow> u);
             absolute = (if prefix ''/'' unescaped then unescaped else ''/'' @ unescaped);
             cleaned = path_clean absolute
         in if cleaned = ''.'' then ''/'' else cleaned))"

definition isInternalPath :: "string \<Rightarrow> bool" where
  "isInternalPath path \<longleftrightarrow>
     (path = ''/n8n-link'' \<or> path = ''/signout'' \<or> path = ''/healthz'' \<or> path = ''/readyz''
       \<or> path = ''/metrics'')
     \<or> prefix ''/auth/'' path"

definition isPublicBypassPath :: "string \<Rightarrow> string list \<Rightarrow> bool" where
  "isPublicBypassPath path bypass \<longleftrightarrow>
     list_ex (\<lambda>p. path = trim_suffix p ''/'' \<or> prefix p path) bypass"

definition ClassifyRoute :: "string \<Rightarrow> string \<Rightarrow> string list \<Rightarrow> RouteClass" where
  "ClassifyRoute method rawPath publicPrefixes =
     (let path = CleanPath rawPath in
      if isInternalPath path then RouteInternal
      else if method = ''POST'' \<and> path = ''/rest/logout'' then RouteInternal
      else if isPublicBypassPath path publicPrefixes then RoutePublicExecution
      else if method = ''POST'' \<and> path = ''/rest/login'' then RouteBlockedNativeLogin
      else if method = ''GET'' \<and> (path = ''/signin'' \<or> path = ''/login'') then RouteNativeLoginAlias
      else RouteProtectedConsole)"

definition defaultBypassPrefixes :: "string list" where
  "defaultBypassPrefixes =
     [''/webhook/'', ''/webhook-test/'', ''/webhook-waiting/'', ''/form/'', ''/form-test/'',
      ''/forms/'', ''/forms-test/'']"

subsection \<open>Canonical paths\<close>

text \<open>An absolute path without empty, \<open>.\<close> or \<open>..\<close> segments and without a final slash.\<close>

definition canonical_path :: "string \<Rightarrow> bool" where
  "canonical_path p \<longleftrightarrow>
     p = ''/'' \<or> (prefix ''/'' p \<and> list_all normal_segment (split_on CHR ''/'' (tl p)))"

text \<open>The segments of a canonical path.\<close>

definition path_segments :: "string \<Rightarrow> string list" where
  "path_segments p = (if p = ''/'' then [] else split_on CHR ''/'' (tl p))"

lemma CleanPath_absolute:
  "\<exists>s. prefix ''/'' s \<and> CleanPath raw = path_clean s"
proof (cases "raw = []")
  case True
  then have "CleanPath raw = path_clean ''/''"
    by (simp add: CleanPath_def path_clean_def)
  then show ?thesis by (intro exI [of _ "''/''"]) simp
next
  case False
  define u where "u = (case path_unescape raw of None \<Rightarrow> raw | Some v \<Rightarrow> v)"
  define s where "s = (if prefix ''/'' u then u else ''/'' @ u)"
  have s: "prefix ''/'' s" by (simp add: s_def)
  then have "path_clean s \<noteq> ''.''" by (simp add: path_clean_rooted)
  moreover have "CleanPath raw = (if path_clean s = ''.'' then ''/'' else path_clean s)"
    using False by (simp only: CleanPath_def Let_def s_def u_def if_False)
  ultimately have "CleanPath raw = path_clean s" by simp
  with s show ?thesis by blast
qed

lemma CleanPath_segments:
  obtains ps where "CleanPath raw = CHR ''/'' # join ''/'' ps" and "\<And>p. p \<in> set ps \<Longrightarrow> normal_segment p"
proof -
  obtain s where "prefix ''/'' s" and "CleanPath raw = path_clean s"
    using CleanPath_absolute by blast
  then have "CleanPath raw = CHR ''/'' # join ''/'' (rooted_segments s)"
    by (simp add: path_clean_rooted)
  then show ?thesis by (rule that) (rule rooted_segments_normal)
qed

text \<open>What an absolute path is cleaned to is what its segments were, joined again.\<close>

lemma split_join_normal:
  assumes "ps \<noteq> []" and "\<And>p. p \<in> set ps \<Longrightarrow> normal_segment p"
  shows "split_on CHR ''/'' (join ''/'' ps) = ps"
  using assms by (intro split_on_join) (auto simp: normal_segment_def)

lemma canonical_join:
  assumes "\<And>p. p \<in> set ps \<Longrightarrow> normal_segment p"
  shows "canonical_path (CHR ''/'' # join ''/'' ps)"
  using assms split_join_normal [of ps]
  by (cases "ps = []") (auto simp: canonical_path_def list_all_iff)

lemma CleanPath_canonical: "canonical_path (CleanPath raw)"
  by (rule CleanPath_segments [of raw]) (simp add: canonical_join)

lemma canonical_path_cases:
  assumes "canonical_path p" and "p \<noteq> ''/''"
  shows "p = CHR ''/'' # join ''/'' (path_segments p)" and "path_segments p \<noteq> []"
    and "q \<in> set (path_segments p) \<Longrightarrow> normal_segment q"
  using assms
  by (cases p; auto simp: canonical_path_def path_segments_def list_all_iff)+

text \<open>
  A bypass prefix with slashes at both ends and a segment in between matches the canonical paths
  whose first segment is that one, and no other path.
\<close>

lemma bypass_prefix_iff:
  assumes "canonical_path p" and "normal_segment w"
  shows "(p = ''/'' @ w \<or> prefix (''/'' @ w @ ''/'') p)
    \<longleftrightarrow> (path_segments p \<noteq> [] \<and> hd (path_segments p) = w)"
proof (cases "p = ''/''")
  case True
  with assms(2) show ?thesis by (auto simp: path_segments_def normal_segment_def)
next
  case False
  define ps where "ps = path_segments p"
  have p: "p = CHR ''/'' # join ''/'' ps" and ne: "ps \<noteq> []"
    and norm: "\<And>q. q \<in> set ps \<Longrightarrow> normal_segment q"
    using canonical_path_cases [OF assms(1) False] by (auto simp: ps_def)
  have w: "CHR ''/'' \<notin> set w" using assms(2) by (simp add: normal_segment_def)
  obtain q qs where ps: "ps = q # qs" using ne by (cases ps) auto
  then have q: "CHR ''/'' \<notin> set q" using norm [of q] by (simp add: normal_segment_def)
  have "(join ''/'' ps = w \<or> prefix (w @ ''/'') (join ''/'' ps)) \<longleftrightarrow> q = w"
  proof (cases qs)
    case Nil
    have "\<not> prefix (w @ ''/'') q"
      using q by (auto simp: prefix_def)
    then show ?thesis by (simp add: ps Nil)
  next
    case (Cons r rs)
    then have j: "join ''/'' ps = q @ CHR ''/'' # join ''/'' qs" by (simp add: ps)
    have hd: "takeWhile (\<lambda>c. c \<noteq> CHR ''/'') (join ''/'' ps) = q"
      using q by (simp add: j)
    show ?thesis
    proof
      assume "join ''/'' ps = w \<or> prefix (w @ ''/'') (join ''/'' ps)"
      then have "prefix (w @ ''/'') (join ''/'' ps)"
      proof
        assume "join ''/'' ps = w"
        then have "CHR ''/'' \<in> set w" using j by (metis in_set_conv_decomp)
        with w show ?thesis by simp
      qed
      then obtain z where "join ''/'' ps = w @ CHR ''/'' # z" by (auto simp: prefix_def)
      then have "takeWhile (\<lambda>c. c \<noteq> CHR ''/'') (join ''/'' ps) = w" using w by simp
      with hd show "q = w" by simp
    next
      assume "q = w"
      then show "join ''/'' ps = w \<or> prefix (w @ ''/'') (join ''/'' ps)" by (simp add: j)
    qed
  qed
  then have "(p = ''/'' @ w \<or> prefix (''/'' @ w @ ''/'') p) \<longleftrightarrow> q = w" by (simp add: p)
  then show ?thesis using ps ps_def by simp
qed

definition bypassSegments :: "string list" where
  "bypassSegments =
     [''webhook'', ''webhook-test'', ''webhook-waiting'', ''form'', ''form-test'', ''forms'', ''forms-test'']"

lemma default_prefixes_segments:
  "defaultBypassPrefixes = map (\<lambda>w. ''/'' @ w @ ''/'') bypassSegments"
  by (simp add: defaultBypassPrefixes_def bypassSegments_def)

lemma default_bypass_iff:
  assumes "canonical_path p"
  shows "isPublicBypassPath p defaultBypassPrefixes
    \<longleftrightarrow> (path_segments p \<noteq> [] \<and> hd (path_segments p) \<in> set bypassSegments)"
proof -
  have norm: "normal_segment w" if "w \<in> set bypassSegments" for w
    using that by (auto simp: bypassSegments_def normal_segment_def)
  have trim: "trim_suffix (''/'' @ w @ ''/'') ''/'' = ''/'' @ w" for w
    using trim_suffix_append [of "''/'' @ w" "''/''"] by simp
  have "isPublicBypassPath p defaultBypassPrefixes
      \<longleftrightarrow> (\<exists>w \<in> set bypassSegments. p = ''/'' @ w \<or> prefix (''/'' @ w @ ''/'') p)"
    unfolding default_prefixes_segments isPublicBypassPath_def list_ex_iff set_map bex_simps(7)
    by (simp only: trim)
  also have "\<dots> \<longleftrightarrow> (\<exists>w \<in> set bypassSegments. path_segments p \<noteq> [] \<and> hd (path_segments p) = w)"
    by (rule bex_cong [OF refl bypass_prefix_iff [OF assms norm]])
  also have "\<dots> \<longleftrightarrow> (path_segments p \<noteq> [] \<and> hd (path_segments p) \<in> set bypassSegments)"
    by simp
  finally show ?thesis .
qed

subsection \<open>The decision table for the default configuration\<close>

lemma internal_path_segments:
  assumes "canonical_path p" and "isInternalPath p"
  shows "path_segments p \<noteq> []"
    and "hd (path_segments p) \<in> {''auth'', ''n8n-link'', ''signout'', ''healthz'', ''readyz'', ''metrics''}"
proof -
  have auth: "path_segments p \<noteq> [] \<and> hd (path_segments p) = ''auth''" if "prefix ''/auth/'' p"
    using that bypass_prefix_iff [OF assms(1), of "''auth''"] by (simp add: normal_segment_def)
  have "path_segments p \<noteq> [] \<and> hd (path_segments p)
      \<in> {''auth'', ''n8n-link'', ''signout'', ''healthz'', ''readyz'', ''metrics''}"
    using assms(2) [unfolded isInternalPath_def]
  proof (elim disjE)
    assume "prefix ''/auth/'' p"
    then show ?thesis using auth by blast
  qed (simp_all add: path_segments_def)
  then show "path_segments p \<noteq> []"
    and "hd (path_segments p) \<in> {''auth'', ''n8n-link'', ''signout'', ''healthz'', ''readyz'', ''metrics''}"
    by blast+
qed

text \<open>
  Property C30. The path that the classifier compares is always canonical: it is absolute, it has no
  empty, \<open>.\<close> or \<open>..\<close> segment and no final slash, and cleaning it again changes nothing. So no
  spelling of a path with dots, doubled slashes or percent-encoding of them escapes the comparison.
\<close>

theorem CleanPath_is_canonical:
  "canonical_path (CleanPath raw) \<and> path_clean (CleanPath raw) = CleanPath raw
   \<and> list_all normal_segment (path_segments (CleanPath raw))"
proof (intro conjI)
  show can: "canonical_path (CleanPath raw)" by (rule CleanPath_canonical)
  show "path_clean (CleanPath raw) = CleanPath raw"
    using CleanPath_absolute [of raw] path_clean_idem by metis
  have "normal_segment q" if "q \<in> set (path_segments (CleanPath raw))" for q
    using that can canonical_path_cases(3) by (cases "CleanPath raw = ''/''") (auto simp: path_segments_def)
  then show "list_all normal_segment (path_segments (CleanPath raw))" by (simp add: list_all_iff)
qed

text \<open>
  Property C29. With the default bypass prefixes, a request bypasses OIDC exactly when the first
  segment of its cleaned path is one of the seven webhook and form segments. A prefix never matches in
  the middle of a segment, and no internal path is shadowed.
\<close>

theorem ClassifyRoute_public_iff:
  "ClassifyRoute m raw defaultBypassPrefixes = RoutePublicExecution \<longleftrightarrow>
     path_segments (CleanPath raw) \<noteq> [] \<and> hd (path_segments (CleanPath raw)) \<in> set bypassSegments"
proof -
  let ?p = "CleanPath raw"
  have can: "canonical_path ?p" by (rule CleanPath_canonical)
  have "\<not> isInternalPath ?p" if "hd (path_segments ?p) \<in> set bypassSegments"
    using internal_path_segments(2) [OF can] that by (auto simp: bypassSegments_def)
  moreover have "?p \<noteq> ''/rest/logout''" if "hd (path_segments ?p) \<in> set bypassSegments"
  proof
    assume "?p = ''/rest/logout''"
    with that show False by (simp add: path_segments_def bypassSegments_def)
  qed
  ultimately show ?thesis
    using default_bypass_iff [OF can] by (auto simp: ClassifyRoute_def Let_def)
qed

text \<open>
  With the default bypass prefixes, an external login is blocked however its path is
  spelled: the class is \<open>RouteBlockedNativeLogin\<close> exactly for a POST whose cleaned path is
  \<open>/rest/login\<close>.
\<close>

theorem ClassifyRoute_blocked_iff:
  "ClassifyRoute m raw defaultBypassPrefixes = RouteBlockedNativeLogin \<longleftrightarrow>
     m = ''POST'' \<and> CleanPath raw = ''/rest/login''"
proof -
  have "\<not> isPublicBypassPath ''/rest/login'' defaultBypassPrefixes" by code_simp
  moreover have "\<not> isInternalPath ''/rest/login''" by code_simp
  ultimately show ?thesis by (auto simp: ClassifyRoute_def Let_def)
qed

text \<open>The table of \<open>TestClassifyRoute\<close> in \<open>src/internal/httpserver/routes_test.go\<close>.\<close>

lemma ClassifyRoute_tests:
  "ClassifyRoute ''GET'' ''/auth/callback'' defaultBypassPrefixes = RouteInternal"
  "ClassifyRoute ''POST'' ''/webhook'' defaultBypassPrefixes = RoutePublicExecution"
  "ClassifyRoute ''POST'' ''/forms-test/foo'' defaultBypassPrefixes = RoutePublicExecution"
  "ClassifyRoute ''POST'' ''/rest%2flogin'' defaultBypassPrefixes = RouteBlockedNativeLogin"
  "ClassifyRoute ''POST'' ''//rest/../rest/login'' defaultBypassPrefixes = RouteBlockedNativeLogin"
  "ClassifyRoute ''POST'' ''/rest/logout'' defaultBypassPrefixes = RouteInternal"
  "ClassifyRoute ''GET'' ''/signin'' defaultBypassPrefixes = RouteNativeLoginAlias"
  "ClassifyRoute ''GET'' ''/workflows'' defaultBypassPrefixes = RouteProtectedConsole"
  by code_simp+

end
