(* ===== verification/Config.thy ===== *)
theory Config
  imports Routes
begin

text \<open>
  \<open>src/internal/config/config.go\<close>: the configuration and how it is read from the environment, with what
  it uses of \<open>time.ParseDuration\<close>, \<open>strconv.ParseInt\<close> and \<open>strconv.ParseBool\<close>.
\<close>

record Config =
  ListenAddr :: string
  PublicBaseURL :: url
  N8NUpstreamURL :: url
  OIDCIssuerURL :: string
  OIDCClientID :: string
  OIDCClientSecret :: string
  OIDCScopes :: "string list"
  RedisURL :: string
  VaultAddr :: string
  VaultToken :: string
  VaultRoleID :: string
  VaultSecretID :: string
  VaultKVMount :: string
  VaultKVPrefix :: string
  SessionTTL :: duration
  OIDCStateTTL :: duration
  ConsoleProxyTimeout :: duration
  PublicExecutionTimeout :: duration
  PublicExecutionBodyLimit :: int
  PublicBypassPrefixes :: "string list"
  CookieSecure :: bool
  TrustedProxyCIDRs :: "string list"
  LogLevel :: string

subsection \<open>Numbers, durations and booleans\<close>

definition digit_value :: "char \<Rightarrow> nat" where
  "digit_value c = of_char c - 48"

definition max_u63 :: nat where
  "max_u63 = 2 ^ 63"

text \<open>\<open>leadingInt\<close>: \<open>None\<close> on overflow.\<close>

fun leading_int :: "nat \<Rightarrow> string \<Rightarrow> (nat \<times> string) option" where
  "leading_int x [] = Some (x, [])"
| "leading_int x (c # cs) =
     (if \<not> is_digit c then Some (x, c # cs)
      else if x > max_u63 div 10 then None
      else if x * 10 + digit_value c > max_u63 then None
      else leading_int (x * 10 + digit_value c) cs)"

text \<open>\<open>leadingFraction\<close>: digits that would overflow are skipped.\<close>

fun leading_fraction :: "bool \<Rightarrow> nat \<Rightarrow> nat \<Rightarrow> string \<Rightarrow> nat \<times> nat \<times> string" where
  "leading_fraction overflow x scale [] = (x, scale, [])"
| "leading_fraction overflow x scale (c # cs) =
     (if \<not> is_digit c then (x, scale, c # cs)
      else if overflow \<or> x > (max_u63 - 1) div 10 \<or> x * 10 + digit_value c > max_u63
      then leading_fraction True x scale cs
      else leading_fraction False (x * 10 + digit_value c) (scale * 10) cs)"

definition duration_unit :: "string \<Rightarrow> nat option" where
  "duration_unit u =
     map_of [(''ns'', 1), (''us'', 1000), ([CHR 0xC2, CHR 0xB5, CHR ''s''], 1000),
             ([CHR 0xCE, CHR 0xBC, CHR ''s''], 1000), (''ms'', 1000000), (''s'', 1000000000),
             (''m'', 60000000000), (''h'', 3600000000000)] u"

definition number_char :: "char \<Rightarrow> bool" where
  "number_char c \<longleftrightarrow> c = CHR ''.'' \<or> is_digit c"

text \<open>
  One component, a number with its unit. The fraction is added with exact arithmetic where Go uses
  64-bit floats, which can differ by a nanosecond for fractions that floats do not represent.
\<close>

definition duration_part :: "string \<Rightarrow> (nat \<times> string) option" where
  "duration_part s =
     (if s = [] \<or> \<not> number_char (hd s) then None
      else
        (case leading_int 0 s of
           None \<Rightarrow> None
         | Some (v, s1) \<Rightarrow>
             (let dot = (s1 \<noteq> [] \<and> hd s1 = CHR ''.'');
                  (f, scale, s2) = (if dot then leading_fraction False 0 1 (tl s1) else (0, 1, s1));
                  pre = (length s1 \<noteq> length s);
                  post = (dot \<and> length s2 \<noteq> length (tl s1));
                  u = takeWhile (\<lambda>c. \<not> number_char c) s2;
                  rest = dropWhile (\<lambda>c. \<not> number_char c) s2
              in if \<not> pre \<and> \<not> post then None
                 else if u = [] then None
                 else
                   (case duration_unit u of
                      None \<Rightarrow> None
                    | Some unit \<Rightarrow>
                        if v > max_u63 div unit then None
                        else
                          (let v' = v * unit + f * unit div scale
                           in if v' > max_u63 then None else Some (v', rest))))))"

text \<open>The total is a \<open>uint64\<close>, whose addition wraps.\<close>

definition add_u64 :: "nat \<Rightarrow> nat \<Rightarrow> nat" where
  "add_u64 d v = (d + v) mod 2 ^ 64"

text \<open>The loop over the components; the fuel is the length of the text, and every round reads some of it.\<close>

fun duration_parts :: "nat \<Rightarrow> nat \<Rightarrow> string \<Rightarrow> nat option" where
  "duration_parts fuel d [] = Some d"
| "duration_parts 0 d (c # cs) = None"
| "duration_parts (Suc fuel) d (c # cs) =
     (case duration_part (c # cs) of
        None \<Rightarrow> None
      | Some (v, rest) \<Rightarrow>
          (let d' = add_u64 d v in
           if d' > max_u63 then None else duration_parts fuel d' rest))"

definition ParseDuration :: "string \<Rightarrow> duration option" where
  "ParseDuration s0 =
     (let neg = (s0 \<noteq> [] \<and> hd s0 = CHR ''-'');
          s = (if s0 \<noteq> [] \<and> (hd s0 = CHR ''-'' \<or> hd s0 = CHR ''+'') then tl s0 else s0)
      in if s = ''0'' then Some 0
         else if s = [] then None
         else
           (case duration_parts (length s) 0 s of
              None \<Rightarrow> None
            | Some d \<Rightarrow>
                if neg then Some (- int d)
                else if d > max_u63 - 1 then None else Some (int d)))"

definition ParseInt64 :: "string \<Rightarrow> int option" where
  "ParseInt64 s0 =
     (let neg = (s0 \<noteq> [] \<and> hd s0 = CHR ''-'');
          s = (if s0 \<noteq> [] \<and> (hd s0 = CHR ''-'' \<or> hd s0 = CHR ''+'') then tl s0 else s0);
          n = fold (\<lambda>c x. x * 10 + digit_value c) s 0
      in if s = [] \<or> \<not> list_all is_digit s then None
         else if neg then (if n > max_u63 then None else Some (- int n))
         else if n \<ge> max_u63 then None else Some (int n))"

definition ParseBool :: "string \<Rightarrow> bool option" where
  "ParseBool s =
     (if List.member [''1'', ''t'', ''T'', ''TRUE'', ''true'', ''True''] s then Some True
      else if List.member [''0'', ''f'', ''F'', ''FALSE'', ''false'', ''False''] s then Some False
      else None)"

lemma ParseDuration_examples:
  "ParseDuration ''8h'' = Some (480 * minute)" "ParseDuration ''1.5s'' = Some 1500000000"
  "ParseDuration ''1h30m'' = Some (90 * minute)" "ParseDuration ''-2ms'' = Some (-2000000)"
  "ParseDuration ''10'' = None" "ParseDuration ''s'' = None" "ParseDuration ''.s'' = None"
  "ParseInt64 ''-12'' = Some (-12)" "ParseInt64 ''9223372036854775808'' = None"
  by code_simp+

subsection \<open>Reading the environment\<close>

text \<open>\<open>os.Getenv\<close> gives the empty string for a variable that is not set.\<close>

type_synonym environment = "string \<Rightarrow> string"

datatype config_err =
    IsRequired string
  | ParseFailed string
  | NotAbsolute string
  | MissingServices
  | MissingVaultAuth

definition parseRequiredURL :: "environment \<Rightarrow> string \<Rightarrow> config_err + url" where
  "parseRequiredURL env key =
     (let raw = trim_space (env key) in
      if raw = [] then Inl (IsRequired key)
      else
        (case url_parse raw of
           None \<Rightarrow> Inl (ParseFailed key)
         | Some parsed \<Rightarrow>
             if u_scheme parsed = [] \<or> u_host parsed = [] then Inl (NotAbsolute key) else Inr parsed))"

definition envDefault :: "environment \<Rightarrow> string \<Rightarrow> string \<Rightarrow> string" where
  "envDefault env key fallback =
     (let val = trim_space (env key) in if val \<noteq> [] then val else fallback)"

definition fieldsDefault :: "environment \<Rightarrow> string \<Rightarrow> string list \<Rightarrow> string list" where
  "fieldsDefault env key fallback =
     (let val = trim_space (env key) in if val \<noteq> [] then Go_Strings.fields val else fallback)"

definition csvDefault :: "environment \<Rightarrow> string \<Rightarrow> string list \<Rightarrow> string list" where
  "csvDefault env key fallback =
     (let val = trim_space (env key) in
      if val = [] then fallback
      else filter (\<lambda>part. part \<noteq> []) (map trim_space (split_on CHR '','' val)))"

definition durationDefault :: "environment \<Rightarrow> string \<Rightarrow> duration \<Rightarrow> config_err + duration" where
  "durationDefault env key fallback =
     (let val = trim_space (env key) in
      if val = [] then Inr fallback
      else (case ParseDuration val of None \<Rightarrow> Inl (ParseFailed key) | Some d \<Rightarrow> Inr d))"

definition int64Default :: "environment \<Rightarrow> string \<Rightarrow> int \<Rightarrow> config_err + int" where
  "int64Default env key fallback =
     (let val = trim_space (env key) in
      if val = [] then Inr fallback
      else (case ParseInt64 val of None \<Rightarrow> Inl (ParseFailed key) | Some n \<Rightarrow> Inr n))"

definition cookieSecureSetting :: "environment \<Rightarrow> url \<Rightarrow> config_err + bool" where
  "cookieSecureSetting env base =
     (let val = trim_space (env ''COOKIE_SECURE'') in
      if val \<noteq> [] then
        (case ParseBool val of None \<Rightarrow> Inl (ParseFailed ''COOKIE_SECURE'') | Some b \<Rightarrow> Inr b)
      else Inr (u_scheme base = ''https''))"

definition Load :: "environment \<Rightarrow> config_err + Config" where
  "Load env =
     and_then (parseRequiredURL env ''PUBLIC_BASE_URL'') (\<lambda>base.
     and_then (parseRequiredURL env ''N8N_UPSTREAM_URL'') (\<lambda>upstream.
     (let issuer = trim_space (env ''OIDC_ISSUER_URL''); client = trim_space (env ''OIDC_CLIENT_ID'');
          secret = env ''OIDC_CLIENT_SECRET''; redis = trim_space (env ''REDIS_URL'');
          vault = trim_space (env ''VAULT_ADDR''); token = env ''VAULT_TOKEN'';
          role = trim_space (env ''VAULT_ROLE_ID''); secret_id = env ''VAULT_SECRET_ID''
      in if issuer = [] \<or> client = [] \<or> secret = [] \<or> redis = [] \<or> vault = [] then Inl MissingServices
         else if token = [] \<and> (role = [] \<or> secret_id = []) then Inl MissingVaultAuth
         else
           and_then (durationDefault env ''SESSION_TTL'' (480 * minute)) (\<lambda>session_ttl.
           and_then (durationDefault env ''OIDC_STATE_TTL'' (10 * minute)) (\<lambda>state_ttl.
           and_then (durationDefault env ''CONSOLE_PROXY_TIMEOUT'' (60 * second)) (\<lambda>console.
           and_then (durationDefault env ''PUBLIC_EXECUTION_TIMEOUT'' (300 * second)) (\<lambda>public.
           and_then (int64Default env ''PUBLIC_EXECUTION_BODY_LIMIT'' (50 * 1024 * 1024)) (\<lambda>limit.
           and_then (cookieSecureSetting env base) (\<lambda>secure.
           Inr \<lparr>ListenAddr = envDefault env ''LISTEN_ADDR'' '':8080'',
                PublicBaseURL = base, N8NUpstreamURL = upstream,
                OIDCIssuerURL = issuer, OIDCClientID = client, OIDCClientSecret = secret,
                OIDCScopes = fieldsDefault env ''OIDC_SCOPES'' [''openid'', ''profile'', ''email''],
                RedisURL = redis, VaultAddr = vault, VaultToken = token, VaultRoleID = role,
                VaultSecretID = secret_id,
                VaultKVMount = envDefault env ''VAULT_KV_MOUNT'' ''secret'',
                VaultKVPrefix =
                  trim_chars (trim_space (envDefault env ''VAULT_KV_PREFIX'' ''n8n-gw/users'')) ''/'',
                SessionTTL = session_ttl, OIDCStateTTL = state_ttl, ConsoleProxyTimeout = console,
                PublicExecutionTimeout = public, PublicExecutionBodyLimit = limit,
                PublicBypassPrefixes = csvDefault env ''PUBLIC_BYPASS_PREFIXES'' defaultBypassPrefixes,
                CookieSecure = secure,
                TrustedProxyCIDRs = csvDefault env ''TRUSTED_PROXY_CIDRS'' [],
                LogLevel = to_lower (envDefault env ''LOG_LEVEL'' ''info'')\<rparr>)))))))))"

subsection \<open>What a loaded configuration guarantees\<close>

lemma if_Inl_Inr: "(if b then Inl e else r) = Inr x \<longleftrightarrow> \<not> b \<and> r = Inr x"
  by simp

lemma parseRequiredURL_ok:
  "parseRequiredURL env key = Inr u \<Longrightarrow>
     url_parse (trim_space (env key)) = Some u \<and> u_scheme u \<noteq> [] \<and> u_host u \<noteq> []"
  by (auto simp: parseRequiredURL_def Let_def split: if_splits option.splits)

lemma csvDefault_no_empty: "[] \<notin> set fallback \<Longrightarrow> [] \<notin> set (csvDefault env key fallback)"
  by (auto simp: csvDefault_def Let_def)

lemma cookieSecure_default:
  "cookieSecureSetting env base = Inr b \<Longrightarrow> trim_space (env ''COOKIE_SECURE'') = [] \<Longrightarrow>
     b = (u_scheme base = ''https'')"
  by (simp add: cookieSecureSetting_def)

text \<open>The loop over the components of a duration never runs out of fuel.\<close>

lemma leading_int_length: "leading_int x s = Some (v, r) \<Longrightarrow> length r \<le> length s"
  by (induction x s rule: leading_int.induct) (auto split: if_splits)

lemma leading_fraction_length: "leading_fraction ov x sc s = (f, sc', r) \<Longrightarrow> length r \<le> length s"
  by (induction ov x sc s rule: leading_fraction.induct) (auto split: if_splits)

lemma duration_part_shorter:
  assumes "duration_part s = Some (v, rest)"
  shows "length rest < length s"
proof -
  obtain x s1 where li: "leading_int 0 s = Some (x, s1)"
    using assms by (auto simp: duration_part_def split: if_splits option.splits)
  let ?dot = "s1 \<noteq> [] \<and> hd s1 = CHR ''.''"
  obtain f sc s2 where fr: "(if ?dot then leading_fraction False 0 1 (tl s1) else (0, 1, s1)) = (f, sc, s2)"
    by (metis prod_cases3)
  then have "length s2 \<le> length s1"
    using leading_fraction_length [of False 0 1 "tl s1" f sc s2] by (auto split: if_splits)
  moreover have "takeWhile (\<lambda>c. \<not> number_char c) s2 \<noteq> []"
    and "rest = dropWhile (\<lambda>c. \<not> number_char c) s2"
    using assms li fr
    by (auto simp: duration_part_def Let_def simp del: takeWhile_eq_Nil_iff split: if_splits option.splits)
  then have "length rest < length s2"
    by (metis length_0_conv length_append length_greater_0_conv less_add_same_cancel2 takeWhile_dropWhile_id)
  ultimately show ?thesis using leading_int_length [OF li] by linarith
qed

lemma duration_parts_fuel:
  "length s \<le> n \<Longrightarrow> length s \<le> m \<Longrightarrow> duration_parts n d s = duration_parts m d s"
proof (induction n d s arbitrary: m rule: duration_parts.induct)
  case (3 fuel d c cs)
  then obtain m' where m: "m = Suc m'" by (cases m) auto
  show ?case
  proof (cases "duration_part (c # cs)")
    case None
    then show ?thesis by (simp add: m)
  next
    case (Some p)
    then obtain v rest where p: "duration_part (c # cs) = Some (v, rest)" by (cases p) auto
    have l: "length rest \<le> fuel" "length rest \<le> m'"
      using duration_part_shorter [OF p] 3(2,3) m by auto
    show ?thesis
    proof (cases "max_u63 < add_u64 d v")
      case True
      then show ?thesis by (simp add: m p Let_def)
    next
      case False
      then have "duration_parts fuel (add_u64 d v) rest = duration_parts m' (add_u64 d v) rest"
        by (intro 3(1) [OF p refl refl]) (simp_all add: l)
      then show ?thesis by (simp add: m p Let_def)
    qed
  qed
qed auto

lemma duration_parts_bound: "duration_parts fuel d s = Some r \<Longrightarrow> d \<le> max_u63 \<Longrightarrow> r \<le> max_u63"
proof (induction fuel d s rule: duration_parts.induct)
  case (3 fuel d c cs)
  from 3(2) obtain v rest where p: "duration_part (c # cs) = Some (v, rest)"
    by (cases "duration_part (c # cs)") auto
  show ?case
    using 3(1) [OF p refl refl] 3(2) p by (simp add: Let_def del: One_nat_def split: if_splits)
qed simp_all

text \<open>
  A duration read from the environment fits the 64 bits of \<open>time.Duration\<close>, so no timeout wraps
  around; and more fuel than the length of the text never changes the result, so the component
  loop ends by itself.
\<close>

theorem durationDefault_fits:
  "(case durationDefault env key fallback of
      Inl e \<Rightarrow> e = ParseFailed key
    | Inr d \<Rightarrow> (if trim_space (env key) = [] then d = fallback else - (2 ^ 63) \<le> d \<and> d < 2 ^ 63))
   \<and> duration_parts (length s + k) 0 s = duration_parts (length s) 0 s"
proof
  have "int r \<le> 2 ^ 63" if "duration_parts n 0 t = Some r" for n t r
    using duration_parts_bound [OF that] by (simp add: max_u63_def flip: of_nat_power)
  then have "- (2 ^ 63) \<le> d \<and> d < 2 ^ 63" if "ParseDuration t = Some d" for t d
    using that by (fastforce simp: ParseDuration_def Let_def max_u63_def split: option.splits if_splits)
  then show "case durationDefault env key fallback of
      Inl e \<Rightarrow> e = ParseFailed key
    | Inr d \<Rightarrow> (if trim_space (env key) = [] then d = fallback else - (2 ^ 63) \<le> d \<and> d < 2 ^ 63)"
    by (auto simp: durationDefault_def Let_def split: option.splits sum.splits)
  show "duration_parts (length s + k) 0 s = duration_parts (length s) 0 s"
    by (rule duration_parts_fuel) simp_all
qed

definition complete_config :: "Config \<Rightarrow> bool" where
  "complete_config cfg \<longleftrightarrow>
     is_abs (PublicBaseURL cfg) \<and> u_host (PublicBaseURL cfg) \<noteq> []
     \<and> is_abs (N8NUpstreamURL cfg) \<and> u_host (N8NUpstreamURL cfg) \<noteq> []
     \<and> OIDCIssuerURL cfg \<noteq> [] \<and> OIDCClientID cfg \<noteq> [] \<and> OIDCClientSecret cfg \<noteq> []
     \<and> RedisURL cfg \<noteq> [] \<and> VaultAddr cfg \<noteq> []
     \<and> (if VaultToken cfg = [] then VaultRoleID cfg \<noteq> [] \<and> VaultSecretID cfg \<noteq> [] else True)
     \<and> \<not> List.member (PublicBypassPrefixes cfg) [] \<and> ListenAddr cfg \<noteq> []"

lemma loaded_config:
  assumes "Load env = Inr cfg"
  shows "complete_config cfg
    \<and> (if trim_space (env ''COOKIE_SECURE'') = []
       then CookieSecure cfg = (u_scheme (PublicBaseURL cfg) = ''https'')
       else ParseBool (trim_space (env ''COOKIE_SECURE'')) = Some (CookieSecure cfg))"
proof -
  have prefixes: "[] \<notin> set (csvDefault env k defaultBypassPrefixes)" for k
    by (rule csvDefault_no_empty) (simp add: defaultBypassPrefixes_def)
  have listen: "envDefault env k '':8080'' \<noteq> []" for k by (simp add: envDefault_def Let_def)
  note unfold = Load_def and_then_Inr Let_def if_Inl_Inr de_Morgan_disj de_Morgan_conj sum.inject
  have mem: "\<not> List.member (csvDefault env k defaultBypassPrefixes) []" for k
    using prefixes by simp
  show ?thesis
    using assms unfolding unfold
    apply (elim exE conjE)
    apply (drule parseRequiredURL_ok)+
    apply hypsubst
    apply (simp only: complete_config_def Config.simps is_abs_def mem listen cookieSecureSetting_def)
    by (auto simp: Let_def split: if_splits option.splits)
qed

text \<open>
  Property C35. A configuration that loads is complete: both URLs are absolute, the identity provider, the
  session store and the vault are named, the vault has a token or a role with its secret, no bypass
  prefix is empty (an empty one would open every path), and cookies are \<open>Secure\<close> exactly for an https
  public URL unless the environment says otherwise.
\<close>

theorem Load_complete:
  assumes "Load env = Inr cfg"
  shows "complete_config cfg
    \<and> (if trim_space (env ''COOKIE_SECURE'') = []
       then CookieSecure cfg = (u_scheme (PublicBaseURL cfg) = ''https'')
       else ParseBool (trim_space (env ''COOKIE_SECURE'')) = Some (CookieSecure cfg))"
  using assms by (rule loaded_config)

definition example_env :: environment where
  "example_env key =
     (case map_of [(''PUBLIC_BASE_URL'', ''https://gw.example''), (''N8N_UPSTREAM_URL'', ''http://n8n:5678''),
        (''OIDC_ISSUER_URL'', ''https://idp''), (''OIDC_CLIENT_ID'', ''gw''), (''OIDC_CLIENT_SECRET'', ''s''),
        (''REDIS_URL'', ''redis://r''), (''VAULT_ADDR'', ''http://v''), (''VAULT_TOKEN'', ''t'')] key
      of None \<Rightarrow> [] | Some v \<Rightarrow> v)"

lemma example_env_loads: "\<not> isl (Load example_env)"
  by code_simp

theorem Load_complete_witness:
  "complete_config (projr (Load example_env)) \<and> trim_space (example_env ''COOKIE_SECURE'') = []"
proof -
  have "Load example_env = Inr (projr (Load example_env))" using example_env_loads by simp
  then have "complete_config (projr (Load example_env))" using Load_complete by blast
  moreover have "trim_space (example_env ''COOKIE_SECURE'') = []" by code_simp
  ultimately show ?thesis by simp
qed

end
