(* ===== verification/Go_Net.thy ===== *)
theory Go_Net
  imports Go_Url "HOL-Library.Word"
begin

unbundle bit_operations_syntax

text \<open>
  The part of Go's \<open>net\<close> that the gateway uses to judge where a request comes from:
  \<open>SplitHostPort\<close>, \<open>ParseIP\<close>, \<open>ParseCIDR\<close> and \<open>IPNet.Contains\<close>. An address is its list of bytes,
  16 of them from \<open>ParseIP\<close>, 4 where Go shortens an IPv4 address.
\<close>

subsection \<open>SplitHostPort\<close>

text \<open>The host and the port; \<open>None\<close> is an error.\<close>

definition split_host_port :: "string \<Rightarrow> (string \<times> string) option" where
  "split_host_port hostport =
     (case cut_last CHR '':'' hostport of
        (_, _, False) \<Rightarrow> None
      | (before, port, True) \<Rightarrow>
          if prefix ''['' hostport then
            (case cut CHR '']'' hostport of
               (_, _, False) \<Rightarrow> None
             | (open_host, rest, True) \<Rightarrow>
                 if rest \<noteq> [] \<and> rest = '':'' @ port
                    \<and> \<not> List.member (tl open_host) CHR ''['' \<and> \<not> List.member rest CHR ''[''
                    \<and> \<not> List.member rest CHR '']''
                 then Some (tl open_host, port) else None)
          else if List.member before CHR '':'' then None
          else if List.member hostport CHR ''['' \<or> List.member hostport CHR '']'' then None
          else Some (before, port))"

subsection \<open>Addresses\<close>

type_synonym ip = "nat list"

definition decimal :: "string \<Rightarrow> nat" where
  "decimal s = fold (\<lambda>c x. x * 10 + (of_char c - 48)) s 0"

definition parse_octet :: "string \<Rightarrow> nat option" where
  "parse_octet s =
     (if s = [] \<or> \<not> list_all is_digit s \<or> (length s > 1 \<and> hd s = CHR ''0'') \<or> length s > 3 then None
      else if decimal s > 255 then None else Some (decimal s))"

definition parse_ipv4 :: "string \<Rightarrow> ip option" where
  "parse_ipv4 s =
     (case map parse_octet (split_on CHR ''.'' s) of
        [Some a, Some b, Some c, Some d] \<Rightarrow> Some [a, b, c, d]
      | _ \<Rightarrow> None)"

definition hex_number :: "string \<Rightarrow> nat" where
  "hex_number s = fold (\<lambda>c x. x * 16 + unhex c) s 0"

text \<open>
  The fields of an IPv6 address: the bytes read so far, the index of the ellipsis, and the rest of
  the text. A group has one to four hexadecimal digits; a dotted group must be the last one.
\<close>

function v6_fields :: "ip \<Rightarrow> nat option \<Rightarrow> string \<Rightarrow> (ip \<times> nat option) option" where
  "v6_fields bytes ell s =
     (let grp = takeWhile ishex s; rest = dropWhile ishex s in
      if length bytes \<ge> 16 then (if s = [] then Some (bytes, ell) else None)
      else if grp = [] \<or> length grp > 4 then None
      else if prefix ''.'' rest then
        (if (ell = None \<and> length bytes \<noteq> 12) \<or> length bytes + 4 > 16 then None
         else (case parse_ipv4 s of None \<Rightarrow> None | Some v4 \<Rightarrow> Some (bytes @ v4, ell)))
      else
        (let bytes' = bytes @ [hex_number grp div 256, hex_number grp mod 256] in
         if rest = [] then Some (bytes', ell)
         else if hd rest \<noteq> CHR '':'' \<or> tl rest = [] then None
         else if hd (tl rest) = CHR '':'' then
           (if ell \<noteq> None then None
            else if tl (tl rest) = [] then Some (bytes', Some (length bytes'))
            else v6_fields bytes' (Some (length bytes')) (tl (tl rest)))
         else v6_fields bytes' ell (tl rest)))"
  by pat_completeness auto
termination
proof (relation "measure (\<lambda>(bytes, ell, s). length s)")
  have *: "length (dropWhile ishex s) \<le> length s" for s by (rule length_dropWhile_le)
  fix bytes :: ip and ell :: "nat option" and s grp rest :: string and bytes' :: ip
  assume rest: "rest = dropWhile ishex s" "rest \<noteq> []"
  have "length (tl rest) < length rest" using rest(2) by simp
  also have "\<dots> \<le> length s" unfolding rest(1) by (rule *)
  finally have "length (tl rest) < length s" .
  then show "((bytes', ell, tl rest), bytes, ell, s) \<in> measure (\<lambda>(bytes, ell, s). length s)"
    and "((bytes', Some (length bytes'), tl (tl rest)), bytes, ell, s) \<in> measure (\<lambda>(bytes, ell, s). length s)"
    by auto
qed auto

declare v6_fields.simps [simp del]

definition parse_ipv6 :: "string \<Rightarrow> ip option" where
  "parse_ipv6 s =
     (if s = ''::'' then Some (replicate 16 0)
      else
        (case v6_fields [] (if prefix ''::'' s then Some 0 else None)
                (if prefix ''::'' s then drop 2 s else s) of
           None \<Rightarrow> None
         | Some (bytes, ell) \<Rightarrow>
             (case ell of
                None \<Rightarrow> if length bytes = 16 then Some bytes else None
              | Some e \<Rightarrow>
                  if length bytes = 16 then None
                  else Some (take e bytes @ replicate (16 - length bytes) 0 @ drop e bytes))))"

text \<open>
  \<open>netip.ParseAddr\<close> without a zone: the first dot, colon or percent sign decides on the kind.
  The result keeps 4 bytes for an IPv4 text.
\<close>

definition parse_addr :: "string \<Rightarrow> ip option" where
  "parse_addr s =
     (case dropWhile (\<lambda>c. \<not> List.member ''.:%'' c) s of
        [] \<Rightarrow> None
      | c # _ \<Rightarrow> if c = CHR ''.'' then parse_ipv4 s else if c = CHR '':'' then parse_ipv6 s else None)"

definition v4_in_v6 :: ip where
  "v4_in_v6 = replicate 10 0 @ [255, 255]"

definition as16 :: "ip \<Rightarrow> ip" where
  "as16 a = (if length a = 4 then v4_in_v6 @ a else a)"

definition to4 :: "ip \<Rightarrow> ip" where
  "to4 a = (if length a = 16 \<and> take 12 a = v4_in_v6 then drop 12 a else a)"

definition parse_ip :: "string \<Rightarrow> ip option" where
  "parse_ip s = map_option as16 (parse_addr s)"

subsection \<open>Networks\<close>

record ip_net =
  net_ip :: ip
  net_mask :: "nat list"

definition cidr_mask :: "nat \<Rightarrow> nat \<Rightarrow> nat list" where
  "cidr_mask n bytes = map (\<lambda>i. 256 - 2 ^ (8 - min 8 (n - 8 * i))) [0..<bytes]"

definition mask_bytes :: "ip \<Rightarrow> nat list \<Rightarrow> ip" where
  "mask_bytes a m = map2 (\<lambda>x y. x AND y) a m"

definition parse_cidr :: "string \<Rightarrow> ip_net option" where
  "parse_cidr s =
     (case cut CHR ''/'' s of
        (_, _, False) \<Rightarrow> None
      | (addr, bits, True) \<Rightarrow>
          (case parse_addr addr of
             None \<Rightarrow> None
           | Some a \<Rightarrow>
               if bits = [] \<or> \<not> list_all is_digit bits \<or> decimal bits \<ge> 0xFFFFFF
                  \<or> decimal bits > 8 * length a then None
               else Some \<lparr>net_ip = mask_bytes a (cidr_mask (decimal bits) (length a)),
                          net_mask = cidr_mask (decimal bits) (length a)\<rparr>))"

definition net_contains :: "ip_net \<Rightarrow> ip \<Rightarrow> bool" where
  "net_contains n a =
     (let nn = to4 (net_ip n);
          m = (if length (net_mask n) = 16 \<and> length nn = 4 then drop 12 (net_mask n) else net_mask n);
          b = to4 a
      in length b = length nn \<and> length m = length nn \<and> mask_bytes nn m = mask_bytes b m)"

lemma net_examples:
  "split_host_port ''10.0.0.7:4711'' = Some (''10.0.0.7'', ''4711'')"
  "split_host_port ''[::1]:80'' = Some (''::1'', ''80'')" "split_host_port ''::1:80'' = None"
  "split_host_port ''host'' = None"
  "parse_ip ''10.0.0.7'' = Some (v4_in_v6 @ [10, 0, 0, 7])" "parse_ip ''10.0.0.07'' = None"
  "parse_ip ''2001:db8::ff'' = Some [0x20, 1, 0x0d, 0xb8, 0, 0, 0, 0, 0, 0, 0, 0, 0, 0, 0, 0xff]"
  "parse_ip ''::ffff:1.2.3.4'' = Some (v4_in_v6 @ [1, 2, 3, 4])" "parse_ip ''1::2::3'' = None"
  "map_option (\<lambda>n. (net_contains n (v4_in_v6 @ [10, 1, 2, 3]), net_contains n (v4_in_v6 @ [11, 0, 0, 1])))
     (parse_cidr ''10.0.0.0/8'') = Some (True, False)"
  by code_simp+

end
