(* ===== verification/Go_Http.thy ===== *)
theory Go_Http
  imports Go_Url Go_Path
begin

text \<open>
  The part of Go's \<open>net/http\<close> that the gateway's handlers use: headers, requests with their forms,
  the response writer (headers are sent once, by the first \<open>WriteHeader\<close> or \<open>Write\<close>), the reading
  of the \<open>Cookie\<close> header, the writing of \<open>Set-Cookie\<close>, \<open>http.Error\<close>, \<open>http.NotFound\<close> and
  \<open>http.Redirect\<close>.
\<close>

subsection \<open>Headers\<close>

text \<open>
  An \<open>http.Header\<close> maps a canonical key to its values. The keys that occur in the program are
  written in canonical form (so the code's \<open>X-Real-IP\<close> is \<open>X-Real-Ip\<close>).
\<close>

type_synonym header = "string \<Rightarrow> string list"

definition empty_header :: header where
  "empty_header = (\<lambda>_. [])"

definition hget :: "header \<Rightarrow> string \<Rightarrow> string" where
  "hget h k = (case h k of [] \<Rightarrow> [] | v # _ \<Rightarrow> v)"

definition hset :: "string \<Rightarrow> string \<Rightarrow> header \<Rightarrow> header" where
  "hset k v h = h(k := [v])"

definition hadd :: "string \<Rightarrow> string \<Rightarrow> header \<Rightarrow> header" where
  "hadd k v h = h(k := h k @ [v])"

definition hdel :: "string \<Rightarrow> header \<Rightarrow> header" where
  "hdel k h = h(k := [])"

lemma hget_hset [http_simps, simp]: "hget (hset k v h) k' = (if k' = k then v else hget h k')"
  by (simp add: hget_def hset_def)

lemma hget_hadd_other [http_simps, simp]: "k' \<noteq> k \<Longrightarrow> hget (hadd k v h) k' = hget h k'"
  by (simp add: hget_def hadd_def)

lemma hget_hdel [http_simps, simp]: "hget (hdel k h) k' = (if k' = k then [] else hget h k')"
  by (simp add: hget_def hdel_def)

lemma hset_apply [http_simps, simp]: "hset k v h k' = (if k' = k then [v] else h k')"
  by (simp add: hset_def)

lemma hadd_apply [http_simps, simp]: "hadd k v h k' = (if k' = k then h k @ [v] else h k')"
  by (simp add: hadd_def)

lemma hdel_apply [http_simps, simp]: "hdel k h k' = (if k' = k then [] else h k')"
  by (simp add: hdel_def)

lemma empty_header_apply [http_simps, simp]: "empty_header k = []"
  by (simp add: empty_header_def)

subsection \<open>Requests\<close>

text \<open>
  The body of a request as the form parser sees it, by its media type: URL-encoded bytes, a
  multipart form (its bytes, and its fields in the order of the reader), a body that cannot be read
  or is too large (the parser reports an error), or anything else.
\<close>

datatype body =
    UrlencodedBody string
  | MultipartBody string url_values
  | UnreadableBody
  | OtherBody string

record request =
  r_method :: string
  r_url :: url
  r_header :: header
  r_host :: string
  r_remote_addr :: string
  r_tls :: bool
  r_body :: body

subsection \<open>Forms\<close>

text \<open>
  \<open>r.Form\<close> is \<open>None\<close> until it is parsed. \<open>ParseForm\<close> reads the body for POST, PUT and PATCH only;
  body values come before query values. It parses once: a second call finds the form there and
  reports no error. The result is the form and whether there was an error.
\<close>

type_synonym form = "url_values option"

definition parse_post_form :: "request \<Rightarrow> url_values \<times> bool" where
  "parse_post_form r =
     (if List.member [''POST'', ''PUT'', ''PATCH''] (r_method r) then
        (case r_body r of
           UrlencodedBody b \<Rightarrow> parse_query b
         | MultipartBody _ _ \<Rightarrow> ([], False)
         | UnreadableBody \<Rightarrow> ([], True)
         | OtherBody _ \<Rightarrow> ([], False))
      else ([], False))"

definition parse_form :: "request \<Rightarrow> form \<Rightarrow> form \<times> bool" where
  "parse_form r f =
     (case f of
        Some _ \<Rightarrow> (f, False)
      | None \<Rightarrow>
          (case (parse_post_form r, parse_query (u_raw_query (r_url r))) of
             ((pv, perr), (qv, qerr)) \<Rightarrow> (Some (pv @ qv), perr \<or> qerr)))"

text \<open>
  \<open>FormValue\<close> parses the form if that has not been done, this time with the fields of a multipart
  body, which come after the query values; it ignores the errors.
\<close>

definition parse_multipart_form :: "request \<Rightarrow> form \<Rightarrow> form" where
  "parse_multipart_form r f =
     (case f of
        Some _ \<Rightarrow> f
      | None \<Rightarrow>
          map_option (\<lambda>vs. vs @ (case r_body r of MultipartBody _ mv \<Rightarrow> mv | _ \<Rightarrow> []))
            (fst (parse_form r None)))"

definition form_value :: "request \<Rightarrow> string \<Rightarrow> form \<Rightarrow> string \<times> form" where
  "form_value r k f =
     (let f' = parse_multipart_form r f
      in (case f' of Some vs \<Rightarrow> values_get vs k | None \<Rightarrow> [], f'))"

subsection \<open>Cookies of a request\<close>

definition is_token_char :: "char \<Rightarrow> bool" where
  "is_token_char c \<longleftrightarrow>
     is_alpha c \<or> is_digit c \<or> List.member ''!#$%&*+-.^_|~'' c \<or> c = CHR 0x27 \<or> c = CHR 0x60"

definition is_token :: "string \<Rightarrow> bool" where
  "is_token s \<longleftrightarrow> s \<noteq> [] \<and> list_all is_token_char s"

definition valid_cookie_value_byte :: "char \<Rightarrow> bool" where
  "valid_cookie_value_byte c \<longleftrightarrow>
     CHR 0x20 \<le> c \<and> c < CHR 0x7F \<and> c \<noteq> CHR 0x22 \<and> c \<noteq> CHR '';'' \<and> c \<noteq> CHR 0x5C"

text \<open>\<open>textproto.TrimString\<close>: only blanks, tabs and line ends.\<close>

definition http_space :: "char \<Rightarrow> bool" where
  "http_space c \<longleftrightarrow> List.member [CHR 0x20, CHR 0x09, CHR 0x0A, CHR 0x0D] c"

definition trim_string :: "string \<Rightarrow> string" where
  "trim_string s = rev (dropWhile http_space (rev (dropWhile http_space s)))"

definition unquote :: "string \<Rightarrow> string" where
  "unquote v =
     (if length v > 1 \<and> hd v = CHR 0x22 \<and> last v = CHR 0x22 then butlast (tl v) else v)"

text \<open>One \<open>name=value\<close> part of a \<open>Cookie\<close> line; \<open>None\<close> for a part that is skipped.\<close>

definition read_cookie_part :: "string \<Rightarrow> key_value option" where
  "read_cookie_part part0 =
     (let part = trim_string part0 in
      if part = [] then None
      else
        (case cut CHR ''='' part of
           (n, v, _) \<Rightarrow>
             (let name = trim_string n; val = unquote v in
              if is_token name \<and> list_all valid_cookie_value_byte val then Some (name, val)
              else None)))"

definition read_cookie_line :: "string \<Rightarrow> key_value list" where
  "read_cookie_line line = List.map_filter read_cookie_part (split_on CHR '';'' (trim_string line))"

text \<open>\<open>r.Cookies()\<close>, and \<open>r.Cookie(name)\<close>, which is the first cookie of that name.\<close>

definition r_cookies :: "request \<Rightarrow> key_value list" where
  "r_cookies r = concat (map read_cookie_line (r_header r ''Cookie''))"

definition r_cookie :: "request \<Rightarrow> string \<Rightarrow> string option" where
  "r_cookie r name = map_of (r_cookies r) name"

subsection \<open>Writing cookies\<close>

datatype same_site = SameSiteDefault | SameSiteLax | SameSiteStrict | SameSiteNone

text \<open>The fields of \<open>http.Cookie\<close> that the gateway sets.\<close>

record cookie =
  c_name :: string
  c_value :: string
  c_path :: string
  c_max_age :: int
  c_secure :: bool
  c_http_only :: bool
  c_same_site :: same_site

text \<open>Decimal notation of a number (\<open>strconv.Itoa\<close>).\<close>

fun nat_decimal :: "nat \<Rightarrow> string" where
  "nat_decimal n =
     (if n < 10 then [char_of (48 + n)] else nat_decimal (n div 10) @ [char_of (48 + n mod 10)])"

declare nat_decimal.simps [simp del]

definition int_decimal :: "int \<Rightarrow> string" where
  "int_decimal n = (if n < 0 then ''-'' @ nat_decimal (nat (- n)) else nat_decimal (nat n))"

definition sanitize_cookie_value :: "string \<Rightarrow> string" where
  "sanitize_cookie_value v0 =
     (let v = filter valid_cookie_value_byte v0 in
      if v = [] then []
      else if contains_any v '' ,'' then CHR 0x22 # v @ [CHR 0x22]
      else v)"

definition valid_cookie_path_byte :: "char \<Rightarrow> bool" where
  "valid_cookie_path_byte c \<longleftrightarrow> CHR 0x20 \<le> c \<and> c < CHR 0x7F \<and> c \<noteq> CHR '';''"

definition cookie_string :: "cookie \<Rightarrow> string" where
  "cookie_string c =
     (if \<not> is_token (c_name c) then []
      else
        c_name c @ ''='' @ sanitize_cookie_value (c_value c)
        @ (if c_path c \<noteq> [] then ''; Path='' @ filter valid_cookie_path_byte (c_path c) else [])
        @ (if c_max_age c > 0 then ''; Max-Age='' @ int_decimal (c_max_age c)
           else if c_max_age c < 0 then ''; Max-Age=0'' else [])
        @ (if c_http_only c then ''; HttpOnly'' else [])
        @ (if c_secure c then ''; Secure'' else [])
        @ (case c_same_site c of
             SameSiteDefault \<Rightarrow> []
           | SameSiteNone \<Rightarrow> ''; SameSite=None''
           | SameSiteLax \<Rightarrow> ''; SameSite=Lax''
           | SameSiteStrict \<Rightarrow> ''; SameSite=Strict''))"

subsection \<open>The response writer\<close>

text \<open>
  \<open>w_sent\<close> is the status and the header block as they went out: later calls of \<open>WriteHeader\<close> and
  later changes of the header map have no effect on them. \<open>w_recorded\<close> is the status that the
  gateway's \<open>statusRecorder\<close> notes, which every \<open>WriteHeader\<close> call overwrites.
\<close>

record response =
  w_header :: header
  w_sent :: "(nat \<times> header) option"
  w_body :: string
  w_recorded :: nat

definition new_response :: response where
  "new_response = \<lparr>w_header = empty_header, w_sent = None, w_body = [], w_recorded = 200\<rparr>"

definition write_header :: "nat \<Rightarrow> response \<Rightarrow> response" where
  "write_header code w =
     w\<lparr>w_recorded := code,
       w_sent := (case w_sent w of None \<Rightarrow> Some (code, w_header w) | Some s \<Rightarrow> Some s)\<rparr>"

definition write_body :: "string \<Rightarrow> response \<Rightarrow> response" where
  "write_body b w =
     w\<lparr>w_sent := (case w_sent w of None \<Rightarrow> Some (200, w_header w) | Some s \<Rightarrow> Some s),
       w_body := w_body w @ b\<rparr>"

definition set_cookie :: "cookie \<Rightarrow> response \<Rightarrow> response" where
  "set_cookie c w =
     (if cookie_string c = [] then w
      else w\<lparr>w_header := hadd ''Set-Cookie'' (cookie_string c) (w_header w)\<rparr>)"

definition newline :: string where
  "newline = [CHR 0x0A]"

definition http_error :: "string \<Rightarrow> nat \<Rightarrow> response \<Rightarrow> response" where
  "http_error msg code w =
     write_body (msg @ newline)
       (write_header code
         (w\<lparr>w_header :=
              hset ''X-Content-Type-Options'' ''nosniff''
                (hset ''Content-Type'' ''text/plain; charset=utf-8''
                  (hdel ''Content-Length'' (w_header w)))\<rparr>))"

definition not_found :: "response \<Rightarrow> response" where
  "not_found w = http_error ''404 page not found'' 404 w"

subsection \<open>Redirects\<close>

text \<open>The location that \<open>http.Redirect\<close> computes for a request with path \<open>oldpath\<close>.\<close>

definition clean_keeping_slash :: "string \<Rightarrow> string" where
  "clean_keeping_slash p =
     (let c = path_clean p
      in if suffix ''/'' p \<and> \<not> suffix ''/'' c then c @ ''/'' else c)"

definition redirect_location :: "string \<Rightarrow> string \<Rightarrow> string" where
  "redirect_location oldpath0 target =
     (case url_parse target of
        None \<Rightarrow> target
      | Some u \<Rightarrow>
          if u_scheme u \<noteq> [] then target
          else
            (let oldpath = (if oldpath0 = [] then ''/'' else oldpath0);
                 absolute = (if prefix ''/'' target then target else path_dir oldpath @ target)
             in case cut CHR ''?'' absolute of
                  (p, q, found) \<Rightarrow>
                    clean_keeping_slash p @ (if found then ''?'' @ q else [])))"

text \<open>Bytes beyond ASCII are percent-encoded in the \<open>Location\<close> header, with lower-case digits.\<close>

definition lowerhex :: "nat \<Rightarrow> char" where
  "lowerhex n = (if n < 16 then ''0123456789abcdef'' ! n else CHR ''0'')"

definition hex_escape_non_ascii :: "string \<Rightarrow> string" where
  "hex_escape_non_ascii s =
     concat (map (\<lambda>c. if CHR 0x80 \<le> c
                      then [CHR 0x25, lowerhex (of_char c div 16), lowerhex (of_char c mod 16)]
                      else [c]) s)"

definition html_escape :: "string \<Rightarrow> string" where
  "html_escape s =
     concat (map (\<lambda>c. if c = CHR ''&'' then ''&amp;'' else if c = CHR ''<'' then ''&lt;''
                      else if c = CHR ''>'' then ''&gt;'' else if c = CHR 0x22 then ''&#34;''
                      else if c = CHR 0x27 then ''&#39;'' else [c]) s)"

text \<open>\<open>http.Redirect\<close> with status 302, the only one the gateway uses.\<close>

definition redirect_found :: "request \<Rightarrow> string \<Rightarrow> response \<Rightarrow> response" where
  "redirect_found r target w =
     (let loc = redirect_location (u_path (r_url r)) target;
          had_ct = w_header w ''Content-Type'' \<noteq> [];
          h = hset ''Location'' (hex_escape_non_ascii loc) (w_header w);
          h' = (if \<not> had_ct \<and> (r_method r = ''GET'' \<or> r_method r = ''HEAD'')
                then hset ''Content-Type'' ''text/html; charset=utf-8'' h else h);
          w' = write_header 302 (w\<lparr>w_header := h'\<rparr>)
      in if \<not> had_ct \<and> r_method r = ''GET''
         then write_body (''<a href='' @ [CHR 0x22] @ html_escape loc @ [CHR 0x22] @ ''>Found</a>.''
                          @ newline @ newline) w'
         else w')"

end
