(* ===== verification/Cookies.thy ===== *)
theory Cookies
  imports Go_Http
begin

text \<open>
  \<open>src/internal/security/cookie.go\<close>: the gateway's own cookies, the rewriting of the
  \<open>Set-Cookie\<close> headers that n8n sends, and the \<open>Cookie\<close> header that is passed on to n8n.
\<close>

definition ProxySessionCookieName :: string where
  "ProxySessionCookieName = ''__Host-n8np_session''"

definition InsecureProxySessionCookieName :: string where
  "InsecureProxySessionCookieName = ''n8np_session''"

definition N8NBridgeCookieName :: string where
  "N8NBridgeCookieName = ''n8np_n8n_bridge''"

definition ProxySessionCookieNameForSecure :: "bool \<Rightarrow> string" where
  "ProxySessionCookieNameForSecure secure =
     (if secure then ProxySessionCookieName else InsecureProxySessionCookieName)"

definition sameSiteForSessionCookie :: "bool \<Rightarrow> same_site" where
  "sameSiteForSessionCookie secure = (if secure then SameSiteNone else SameSiteLax)"

definition ProxySessionCookie :: "string \<Rightarrow> bool \<Rightarrow> int \<Rightarrow> cookie" where
  "ProxySessionCookie sessionID secure maxAge =
     \<lparr>c_name = ProxySessionCookieNameForSecure secure, c_value = sessionID, c_path = ''/'',
      c_max_age = maxAge, c_secure = secure, c_http_only = True,
      c_same_site = sameSiteForSessionCookie secure\<rparr>"

definition ProxySessionCookies :: "string \<Rightarrow> bool \<Rightarrow> int \<Rightarrow> cookie list" where
  "ProxySessionCookies sessionID secure maxAge =
     [ProxySessionCookie sessionID secure maxAge]
     @ (if secure then
          [\<lparr>c_name = InsecureProxySessionCookieName, c_value = sessionID, c_path = ''/'',
            c_max_age = maxAge, c_secure = True, c_http_only = True,
            c_same_site = sameSiteForSessionCookie secure\<rparr>]
        else [])"

definition ClearProxySessionCookie :: "bool \<Rightarrow> cookie" where
  "ClearProxySessionCookie secure =
     \<lparr>c_name = ProxySessionCookieNameForSecure secure, c_value = [], c_path = ''/'',
      c_max_age = -1, c_secure = secure, c_http_only = True,
      c_same_site = sameSiteForSessionCookie secure\<rparr>"

definition ClearProxySessionCookies :: "bool \<Rightarrow> cookie list" where
  "ClearProxySessionCookies secure =
     [ClearProxySessionCookie secure]
     @ (if secure then
          [\<lparr>c_name = InsecureProxySessionCookieName, c_value = [], c_path = ''/'',
            c_max_age = -1, c_secure = True, c_http_only = True,
            c_same_site = sameSiteForSessionCookie secure\<rparr>]
        else [])
     @ [ClearProxySessionCookie False]"

definition N8NBridgeCookie :: "bool \<Rightarrow> int \<Rightarrow> cookie" where
  "N8NBridgeCookie secure maxAge =
     \<lparr>c_name = N8NBridgeCookieName, c_value = ''1'', c_path = ''/'', c_max_age = maxAge,
      c_secure = secure, c_http_only = True, c_same_site = sameSiteForSessionCookie secure\<rparr>"

definition ClearN8NBridgeCookie :: "bool \<Rightarrow> cookie" where
  "ClearN8NBridgeCookie secure =
     \<lparr>c_name = N8NBridgeCookieName, c_value = [], c_path = ''/'', c_max_age = -1,
      c_secure = secure, c_http_only = True, c_same_site = sameSiteForSessionCookie secure\<rparr>"

definition HasN8NBridgeCookie :: "request \<Rightarrow> bool" where
  "HasN8NBridgeCookie r \<longleftrightarrow> r_cookie r N8NBridgeCookieName = Some ''1''"

subsection \<open>Rewriting Set-Cookie\<close>

text \<open>
  The loop of \<open>splitCookieParts\<close>: \<open>cur\<close> is the part read so far, backwards, and \<open>inExpires\<close> the
  flag of the same name.
\<close>

fun splitCookieLoop :: "string \<Rightarrow> bool \<Rightarrow> string \<Rightarrow> string list" where
  "splitCookieLoop cur inExpires [] = [rev cur]"
| "splitCookieLoop cur inExpires (c # cs) =
     (if c = CHR '';'' then rev cur # splitCookieLoop [] False cs
      else if c = CHR '','' then
        (if inExpires then splitCookieLoop (c # cur) inExpires cs
         else splitCookieLoop (c # cur) inExpires cs)
      else if length cur \<ge> 8 \<and> equal_fold (trim_space (rev (c # cur))) ''expires''
      then splitCookieLoop (c # cur) True cs
      else splitCookieLoop (c # cur) inExpires cs)"

definition splitCookieParts :: "string \<Rightarrow> string list" where
  "splitCookieParts raw = splitCookieLoop [] False raw"

definition sameSiteValue :: "string \<Rightarrow> string" where
  "sameSiteValue attr =
     (case cut CHR ''='' attr of
        (_, _, False) \<Rightarrow> []
      | (_, v, True) \<Rightarrow> to_lower (trim_space v))"

text \<open>The lower-case name of a (trimmed) attribute.\<close>

definition attr_key :: "string \<Rightarrow> string" where
  "attr_key trimmed =
     (case cut CHR ''='' trimmed of
        (_, _, False) \<Rightarrow> to_lower trimmed
      | (k, _, True) \<Rightarrow> to_lower (trim_space k))"

record rewrite_state =
  rs_out :: "string list"
  rs_path :: bool
  rs_secure :: bool
  rs_same_site :: bool

text \<open>One round of the attribute loop of \<open>RewriteSetCookie\<close>.\<close>

definition rewrite_attr :: "bool \<Rightarrow> string \<Rightarrow> rewrite_state \<Rightarrow> rewrite_state" where
  "rewrite_attr forceSecure part st =
     (let trimmed = trim_space part; key = attr_key trimmed; keep = st\<lparr>rs_out := rs_out st @ [trimmed]\<rparr> in
      if trimmed = [] then st
      else if key = ''domain'' then st
      else if key = ''path'' then keep\<lparr>rs_path := True\<rparr>
      else if key = ''secure'' then
        (if \<not> forceSecure then st\<lparr>rs_secure := True\<rparr> else keep\<lparr>rs_secure := True\<rparr>)
      else if key = ''samesite'' then
        (if \<not> forceSecure \<and> sameSiteValue trimmed = ''none''
         then st\<lparr>rs_out := rs_out st @ [''SameSite=Lax''], rs_same_site := True\<rparr>
         else keep\<lparr>rs_same_site := True\<rparr>)
      else keep)"

definition rewrite_parts :: "bool \<Rightarrow> string list \<Rightarrow> string list" where
  "rewrite_parts forceSecure parts =
     (let st = fold (rewrite_attr forceSecure) (tl parts)
                 \<lparr>rs_out = [trim_space (hd parts)], rs_path = False, rs_secure = False,
                  rs_same_site = False\<rparr>
      in rs_out st
         @ (if \<not> rs_path st then [''Path=/''] else [])
         @ (if forceSecure \<and> \<not> rs_secure st then [''Secure''] else [])
         @ (if \<not> rs_same_site st then [''SameSite=Lax''] else []))"

definition RewriteSetCookie :: "string \<Rightarrow> bool \<Rightarrow> string" where
  "RewriteSetCookie raw forceSecure =
     (let parts = splitCookieParts raw in
      if parts = [] then raw else join ''; '' (rewrite_parts forceSecure parts))"

definition RewriteSetCookies :: "bool \<Rightarrow> header \<Rightarrow> header" where
  "RewriteSetCookies forceSecure h =
     (let cookies = h ''Set-Cookie'' in
      if cookies = [] then h
      else fold (\<lambda>c. hadd ''Set-Cookie'' (RewriteSetCookie c forceSecure)) cookies
             (hdel ''Set-Cookie'' h))"

subsection \<open>The Cookie header for n8n\<close>

definition isProxyCookieName :: "string \<Rightarrow> bool" where
  "isProxyCookieName name \<longleftrightarrow>
     List.member [ProxySessionCookieName, InsecureProxySessionCookieName, N8NBridgeCookieName] name"

text \<open>One round of the loop: the map of values and the names in the order they came.\<close>

definition sanitize_part ::
  "string \<Rightarrow> (string \<rightharpoonup> string) \<times> string list \<Rightarrow> (string \<rightharpoonup> string) \<times> string list" where
  "sanitize_part part acc =
     (case acc of (values, order) \<Rightarrow>
        (let trimmed = trim_space part in
         if trimmed = [] then (values, order)
         else
           (case cut CHR ''='' trimmed of
              (before, after, found) \<Rightarrow>
                if \<not> found \<or> before = [] then (values, order)
                else
                  (let name = trim_space before in
                   if isProxyCookieName name then (values, order)
                   else (values(name \<mapsto> trim_space after),
                         if values name = None then order @ [name] else order)))))"

definition SanitizedUpstreamCookieHeader :: "string \<Rightarrow> string" where
  "SanitizedUpstreamCookieHeader raw =
     (case fold sanitize_part (split_on CHR '';'' raw) (Map.empty, []) of
        (values, order) \<Rightarrow> join ''; '' (map (\<lambda>name. name @ ''='' @ the (values name)) order))"

subsection \<open>The tests of \<open>src/internal/security/cookie_test.go\<close>\<close>

lemma RewriteSetCookie_tests:
  "RewriteSetCookie ''n8n-auth=abc; Domain=n8n.internal; Path=/; HttpOnly; SameSite=None'' True
     = ''n8n-auth=abc; Path=/; HttpOnly; SameSite=None; Secure''"
  "RewriteSetCookie ''n8n-auth=abc; Max-Age=60; Priority=High'' True
     = ''n8n-auth=abc; Max-Age=60; Priority=High; Path=/; Secure; SameSite=Lax''"
  "RewriteSetCookie ''n8n-auth=abc; Secure; SameSite=None'' False = ''n8n-auth=abc; SameSite=Lax; Path=/''"
  by code_simp+

lemma SanitizedUpstreamCookieHeader_test:
  "SanitizedUpstreamCookieHeader
     ''__Host-n8np_session=proxy; n8n-auth=stale; n8np_session=proxy; other=1; n8np_n8n_bridge=1; n8n-auth=fresh''
     = ''n8n-auth=fresh; other=1''"
  by code_simp

subsection \<open>Splitting a Set-Cookie header\<close>

lemma splitCookieLoop_split_on:
  "splitCookieLoop cur b s = (rev cur @ hd (split_on CHR '';'' s)) # tl (split_on CHR '';'' s)"
proof (induction cur b s rule: splitCookieLoop.induct)
  case (2 cur b c cs)
  have tl: "splitCookieLoop cur b (c # cs) = (rev cur @ (c # hd (split_on CHR '';'' cs))) # tl (split_on CHR '';'' cs)"
    if "c \<noteq> CHR '';''"
    using that 2
    by (cases "c = CHR '',''"; cases b;
        cases "length cur \<ge> 8 \<and> equal_fold (trim_space (rev (c # cur))) ''expires''") simp_all
  show ?case
  proof (cases "c = CHR '';''")
    case True
    then show ?thesis using 2(1) by simp
  next
    case False
    then show ?thesis using tl by (simp add: list.case_eq_if)
  qed
qed simp

text \<open>
  Property C33. \<open>splitCookieParts\<close>, with its tracking of an \<open>Expires\<close> attribute, splits exactly at the
  semicolons: the flag never changes what is split, so the routine equals \<open>strings.Split(raw, ";")\<close>.
\<close>

theorem splitCookieParts_equals_split: "splitCookieParts raw = split_on CHR '';'' raw"
  by (simp add: splitCookieParts_def splitCookieLoop_split_on)

subsection \<open>The attributes of a rewritten cookie\<close>

text \<open>How a browser reads the attributes of a \<open>Set-Cookie\<close> header: split at semicolons, trimmed.\<close>

definition cookie_pair :: "string \<Rightarrow> string" where
  "cookie_pair s = trim_space (hd (split_on CHR '';'' s))"

definition cookie_attrs :: "string \<Rightarrow> string list" where
  "cookie_attrs s = filter (\<lambda>a. a \<noteq> []) (map trim_space (tl (split_on CHR '';'' s)))"

text \<open>What the loop keeps of one attribute.\<close>

definition kept_attr :: "bool \<Rightarrow> string \<Rightarrow> string list" where
  "kept_attr fs a =
     (if attr_key a = ''domain'' \<or> (attr_key a = ''secure'' \<and> \<not> fs) then []
      else if attr_key a = ''samesite'' \<and> \<not> fs \<and> sameSiteValue a = ''none'' then [''SameSite=Lax'']
      else [a])"

definition kept_attrs :: "bool \<Rightarrow> string list \<Rightarrow> string list" where
  "kept_attrs fs as = concat (map (kept_attr fs) as)"

definition has_key :: "string \<Rightarrow> string list \<Rightarrow> bool" where
  "has_key k as \<longleftrightarrow> list_ex (\<lambda>a. attr_key a = k) as"

definition rewritten_attrs :: "bool \<Rightarrow> string list \<Rightarrow> string list" where
  "rewritten_attrs fs as =
     kept_attrs fs as
     @ (if \<not> has_key ''path'' as then [''Path=/''] else [])
     @ (if fs \<and> \<not> has_key ''secure'' as then [''Secure''] else [])
     @ (if \<not> has_key ''samesite'' as then [''SameSite=Lax''] else [])"

lemma rewrite_attr_blank: "trim_space p = [] \<Longrightarrow> rewrite_attr fs p st = st"
  by (simp add: rewrite_attr_def)

lemma rewrite_attr_step:
  "trim_space p \<noteq> [] \<Longrightarrow> rewrite_attr fs p st =
     \<lparr>rs_out = rs_out st @ kept_attr fs (trim_space p),
      rs_path = (rs_path st \<or> attr_key (trim_space p) = ''path''),
      rs_secure = (rs_secure st \<or> attr_key (trim_space p) = ''secure''),
      rs_same_site = (rs_same_site st \<or> attr_key (trim_space p) = ''samesite'')\<rparr>"
  by (cases st; cases "attr_key (trim_space p) = ''domain''";
      cases "attr_key (trim_space p) = ''path''"; cases "attr_key (trim_space p) = ''secure''";
      cases "attr_key (trim_space p) = ''samesite''"; cases fs)
    (simp_all add: rewrite_attr_def kept_attr_def Let_def)

lemma fold_rewrite_attr:
  "fold (rewrite_attr fs) parts st =
     \<lparr>rs_out = rs_out st @ kept_attrs fs (filter (\<lambda>a. a \<noteq> []) (map trim_space parts)),
      rs_path = (rs_path st \<or> has_key ''path'' (filter (\<lambda>a. a \<noteq> []) (map trim_space parts))),
      rs_secure = (rs_secure st \<or> has_key ''secure'' (filter (\<lambda>a. a \<noteq> []) (map trim_space parts))),
      rs_same_site = (rs_same_site st \<or> has_key ''samesite'' (filter (\<lambda>a. a \<noteq> []) (map trim_space parts)))\<rparr>"
proof (induction parts arbitrary: st)
  case Nil
  show ?case by (cases st) (simp add: kept_attrs_def has_key_def)
next
  case (Cons p ps)
  show ?case
    by (cases "trim_space p = []")
      (simp_all add: Cons.IH rewrite_attr_blank rewrite_attr_step kept_attrs_def has_key_def)
qed

lemma rewrite_parts_split:
  "rewrite_parts fs (split_on CHR '';'' raw) = cookie_pair raw # rewritten_attrs fs (cookie_attrs raw)"
  by (simp add: rewrite_parts_def fold_rewrite_attr Let_def cookie_pair_def cookie_attrs_def
      rewritten_attrs_def)

lemma splitCookieParts_eq: "splitCookieParts raw = split_on CHR '';'' raw"
  by (simp add: splitCookieParts_def splitCookieLoop_split_on)

lemma RewriteSetCookie_eq:
  "RewriteSetCookie raw fs = join ''; '' (cookie_pair raw # rewritten_attrs fs (cookie_attrs raw))"
  by (simp add: RewriteSetCookie_def splitCookieParts_eq rewrite_parts_split)

text \<open>An attribute that a list of attributes read from a header can hold.\<close>

definition clean_attr :: "string \<Rightarrow> bool" where
  "clean_attr a \<longleftrightarrow> a \<noteq> [] \<and> trim_space a = a \<and> CHR '';'' \<notin> set a"

lemma clean_attr_cookie_attrs: "a \<in> set (cookie_attrs s) \<Longrightarrow> clean_attr a"
proof -
  assume "a \<in> set (cookie_attrs s)"
  then obtain p where p: "p \<in> set (split_on CHR '';'' s)" and a: "a = trim_space p" "a \<noteq> []"
    by (auto simp: cookie_attrs_def dest: list.set_sel(2) [rotated])
  have "CHR '';'' \<notin> set p" using p by (rule split_on_no_sep)
  then show ?thesis using a by (simp add: clean_attr_def trim_space_notin)
qed

lemma clean_attr_consts: "clean_attr ''Path=/''" "clean_attr ''Secure''" "clean_attr ''SameSite=Lax''"
  unfolding clean_attr_def by code_simp+

lemma clean_attr_rewritten:
  assumes "\<And>a. a \<in> set as \<Longrightarrow> clean_attr a"
  shows "a \<in> set (rewritten_attrs fs as) \<Longrightarrow> clean_attr a"
  using assms clean_attr_consts
  by (auto simp: rewritten_attrs_def kept_attrs_def kept_attr_def split: if_splits)

lemma cookie_pair_no_semicolon: "CHR '';'' \<notin> set (cookie_pair s)"
  unfolding cookie_pair_def
  by (rule trim_space_notin, rule split_on_no_sep, rule hd_in_set, rule split_on_neq_Nil)

text \<open>Reading a header that was put together from a pair and clean attributes gives them back.\<close>

lemma read_joined_cookie:
  assumes "\<And>a. a \<in> set as \<Longrightarrow> clean_attr a" and "CHR '';'' \<notin> set p" and "trim_space p = p"
  shows "cookie_pair (join ''; '' (p # as)) = p" and "cookie_attrs (join ''; '' (p # as)) = as"
proof -
  have s: "split_on CHR '';'' (join ''; '' (p # as)) = p # map (\<lambda>q. CHR 0x20 # q) as"
    using assms by (subst split_on_join2) (auto simp: clean_attr_def)
  show "cookie_pair (join ''; '' (p # as)) = p" by (simp add: cookie_pair_def s assms(3))
  have "map trim_space (map (\<lambda>q. CHR 0x20 # q) as) = as"
    using assms(1) by (induction as) (auto simp: clean_attr_def)
  then show "cookie_attrs (join ''; '' (p # as)) = as"
    using assms(1) by (auto simp: cookie_attrs_def s clean_attr_def filter_id_conv)
qed

lemma read_rewritten_cookie:
  "cookie_pair (RewriteSetCookie raw fs) = cookie_pair raw"
  "cookie_attrs (RewriteSetCookie raw fs) = rewritten_attrs fs (cookie_attrs raw)"
  unfolding RewriteSetCookie_eq
  using read_joined_cookie [of "rewritten_attrs fs (cookie_attrs raw)" "cookie_pair raw"]
    clean_attr_rewritten [OF clean_attr_cookie_attrs] cookie_pair_no_semicolon
  by (auto simp: cookie_pair_def)

definition plain_attr :: "string \<Rightarrow> bool" where
  "plain_attr a \<longleftrightarrow> \<not> List.member [''domain'', ''path'', ''secure'', ''samesite''] (attr_key a)"

definition cross_site_attr :: "string \<Rightarrow> bool" where
  "cross_site_attr a \<longleftrightarrow> attr_key a = ''samesite'' \<and> sameSiteValue a = ''none''"

lemma attr_key_consts [simp]:
  "attr_key ''Path=/'' = ''path''" "attr_key ''Secure'' = ''secure''"
  "attr_key ''SameSite=Lax'' = ''samesite''" "sameSiteValue ''SameSite=Lax'' = ''lax''"
  by code_simp+

lemma list_ex_kept:
  "list_ex P (kept_attrs fs as) = list_ex (\<lambda>a. list_ex P (kept_attr fs a)) as"
  by (induction as) (auto simp: kept_attrs_def)

lemma list_ex_const: "list_ex (\<lambda>a. False) as = False"
  by (induction as) auto

lemma kept_attr_keys:
  "list_ex (\<lambda>b. attr_key b = ''domain'') (kept_attr fs a) = False"
  "list_ex (\<lambda>b. attr_key b = ''path'') (kept_attr fs a) = (attr_key a = ''path'')"
  "list_ex (\<lambda>b. attr_key b = ''secure'') (kept_attr fs a) = (fs \<and> attr_key a = ''secure'')"
  "list_ex (\<lambda>b. attr_key b = ''samesite'') (kept_attr fs a) = (attr_key a = ''samesite'')"
  "list_ex cross_site_attr (kept_attr fs a) = (fs \<and> cross_site_attr a)"
  "filter plain_attr (kept_attr fs a) = filter plain_attr [a]"
  by (auto simp: kept_attr_def cross_site_attr_def plain_attr_def)

lemma kept_attrs_keys:
  "has_key ''domain'' (kept_attrs fs as) = False"
  "has_key ''path'' (kept_attrs fs as) = has_key ''path'' as"
  "has_key ''secure'' (kept_attrs fs as) = (fs \<and> has_key ''secure'' as)"
  "has_key ''samesite'' (kept_attrs fs as) = has_key ''samesite'' as"
  "list_ex cross_site_attr (kept_attrs fs as) = (fs \<and> list_ex cross_site_attr as)"
  by (cases fs; simp add: has_key_def list_ex_kept kept_attr_keys list_ex_const)+

lemma filter_plain_kept: "filter plain_attr (kept_attrs fs as) = filter plain_attr as"
  by (induction as) (simp_all add: kept_attrs_def kept_attr_keys)

lemma has_key_append [simp]: "has_key k (as @ bs) \<longleftrightarrow> has_key k as \<or> has_key k bs"
  by (simp add: has_key_def)

lemma rewritten_attrs_keys:
  "has_key ''domain'' (rewritten_attrs fs as) = False"
  "has_key ''path'' (rewritten_attrs fs as) = True"
  "has_key ''secure'' (rewritten_attrs fs as) = fs"
  "has_key ''samesite'' (rewritten_attrs fs as) = True"
  "list_ex cross_site_attr (rewritten_attrs fs as) = (fs \<and> list_ex cross_site_attr as)"
  "filter plain_attr (rewritten_attrs fs as) = filter plain_attr as"
  unfolding rewritten_attrs_def
  by (simp_all add: kept_attrs_keys filter_plain_kept)
    (auto simp: has_key_def cross_site_attr_def plain_attr_def)

text \<open>
  Property C32. Whatever \<open>Set-Cookie\<close> line n8n sends, the rewritten line, read as a browser reads it,
  carries the same name and value, no \<open>Domain\<close>, a \<open>Path\<close> and a \<open>SameSite\<close>; it is \<open>Secure\<close> exactly
  when the gateway is served over https; \<open>SameSite=None\<close> survives only there; and every other
  attribute (\<open>Expires\<close>, \<open>Max-Age\<close>, \<open>HttpOnly\<close>, \<open>Priority\<close>, ...) is kept, in order.
\<close>

theorem RewriteSetCookie_attributes:
  "cookie_pair (RewriteSetCookie raw fs) = cookie_pair raw
   \<and> \<not> has_key ''domain'' (cookie_attrs (RewriteSetCookie raw fs))
   \<and> has_key ''path'' (cookie_attrs (RewriteSetCookie raw fs))
   \<and> has_key ''samesite'' (cookie_attrs (RewriteSetCookie raw fs))
   \<and> has_key ''secure'' (cookie_attrs (RewriteSetCookie raw fs)) = fs
   \<and> list_ex cross_site_attr (cookie_attrs (RewriteSetCookie raw fs))
       = (fs \<and> list_ex cross_site_attr (cookie_attrs raw))
   \<and> filter plain_attr (cookie_attrs (RewriteSetCookie raw fs)) = filter plain_attr (cookie_attrs raw)"
  unfolding read_rewritten_cookie rewritten_attrs_keys by simp

lemma kept_attr_stable:
  "b \<in> set (kept_attr fs a) \<Longrightarrow> kept_attr fs b = [b]"
  by (auto simp: kept_attr_def split: if_splits)

lemma kept_attrs_idem: "kept_attrs fs (kept_attrs fs as) = kept_attrs fs as"
proof -
  have "concat (map (kept_attr fs) bs) = bs" if "\<And>b. b \<in> set bs \<Longrightarrow> kept_attr fs b = [b]" for bs
    using that by (induction bs) simp_all
  moreover have "kept_attr fs b = [b]" if "b \<in> set (kept_attrs fs as)" for b
    using that kept_attr_stable by (auto simp: kept_attrs_def)
  ultimately show ?thesis by (metis kept_attrs_def)
qed

lemma kept_attrs_append: "kept_attrs fs (as @ bs) = kept_attrs fs as @ kept_attrs fs bs"
  by (simp add: kept_attrs_def)

lemma rewritten_attrs_idem: "rewritten_attrs fs (rewritten_attrs fs as) = rewritten_attrs fs as"
proof -
  have "kept_attrs fs (rewritten_attrs fs as) = rewritten_attrs fs as"
    unfolding rewritten_attrs_def kept_attrs_append kept_attrs_idem
    by (simp add: kept_attrs_def kept_attr_def)
  moreover have "rewritten_attrs fs bs = kept_attrs fs bs"
    if "has_key ''path'' bs" "has_key ''secure'' bs = fs" "has_key ''samesite'' bs" for bs
    using that by (simp add: rewritten_attrs_def)
  ultimately show ?thesis by (metis rewritten_attrs_keys(2,3,4))
qed

text \<open>
  Rewriting a \<open>Set-Cookie\<close> line twice is rewriting it once, so a response that passes
  through two such gateways carries the same cookies.
\<close>

theorem RewriteSetCookie_idem:
  "RewriteSetCookie (RewriteSetCookie raw fs) fs = RewriteSetCookie raw fs"
  by (simp add: RewriteSetCookie_eq [of "RewriteSetCookie raw fs"] read_rewritten_cookie
      rewritten_attrs_idem) (simp add: RewriteSetCookie_eq)

subsection \<open>The Cookie header that n8n gets\<close>

text \<open>
  The cookies of a \<open>Cookie\<close> header that are not the gateway's, in order, repetitions included.
\<close>

definition cookie_entry :: "string \<Rightarrow> key_value option" where
  "cookie_entry part =
     (case cut CHR ''='' (trim_space part) of
        (n, v, found) \<Rightarrow>
          if found \<and> n \<noteq> [] \<and> \<not> isProxyCookieName (trim_space n)
          then Some (trim_space n, trim_space v) else None)"

definition upstream_cookies :: "string \<Rightarrow> key_value list" where
  "upstream_cookies raw = List.map_filter cookie_entry (split_on CHR '';'' raw)"

lemma sanitize_part_entry:
  "sanitize_part part (values, order) =
     (case cookie_entry part of
        None \<Rightarrow> (values, order)
      | Some (n, v) \<Rightarrow> (values(n \<mapsto> v), if values n = None then order @ [n] else order))"
  by (cases "trim_space part = []")
    (auto simp: sanitize_part_def cookie_entry_def Let_def cut_def split: prod.splits)

lemma fold_sanitize_part:
  "fold sanitize_part parts (values, order) =
     (values ++ map_of (rev (List.map_filter cookie_entry parts)),
      order @ filter (\<lambda>n. values n = None) (dedup (map fst (List.map_filter cookie_entry parts))))"
proof (induction parts arbitrary: "values" order)
  case (Cons p ps)
  show ?case
  proof (cases "cookie_entry p")
    case None
    then show ?thesis by (simp add: sanitize_part_entry Cons.IH)
  next
    case (Some e)
    obtain n v where e: "e = (n, v)" by (cases e)
    have order: "(if values n = None then order @ [n] else order)
          @ filter (\<lambda>m. (values(n \<mapsto> v)) m = None) ns
        = order @ filter (\<lambda>m. values m = None) (n # filter (\<lambda>m. m \<noteq> n) ns)" for ns
      by (auto simp: fun_upd_def intro!: filter_cong)
    have "fold sanitize_part (p # ps) (values, order)
        = fold sanitize_part ps (values(n \<mapsto> v), if values n = None then order @ [n] else order)"
      by (simp add: sanitize_part_entry Some e)
    also have "\<dots> = (values(n \<mapsto> v) ++ map_of (rev (List.map_filter cookie_entry ps)),
        order @ filter (\<lambda>m. values m = None)
          (n # filter (\<lambda>m. m \<noteq> n) (dedup (map fst (List.map_filter cookie_entry ps)))))"
      by (simp only: Cons.IH order)
    finally show ?thesis
      by (simp add: Some e)
  qed
qed simp

text \<open>
  Property C34. The header for n8n lists every cookie name that is not the gateway's exactly once, in
  the order of first occurrence, with the value of its last occurrence.
\<close>

theorem SanitizedUpstreamCookieHeader_spec:
  "SanitizedUpstreamCookieHeader raw =
     join ''; '' (map (\<lambda>n. n @ ''='' @ the (map_of (rev (upstream_cookies raw)) n))
       (dedup (map fst (upstream_cookies raw))))"
  by (simp add: SanitizedUpstreamCookieHeader_def fold_sanitize_part upstream_cookies_def)

lemma trim_string_fixed:
  assumes "s \<noteq> []" and "\<not> http_space (hd s)" and "\<not> http_space (last s)"
  shows "trim_string s = s"
proof -
  have 1: "dropWhile http_space s = s" using assms(1,2) by (cases s) auto
  have 2: "dropWhile http_space (rev s) = rev s"
    using assms(1,3) by (cases s rule: rev_cases) auto
  show ?thesis by (simp add: trim_string_def 1 2)
qed

lemma http_space_ascii: "http_space c \<Longrightarrow> ascii_space c"
  by (auto simp: http_space_def ascii_space_def)

lemma trim_space_ends:
  assumes "trim_space s \<noteq> []"
  shows "\<not> http_space (hd (trim_space s))" and "\<not> http_space (last (trim_space s))"
proof -
  obtain c cs where 1: "trim_space s = c # cs" using assms by (cases "trim_space s") auto
  then show "\<not> http_space (hd (trim_space s))" using trim_space_hd http_space_ascii by fastforce
  obtain d ds where 2: "trim_space s = ds @ [d]" using assms by (cases "trim_space s" rule: rev_cases) auto
  then show "\<not> http_space (last (trim_space s))" using trim_space_last http_space_ascii by fastforce
qed

definition sent_entry :: "key_value \<Rightarrow> bool" where
  "sent_entry e \<longleftrightarrow>
     fst e \<noteq> [] \<and> trim_space (fst e) = fst e \<and> trim_space (snd e) = snd e
     \<and> CHR ''='' \<notin> set (fst e) \<and> CHR '';'' \<notin> set (fst e) \<and> CHR '';'' \<notin> set (snd e)
     \<and> \<not> isProxyCookieName (fst e)"

abbreviation show_entry :: "key_value \<Rightarrow> string" where
  "show_entry e \<equiv> fst e @ ''='' @ snd e"

lemma show_entry_ends:
  assumes "sent_entry e"
  shows "\<not> http_space (hd (show_entry e))" and "\<not> http_space (last (show_entry e))"
proof -
  show "\<not> http_space (hd (show_entry e))"
    using assms trim_space_ends(1) [of "fst e"] by (auto simp: sent_entry_def)
  show "\<not> http_space (last (show_entry e))"
  proof (cases "snd e = []")
    case True
    then show ?thesis by (simp add: http_space_def)
  next
    case False
    then show ?thesis using assms trim_space_ends(2) [of "snd e"] by (auto simp: sent_entry_def)
  qed
qed

lemma show_entry_trim: "sent_entry e \<Longrightarrow> trim_string (show_entry e) = show_entry e"
  by (rule trim_string_fixed [OF _ show_entry_ends]) simp_all

lemma trim_string_blank: "trim_string (CHR 0x20 # s) = trim_string s"
  by (simp add: trim_string_def http_space_def)

lemma read_sent_entry:
  assumes "sent_entry e" and "read_cookie_part p = Some (n, v)"
    and "p = show_entry e \<or> p = CHR 0x20 # show_entry e"
  shows "\<not> isProxyCookieName n"
proof -
  have t: "trim_string p = show_entry e"
    using assms(1,3) by (auto simp: show_entry_trim trim_string_blank simp del: append_Cons)
  have "cut CHR ''='' (show_entry e) = (fst e, snd e, True)"
    using assms(1) cut_append [of "CHR ''=''" "fst e" "snd e"] by (simp add: sent_entry_def)
  moreover have "trim_string (fst e) = fst e"
    using assms(1) trim_space_ends [of "fst e"] by (intro trim_string_fixed) (auto simp: sent_entry_def)
  ultimately have "n = fst e"
    using assms(2) by (auto simp: read_cookie_part_def t Let_def split: if_splits)
  then show ?thesis using assms(1) by (simp add: sent_entry_def)
qed

lemma upstream_cookies_sent: "e \<in> set (upstream_cookies raw) \<Longrightarrow> sent_entry e"
proof -
  assume "e \<in> set (upstream_cookies raw)"
  then obtain p where p: "p \<in> set (split_on CHR '';'' raw)" "cookie_entry p = Some e"
    by (auto simp: upstream_cookies_def List.map_filter_def)
  then obtain n v where c: "cut CHR ''='' (trim_space p) = (n, v, True)" "n \<noteq> []"
      "\<not> isProxyCookieName (trim_space n)" and e: "e = (trim_space n, trim_space v)"
    by (auto simp: cookie_entry_def split: prod.splits if_splits)
  have q: "CHR ''='' \<notin> set n" "trim_space p = n @ CHR ''='' # v" using cut_eq [OF c(1)] by auto
  have "CHR '';'' \<notin> set (trim_space p)" using split_on_no_sep [OF p(1)] by (rule trim_space_notin)
  then have sc: "CHR '';'' \<notin> set n" "CHR '';'' \<notin> set v" by (auto simp: q(2))
  have "trim_left n = n"
    using trim_left_by_fixed_prefix [of unicode_spaces "trim_space p" n] trim_left_trim_space [of p]
    by (simp add: q(2) trim_left_def)
  then have "trim_space n \<noteq> []" using c(2) by (rule trim_space_neq_Nil)
  then show "sent_entry e"
    using c q sc by (simp add: sent_entry_def e trim_space_notin)
qed

lemma map_of_rev_sent:
  assumes "n \<in> fst ` set es" and "\<And>e. e \<in> set es \<Longrightarrow> sent_entry e"
  shows "sent_entry (n, the (map_of (rev es) n))"
proof -
  from assms(1) obtain v where "map_of (rev es) n = Some v"
    by (metis map_of_eq_None_iff not_None_eq set_rev)
  then have "(n, v) \<in> set es" using map_of_SomeD by fastforce
  then show ?thesis using assms(2) \<open>map_of (rev es) n = Some v\<close> by simp
qed

lemma join_ends:
  assumes "ps \<noteq> []" and "\<And>p. p \<in> set ps \<Longrightarrow> p \<noteq> []"
  shows "join sep ps \<noteq> [] \<and> hd (join sep ps) = hd (hd ps) \<and> last (join sep ps) = last (last ps)"
  using assms by (induction sep ps rule: join.induct) (auto simp: hd_append last_append)

lemma read_sent_entries:
  assumes "\<And>e. e \<in> set es \<Longrightarrow> sent_entry e"
  shows "\<not> list_ex isProxyCookieName (map fst (read_cookie_line (join ''; '' (map show_entry es))))"
proof (cases "es = []")
  case True
  then show ?thesis by (simp add: read_cookie_line_def trim_string_def read_cookie_part_def)
next
  case False
  let ?ps = "map show_entry es"
  have ends: "show_entry e \<noteq> []" "\<not> http_space (hd (show_entry e))" "\<not> http_space (last (show_entry e))"
    if "e \<in> set es" for e
    using show_entry_ends [OF assms [OF that]] by simp_all
  have ne: "p \<noteq> []" if "p \<in> set ?ps" for p using that by auto
  have "trim_string (join ''; '' ?ps) = join ''; '' ?ps"
    using False join_ends [of ?ps "''; ''", OF _ ne] ends [of "hd es"] ends [of "last es"]
    by (intro trim_string_fixed) (simp_all add: hd_map last_map)
  moreover have "split_on CHR '';'' (join ''; '' ?ps) = hd ?ps # map (\<lambda>p. CHR 0x20 # p) (tl ?ps)"
    using False assms by (intro split_on_join2) (auto simp: sent_entry_def)
  moreover have "\<not> isProxyCookieName n"
    if "p \<in> set (hd ?ps # map (\<lambda>p. CHR 0x20 # p) (tl ?ps))" "read_cookie_part p = Some (n, v)" for p n v
  proof -
    from that(1) False obtain e where "e \<in> set es" "p = show_entry e \<or> p = CHR 0x20 # show_entry e"
      by (cases es) auto
    then show ?thesis using read_sent_entry that(2) assms by blast
  qed
  ultimately show ?thesis
    by (simp only: read_cookie_line_def) (rule no_key_in_map_filter)
qed

text \<open>
  The gateway's own session and bridge cookies never reach n8n: no cookie that a Go
  server reads out of the header made by \<open>SanitizedUpstreamCookieHeader\<close> has one of the three names,
  whatever header the browser sent.
\<close>

lemma gateway_cookies_removed:
  "\<not> list_ex isProxyCookieName (map fst (read_cookie_line (SanitizedUpstreamCookieHeader raw)))"
proof -
  let ?es = "map (\<lambda>n. (n, the (map_of (rev (upstream_cookies raw)) n))) (dedup (map fst (upstream_cookies raw)))"
  have "sent_entry e" if "e \<in> set ?es" for e
  proof -
    from that obtain n where "n \<in> fst ` set (upstream_cookies raw)"
      and e: "e = (n, the (map_of (rev (upstream_cookies raw)) n))" by auto
    then show ?thesis unfolding e using map_of_rev_sent upstream_cookies_sent by blast
  qed
  then show ?thesis
    using read_sent_entries [of ?es]
    by (simp add: SanitizedUpstreamCookieHeader_def fold_sanitize_part upstream_cookies_def comp_def)
qed

end
