(* ===== verification/Return_Url.thy ===== *)
theory Return_Url
  imports Go_Http Routes
begin

text \<open>
  Where the browser may be sent after a login: \<open>ValidReturnTo\<close> of
  \<open>src/internal/security/return_url.go\<close> and the functions of \<open>src/internal/httpserver/server.go\<close>
  that use it (\<open>safeReturnTo\<close>, \<open>isForbiddenReturnPath\<close>, \<open>validNativeReturnTo\<close>,
  \<open>validRefererReturnTo\<close>, \<open>nativeLoginReturnTo\<close>, and the target of \<open>redirectToLogin\<close>).
\<close>

definition ValidReturnTo :: "string \<Rightarrow> bool" where
  "ValidReturnTo value =
     (if value = [] then False
      else if contains_any value [CHR 0x00, CHR 0x0D, CHR 0x0A, CHR 0x09] then False
      else if prefix ''//'' value \<or> prefix [CHR ''/'', CHR 0x5C] value then False
      else
        (case url_parse value of
           None \<Rightarrow> False
         | Some parsed \<Rightarrow>
             if is_abs parsed \<or> u_host parsed \<noteq> [] then False
             else prefix ''/'' (u_path parsed)))"

definition isForbiddenReturnPath :: "string \<Rightarrow> bool" where
  "isForbiddenReturnPath value =
     (case url_parse value of
        None \<Rightarrow> True
      | Some parsed \<Rightarrow>
          List.member [''/signout'', ''/signin'', ''/login'', ''/auth/logout'', ''/rest/logout'']
            (CleanPath (u_path parsed)))"

definition safeReturnTo :: "string \<Rightarrow> string" where
  "safeReturnTo value = (if ValidReturnTo value \<and> \<not> isForbiddenReturnPath value then value else ''/'')"

text \<open>The loop of \<open>validNativeReturnTo\<close>: the candidate is unescaped until it is acceptable.\<close>

fun validNativeReturnToLoop :: "nat \<Rightarrow> string \<Rightarrow> string option" where
  "validNativeReturnToLoop 0 candidate = None"
| "validNativeReturnToLoop (Suc n) candidate =
     (if ValidReturnTo candidate \<and> \<not> isForbiddenReturnPath candidate \<and> prefix ''/'' candidate
      then Some candidate
      else
        (case query_unescape candidate of
           None \<Rightarrow> None
         | Some unescaped \<Rightarrow>
             if unescaped = candidate then None else validNativeReturnToLoop n unescaped))"

definition validNativeReturnTo :: "string \<Rightarrow> string option" where
  "validNativeReturnTo value = validNativeReturnToLoop 3 value"

definition validRefererReturnTo :: "request \<Rightarrow> string option" where
  "validRefererReturnTo r =
     (let raw = trim_space (hget (r_header r) ''Referer'') in
      if raw = [] then None
      else
        (case url_parse raw of
           None \<Rightarrow> None
         | Some parsed \<Rightarrow>
             if u_host parsed \<noteq> r_host r then None
             else
               (let value = request_uri parsed
                in if ValidReturnTo value \<and> \<not> isForbiddenReturnPath value then Some value else None)))"

definition nativeLoginReturnTo :: "request \<Rightarrow> string" where
  "nativeLoginReturnTo r =
     (case find_map (\<lambda>key. validNativeReturnTo (query_get (r_url r) key))
             [''redirect'', ''redirect_to'', ''return_to''] of
        Some returnTo \<Rightarrow> returnTo
      | None \<Rightarrow> (case validRefererReturnTo r of Some returnTo \<Rightarrow> returnTo | None \<Rightarrow> ''/''))"

text \<open>The location that \<open>redirectToLogin\<close> asks for.\<close>

definition loginTarget :: "request \<Rightarrow> string" where
  "loginTarget r =
     ''/auth/login?return_to='' @ query_escape (safeReturnTo (request_uri (r_url r)))"

subsection \<open>What the checks guarantee\<close>

definition acceptable_return :: "string \<Rightarrow> bool" where
  "acceptable_return v \<longleftrightarrow> ValidReturnTo v \<and> \<not> isForbiddenReturnPath v"

lemma acceptable_root: "acceptable_return ''/''"
  unfolding acceptable_return_def by code_simp

lemma safeReturnTo_acceptable: "acceptable_return (safeReturnTo v)"
  using acceptable_root by (simp add: safeReturnTo_def acceptable_return_def)

lemma safeReturnTo_id: "acceptable_return v \<Longrightarrow> safeReturnTo v = v"
  by (simp add: safeReturnTo_def acceptable_return_def)

lemma validNativeReturnToLoop_acceptable:
  "validNativeReturnToLoop n v = Some x \<Longrightarrow> acceptable_return x \<and> prefix ''/'' x"
  by (induction n v rule: validNativeReturnToLoop.induct)
     (auto simp: acceptable_return_def split: if_splits option.splits)

lemma validRefererReturnTo_acceptable: "validRefererReturnTo r = Some x \<Longrightarrow> acceptable_return x"
  by (auto simp: validRefererReturnTo_def acceptable_return_def Let_def split: if_splits option.splits)

lemma nativeLoginReturnTo_acceptable: "acceptable_return (nativeLoginReturnTo r)"
proof -
  have "acceptable_return x"
    if "find_map (\<lambda>key. validNativeReturnTo (query_get (r_url r) key)) ks = Some x" for ks x
    using that validNativeReturnToLoop_acceptable
    by (fastforce dest!: find_map_SomeD simp: validNativeReturnTo_def)
  then show ?thesis
    using validRefererReturnTo_acceptable acceptable_root
    by (auto simp: nativeLoginReturnTo_def simp del: find_map.simps split: option.splits)
qed

text \<open>A return value has no scheme and no host, and no line end.\<close>

lemma ValidReturnTo_parsed:
  assumes "ValidReturnTo v"
  obtains u where "url_parse v = Some u" and "u_scheme u = []" and "u_host u = []"
    and "prefix ''/'' (u_path u)"
  using assms by (auto simp: ValidReturnTo_def is_abs_def split: if_splits option.splits)

lemma ValidReturnTo_no_line_end:
  "ValidReturnTo v \<Longrightarrow> CHR 0x0D \<notin> set v \<and> CHR 0x0A \<notin> set v \<and> CHR 0x00 \<notin> set v"
  by (auto simp: ValidReturnTo_def contains_any_iff split: if_splits)

lemma path_dir_rooted: "prefix ''/'' p \<Longrightarrow> prefix ''/'' (path_dir p)"
proof -
  assume "prefix ''/'' p"
  then obtain q where p: "p = CHR ''/'' # q" by (cases p) auto
  have "path_dir p = CHR ''/'' # (if CHR ''/'' \<in> set q then rev (dropWhile (\<lambda>c. c \<noteq> CHR ''/'') (rev q)) else [])"
    by (auto simp: p path_dir_def dropWhile_append)
  then show ?thesis by simp
qed

lemma clean_keeping_slash_rooted:
  assumes "prefix ''/'' p"
  shows "prefix ''/'' (clean_keeping_slash p)" and "\<not> prefix ''//'' (clean_keeping_slash p @ ''?'' @ q)"
    and "\<not> prefix ''//'' (clean_keeping_slash p)"
proof -
  have r: "prefix ''/'' (path_clean p)" using assms by (simp add: path_clean_rooted)
  then obtain c where c: "path_clean p = CHR ''/'' # c" by (cases "path_clean p") auto
  have nd: "\<not> prefix ''//'' (path_clean p)" by (rule path_clean_not_double_slash)
  show "prefix ''/'' (clean_keeping_slash p)"
    using c by (simp add: clean_keeping_slash_def Let_def)
  show "\<not> prefix ''//'' (clean_keeping_slash p @ ''?'' @ q)"
    and "\<not> prefix ''//'' (clean_keeping_slash p)"
    using nd c by (cases c; auto simp: clean_keeping_slash_def Let_def)+
qed

lemma redirect_location_on_site:
  assumes "ValidReturnTo v" and "oldpath = [] \<or> prefix ''/'' oldpath"
  shows "prefix ''/'' (redirect_location oldpath v) \<and> \<not> prefix ''//'' (redirect_location oldpath v)"
proof -
  obtain u where u: "url_parse v = Some u" "u_scheme u = []" by (rule ValidReturnTo_parsed [OF assms(1)])
  define a where "a = (if prefix ''/'' v then v else path_dir (if oldpath = [] then ''/'' else oldpath) @ v)"
  obtain p q found where cut: "cut CHR ''?'' a = (p, q, found)" by (metis prod_cases3)
  have loc: "redirect_location oldpath v = clean_keeping_slash p @ (if found then ''?'' @ q else [])"
    using u cut by (simp add: redirect_location_def a_def Let_def)
  have "prefix ''/'' a"
    using assms(2) path_dir_rooted [of oldpath] path_dir_rooted [of "''/''"] by (auto simp: a_def)
  moreover have "a = (if found then p @ CHR ''?'' # q else p)" using cut_eq(2) [OF cut] by simp
  ultimately have "prefix ''/'' p"
    by (cases p) (auto split: if_splits)
  then show ?thesis
    using clean_keeping_slash_rooted [of p] by (auto simp: loc)
qed

lemma set_redirect_location:
  assumes "CHR 0x5C \<notin> set v" and "CHR 0x5C \<notin> set oldpath"
  shows "CHR 0x5C \<notin> set (redirect_location oldpath v)"
proof (cases "url_parse v")
  case None
  then show ?thesis using assms(1) by (simp add: redirect_location_def)
next
  case (Some u)
  define a where "a = (if prefix ''/'' v then v else path_dir (if oldpath = [] then ''/'' else oldpath) @ v)"
  obtain p q found where cut: "cut CHR ''?'' a = (p, q, found)" by (metis prod_cases3)
  have loc: "redirect_location oldpath v
      = (if u_scheme u \<noteq> [] then v else clean_keeping_slash p @ (if found then ''?'' @ q else []))"
    using Some cut by (simp add: redirect_location_def a_def Let_def)
  have "CHR 0x5C \<notin> set a"
    using assms set_path_dir [of oldpath] set_path_dir [of "''/''"] by (auto simp: a_def)
  moreover have "a = (if found then p @ CHR ''?'' # q else p)" using cut_eq(2) [OF cut] by simp
  ultimately have "CHR 0x5C \<notin> set p" "found \<longrightarrow> CHR 0x5C \<notin> set q" by (auto split: if_splits)
  moreover from this have "CHR 0x5C \<notin> set (clean_keeping_slash p)"
    using set_path_clean [of p] by (auto simp: clean_keeping_slash_def Let_def)
  ultimately show ?thesis using assms(1) by (auto simp: loc)
qed

text \<open>
  Property C31. Whatever a request asks to return to, the location that the gateway answers with
  stays on the gateway's own site: it begins with a slash and never with two, so it is neither an
  absolute nor a protocol-relative URL; and it has a backslash only if the request put one there.
\<close>

theorem redirect_stays_on_site:
  assumes "oldpath = [] \<or> prefix ''/'' oldpath"
  shows "prefix ''/'' (redirect_location oldpath (safeReturnTo v))
    \<and> \<not> prefix ''//'' (redirect_location oldpath (safeReturnTo v))
    \<and> (CHR 0x5C \<notin> set v \<and> CHR 0x5C \<notin> set oldpath
        \<longrightarrow> CHR 0x5C \<notin> set (redirect_location oldpath (safeReturnTo v)))"
proof -
  have "ValidReturnTo (safeReturnTo v)"
    using safeReturnTo_acceptable [of v] by (simp add: acceptable_return_def)
  moreover have "CHR 0x5C \<notin> set v \<Longrightarrow> CHR 0x5C \<notin> set (safeReturnTo v)"
    by (simp add: safeReturnTo_def)
  ultimately show ?thesis
    using redirect_location_on_site assms set_redirect_location by blast
qed

theorem redirect_stays_on_site_witness:
  "prefix ''/'' (redirect_location ''/auth/callback'' (safeReturnTo ''//evil.example.com''))
    \<and> \<not> prefix ''//'' (redirect_location ''/auth/callback'' (safeReturnTo ''//evil.example.com''))"
  using redirect_stays_on_site [of "''/auth/callback''" "''//evil.example.com''"] by simp

text \<open>
  A backslash does slip through. \<open>ValidReturnTo\<close> refuses a value that begins with a
  slash and a backslash, because browsers read that as the start of a host; but it looks at the
  value before \<open>http.Redirect\<close> cleans it, and cleaning moves a later backslash to the front. The
  value \<open>/./\evil.com\<close> is accepted, and the location is \<open>/\evil.com\<close>, which \<open>ValidReturnTo\<close> itself
  would refuse.
\<close>

theorem backslash_return_escapes:
  "let v = ''/./'' @ [CHR 0x5C] @ ''evil.com'';
       loc = redirect_location ''/auth/callback'' (safeReturnTo v)
   in safeReturnTo v = v \<and> loc = ''/'' @ [CHR 0x5C] @ ''evil.com'' \<and> \<not> ValidReturnTo loc"
  by code_simp

subsection \<open>The way through the login page\<close>

lemma get_scheme_slash: "get_scheme (CHR ''/'' # s) = Some ([], CHR ''/'' # s)"
  by (simp add: get_scheme_def is_alpha_def is_digit_def)

lemma query_safe_chars:
  assumes "list_all query_safe s"
  shows "CHR ''?'' \<notin> set s" "CHR ''#'' \<notin> set s" "CHR ''&'' \<notin> set s" "CHR '';'' \<notin> set s"
    "CHR ''='' \<notin> set s" "\<not> contains_ctl s"
proof -
  have "\<not> query_safe CHR ''?''" "\<not> query_safe CHR ''#''" "\<not> query_safe CHR ''&''"
    "\<not> query_safe CHR '';''" "\<not> query_safe CHR ''=''"
    by code_simp+
  then show "CHR ''?'' \<notin> set s" "CHR ''#'' \<notin> set s" "CHR ''&'' \<notin> set s" "CHR '';'' \<notin> set s"
    "CHR ''='' \<notin> set s"
    using assms by (auto simp: list_all_iff)
  have "\<not> (c < CHR 0x20 \<or> c = CHR 0x7F)" if "query_safe c" for c
    using that
    by (auto simp: query_safe_def is_alpha_def is_digit_def less_eq_char_def less_char_def
        simp del: less_eq_char_simp less_char_simp)
  then show "\<not> contains_ctl s" using assms by (auto simp: contains_ctl_def list_ex_iff list_all_iff)
qed

lemma contains_ctl_append [simp]: "contains_ctl (s @ t) \<longleftrightarrow> contains_ctl s \<or> contains_ctl t"
  by (simp add: contains_ctl_def)

lemma suffix_last: "t \<noteq> [] \<Longrightarrow> suffix [c] (s @ t) \<longleftrightarrow> last t = c"
  by (cases t rule: rev_cases) (auto simp: suffix_def)

text \<open>A target whose query holds one escaped parameter is parsed back into its path and query.\<close>

lemma parse_one_param:
  assumes path: "CHR ''?'' \<notin> set path \<and> \<not> contains_ctl path" "path_unescape (CHR ''/'' # path) = Some (CHR ''/'' # path)"
    and key: "list_all query_safe key"
    and val: "list_all query_safe val"
    and raw: "raw = CHR ''/'' # path @ CHR ''?'' # key @ CHR ''='' # val"
    and esc: "escape EncodePath (CHR ''/'' # path) = CHR ''/'' # path"
    and nd: "\<not> prefix ''//'' raw"
  shows "parse_raw via raw = Some (empty_url\<lparr>u_path := CHR ''/'' # path, u_raw_query := key @ CHR ''='' # val\<rparr>)"
proof -
  note chars = path(1) query_safe_chars [OF key] query_safe_chars [OF val]
  have last_val: "val \<noteq> [] \<Longrightarrow> last val = CHR ''?'' \<Longrightarrow> False"
    using chars by (metis last_in_set)
  have "contains_ctl raw = False"
    unfolding raw using chars
    by (simp add: contains_ctl_def)
  moreover have "\<not> suffix ''?'' raw"
    using chars suffix_last [of "CHR ''='' # val" "CHR ''?''" "CHR ''/'' # path @ CHR ''?'' # key"]
    by (auto simp: raw dest: last_val)
  ultimately have "\<not> contains_ctl raw" and "\<not> suffix ''?'' raw" by simp_all
  moreover from this have "split_query raw = (CHR ''/'' # path, key @ CHR ''='' # val, False)"
    using chars by (simp add: split_query_def raw cut_def)
  moreover have "\<not> prefix ''//'' (CHR ''/'' # path)" using nd by (cases path) (auto simp: raw)
  moreover have "get_scheme raw = Some ([], raw)" by (simp add: raw get_scheme_slash)
  moreover have "raw \<noteq> []" "raw \<noteq> ''*''" by (simp_all add: raw)
  ultimately show ?thesis
    using path(2) esc by (simp add: parse_raw_def set_path_def empty_url_def)
qed

lemma query_get_one_param:
  assumes "list_all query_safe key" "query_unescape key = Some key" "list_all query_safe val"
    and "query_unescape val = Some v" and "u_raw_query u = key @ CHR ''='' # val"
  shows "query_get u key = v"
proof -
  note chars = query_safe_chars [OF assms(1)] query_safe_chars [OF assms(3)]
  have "split_on CHR ''&'' (u_raw_query u) = [u_raw_query u]"
    using chars assms(5) by (simp add: split_on_notin)
  moreover have "parse_query_piece (u_raw_query u) = (Some (key, v), False)"
    using chars assms by (simp add: parse_query_piece_def cut_def)
  ultimately show ?thesis
    by (simp add: query_get_def parse_query_def values_get_def List.map_filter_def)
qed

text \<open>
  The way through the login page loses nothing: the location that an unauthenticated
  request is sent to parses, by the rules of the HTTP server, as a request for \<open>/auth/login\<close> whose
  \<open>return_to\<close> parameter is the page that was asked for, and the login handler accepts that page
  as it is.
\<close>

theorem loginTarget_roundtrip:
  "\<exists>u. parse_request_uri (loginTarget r) = Some u \<and> u_path u = ''/auth/login''
     \<and> query_get u ''return_to'' = safeReturnTo (request_uri (r_url r))
     \<and> acceptable_return (query_get u ''return_to'')"
proof -
  let ?v = "safeReturnTo (request_uri (r_url r))" and ?key = "''return_to''"
  define u where "u = empty_url\<lparr>u_path := ''/auth/login'', u_raw_query := ?key @ CHR ''='' # query_escape ?v\<rparr>"
  have val: "list_all query_safe (query_escape ?v)" by (simp add: list_all_iff query_escape_safe)
  have raw: "loginTarget r = CHR ''/'' # ''auth/login'' @ CHR ''?'' # ?key @ CHR ''='' # query_escape ?v"
    by (simp add: loginTarget_def)
  have "parse_raw True (loginTarget r) = Some u"
    unfolding u_def
  proof (rule parse_one_param [where path = "''auth/login''", OF _ _ _ val raw])
    show "CHR ''?'' \<notin> set ''auth/login'' \<and> \<not> contains_ctl ''auth/login''" by code_simp
    show "list_all query_safe ''return_to''" by code_simp
    show "path_unescape (CHR ''/'' # ''auth/login'') = Some (CHR ''/'' # ''auth/login'')" by code_simp
    show "escape EncodePath (CHR ''/'' # ''auth/login'') = CHR ''/'' # ''auth/login''" by code_simp
    show "\<not> prefix ''//'' (loginTarget r)" by (simp add: raw)
  qed
  moreover have "query_get u ?key = ?v"
  proof (rule query_get_one_param [OF _ _ val query_roundtrip])
    show "list_all query_safe ''return_to''" by code_simp
    show "query_unescape ''return_to'' = Some ''return_to''" by code_simp
  qed (simp add: u_def)
  ultimately show ?thesis
    using safeReturnTo_acceptable by (intro exI [of _ u]) (simp add: parse_request_uri_def u_def)
qed

end
