(* ===== verification/Tokens.thy ===== *)
theory Tokens
  imports Go_Path "HOL-Library.Word"
begin

unbundle bit_operations_syntax

text \<open>
  \<open>src/internal/security/random.go\<close> and \<open>csrf.go\<close>: random identifiers and the comparison of CSRF
  tokens; with what they and the credential paths use of the standard library: unpadded URL-safe
  base64, the constant-time comparison, and SHA-256.
\<close>

subsection \<open>Base64\<close>

definition base64_digits :: string where
  "base64_digits = ''ABCDEFGHIJKLMNOPQRSTUVWXYZabcdefghijklmnopqrstuvwxyz0123456789-_''"

definition base64_digit :: "nat \<Rightarrow> char" where
  "base64_digit n = (if n < 64 then base64_digits ! n else CHR ''A'')"

abbreviation byte :: "char \<Rightarrow> nat" where
  "byte c \<equiv> of_char c"

text \<open>\<open>base64.RawURLEncoding.EncodeToString\<close>.\<close>

fun base64_raw_url :: "string \<Rightarrow> string" where
  "base64_raw_url [] = []"
| "base64_raw_url [a] = [base64_digit (byte a div 4), base64_digit (byte a mod 4 * 16)]"
| "base64_raw_url [a, b] =
     [base64_digit (byte a div 4), base64_digit (byte a mod 4 * 16 + byte b div 16),
      base64_digit (byte b mod 16 * 4)]"
| "base64_raw_url (a # b # c # cs) =
     base64_digit (byte a div 4) # base64_digit (byte a mod 4 * 16 + byte b div 16)
     # base64_digit (byte b mod 16 * 4 + byte c div 64) # base64_digit (byte c mod 64)
     # base64_raw_url cs"

lemma length_base64_digits: "length base64_digits = 64"
  unfolding base64_digits_def by code_simp

lemma distinct_base64_digits: "distinct base64_digits"
  unfolding base64_digits_def by code_simp

lemma base64_digit_inj: "m < 64 \<Longrightarrow> n < 64 \<Longrightarrow> base64_digit m = base64_digit n \<longleftrightarrow> m = n"
  using distinct_base64_digits length_base64_digits
  by (simp add: base64_digit_def nth_eq_iff_index_eq)

lemma byte_div [simp]:
  "byte c div 4 < 64" "byte c div 16 < 16" "byte c div 64 < 4"
  by (simp_all add: less_mult_imp_div_less)

lemma base64_bounds:
  "byte a div 4 < 64" "byte a mod 4 * 16 < 64" "byte a mod 4 * 16 + byte b div 16 < 64"
  "byte b mod 16 * 4 < 64" "byte b mod 16 * 4 + byte c div 64 < 64" "byte c mod 64 < 64"
proof -
  have a: "byte x mod 4 < 4" "byte x mod 16 < 16" "byte x div 16 < 16" "byte x div 64 < 4" for x
    by simp_all
  show "byte a div 4 < 64" "byte c mod 64 < 64" by simp_all
  show "byte a mod 4 * 16 < 64" "byte b mod 16 * 4 < 64" using a [of a] a [of b] by linarith+
  show "byte a mod 4 * 16 + byte b div 16 < 64" "byte b mod 16 * 4 + byte c div 64 < 64"
    using a [of a] a [of b] a [of c] by linarith+
qed

lemma byte_eqI: "byte a div k = byte b div k \<Longrightarrow> byte a mod k = byte b mod k \<Longrightarrow> a = b"
  by (metis div_mult_mod_eq of_char_eq_iff)

lemma mix_eq:
  "(p::nat) * k + q = p' * k + q' \<Longrightarrow> q < k \<Longrightarrow> q' < k \<Longrightarrow> p = p' \<and> q = q'"
  by (metis add.commute add_cancel_right_left div_less div_mult_self3 gr_implies_not0 mod_less mod_mult_self3)

text \<open>Different byte strings have different base64 texts.\<close>

lemma base64_inj_step:
  assumes "byte a div 4 = byte a' div 4"
    and "byte a mod 4 * 16 + byte b div 16 = byte a' mod 4 * 16 + byte b' div 16"
    and "byte b mod 16 * 4 + q = byte b' mod 16 * 4 + q'" and "q < 4" and "q' < 4"
  shows "a = a' \<and> b = b' \<and> q = q'"
proof -
  have 1: "byte a mod 4 = byte a' mod 4" "byte b div 16 = byte b' div 16"
    using mix_eq [OF assms(2)] by simp_all
  have 2: "byte b mod 16 = byte b' mod 16" "q = q'"
    using mix_eq [OF assms(3-5)] by simp_all
  show ?thesis using 1 2 assms(1) byte_eqI by blast
qed

lemma base64_raw_url_inj: "base64_raw_url x = base64_raw_url y \<Longrightarrow> x = y"
proof (induction x arbitrary: y rule: base64_raw_url.induct)
  case 1
  then show ?case by (cases y rule: base64_raw_url.cases) auto
next
  case (2 a)
  then show ?case
    by (cases y rule: base64_raw_url.cases)
      (auto simp: base64_digit_inj base64_bounds intro: byte_eqI)
next
  case (3 a b)
  then show ?case
    using base64_inj_step [of a _ b _ 0 0]
    by (cases y rule: base64_raw_url.cases) (auto simp: base64_digit_inj base64_bounds)
next
  case (4 a b c cs)
  from 4(2) obtain a' b' c' cs' where y: "y = a' # b' # c' # cs'"
    by (cases y rule: base64_raw_url.cases) auto
  from 4(2) have eqs: "byte a div 4 = byte a' div 4"
      "byte a mod 4 * 16 + byte b div 16 = byte a' mod 4 * 16 + byte b' div 16"
      "byte b mod 16 * 4 + byte c div 64 = byte b' mod 16 * 4 + byte c' div 64"
      "byte c mod 64 = byte c' mod 64" and cs: "base64_raw_url cs = base64_raw_url cs'"
    by (simp_all add: y base64_digit_inj base64_bounds)
  then show ?case
    using base64_inj_step [OF eqs(1-3)] byte_eqI [of c 64 c'] 4(1) [OF cs] by (simp add: y)
qed

text \<open>The text is made of letters, digits, hyphens and underscores.\<close>

lemma base64_digit_set: "base64_digit n \<in> set base64_digits"
  using length_base64_digits nth_mem [of n base64_digits] nth_mem [of 0 base64_digits]
  by (auto simp: base64_digit_def base64_digits_def)

lemma base64_raw_url_set: "set (base64_raw_url s) \<subseteq> set base64_digits"
  by (induction s rule: base64_raw_url.induct) (auto simp: base64_digit_set)

lemma base64_raw_url_length: "length (base64_raw_url s) = (length s * 8 + 5) div 6"
  by (induction s rule: base64_raw_url.induct) auto

subsection \<open>Random identifiers and CSRF tokens\<close>

text \<open>
  The entropy source \<open>rand.Read\<close> is a parameter: \<open>rand n s\<close> reads \<open>n\<close> bytes in the state \<open>s\<close> of the world,
  or fails. \<open>None\<close> is the error that \<open>RandomBase64URL\<close> returns.
\<close>

type_synonym 's entropy = "nat \<Rightarrow> 's \<Rightarrow> string option \<times> 's"

definition RandomBase64URL :: "'s entropy \<Rightarrow> nat \<Rightarrow> 's \<Rightarrow> string option \<times> 's" where
  "RandomBase64URL rand n s = (case rand n s of (bytes, s') \<Rightarrow> (map_option base64_raw_url bytes, s'))"

definition NewCSRFToken :: "'s entropy \<Rightarrow> 's \<Rightarrow> string option \<times> 's" where
  "NewCSRFToken rand s = RandomBase64URL rand 32 s"

text \<open>
  Two identifiers drawn from whatever entropy sources are equal exactly when the bytes
  drawn are: the encoding loses nothing of their entropy. An identifier has 43 characters for 32 bytes,
  and only letters, digits, hyphens and underscores, so it needs no quoting in a cookie or a URL.
\<close>

theorem RandomBase64URL_faithful:
  "(fst (RandomBase64URL rand n s) = fst (RandomBase64URL rand' n' s')) = (fst (rand n s) = fst (rand' n' s'))
   \<and> (case fst (RandomBase64URL rand n s) of
        None \<Rightarrow> fst (rand n s) = None
      | Some i \<Rightarrow> length i = (8 * length (the (fst (rand n s))) + 5) div 6 \<and> set i \<subseteq> set base64_digits)"
proof -
  have "(map_option base64_raw_url a = map_option base64_raw_url b) = (a = b)" for a b
    using base64_raw_url_inj by (cases a; cases b) auto
  then show ?thesis
    using base64_raw_url_set
    by (auto simp: RandomBase64URL_def base64_raw_url_length split: prod.splits option.splits)
qed

text \<open>\<open>subtle.ConstantTimeCompare\<close>: all differences are collected in one byte.\<close>

definition byte_word :: "char \<Rightarrow> 8 word" where
  "byte_word c = of_nat (byte c)"

fun collect_differences :: "8 word \<Rightarrow> string \<Rightarrow> string \<Rightarrow> 8 word" where
  "collect_differences v (x # xs) (y # ys) =
     collect_differences (v OR (byte_word x XOR byte_word y)) xs ys"
| "collect_differences v _ _ = v"

definition ConstantTimeCompare :: "string \<Rightarrow> string \<Rightarrow> nat" where
  "ConstantTimeCompare x y =
     (if length x \<noteq> length y then 0 else if collect_differences 0 x y = 0 then 1 else 0)"

definition EqualToken :: "string \<Rightarrow> string \<Rightarrow> bool" where
  "EqualToken expected actual =
     (if expected = [] \<or> actual = [] then False else ConstantTimeCompare expected actual = 1)"

lemma byte_word_inj: "byte_word x = byte_word y \<longleftrightarrow> x = y"
proof
  assume "byte_word x = byte_word y"
  then have "unat (byte_word x) = unat (byte_word y)" by simp
  then have "byte x = byte y" by (simp add: byte_word_def unat_of_nat take_bit_eq_mod)
  then show "x = y" by simp
qed simp

lemma or_eq_0_word: "(v OR w = 0) \<longleftrightarrow> v = 0 \<and> w = (0 :: 8 word)"
  by (auto simp: bit_eq_iff bit_or_iff)

lemma xor_eq_0_word: "(v XOR w = 0) \<longleftrightarrow> v = (w :: 8 word)"
  by (auto simp: bit_eq_iff bit_xor_iff)

lemma collect_differences_0:
  "length x = length y \<Longrightarrow> collect_differences v x y = 0 \<longleftrightarrow> v = 0 \<and> x = y"
  by (induction v x y rule: collect_differences.induct)
    (auto simp: or_eq_0_word xor_eq_0_word byte_word_inj)

lemma EqualToken_eq: "EqualToken expected actual = (expected = actual \<and> expected \<noteq> [])"
  by (auto simp: EqualToken_def ConstantTimeCompare_def collect_differences_0)

text \<open>
  The constant-time comparison of CSRF tokens accepts exactly an equal, non-empty token.
\<close>

theorem EqualToken_iff: "EqualToken expected actual \<longleftrightarrow> expected = actual \<and> expected \<noteq> []"
  by (rule EqualToken_eq)

subsection \<open>SHA-256\<close>

definition sha256_k :: "32 word list" where
  "sha256_k =
    [1116352408, 1899447441, 3049323471, 3921009573, 961987163, 1508970993, 2453635748, 2870763221,
     3624381080, 310598401, 607225278, 1426881987, 1925078388, 2162078206, 2614888103, 3248222580,
     3835390401, 4022224774, 264347078, 604807628, 770255983, 1249150122, 1555081692, 1996064986,
     2554220882, 2821834349, 2952996808, 3210313671, 3336571891, 3584528711, 113926993, 338241895,
     666307205, 773529912, 1294757372, 1396182291, 1695183700, 1986661051, 2177026350, 2456956037,
     2730485921, 2820302411, 3259730800, 3345764771, 3516065817, 3600352804, 4094571909, 275423344,
     430227734, 506948616, 659060556, 883997877, 958139571, 1322822218, 1537002063, 1747873779,
     1955562222, 2024104815, 2227730452, 2361852424, 2428436474, 2756734187, 3204031479, 3329325298]"

record sha_state =
  ha :: "32 word"
  hb :: "32 word"
  hc :: "32 word"
  hd' :: "32 word"
  he :: "32 word"
  hf :: "32 word"
  hg :: "32 word"
  hh :: "32 word"

definition sha256_init :: sha_state where
  "sha256_init =
     \<lparr>ha = 1779033703, hb = 3144134277, hc = 1013904242, hd' = 2773480762,
      he = 1359893119, hf = 2600822924, hg = 528734635, hh = 1541459225\<rparr>"

definition rotr :: "nat \<Rightarrow> 32 word \<Rightarrow> 32 word" where
  "rotr n w = drop_bit n w OR push_bit (32 - n) w"

text \<open>The message schedule: \<open>window\<close> is the last 16 words, the oldest first.\<close>

definition next_word :: "32 word list \<Rightarrow> 32 word" where
  "next_word window =
     (let w0 = window ! 0; w1 = window ! 1; w9 = window ! 9; w14 = window ! 14;
          s0 = rotr 7 w1 XOR rotr 18 w1 XOR drop_bit 3 w1;
          s1 = rotr 17 w14 XOR rotr 19 w14 XOR drop_bit 10 w14
      in w0 + s0 + w9 + s1)"

fun schedule :: "nat \<Rightarrow> 32 word list \<Rightarrow> 32 word list" where
  "schedule 0 window = []"
| "schedule (Suc n) window = hd window # schedule n (tl window @ [next_word window])"

definition sha256_round :: "32 word \<times> 32 word \<Rightarrow> sha_state \<Rightarrow> sha_state" where
  "sha256_round kw st =
     (let s1 = rotr 6 (he st) XOR rotr 11 (he st) XOR rotr 25 (he st);
          ch = (he st AND hf st) XOR (NOT (he st) AND hg st);
          t1 = hh st + s1 + ch + fst kw + snd kw;
          s0 = rotr 2 (ha st) XOR rotr 13 (ha st) XOR rotr 22 (ha st);
          maj = (ha st AND hb st) XOR (ha st AND hc st) XOR (hb st AND hc st);
          t2 = s0 + maj
      in \<lparr>ha = t1 + t2, hb = ha st, hc = hb st, hd' = hc st,
          he = hd' st + t1, hf = he st, hg = hf st, hh = hg st\<rparr>)"

definition sha256_block :: "sha_state \<Rightarrow> 32 word list \<Rightarrow> sha_state" where
  "sha256_block st block =
     (let r = fold sha256_round (zip sha256_k (schedule 64 block)) st
      in \<lparr>ha = ha st + ha r, hb = hb st + hb r, hc = hc st + hc r, hd' = hd' st + hd' r,
          he = he st + he r, hf = hf st + hf r, hg = hg st + hg r, hh = hh st + hh r\<rparr>)"

text \<open>Padding: one bit, zeros up to 56 modulo 64 bytes, and the length in bits in eight bytes.\<close>

definition be_bytes :: "nat \<Rightarrow> nat \<Rightarrow> string" where
  "be_bytes k n = map (\<lambda>i. char_of (n div 256 ^ (k - 1 - i))) [0..<k]"

definition sha256_pad :: "string \<Rightarrow> string" where
  "sha256_pad s =
     s @ [CHR 0x80] @ replicate ((119 - length s mod 64) mod 64) CHR 0x00 @ be_bytes 8 (length s * 8)"

fun be_words :: "string \<Rightarrow> 32 word list" where
  "be_words (a # b # c # d # cs) =
     of_nat (((byte a * 256 + byte b) * 256 + byte c) * 256 + byte d) # be_words cs"
| "be_words _ = []"

fun sha256_blocks :: "nat \<Rightarrow> sha_state \<Rightarrow> 32 word list \<Rightarrow> sha_state" where
  "sha256_blocks 0 st ws = st"
| "sha256_blocks (Suc n) st ws = sha256_blocks n (sha256_block st (take 16 ws)) (drop 16 ws)"

definition sha256 :: "string \<Rightarrow> string" where
  "sha256 s =
     (let p = sha256_pad s; st = sha256_blocks (length p div 64) sha256_init (be_words p)
      in concat (map (\<lambda>w. be_bytes 4 (unat w)) [ha st, hb st, hc st, hd' st, he st, hf st, hg st, hh st]))"

lemma length_sha256: "length (sha256 s) = 32"
  by (simp add: sha256_def Let_def be_bytes_def)

lemma length_sha256_pad: "length (sha256_pad s) mod 64 = 0"
proof -
  have "(m + 9 + (119 - m mod 64) mod 64) mod 64 = 0" for m :: nat
  proof -
    have r: "m mod 64 < 64" by simp
    have "(m mod 64 + 9 + (119 - m mod 64) mod 64) mod 64 = 0"
    proof (cases "m mod 64 \<le> 55")
      case True
      then have "119 - m mod 64 = 55 - m mod 64 + 64" by simp
      then have "(119 - m mod 64) mod 64 = 55 - m mod 64" by (metis mod_add_self2 mod_less less_imp_diff_less numeral_less_iff semiring_norm(76,78,81))
      then show ?thesis using True by simp
    next
      case False
      then have "m mod 64 + 9 + (119 - m mod 64) mod 64 = 128" using r by simp
      then show ?thesis by simp
    qed
    then show ?thesis by (metis add.assoc mod_add_left_eq)
  qed
  from this [of "length s"] show ?thesis by (simp add: sha256_pad_def be_bytes_def add.assoc)
qed

end
