(* ===== verification/Session_Store.thy ===== *)
theory Session_Store
  imports Tokens
begin

text \<open>
  \<open>src/internal/session\<close>: the data of a session and of a pending OIDC login, the contract of a session
  store as a locale, and the in-memory store (\<open>memory.go\<close>), which is shown to meet it.

  \<open>ErrNotFound\<close> is told apart from other errors by the handlers, so it is a constructor; the text of
  another error is kept.
\<close>

record Session =
  Issuer :: string
  Subject :: string
  Email :: string
  Name :: string
  Linked :: bool
  CreatedAt :: time
  ExpiresAt :: time

record OIDCState =
  Nonce :: string
  CodeVerifier :: string
  ReturnTo :: string
  StateCreatedAt :: time

datatype sess_err = SessNotFound | SessFail string

subsection \<open>The contract\<close>

text \<open>
  The operations a client of a session store calls, over the state \<open>'s\<close> of the world, each with the
  time at which it runs where it reads the clock. An operation of \<open>session.Store\<close> that returns only an
  error returns \<open>None\<close> for success. \<open>live\<close>, \<open>pending\<close> and \<open>token\<close> are the contents of the store;
  \<open>ttl\<close> is the lifetime it gives to a session, \<open>kept_session\<close> and \<open>kept_state\<close> what it makes of a value
  that it keeps.

  A store may forget anything at any time (entries expire), and a write that fails may still have
  happened, but a store never makes anything up: what it holds after an operation, it held before, or
  it is what the operation wrote. \<open>at_most m k v\<close> are the contents \<open>m\<close> with at most \<open>v\<close> written at \<open>k\<close>.
\<close>

definition at_most :: "('k \<rightharpoonup> 'v) \<Rightarrow> ('k \<rightharpoonup> 'v) \<Rightarrow> 'k \<Rightarrow> 'v \<Rightarrow> bool" where
  "at_most m' m k v \<longleftrightarrow> (\<forall>j y. m' j = Some y \<longrightarrow> m j = Some y \<or> j = k \<and> y = v)"

lemma map_leD: "m' \<subseteq>\<^sub>m m \<Longrightarrow> m' k = Some v \<Longrightarrow> m k = Some v"
  by (metis domI map_le_def)

lemma map_leI: "(\<And>k v. m' k = Some v \<Longrightarrow> m k = Some v) \<Longrightarrow> m' \<subseteq>\<^sub>m m"
  by (metis domD map_le_def)

lemma at_most_le: "m' \<subseteq>\<^sub>m m \<Longrightarrow> at_most m' m k v"
  by (auto simp: at_most_def dest: map_leD)

lemma at_most_upd: "m' \<subseteq>\<^sub>m m(k \<mapsto> v) \<Longrightarrow> at_most m' m k v"
  by (auto simp: at_most_def dest!: map_leD split: if_splits)

lemma at_most_trans: "at_most m' m k v \<Longrightarrow> m \<subseteq>\<^sub>m n \<Longrightarrow> at_most m' n k v"
  unfolding at_most_def using map_leD by metis

locale session_store =
  fixes create :: "time \<Rightarrow> Session \<Rightarrow> 's \<Rightarrow> (sess_err + string) \<times> 's"
    and save :: "string \<Rightarrow> Session \<Rightarrow> 's \<Rightarrow> sess_err option \<times> 's"
    and find :: "time \<Rightarrow> string \<Rightarrow> 's \<Rightarrow> (sess_err + Session) \<times> 's"
    and remove :: "string \<Rightarrow> 's \<Rightarrow> sess_err option \<times> 's"
    and store_state :: "string \<Rightarrow> OIDCState \<Rightarrow> 's \<Rightarrow> sess_err option \<times> 's"
    and take_state :: "string \<Rightarrow> 's \<Rightarrow> (sess_err + OIDCState) \<times> 's"
    and get_csrf :: "string \<Rightarrow> 's \<Rightarrow> (sess_err + string) \<times> 's"
    and set_csrf :: "string \<Rightarrow> string \<Rightarrow> 's \<Rightarrow> sess_err option \<times> 's"
    and ping :: "'s \<Rightarrow> sess_err option \<times> 's"
    and live :: "'s \<Rightarrow> string \<rightharpoonup> Session"
    and pending :: "'s \<Rightarrow> string \<rightharpoonup> OIDCState"
    and token :: "'s \<Rightarrow> string \<rightharpoonup> string"
    and kept_session :: "Session \<Rightarrow> Session"
    and kept_state :: "OIDCState \<Rightarrow> OIDCState"
    and ttl :: "'s \<Rightarrow> duration"
  assumes create_keeps: "create now x s = (r1, s') \<Longrightarrow>
      (\<exists>i. at_most (live s') (live s) i (kept_session (x\<lparr>CreatedAt := now, ExpiresAt := now + ttl s\<rparr>)))
      \<and> pending s' \<subseteq>\<^sub>m pending s \<and> token s' \<subseteq>\<^sub>m token s"
    and create_ok: "create now x s = (Inr i, s') \<Longrightarrow>
      live s' \<subseteq>\<^sub>m (live s)(i \<mapsto> kept_session (x\<lparr>CreatedAt := now, ExpiresAt := now + ttl s\<rparr>))"
    and save_keeps: "save i x s = (r2, s') \<Longrightarrow>
      at_most (live s') (live s) i (kept_session x) \<and> pending s' \<subseteq>\<^sub>m pending s \<and> token s' \<subseteq>\<^sub>m token s"
    and save_ok: "save i x s = (None, s') \<Longrightarrow> live s' \<subseteq>\<^sub>m (live s)(i \<mapsto> kept_session x)"
    and find_keeps: "find now i s = (r3, s') \<Longrightarrow>
      live s' \<subseteq>\<^sub>m live s \<and> pending s' \<subseteq>\<^sub>m pending s \<and> token s' \<subseteq>\<^sub>m token s"
    and find_ok: "find now i s = (Inr x, s') \<Longrightarrow> live s i = Some x \<and> now \<le> ExpiresAt x"
    and find_missing: "find now i s = (Inl SessNotFound, s') \<Longrightarrow>
      (case live s' i of None \<Rightarrow> True | Some x \<Rightarrow> ExpiresAt x < now)"
    and remove_keeps: "remove i s = (r4, s') \<Longrightarrow>
      live s' \<subseteq>\<^sub>m live s \<and> pending s' \<subseteq>\<^sub>m pending s \<and> token s' \<subseteq>\<^sub>m token s"
    and remove_ok: "remove i s = (None, s') \<Longrightarrow> live s' i = None \<and> token s' i = None"
    and store_state_keeps: "store_state k v s = (r5, s') \<Longrightarrow>
      at_most (pending s') (pending s) k (kept_state v) \<and> live s' \<subseteq>\<^sub>m live s \<and> token s' \<subseteq>\<^sub>m token s"
    and store_state_ok: "store_state k v s = (None, s') \<Longrightarrow> pending s' \<subseteq>\<^sub>m (pending s)(k \<mapsto> kept_state v)"
    and take_state_keeps: "take_state k s = (r6, s') \<Longrightarrow>
      live s' \<subseteq>\<^sub>m live s \<and> pending s' \<subseteq>\<^sub>m pending s \<and> token s' \<subseteq>\<^sub>m token s"
    and take_state_ok: "take_state k s = (Inr v, s') \<Longrightarrow> pending s k = Some v \<and> pending s' k = None"
    and get_csrf_keeps: "get_csrf i s = (r7, s') \<Longrightarrow>
      live s' \<subseteq>\<^sub>m live s \<and> pending s' \<subseteq>\<^sub>m pending s \<and> token s' \<subseteq>\<^sub>m token s"
    and get_csrf_ok: "get_csrf i s = (Inr t, s') \<Longrightarrow> token s i = Some t"
    and set_csrf_keeps: "set_csrf i t s = (r8, s') \<Longrightarrow>
      at_most (token s') (token s) i t \<and> live s' \<subseteq>\<^sub>m live s \<and> pending s' \<subseteq>\<^sub>m pending s"
    and set_csrf_ok: "set_csrf i t s = (None, s') \<Longrightarrow> token s' \<subseteq>\<^sub>m (token s)(i \<mapsto> t)"
    and ping_keeps: "ping s = (e, s') \<Longrightarrow>
      live s' \<subseteq>\<^sub>m live s \<and> pending s' \<subseteq>\<^sub>m pending s \<and> token s' \<subseteq>\<^sub>m token s"
begin

text \<open>A state value taken once cannot be taken again.\<close>

lemma taken_state_gone:
  assumes "take_state k s = (Inr v, s')" and "take_state k s' = (r, s'')"
  shows "isl r"
  using take_state_ok [OF assms(1)] take_state_ok [of k s'] assms(2) by (cases r) fastforce+

text \<open>A state value taken after it was stored is the value stored.\<close>

lemma stored_state_taken:
  assumes "store_state k v s = (None, s')" and "take_state k s' = (Inr w, s'')"
  shows "w = kept_state v"
  using map_leD [OF store_state_ok [OF assms(1)]] take_state_ok [OF assms(2)] by fastforce

text \<open>A deleted session is not found any more, at any time, nor is its CSRF token.\<close>

lemma removed_session_gone:
  assumes "remove i s = (None, s')" and "find now i s' = (r, s'')"
  shows "isl r"
  using remove_ok [OF assms(1)] find_ok [of now i s'] assms(2) by (cases r) fastforce+

lemma removed_token_gone:
  assumes "remove i s = (None, s')" and "get_csrf i s' = (r, s'')"
  shows "isl r"
  using remove_ok [OF assms(1)] get_csrf_ok [of i s'] assms(2) by (cases r) fastforce+

text \<open>What is found under a fresh identifier is the session it was created for, within its lifetime.\<close>

lemma created_session_found:
  assumes "create t0 x s = (Inr i, s')" and "find t1 i s' = (Inr y, s'')"
  shows "y = kept_session (x\<lparr>CreatedAt := t0, ExpiresAt := t0 + ttl s\<rparr>) \<and> t1 \<le> ExpiresAt y"
  using map_leD [OF create_ok [OF assms(1)]] find_ok [OF assms(2)] by fastforce

lemma saved_session_found:
  assumes "save i x s = (None, s')" and "find now i s' = (Inr y, s'')"
  shows "y = kept_session x"
  using map_leD [OF save_ok [OF assms(1)]] find_ok [OF assms(2)] by fastforce

lemma set_token_found:
  assumes "set_csrf i t s = (None, s')" and "get_csrf i s' = (Inr u, s'')"
  shows "u = t"
  using map_leD [OF set_csrf_ok [OF assms(1)]] get_csrf_ok [OF assms(2)] by fastforce

end

subsection \<open>The in-memory store\<close>

text \<open>
  \<open>MemoryStore\<close> of \<open>memory.go\<close>: its maps, and the two lifetimes. Each operation holds the mutex from
  its first access to its last, so it is one step. \<open>entropy\<close> is the supply of random identifiers
  that \<open>RandomBase64URL(32)\<close> draws from; an empty supply is an error of the source.
\<close>

record MemoryStore =
  sessions :: "string \<rightharpoonup> Session"
  states :: "string \<rightharpoonup> OIDCState"
  csrf :: "string \<rightharpoonup> string"
  mem_ttl :: duration
  mem_stateTTL :: duration
  entropy :: "string list"

definition mem_rand :: "MemoryStore entropy" where
  "mem_rand n s =
     (case entropy s of
        [] \<Rightarrow> (None, s)
      | bytes # rest \<Rightarrow> (Some (take n bytes), s\<lparr>entropy := rest\<rparr>))"

definition NewMemoryStore :: "duration \<Rightarrow> duration \<Rightarrow> string list \<Rightarrow> MemoryStore" where
  "NewMemoryStore ttl stateTTL random =
     \<lparr>sessions = Map.empty, states = Map.empty, csrf = Map.empty, mem_ttl = ttl,
      mem_stateTTL = stateTTL, entropy = random\<rparr>"

definition SaveSession :: "string \<Rightarrow> Session \<Rightarrow> MemoryStore \<Rightarrow> sess_err option \<times> MemoryStore" where
  "SaveSession i sess s = (None, s\<lparr>sessions := (sessions s)(i \<mapsto> sess)\<rparr>)"

definition CreateSession ::
  "time \<Rightarrow> Session \<Rightarrow> MemoryStore \<Rightarrow> (sess_err + string) \<times> MemoryStore" where
  "CreateSession now sess s =
     (case RandomBase64URL mem_rand 32 s of
        (None, s') \<Rightarrow> (Inl (SessFail ''read random bytes''), s')
      | (Some i, s') \<Rightarrow>
          (case SaveSession i (sess\<lparr>CreatedAt := now, ExpiresAt := now + mem_ttl s'\<rparr>) s' of
             (None, s'') \<Rightarrow> (Inr i, s'')
           | (Some e, s'') \<Rightarrow> (Inl e, s'')))"

definition GetSession ::
  "time \<Rightarrow> string \<Rightarrow> MemoryStore \<Rightarrow> (sess_err + Session) \<times> MemoryStore" where
  "GetSession now i s =
     (case sessions s i of
        Some sess \<Rightarrow>
          if now > ExpiresAt sess then (Inl SessNotFound, s\<lparr>sessions := (sessions s)(i := None)\<rparr>)
          else (Inr sess, s)
      | None \<Rightarrow> (Inl SessNotFound, s\<lparr>sessions := (sessions s)(i := None)\<rparr>))"

definition DeleteSession :: "string \<Rightarrow> MemoryStore \<Rightarrow> sess_err option \<times> MemoryStore" where
  "DeleteSession i s =
     (None, s\<lparr>sessions := (sessions s)(i := None), csrf := (csrf s)(i := None)\<rparr>)"

definition StoreOIDCState ::
  "string \<Rightarrow> OIDCState \<Rightarrow> MemoryStore \<Rightarrow> sess_err option \<times> MemoryStore" where
  "StoreOIDCState k v s = (None, s\<lparr>states := (states s)(k \<mapsto> v)\<rparr>)"

definition TakeOIDCState :: "string \<Rightarrow> MemoryStore \<Rightarrow> (sess_err + OIDCState) \<times> MemoryStore" where
  "TakeOIDCState k s =
     (case states s k of
        None \<Rightarrow> (Inl SessNotFound, s)
      | Some v \<Rightarrow> (Inr v, s\<lparr>states := (states s)(k := None)\<rparr>))"

definition GetCSRF :: "string \<Rightarrow> MemoryStore \<Rightarrow> (sess_err + string) \<times> MemoryStore" where
  "GetCSRF i s =
     (case csrf s i of None \<Rightarrow> (Inl SessNotFound, s) | Some t \<Rightarrow> (Inr t, s))"

definition SetCSRF :: "string \<Rightarrow> string \<Rightarrow> MemoryStore \<Rightarrow> sess_err option \<times> MemoryStore" where
  "SetCSRF i t s = (None, s\<lparr>csrf := (csrf s)(i \<mapsto> t)\<rparr>)"

definition PingMemory :: "MemoryStore \<Rightarrow> sess_err option \<times> MemoryStore" where
  "PingMemory s = (None, s)"

lemmas memory_store_defs =
  SaveSession_def CreateSession_def GetSession_def DeleteSession_def StoreOIDCState_def
  TakeOIDCState_def GetCSRF_def SetCSRF_def PingMemory_def RandomBase64URL_def mem_rand_def

interpretation mem: session_store CreateSession SaveSession GetSession DeleteSession StoreOIDCState
  TakeOIDCState GetCSRF SetCSRF PingMemory sessions states csrf "\<lambda>x. x" "\<lambda>v. v" mem_ttl
proof unfold_locales
qed (auto simp: memory_store_defs at_most_def map_le_def split: option.splits if_splits list.splits)

subsection \<open>Properties of the in-memory store\<close>

text \<open>
  An OIDC state value is good for one callback: once it has been taken, no later attempt
  to take it succeeds, whatever is stored under other names in between.
\<close>

theorem oidc_state_single_use:
  assumes "TakeOIDCState k s = (Inr v, s')" and "k \<noteq> k'"
  shows "isl (fst (TakeOIDCState k s')) \<and>
    isl (fst (TakeOIDCState k (snd (StoreOIDCState k' w s'))))"
proof -
  have "states s' k = None" using mem.take_state_ok [OF assms(1)] by simp
  then show ?thesis
    using mem.taken_state_gone [OF assms(1), of "fst (TakeOIDCState k s')" "snd (TakeOIDCState k s')"]
      assms(2)
    by (simp add: TakeOIDCState_def StoreOIDCState_def)
qed

definition example_state :: OIDCState where
  "example_state = \<lparr>Nonce = ''n'', CodeVerifier = ''v'', ReturnTo = ''/'', StateCreatedAt = 0\<rparr>"

theorem oidc_state_single_use_witness:
  "isl (fst (TakeOIDCState ''st'' (NewMemoryStore 1 1 []))) \<and>
   isl (fst (TakeOIDCState ''st'' (snd (StoreOIDCState ''other'' example_state (NewMemoryStore 1 1 [])))))"
  by (rule oidc_state_single_use [of _ "snd (StoreOIDCState ''st'' example_state (NewMemoryStore 1 1 []))"
        example_state]) (simp_all add: TakeOIDCState_def StoreOIDCState_def NewMemoryStore_def)

text \<open>
  A session that was created is found under its identifier, with the identity it was
  created for, up to and including the end of its lifetime, and at no later time.
\<close>

theorem session_lifetime:
  assumes "CreateSession t0 x s = (Inr i, s')"
  shows "fst (GetSession t1 i s') =
    (if t1 \<le> t0 + mem_ttl s then Inr (x\<lparr>CreatedAt := t0, ExpiresAt := t0 + mem_ttl s\<rparr>)
     else Inl SessNotFound)"
  using assms by (auto simp: GetSession_def memory_store_defs split: list.splits)

definition example_session :: Session where
  "example_session =
     \<lparr>Issuer = ''https://idp'', Subject = ''u1'', Email = ''u@x'', Name = ''U'', Linked = False,
      CreatedAt = 0, ExpiresAt = 0\<rparr>"

theorem session_lifetime_witness:
  "fst (GetSession 150 (base64_raw_url ''A'')
     (snd (CreateSession 100 example_session (NewMemoryStore 60 1 [''A'']))))
   = Inr (example_session\<lparr>CreatedAt := 100, ExpiresAt := 160\<rparr>)"
  using session_lifetime [of 100 example_session "NewMemoryStore 60 1 [''A'']" "base64_raw_url ''A''"
      "snd (CreateSession 100 example_session (NewMemoryStore 60 1 [''A'']))" 150]
  by (simp add: CreateSession_def SaveSession_def RandomBase64URL_def mem_rand_def NewMemoryStore_def)

text \<open>
  Deleting a session removes the session and its CSRF token, and touches no other session,
  token or pending login.
\<close>

theorem deleted_session_is_gone:
  "fst (GetSession now i (snd (DeleteSession i s))) = Inl SessNotFound
   \<and> fst (GetCSRF i (snd (DeleteSession i s))) = Inl SessNotFound
   \<and> (sessions (snd (DeleteSession i s)))(i := sessions s i) = sessions s
   \<and> (csrf (snd (DeleteSession i s)))(i := csrf s i) = csrf s
   \<and> states (snd (DeleteSession i s)) = states s"
proof -
  have "DeleteSession i s = (None, snd (DeleteSession i s))" by (simp add: DeleteSession_def)
  from mem.remove_ok [OF this] show ?thesis
    by (simp add: GetSession_def GetCSRF_def) (auto simp: DeleteSession_def)
qed

text \<open>
  An expired session leaves its CSRF token behind: \<open>GetSession\<close> of the in-memory store drops
  the session only, unlike \<open>DeleteSession\<close> (and unlike the Redis store, which calls it). The token
  is useless, because every use of a token is preceded by a successful \<open>GetSession\<close> of its session.
\<close>

theorem expired_session_keeps_csrf:
  assumes "sessions s i = Some x" and "ExpiresAt x < now"
  shows "fst (GetSession now i s) = Inl SessNotFound
    \<and> sessions (snd (GetSession now i s)) i = None
    \<and> fst (GetCSRF i (snd (GetSession now i s))) = fst (GetCSRF i s)"
  using assms by (simp add: GetSession_def GetCSRF_def split: option.splits)

theorem expired_session_keeps_csrf_witness:
  "fst (GetCSRF ''i'' (snd (GetSession 2 ''i''
     (snd (SetCSRF ''i'' ''t'' (snd (SaveSession ''i'' (example_session\<lparr>ExpiresAt := 1\<rparr>) (NewMemoryStore 1 1 [])))))))) = Inr ''t''"
  using expired_session_keeps_csrf [of
      "snd (SetCSRF ''i'' ''t'' (snd (SaveSession ''i'' (example_session\<lparr>ExpiresAt := 1\<rparr>) (NewMemoryStore 1 1 []))))"
      "''i''" "example_session\<lparr>ExpiresAt := 1\<rparr>" 2]
  by (simp add: SetCSRF_def SaveSession_def GetCSRF_def NewMemoryStore_def)

end
