(* ===== verification/Credential_Store.thy ===== *)
theory Credential_Store
  imports Tokens
begin

text \<open>
  \<open>src/internal/vault\<close>: the data of a stored n8n credential, the paths under which credentials are kept,
  the contract of a credential store as a locale, and the in-memory store (\<open>memory.go\<close>).
\<close>

record Credential =
  cred_Issuer :: string
  cred_Subject :: string
  cred_Email :: string
  N8NEmailOrLoginID :: string
  N8NPassword :: string
  LinkedAt :: time
  UpdatedAt :: time

datatype vault_err = CredNotFound | VaultFail string

subsection \<open>Where a credential is kept\<close>

definition HashComponent :: "string \<Rightarrow> string" where
  "HashComponent value = base64_raw_url (sha256 value)"

definition PathFor :: "string \<Rightarrow> string \<Rightarrow> string \<Rightarrow> string" where
  "PathFor pfx issuer subject =
     path_join [trim_chars pfx ''/'', HashComponent issuer, HashComponent subject]"

text \<open>
  \<open>dataPath\<close> and \<open>metadataPath\<close> of a \<open>KVStore\<close>, whose \<open>mount\<close> and \<open>prefix\<close> were trimmed of slashes when
  it was made.
\<close>

definition dataPath :: "string \<Rightarrow> string \<Rightarrow> string \<Rightarrow> string \<Rightarrow> string" where
  "dataPath mount pfx issuer subject =
     path_join [mount, ''data'', pfx, HashComponent issuer, HashComponent subject]"

definition metadataPath :: "string \<Rightarrow> string \<Rightarrow> string \<Rightarrow> string \<Rightarrow> string" where
  "metadataPath mount pfx issuer subject =
     path_join [mount, ''metadata'', pfx, HashComponent issuer, HashComponent subject]"

lemma HashComponent_normal: "normal_segment (HashComponent v)"
proof -
  have len: "length (HashComponent v) = 43"
    by (simp add: HashComponent_def base64_raw_url_length length_sha256)
  have "CHR ''/'' \<notin> set base64_digits" unfolding base64_digits_def by code_simp
  then have "CHR ''/'' \<notin> set (HashComponent v)"
    using base64_raw_url_set unfolding HashComponent_def by blast
  then show ?thesis using len by (auto simp: normal_segment_def)
qed

lemma HashComponent_eq: "HashComponent v = HashComponent w \<longleftrightarrow> sha256 v = sha256 w"
  using base64_raw_url_inj by (auto simp: HashComponent_def)

text \<open>Two normal segments at the end of a path stay there when the path is cleaned.\<close>

lemma split_on_append: "split_on c (a @ c # b) = split_on c a @ split_on c b"
  by (induction a) (auto split: list.splits)

lemma clean_segments_append:
  assumes "\<And>q. q \<in> set qs \<Longrightarrow> normal_segment q"
  shows "clean_segments r st (ps @ qs) = clean_segments r st ps @ qs"
  by (induction r st ps rule: clean_segments.induct)
    (simp_all add: clean_segments_id assms split: list.splits)

lemma join_append:
  "join sep (xs @ [a, b]) = (if xs = [] then [] else join sep xs @ sep) @ a @ sep @ b"
  by (induction sep xs rule: join.induct) auto

lemma path_clean_two:
  assumes "normal_segment a" and "normal_segment b"
  shows "\<exists>pre. \<forall>a' b'. normal_segment a' \<longrightarrow> normal_segment b' \<longrightarrow>
    path_clean (p @ ''/'' @ a' @ ''/'' @ b') = pre @ a' @ ''/'' @ b'"
proof -
  let ?r = "hd (p @ ''/'') = CHR ''/''"
  let ?xs = "clean_segments ?r [] (split_on CHR ''/'' p)"
  let ?pre = "(if ?r then ''/'' else []) @ (if ?xs = [] then [] else join ''/'' ?xs @ ''/'')"
  have "path_clean (p @ ''/'' @ a' @ ''/'' @ b') = ?pre @ a' @ ''/'' @ b'"
    if n: "normal_segment a'" "normal_segment b'" for a' b'
  proof -
    have s: "split_on CHR ''/'' (p @ ''/'' @ a' @ ''/'' @ b') = split_on CHR ''/'' p @ [a', b']"
      using n by (simp add: split_on_append split_on_notin normal_segment_def)
    have h: "hd (p @ ''/'' @ a' @ ''/'' @ b') = hd (p @ ''/'')" by (cases p) auto
    have c: "clean_segments ?r [] (split_on CHR ''/'' p @ [a', b']) = ?xs @ [a', b']"
      by (rule clean_segments_append) (use n in auto)
    have ne: "a' \<noteq> []" using n by (simp add: normal_segment_def)
    show ?thesis
      unfolding path_clean_def Let_def s h c join_append using ne by simp
  qed
  then show ?thesis by blast
qed

lemma two_segments_eq:
  assumes "CHR ''/'' \<notin> set a" and "CHR ''/'' \<notin> set a'"
  shows "a @ ''/'' @ b = a' @ ''/'' @ b' \<longleftrightarrow> a = a' \<and> b = b'"
proof
  assume e: "a @ ''/'' @ b = a' @ ''/'' @ b'"
  have "takeWhile (\<lambda>c. c \<noteq> CHR ''/'') (a @ ''/'' @ b) = a"
    and "takeWhile (\<lambda>c. c \<noteq> CHR ''/'') (a' @ ''/'' @ b') = a'"
    using assms by simp_all
  then show "a = a' \<and> b = b'" using e by simp
qed simp

lemma PathFor_split:
  "\<exists>pre. \<forall>i s. PathFor pfx i s = pre @ HashComponent i @ ''/'' @ HashComponent s"
proof (cases "trim_chars pfx ''/'' = []")
  case True
  have "PathFor pfx i s = HashComponent i @ ''/'' @ HashComponent s" for i s
  proof -
    have n: "normal_segment (HashComponent i)" "normal_segment (HashComponent s)"
      by (rule HashComponent_normal)+
    then have ne: "HashComponent i \<noteq> []" "HashComponent s \<noteq> []"
      by (auto simp: normal_segment_def)
    have h: "hd (HashComponent i) \<noteq> CHR ''/''"
      using n ne by (metis hd_in_set normal_segment_def)
    have s: "split_on CHR ''/'' (HashComponent i @ ''/'' @ HashComponent s)
        = [HashComponent i, HashComponent s]"
      using n by (simp add: split_on_append split_on_notin normal_segment_def)
    have nd: "HashComponent v \<noteq> ''.''" "HashComponent v \<noteq> ''..''" for v
      using HashComponent_normal by (auto simp: normal_segment_def)
    show ?thesis
      using ne h n nd by (simp add: PathFor_def path_join_def True path_clean_def s [simplified] clean_segments_id)
  qed
  then show ?thesis by (metis append_Nil)
next
  case False
  obtain pre where pre: "\<And>a' b'. normal_segment a' \<Longrightarrow> normal_segment b' \<Longrightarrow>
      path_clean (trim_chars pfx ''/'' @ ''/'' @ a' @ ''/'' @ b') = pre @ a' @ ''/'' @ b'"
    using path_clean_two [of "HashComponent []" "HashComponent []"] HashComponent_normal by blast
  have ne: "HashComponent v \<noteq> []" for v using HashComponent_normal by (simp add: normal_segment_def)
  have "PathFor pfx i s = pre @ HashComponent i @ ''/'' @ HashComponent s" for i s
    using pre [OF HashComponent_normal HashComponent_normal] False ne
    by (simp add: PathFor_def path_join_def)
  then show ?thesis by blast
qed

lemma PathFor_eq:
  "PathFor pfx i s = PathFor pfx i' s' \<longleftrightarrow> sha256 i = sha256 i' \<and> sha256 s = sha256 s'"
proof -
  obtain pre where "\<And>i s. PathFor pfx i s = pre @ HashComponent i @ ''/'' @ HashComponent s"
    using PathFor_split by blast
  moreover have "CHR ''/'' \<notin> set (HashComponent v)" for v
    using HashComponent_normal by (simp add: normal_segment_def)
  ultimately show ?thesis by (simp add: two_segments_eq HashComponent_eq del: append_Cons append_Nil)
qed

text \<open>
  Credentials of two users share a path only if the SHA-256 hashes of both their issuers and
  their subjects collide: no choice of issuer and subject texts (slashes, dots, separators) makes
  one user's path another's.
\<close>

theorem PathFor_injective_up_to_sha256:
  "PathFor pfx i s = PathFor pfx i' s' \<longleftrightarrow> sha256 i = sha256 i' \<and> sha256 s = sha256 s'"
  by (rule PathFor_eq)

subsection \<open>The contract\<close>

text \<open>
  A credential store keeps at most one credential per slot. \<open>login_of\<close> is the part of a credential that
  a login needs; a store may set the times of a credential when it writes it.
\<close>

definition login_of :: "Credential \<Rightarrow> string \<times> string" where
  "login_of c = (N8NEmailOrLoginID c, N8NPassword c)"

locale credential_store =
  fixes get :: "string \<Rightarrow> string \<Rightarrow> 's \<Rightarrow> (vault_err + Credential) \<times> 's"
    and put :: "Credential \<Rightarrow> 's \<Rightarrow> vault_err option \<times> 's"
    and del :: "string \<Rightarrow> string \<Rightarrow> 's \<Rightarrow> vault_err option \<times> 's"
    and stored :: "'s \<Rightarrow> string \<Rightarrow> (string \<times> string) option"
    and slot :: "string \<Rightarrow> string \<Rightarrow> string"
  assumes get_ok: "get i u s = (Inr c, s') \<Longrightarrow>
      stored s (slot i u) = Some (login_of c) \<and> stored s' = stored s"
    and get_missing: "get i u s = (Inl CredNotFound, s') \<Longrightarrow>
      stored s (slot i u) = None \<and> stored s' = stored s"
    and put_ok: "put c s = (None, s') \<Longrightarrow>
      stored s' = (stored s)(slot (cred_Issuer c) (cred_Subject c) := Some (login_of c))"
    and del_ok: "del i u s = (None, s') \<Longrightarrow> stored s' = (stored s)(slot i u := None)"
begin

lemma put_get:
  assumes "put c s = (None, s')" and "get (cred_Issuer c) (cred_Subject c) s' = (Inr d, s'')"
  shows "login_of d = login_of c"
  using put_ok [OF assms(1)] get_ok [OF assms(2)] by simp

lemma put_other:
  assumes "put c s = (None, s')" and "slot (cred_Issuer c) (cred_Subject c) \<noteq> slot i u"
  shows "stored s' (slot i u) = stored s (slot i u)"
  using put_ok [OF assms(1)] assms(2) by simp

lemma del_get:
  assumes "del i u s = (None, s')" and "get i u s' = (r, s'')"
  shows "isl r"
proof (cases r)
  case (Inr c)
  then show ?thesis using del_ok [OF assms(1)] get_ok [of i u s' c s''] assms(2) by simp
qed simp

end

subsection \<open>The in-memory store\<close>

type_synonym CredentialMap = "string \<rightharpoonup> Credential"

definition NewCredentialStore :: CredentialMap where
  "NewCredentialStore = Map.empty"

definition GetCredential :: "string \<Rightarrow> string \<Rightarrow> CredentialMap \<Rightarrow> (vault_err + Credential) \<times> CredentialMap" where
  "GetCredential issuer subject items =
     (case items (PathFor [] issuer subject) of
        None \<Rightarrow> (Inl CredNotFound, items)
      | Some cred \<Rightarrow> (Inr cred, items))"

definition PutCredential :: "Credential \<Rightarrow> CredentialMap \<Rightarrow> vault_err option \<times> CredentialMap" where
  "PutCredential cred items =
     (None, items(PathFor [] (cred_Issuer cred) (cred_Subject cred) \<mapsto> cred))"

definition DeleteCredential ::
  "string \<Rightarrow> string \<Rightarrow> CredentialMap \<Rightarrow> vault_err option \<times> CredentialMap" where
  "DeleteCredential issuer subject items = (None, items(PathFor [] issuer subject := None))"

definition PingCredentials :: "CredentialMap \<Rightarrow> vault_err option \<times> CredentialMap" where
  "PingCredentials items = (None, items)"

lemma map_option_upd: "map_option f \<circ> (m(k := v)) = (map_option f \<circ> m)(k := map_option f v)"
  by auto

interpretation memcred: credential_store GetCredential PutCredential DeleteCredential
  "\<lambda>items. map_option login_of \<circ> items" "PathFor []"
  by unfold_locales
    (auto simp: GetCredential_def PutCredential_def DeleteCredential_def map_option_upd split: option.splits)

lemma get_after_put:
  "fst (GetCredential i s (snd (PutCredential c items))) =
     (if sha256 (cred_Issuer c) = sha256 i \<and> sha256 (cred_Subject c) = sha256 s then Inr c
      else fst (GetCredential i s items))"
  unfolding PathFor_eq [of "[]", symmetric]
  by (auto simp: GetCredential_def PutCredential_def split: option.splits)

lemma get_after_delete: "fst (GetCredential i s (snd (DeleteCredential i s items))) = Inl CredNotFound"
  using memcred.del_get [of i s items "snd (DeleteCredential i s items)"]
  by (simp add: GetCredential_def DeleteCredential_def)

text \<open>
  Reading a credential after one was linked gives the one linked exactly for the users whose
  issuer and subject have its hashes, and what was there before for everyone else; after it is
  deleted, reading it reports that there is none.
\<close>

theorem credential_link_unlink:
  "fst (GetCredential i s (snd (PutCredential c items))) =
     (if sha256 (cred_Issuer c) = sha256 i \<and> sha256 (cred_Subject c) = sha256 s then Inr c
      else fst (GetCredential i s items))
   \<and> fst (GetCredential i s (snd (DeleteCredential i s items))) = Inl CredNotFound"
  using get_after_put get_after_delete by blast

end
