(* ===== verification/Go_Json.thy ===== *)
theory Go_Json
  imports Go_Http "HOL-Library.List_Lexorder"
begin

text \<open>
  The part of \<open>encoding/json\<close> that the gateway uses: the encoding of booleans, strings and maps with
  string keys (the keys come out sorted), with the escaping of HTML characters that \<open>Marshal\<close> and
  \<open>NewEncoder\<close> do by default.
\<close>

subsection \<open>UTF-8\<close>

text \<open>
  The length of the well-formed multi-byte UTF-8 sequence that a string begins with, 0 if there is
  none (where \<open>utf8.DecodeRune\<close> reports \<open>RuneError\<close> of width 1).
\<close>

definition cont_byte :: "char \<Rightarrow> bool" where
  "cont_byte c \<longleftrightarrow> CHR 0x80 \<le> c \<and> c \<le> CHR 0xBF"

definition utf8_second :: "char \<Rightarrow> char \<Rightarrow> bool" where
  "utf8_second b c \<longleftrightarrow>
     (if b = CHR 0xE0 then CHR 0xA0 else if b = CHR 0xF0 then CHR 0x90 else CHR 0x80) \<le> c
     \<and> c \<le> (if b = CHR 0xED then CHR 0x9F else if b = CHR 0xF4 then CHR 0x8F else CHR 0xBF)"

fun utf8_length :: "string \<Rightarrow> nat" where
  "utf8_length (b # c # cs) =
     (if CHR 0xC2 \<le> b \<and> b \<le> CHR 0xDF then (if utf8_second b c then 2 else 0)
      else if CHR 0xE0 \<le> b \<and> b \<le> CHR 0xEF then
        (case cs of d # _ \<Rightarrow> if utf8_second b c \<and> cont_byte d then 3 else 0 | [] \<Rightarrow> 0)
      else if CHR 0xF0 \<le> b \<and> b \<le> CHR 0xF4 then
        (case cs of d # e # _ \<Rightarrow> if utf8_second b c \<and> cont_byte d \<and> cont_byte e then 4 else 0 | _ \<Rightarrow> 0)
      else 0)"
| "utf8_length _ = 0"

subsection \<open>Strings\<close>

definition backslash :: char where
  "backslash = CHR 0x5C"

definition json_ascii :: "char \<Rightarrow> string" where
  "json_ascii c =
     (if c = backslash \<or> c = CHR 0x22 then [backslash, c]
      else if c = CHR 0x08 then [backslash, CHR ''b'']
      else if c = CHR 0x0C then [backslash, CHR ''f'']
      else if c = CHR 0x0A then [backslash, CHR ''n'']
      else if c = CHR 0x0D then [backslash, CHR ''r'']
      else if c = CHR 0x09 then [backslash, CHR ''t'']
      else if c < CHR 0x20 \<or> c = CHR ''<'' \<or> c = CHR ''>'' \<or> c = CHR ''&'' then
        [backslash, CHR ''u'', CHR ''0'', CHR ''0'', lowerhex (of_char c div 16), lowerhex (of_char c mod 16)]
      else [c])"

function json_chars :: "string \<Rightarrow> string" where
  "json_chars [] = []"
| "json_chars (c # cs) =
     (if c < CHR 0x80 then json_ascii c @ json_chars cs
      else
        (let n = utf8_length (c # cs) in
         if n = 0 then backslash # ''ufffd'' @ json_chars cs
         else if take 2 (c # cs) = [CHR 0xE2, CHR 0x80] \<and> n = 3
              \<and> (nth (c # cs) 2 = CHR 0xA8 \<or> nth (c # cs) 2 = CHR 0xA9) then
           backslash # ''u202'' @ [if nth (c # cs) 2 = CHR 0xA8 then CHR ''8'' else CHR ''9'']
             @ json_chars (drop (n - 1) cs)
         else take n (c # cs) @ json_chars (drop (n - 1) cs)))"
  by pat_completeness auto
termination
  by (relation "measure length") auto

declare json_chars.simps [simp del]

definition json_string :: "string \<Rightarrow> string" where
  "json_string s = CHR 0x22 # json_chars s @ [CHR 0x22]"

subsection \<open>Values\<close>

datatype json = JBool bool | JString string | JObject "(string \<times> json) list"

fun json_encode :: "json \<Rightarrow> string" and json_field :: "string \<times> json \<Rightarrow> string \<times> string" where
  "json_encode (JBool b) = (if b then ''true'' else ''false'')"
| "json_encode (JString s) = json_string s"
| "json_encode (JObject fs) =
     ''{'' @ join '','' (map snd (sort_key fst (map json_field fs))) @ ''}''"
| "json_field (k, v) = (k, json_string k @ '':'' @ json_encode v)"

lemma json_examples:
  "json_encode (JObject [(''ok'', JBool True), (''checks'', JObject [(''vault'', JString ''ok'')])])
     = ''{'' @ json_string ''checks'' @ '':{'' @ json_string ''vault'' @ '':'' @ json_string ''ok''
       @ ''},'' @ json_string ''ok'' @ '':true}''"
  "json_chars ''a<b'' = ''a'' @ [backslash] @ ''u003cb''"
  "json_chars [CHR 0xEA, CHR 0xB3, CHR 0x84, CHR 0xFF] = [CHR 0xEA, CHR 0xB3, CHR 0x84, backslash] @ ''ufffd''"
  by code_simp+

end
