(* ===== verification/N8n_Client.thy ===== *)
theory N8n_Client
  imports Go_Json
begin

text \<open>
  \<open>src/internal/n8n\<close>: the client for n8n's login, session and health endpoints. The network is a
  parameter: \<open>transport req s\<close> is what \<open>http.Client.Do\<close> returns for a request in the state \<open>s\<close> of the
  world, an error or a response whose body has been read.
\<close>

record LoginResult =
  lr_StatusCode :: nat
  lr_Body :: string
  lr_Cookies :: "string list"

record CurrentUserResult =
  cu_StatusCode :: nat
  cu_Body :: string
  cu_Cookies :: "string list"
  cu_ContentType :: string

record LogoutResult =
  lo_StatusCode :: nat
  lo_Cookies :: "string list"

datatype n8n_err =
    ErrInvalidCredential
  | ErrMFARequired
  | ErrRateLimited
  | ErrNoSessionCookie
  | N8nFailure string

definition no_login_result :: LoginResult where
  "no_login_result = \<lparr>lr_StatusCode = 0, lr_Body = [], lr_Cookies = []\<rparr>"

definition no_user_result :: CurrentUserResult where
  "no_user_result = \<lparr>cu_StatusCode = 0, cu_Body = [], cu_Cookies = [], cu_ContentType = []\<rparr>"

definition no_logout_result :: LogoutResult where
  "no_logout_result = \<lparr>lo_StatusCode = 0, lo_Cookies = []\<rparr>"

subsection \<open>Requests and responses\<close>

record out_request =
  o_method :: string
  o_url :: url
  o_header :: header
  o_body :: string

record in_response =
  i_status :: nat
  i_header :: header
  i_body :: string

type_synonym 's transport = "out_request \<Rightarrow> 's \<Rightarrow> (string + in_response) \<times> 's"

text \<open>\<open>HTTPClient.join\<close>, and \<open>http.NewRequestWithContext\<close>, which parses the URL it is given.\<close>

definition join_url :: "url \<Rightarrow> string \<Rightarrow> string" where
  "join_url upstream path =
     url_string (upstream\<lparr>u_path := trim_right_chars (u_path upstream) ''/'' @ path, u_raw_query := []\<rparr>)"

definition new_request :: "string \<Rightarrow> string \<Rightarrow> string \<Rightarrow> out_request option" where
  "new_request method target body =
     map_option (\<lambda>u. \<lparr>o_method = method, o_url = u, o_header = empty_header, o_body = body\<rparr>)
       (url_parse target)"

definition with_header :: "string \<Rightarrow> string \<Rightarrow> out_request \<Rightarrow> out_request" where
  "with_header k v req = req\<lparr>o_header := hset k v (o_header req)\<rparr>"

text \<open>\<open>io.ReadAll(io.LimitReader(body, n))\<close>.\<close>

definition read_limited :: "nat \<Rightarrow> in_response \<Rightarrow> string" where
  "read_limited n resp = take n (i_body resp)"

subsection \<open>Login\<close>

definition loginHeaderNames :: "string list" where
  "loginHeaderNames =
     [''User-Agent'', ''Accept-Language'', ''X-Forwarded-For'', ''X-Forwarded-Host'',
      ''X-Forwarded-Proto'', ''X-Real-Ip'']"

definition copyLoginHeaders :: "header list \<Rightarrow> header \<Rightarrow> header" where
  "copyLoginHeaders sources dst =
     fold (\<lambda>source. fold (\<lambda>name h. if hget source name \<noteq> [] then hset name (hget source name) h else h)
             loginHeaderNames) sources dst"

definition looksLikeMFA :: "string \<Rightarrow> bool" where
  "looksLikeMFA body =
     (let lower = to_lower body in str_contains lower ''mfa'' \<or> str_contains lower ''998'')"

definition login_body :: "string \<Rightarrow> string \<Rightarrow> string" where
  "login_body emailOrLoginID password =
     json_encode (JObject [(''emailOrLdapLoginId'', JString emailOrLoginID), (''password'', JString password)])"

text \<open>What \<open>Login\<close> makes of a response.\<close>

definition login_outcome :: "in_response \<Rightarrow> LoginResult \<times> n8n_err option" where
  "login_outcome resp =
     (let respBody = read_limited (1024 * 1024) resp;
          result = \<lparr>lr_StatusCode = i_status resp, lr_Body = respBody,
                    lr_Cookies = i_header resp ''Set-Cookie''\<rparr>
      in if i_status resp = 429 then (result, Some ErrRateLimited)
         else if i_status resp = 400 \<or> i_status resp = 401 then
           (if looksLikeMFA respBody then (result, Some ErrMFARequired)
            else (result, Some ErrInvalidCredential))
         else if i_status resp < 200 \<or> i_status resp > 299 then
           (result, Some (N8nFailure (''n8n login failed with status '' @ nat_decimal (i_status resp))))
         else if lr_Cookies result = [] then (result, Some ErrNoSessionCookie)
         else (result, None))"

definition login_request :: "url \<Rightarrow> string \<Rightarrow> string \<Rightarrow> header list \<Rightarrow> out_request option" where
  "login_request upstream emailOrLoginID password forwarded =
     map_option (\<lambda>req.
        (let req' = with_header ''Accept'' ''application/json''
                      (with_header ''Content-Type'' ''application/json'' req)
         in req'\<lparr>o_header := copyLoginHeaders forwarded (o_header req')\<rparr>))
       (new_request ''POST'' (join_url upstream ''/rest/login'') (login_body emailOrLoginID password))"

definition Login ::
  "'s transport \<Rightarrow> url \<Rightarrow> string \<Rightarrow> string \<Rightarrow> header list \<Rightarrow> 's \<Rightarrow> (LoginResult \<times> n8n_err option) \<times> 's" where
  "Login transport upstream emailOrLoginID password forwarded s =
     (case login_request upstream emailOrLoginID password forwarded of
        None \<Rightarrow> ((no_login_result, Some (N8nFailure ''create n8n login request'')), s)
      | Some req \<Rightarrow>
          (case transport req s of
             (Inl e, s') \<Rightarrow> ((no_login_result, Some (N8nFailure (''send n8n login request: '' @ e))), s')
           | (Inr resp, s') \<Rightarrow> (login_outcome resp, s')))"

subsection \<open>Current user, logout and health\<close>

definition with_cookie :: "string \<Rightarrow> out_request \<Rightarrow> out_request" where
  "with_cookie cookieHeader req =
     (if cookieHeader \<noteq> [] then with_header ''Cookie'' cookieHeader req else req)"

definition CurrentUser ::
  "'s transport \<Rightarrow> url \<Rightarrow> string \<Rightarrow> 's \<Rightarrow> (CurrentUserResult \<times> n8n_err option) \<times> 's" where
  "CurrentUser transport upstream cookieHeader s =
     (case new_request ''GET'' (join_url upstream ''/rest/login'') [] of
        None \<Rightarrow> ((no_user_result, Some (N8nFailure ''create n8n current user request'')), s)
      | Some req \<Rightarrow>
          (case transport (with_cookie cookieHeader (with_header ''Accept'' ''application/json'' req)) s of
             (Inl e, s') \<Rightarrow> ((no_user_result, Some (N8nFailure (''send n8n current user request: '' @ e))), s')
           | (Inr resp, s') \<Rightarrow>
               ((\<lparr>cu_StatusCode = i_status resp, cu_Body = read_limited (1024 * 1024) resp,
                  cu_Cookies = i_header resp ''Set-Cookie'',
                  cu_ContentType = hget (i_header resp) ''Content-Type''\<rparr>, None), s')))"

definition Logout ::
  "'s transport \<Rightarrow> url \<Rightarrow> string \<Rightarrow> 's \<Rightarrow> (LogoutResult \<times> n8n_err option) \<times> 's" where
  "Logout transport upstream cookieHeader s =
     (case new_request ''POST'' (join_url upstream ''/rest/logout'') [] of
        None \<Rightarrow> ((no_logout_result, Some (N8nFailure ''create n8n logout request'')), s)
      | Some req \<Rightarrow>
          (case transport (with_cookie cookieHeader req) s of
             (Inl e, s') \<Rightarrow> ((no_logout_result, Some (N8nFailure (''send n8n logout request: '' @ e))), s')
           | (Inr resp, s') \<Rightarrow>
               (let result = \<lparr>lo_StatusCode = i_status resp, lo_Cookies = i_header resp ''Set-Cookie''\<rparr>
                in if i_status resp \<ge> 500
                   then ((result, Some (N8nFailure (''n8n logout failed with status '' @ nat_decimal (i_status resp)))), s')
                   else ((result, None), s'))))"

text \<open>The second attempt of \<open>Ping\<close>, at the root, when \<open>/healthz\<close> does not answer well.\<close>

definition ping_root :: "'s transport \<Rightarrow> url \<Rightarrow> 's \<Rightarrow> n8n_err option \<times> 's" where
  "ping_root transport upstream s =
     (case new_request ''GET'' (join_url upstream ''/'') [] of
        None \<Rightarrow> (Some (N8nFailure ''create request''), s)
      | Some req \<Rightarrow>
          (case transport req s of
             (Inl e, s') \<Rightarrow> (Some (N8nFailure (''n8n ping: '' @ e)), s')
           | (Inr resp, s') \<Rightarrow>
               if i_status resp \<ge> 500
               then (Some (N8nFailure (''n8n ping failed with status '' @ nat_decimal (i_status resp))), s')
               else (None, s')))"

definition Ping :: "'s transport \<Rightarrow> url \<Rightarrow> 's \<Rightarrow> n8n_err option \<times> 's" where
  "Ping transport upstream s =
     (case new_request ''GET'' (join_url upstream ''/healthz'') [] of
        None \<Rightarrow> (Some (N8nFailure ''create request''), s)
      | Some req \<Rightarrow>
          (case transport req s of
             (Inl e, s') \<Rightarrow> ping_root transport upstream s'
           | (Inr resp, s') \<Rightarrow>
               if i_status resp < 500 then (None, s') else ping_root transport upstream s'))"

subsection \<open>The client\<close>

text \<open>
  \<open>HTTPClient\<close> and \<open>NewClient\<close>; \<open>with_timeout\<close> is the transport of an \<open>http.Client\<close> with a time limit.
\<close>

record 's HTTPClient =
  hc_upstream :: url
  hc_client :: "'s transport"

definition NewClient :: "(duration \<Rightarrow> 's transport) \<Rightarrow> url \<Rightarrow> duration \<Rightarrow> 's HTTPClient" where
  "NewClient with_timeout upstream timeout = \<lparr>hc_upstream = upstream, hc_client = with_timeout timeout\<rparr>"

subsection \<open>The fake client of the tests\<close>

text \<open>\<open>fake.go\<close>: each function of the fake may be missing, which gives a default result.\<close>

record 's FakeClient =
  LoginFunc :: "(string \<Rightarrow> string \<Rightarrow> 's \<Rightarrow> (LoginResult \<times> n8n_err option) \<times> 's) option"
  CurrentUserFunc :: "(string \<Rightarrow> 's \<Rightarrow> (CurrentUserResult \<times> n8n_err option) \<times> 's) option"
  LogoutFunc :: "(string \<Rightarrow> 's \<Rightarrow> (LogoutResult \<times> n8n_err option) \<times> 's) option"
  PingFunc :: "('s \<Rightarrow> n8n_err option \<times> 's) option"

definition fake_Login ::
  "'s FakeClient \<Rightarrow> string \<Rightarrow> string \<Rightarrow> header list \<Rightarrow> 's \<Rightarrow> (LoginResult \<times> n8n_err option) \<times> 's" where
  "fake_Login c emailOrLoginID password forwarded s =
     (case LoginFunc c of
        None \<Rightarrow> ((no_login_result, Some (N8nFailure ''fake n8n LoginFunc is nil'')), s)
      | Some f \<Rightarrow> f emailOrLoginID password s)"

definition fake_CurrentUser ::
  "'s FakeClient \<Rightarrow> string \<Rightarrow> 's \<Rightarrow> (CurrentUserResult \<times> n8n_err option) \<times> 's" where
  "fake_CurrentUser c cookieHeader s =
     (case CurrentUserFunc c of
        None \<Rightarrow>
          ((\<lparr>cu_StatusCode = 401, cu_Body = json_encode (JObject [(''error'', JString ''unauthorized'')]),
             cu_Cookies = [], cu_ContentType = ''application/json''\<rparr>, None), s)
      | Some f \<Rightarrow> f cookieHeader s)"

definition fake_Logout :: "'s FakeClient \<Rightarrow> string \<Rightarrow> 's \<Rightarrow> (LogoutResult \<times> n8n_err option) \<times> 's" where
  "fake_Logout c cookieHeader s =
     (case LogoutFunc c of
        None \<Rightarrow> ((no_logout_result\<lparr>lo_StatusCode := 200\<rparr>, None), s)
      | Some f \<Rightarrow> f cookieHeader s)"

definition fake_Ping :: "'s FakeClient \<Rightarrow> 's \<Rightarrow> n8n_err option \<times> 's" where
  "fake_Ping c s = (case PingFunc c of None \<Rightarrow> (None, s) | Some f \<Rightarrow> f s)"

subsection \<open>Properties\<close>

text \<open>
  A login counts as successful exactly when n8n answered with a status of the 200s and set at
  least one cookie; 429 is rate limiting whatever the body says; a 400 or 401 is an MFA demand when
  the body mentions one and a wrong credential otherwise. The cookies passed on are all of the
  response's.
\<close>

theorem Login_outcomes:
  "snd (login_outcome resp) =
     (if i_status resp = 429 then Some ErrRateLimited
      else if i_status resp \<in> {400, 401} then
        Some (if looksLikeMFA (take 1048576 (i_body resp)) then ErrMFARequired else ErrInvalidCredential)
      else if \<not> (200 \<le> i_status resp \<and> i_status resp < 300) then
        Some (N8nFailure (''n8n login failed with status '' @ nat_decimal (i_status resp)))
      else if i_header resp ''Set-Cookie'' = [] then Some ErrNoSessionCookie
      else None)
   \<and> lr_Cookies (fst (login_outcome resp)) = i_header resp ''Set-Cookie''"
  by (auto simp: login_outcome_def read_limited_def Let_def)

lemma copyLoginHeaders_other:
  assumes "\<not> List.member loginHeaderNames k"
  shows "copyLoginHeaders sources h k = h k"
proof -
  have names: "fold (\<lambda>name h. if hget source name \<noteq> [] then hset name (hget source name) h else h) ns h k = h k"
    if "k \<notin> set ns" for source ns h
    using that by (induction ns arbitrary: h) auto
  show ?thesis
    using assms names [of loginHeaderNames]
    by (induction sources arbitrary: h) (auto simp: copyLoginHeaders_def)
qed

text \<open>
  The login request that the gateway sends never carries a cookie or an authorization of the
  browser, whatever headers are forwarded: apart from the content type and the accepted type, only
  the six forwarding headers can be on it.
\<close>

theorem login_request_headers:
  assumes "login_request upstream emailOrLoginID password forwarded = Some req"
    and "\<not> List.member (''Content-Type'' # ''Accept'' # loginHeaderNames) k"
  shows "o_header req k = [] \<and> o_method req = ''POST'' \<and> o_body req = login_body emailOrLoginID password"
  using assms
  by (auto simp: login_request_def new_request_def with_header_def Let_def copyLoginHeaders_other
      loginHeaderNames_def)

theorem login_request_headers_witness:
  "o_header (the (login_request (the (url_parse ''http://n8n:5678'')) ''me'' ''pw'' [(\<lambda>_. [''sid=1''])])) ''Cookie'' = []
   \<and> o_header (the (login_request (the (url_parse ''http://n8n:5678'')) ''me'' ''pw'' [(\<lambda>_. [''sid=1''])])) ''User-Agent'' = [''sid=1'']"
proof -
  have "login_request (the (url_parse ''http://n8n:5678'')) ''me'' ''pw'' [(\<lambda>_. [''sid=1''])] \<noteq> None"
    by code_simp
  then obtain req where
    req: "login_request (the (url_parse ''http://n8n:5678'')) ''me'' ''pw'' [(\<lambda>_. [''sid=1''])] = Some req"
    by blast
  have "\<not> List.member (''Content-Type'' # ''Accept'' # loginHeaderNames) ''Cookie''" by code_simp
  then have "o_header req ''Cookie'' = []" using login_request_headers [OF req] by blast
  moreover have "o_header (the (login_request (the (url_parse ''http://n8n:5678'')) ''me'' ''pw'' [(\<lambda>_. [''sid=1''])])) ''User-Agent'' = [''sid=1'']"
    by code_simp
  ultimately show ?thesis by (simp add: req)
qed

definition answers_well :: "(string + in_response) \<Rightarrow> bool" where
  "answers_well r = (case r of Inl _ \<Rightarrow> False | Inr resp \<Rightarrow> i_status resp < 500)"

text \<open>
  n8n counts as healthy exactly when \<open>/healthz\<close> or, failing that, the root answers with a
  status below 500; the root is asked only if \<open>/healthz\<close> failed.
\<close>

theorem Ping_healthy_iff:
  assumes "new_request ''GET'' (join_url upstream ''/healthz'') [] = Some hz"
    and "new_request ''GET'' (join_url upstream ''/'') [] = Some rt"
  shows "Ping transport upstream s =
    (case transport hz s of
       (r, s') \<Rightarrow>
         if answers_well r then (None, s')
         else (case transport rt s' of
                 (r', s'') \<Rightarrow> (fst (ping_root transport upstream s'), s'')))
    \<and> (fst (ping_root transport upstream s') = None) = answers_well (fst (transport rt s'))"
  using assms
  by (auto simp: Ping_def ping_root_def answers_well_def split: prod.splits sum.splits)

theorem Ping_healthy_iff_witness:
  "fst (Ping (\<lambda>req n. (Inr \<lparr>i_status = (if n = 0 then 503 else 404), i_header = empty_header, i_body = []\<rparr>, Suc n))
     (the (url_parse ''http://n8n:5678'')) 0) = None"
proof -
  have "new_request ''GET'' (join_url (the (url_parse ''http://n8n:5678'')) ''/healthz'') [] \<noteq> None"
    and "new_request ''GET'' (join_url (the (url_parse ''http://n8n:5678'')) ''/'') [] \<noteq> None"
    by code_simp+
  then obtain hz rt where
    r: "new_request ''GET'' (join_url (the (url_parse ''http://n8n:5678'')) ''/healthz'') [] = Some hz"
      "new_request ''GET'' (join_url (the (url_parse ''http://n8n:5678'')) ''/'') [] = Some rt"
    by blast
  show ?thesis
    using Ping_healthy_iff [OF r, of "\<lambda>req n. (Inr \<lparr>i_status = (if n = 0 then 503 else 404), i_header = empty_header, i_body = []\<rparr>, Suc n)" "0::nat" 1]
    by (simp add: answers_well_def)
qed

end
