(* ===== verification/Oidc_Client.thy ===== *)
theory Oidc_Client
  imports Tokens Go_Url
begin

text \<open>
  \<open>src/internal/oidc\<close>: the OpenID Connect client. The OAuth2 library and the ID token verifier are
  parameters (fields of \<open>ProviderClient\<close>): the authorization URL for a state and extra parameters, the
  exchange of a code, the verification of a raw ID token, and the decoding of its claims.
\<close>

record Identity =
  id_Issuer :: string
  id_Subject :: string
  id_Email :: string
  id_Name :: string

record id_token =
  tok_Issuer :: string
  tok_Subject :: string
  tok_Nonce :: string

record 's ProviderClient =
  oa_authCodeURL :: "string \<Rightarrow> key_value list \<Rightarrow> string"
  oa_exchange :: "string \<Rightarrow> string \<Rightarrow> 's \<Rightarrow> (string + string option) \<times> 's"
  oa_verify :: "string \<Rightarrow> 's \<Rightarrow> (string + id_token) \<times> 's"
  oa_claims :: "id_token \<Rightarrow> string + (string \<times> string)"
  oa_initialized :: bool

text \<open>
  \<open>New\<close>: the discovery of the provider (\<open>gooidc.NewProvider\<close>) is a parameter; what it returns makes the OAuth2
  client of a configuration and the verifier of a client identifier.
\<close>

record OidcConfig =
  oc_IssuerURL :: string
  oc_ClientID :: string
  oc_ClientSecret :: string
  oc_Scopes :: "string list"
  oc_RedirectURL :: string

record oauth2_config =
  o2_ClientID :: string
  o2_ClientSecret :: string
  o2_RedirectURL :: string
  o2_Scopes :: "string list"

record 's OidcProvider =
  pr_authCodeURL :: "oauth2_config \<Rightarrow> string \<Rightarrow> key_value list \<Rightarrow> string"
  pr_exchange :: "oauth2_config \<Rightarrow> string \<Rightarrow> string \<Rightarrow> 's \<Rightarrow> (string + string option) \<times> 's"
  pr_verify :: "string \<Rightarrow> string \<Rightarrow> 's \<Rightarrow> (string + id_token) \<times> 's"
  pr_claims :: "id_token \<Rightarrow> string + (string \<times> string)"

definition NewProviderClient ::
  "(string \<Rightarrow> 's \<Rightarrow> (string + 's OidcProvider) \<times> 's) \<Rightarrow> OidcConfig \<Rightarrow> 's \<Rightarrow> (string + 's ProviderClient) \<times> 's" where
  "NewProviderClient newProvider oc s =
     (case newProvider (oc_IssuerURL oc) s of
        (Inl e, s') \<Rightarrow> (Inl (''discover oidc provider: '' @ e), s')
      | (Inr p, s') \<Rightarrow>
          (let scopes = (if oc_Scopes oc = [] then [''openid'', ''profile'', ''email''] else oc_Scopes oc);
               o2 = \<lparr>o2_ClientID = oc_ClientID oc, o2_ClientSecret = oc_ClientSecret oc,
                     o2_RedirectURL = oc_RedirectURL oc, o2_Scopes = scopes\<rparr>
           in (Inr \<lparr>oa_authCodeURL = pr_authCodeURL p o2, oa_exchange = pr_exchange p o2,
                    oa_verify = pr_verify p (oc_ClientID oc), oa_claims = pr_claims p, oa_initialized = True\<rparr>, s')))"

definition codeChallengeS256 :: "string \<Rightarrow> string" where
  "codeChallengeS256 verifier = base64_raw_url (sha256 verifier)"

text \<open>The parameters of \<open>AuthCodeURL\<close> beside the state: the nonce and the PKCE challenge.\<close>

definition auth_params :: "string \<Rightarrow> string \<Rightarrow> key_value list" where
  "auth_params nonce codeVerifier =
     [(''access_type'', ''online''), (''nonce'', nonce),
      (''code_challenge'', codeChallengeS256 codeVerifier), (''code_challenge_method'', ''S256'')]"

definition AuthCodeURL :: "'s ProviderClient \<Rightarrow> string \<Rightarrow> string \<Rightarrow> string \<Rightarrow> string" where
  "AuthCodeURL c state nonce codeVerifier = oa_authCodeURL c state (auth_params nonce codeVerifier)"

text \<open>\<open>token.Extra("id_token").(string)\<close> is \<open>None\<close> when it is absent or not a string.\<close>

definition Exchange ::
  "'s ProviderClient \<Rightarrow> string \<Rightarrow> string \<Rightarrow> string \<Rightarrow> 's \<Rightarrow> (string + Identity) \<times> 's" where
  "Exchange c code nonce codeVerifier s =
     (case oa_exchange c code codeVerifier s of
        (Inl e, s1) \<Rightarrow> (Inl (''exchange oidc code: '' @ e), s1)
      | (Inr raw, s1) \<Rightarrow>
          (if raw = None \<or> raw = Some [] then (Inl ''oidc token response missing id_token'', s1)
           else
             (case oa_verify c (the raw) s1 of
                (Inl e, s2) \<Rightarrow> (Inl (''verify id_token: '' @ e), s2)
              | (Inr tok, s2) \<Rightarrow>
                  (if tok_Nonce tok \<noteq> nonce then (Inl ''verify id_token nonce: mismatch'', s2)
                   else
                     (case oa_claims c tok of
                        Inl e \<Rightarrow> (Inl (''decode id_token claims: '' @ e), s2)
                      | Inr (email, name) \<Rightarrow>
                          (Inr \<lparr>id_Issuer = tok_Issuer tok, id_Subject = tok_Subject tok,
                                id_Email = email, id_Name = name\<rparr>, s2))))))"

definition PingProvider :: "'s ProviderClient \<Rightarrow> string option" where
  "PingProvider c = (if \<not> oa_initialized c then Some ''oidc provider is not initialized'' else None)"

subsection \<open>The fake client of the tests\<close>

record 's FakeOidc =
  AuthURL :: string
  FakeIdentity :: Identity
  ExchangeFunc :: "(string \<Rightarrow> string \<Rightarrow> string \<Rightarrow> 's \<Rightarrow> (string + Identity) \<times> 's) option"
  OidcPingFunc :: "('s \<Rightarrow> string option \<times> 's) option"

definition fake_AuthCodeURL :: "'s FakeOidc \<Rightarrow> string \<Rightarrow> string \<Rightarrow> string \<Rightarrow> string" where
  "fake_AuthCodeURL c state nonce codeVerifier =
     (if AuthURL c = [] then ''/fake-idp?state='' @ query_escape state
      else AuthURL c @ ''?state='' @ query_escape state)"

definition fake_Exchange ::
  "'s FakeOidc \<Rightarrow> string \<Rightarrow> string \<Rightarrow> string \<Rightarrow> 's \<Rightarrow> (string + Identity) \<times> 's" where
  "fake_Exchange c code nonce codeVerifier s =
     (case ExchangeFunc c of
        Some f \<Rightarrow> f code nonce codeVerifier s
      | None \<Rightarrow>
          if id_Subject (FakeIdentity c) = [] then (Inl ''fake oidc identity is empty'', s)
          else (Inr (FakeIdentity c), s))"

definition fake_OidcPing :: "'s FakeOidc \<Rightarrow> 's \<Rightarrow> string option \<times> 's" where
  "fake_OidcPing c s = (case OidcPingFunc c of None \<Rightarrow> (None, s) | Some f \<Rightarrow> f s)"

subsection \<open>Properties\<close>

text \<open>
  Property C36. An identity comes out of the exchange only from an ID token that the provider returned for
  this code and this PKCE verifier, that the verifier accepted, and that carries the nonce of this
  login; issuer and subject are the token's, never the browser's.
\<close>

theorem Exchange_identity_is_verified:
  assumes "Exchange c code nonce verifier s = (Inr ident, s')"
  shows "\<exists>raw s1 tok. oa_exchange c code verifier s = (Inr (Some raw), s1) \<and> raw \<noteq> []
    \<and> oa_verify c raw s1 = (Inr tok, s') \<and> tok_Nonce tok = nonce
    \<and> id_Issuer ident = tok_Issuer tok \<and> id_Subject ident = tok_Subject tok"
  using assms
  by (auto simp: Exchange_def split: prod.splits sum.splits if_splits)

definition example_provider :: "nat ProviderClient" where
  "example_provider =
     \<lparr>oa_authCodeURL = (\<lambda>state ps. ''https://idp/auth?state='' @ state),
      oa_exchange = (\<lambda>code verifier n. (Inr (Some (code @ verifier)), Suc n)),
      oa_verify = (\<lambda>raw n. (Inr \<lparr>tok_Issuer = ''https://idp'', tok_Subject = ''u1'', tok_Nonce = ''n''\<rparr>, Suc n)),
      oa_claims = (\<lambda>tok. Inr (''u@x'', ''U'')), oa_initialized = True\<rparr>"

theorem Exchange_identity_is_verified_witness:
  "\<exists>raw s1 tok. oa_exchange example_provider ''c'' ''v'' 0 = (Inr (Some raw), s1) \<and> raw \<noteq> []
    \<and> oa_verify example_provider raw s1 = (Inr tok, 2) \<and> tok_Nonce tok = ''n''
    \<and> ''https://idp'' = tok_Issuer tok \<and> ''u1'' = tok_Subject tok"
  using Exchange_identity_is_verified [of example_provider "''c''" "''n''" "''v''" 0
      "\<lparr>id_Issuer = ''https://idp'', id_Subject = ''u1'', id_Email = ''u@x'', id_Name = ''U''\<rparr>" 2]
  by (simp add: Exchange_def example_provider_def)

end
