(* ===== verification/Gateway.thy ===== *)
theory Gateway
  imports Config Go_Net Cookies Return_Url Session_Store Credential_Store N8n_Client Oidc_Client
begin

text \<open>
  The setting of the handlers of \<open>src/internal/httpserver/server.go\<close>: the services a \<open>Server\<close> holds, the
  state in which a request is handled, the log of what was done, and a small calculus of weakest
  preconditions for handlers.

  A handler is a program in the state monad over \<open>'s gw\<close>. \<open>gw_env\<close> is the world outside the gateway (the
  stores, n8n, the identity provider, the clock, the entropy source): every call of a service is a
  function on it, about which nothing is assumed, so that it may also change between two calls by
  what other requests do. The rest is the state of the request: its identifier (in the context of
  the request), its parsed form, and the response written so far. \<open>gw_log\<close> records every call with its
  result, the newest first, and every metric that was counted; nothing reads it.
\<close>

subsection \<open>Services\<close>

text \<open>
  \<open>Server\<close>: the configuration and the services. A proxy is an \<open>http.Handler\<close>: it writes the response,
  and it may panic (\<open>True\<close>), as \<open>httputil.ReverseProxy\<close> does when the upstream's body breaks off.
\<close>

type_synonym 's http_handler = "request \<Rightarrow> response \<Rightarrow> 's \<Rightarrow> (bool \<times> response) \<times> 's"

record 's Server =
  cfg :: Config
  srv_now :: "'s \<Rightarrow> time \<times> 's"
  srv_rand :: "'s entropy"
  srv_CreateSession :: "Session \<Rightarrow> 's \<Rightarrow> (sess_err + string) \<times> 's"
  srv_SaveSession :: "string \<Rightarrow> Session \<Rightarrow> 's \<Rightarrow> sess_err option \<times> 's"
  srv_GetSession :: "string \<Rightarrow> 's \<Rightarrow> (sess_err + Session) \<times> 's"
  srv_DeleteSession :: "string \<Rightarrow> 's \<Rightarrow> sess_err option \<times> 's"
  srv_StoreOIDCState :: "string \<Rightarrow> OIDCState \<Rightarrow> 's \<Rightarrow> sess_err option \<times> 's"
  srv_TakeOIDCState :: "string \<Rightarrow> 's \<Rightarrow> (sess_err + OIDCState) \<times> 's"
  srv_GetCSRF :: "string \<Rightarrow> 's \<Rightarrow> (sess_err + string) \<times> 's"
  srv_SetCSRF :: "string \<Rightarrow> string \<Rightarrow> 's \<Rightarrow> sess_err option \<times> 's"
  srv_PingSessions :: "'s \<Rightarrow> sess_err option \<times> 's"
  srv_GetCredential :: "string \<Rightarrow> string \<Rightarrow> 's \<Rightarrow> (vault_err + Credential) \<times> 's"
  srv_PutCredential :: "Credential \<Rightarrow> 's \<Rightarrow> vault_err option \<times> 's"
  srv_DeleteCredential :: "string \<Rightarrow> string \<Rightarrow> 's \<Rightarrow> vault_err option \<times> 's"
  srv_PingCredentials :: "'s \<Rightarrow> vault_err option \<times> 's"
  srv_AuthCodeURL :: "string \<Rightarrow> string \<Rightarrow> string \<Rightarrow> string"
  srv_Exchange :: "string \<Rightarrow> string \<Rightarrow> string \<Rightarrow> 's \<Rightarrow> (string + Identity) \<times> 's"
  srv_PingOIDC :: "'s \<Rightarrow> string option \<times> 's"
  srv_Login :: "string \<Rightarrow> string \<Rightarrow> header list \<Rightarrow> 's \<Rightarrow> (LoginResult \<times> n8n_err option) \<times> 's"
  srv_CurrentUser :: "string \<Rightarrow> 's \<Rightarrow> (CurrentUserResult \<times> n8n_err option) \<times> 's"
  srv_Logout :: "string \<Rightarrow> 's \<Rightarrow> (LogoutResult \<times> n8n_err option) \<times> 's"
  srv_PingN8N :: "'s \<Rightarrow> n8n_err option \<times> 's"
  srv_publicProxy :: "'s http_handler"
  srv_consoleProxy :: "'s http_handler"
  srv_metricsHTTP :: "'s http_handler"

subsection \<open>The log\<close>

datatype event =
    CreatedSession Session "sess_err + string"
  | SavedSession string Session "sess_err option"
  | GotSession string "sess_err + Session"
  | DeletedSession string "sess_err option"
  | StoredState string OIDCState "sess_err option"
  | TookState string "sess_err + OIDCState"
  | GotCSRF string "sess_err + string"
  | StoredCSRF string string "sess_err option"
  | ReadCredential string string "vault_err + Credential"
  | WroteCredential Credential "vault_err option"
  | RemovedCredential string string "vault_err option"
  | Exchanged string string string "string + Identity"
  | LoggedIn string string "header list" "LoginResult \<times> n8n_err option"
  | AskedUser string "CurrentUserResult \<times> n8n_err option"
  | LoggedOut string "LogoutResult \<times> n8n_err option"
  | Pinged string bool
  | PublicProxied request bool
  | ConsoleProxied request bool
  | ServedMetrics
  | ReadClock time
  | DrewRandom nat
  | Counted string "string list"

record 's gw =
  gw_env :: 's
  gw_request_id :: string
  gw_form :: form
  gw_w :: response
  gw_log :: "event list"

type_synonym ('s, 'a) handler = "('s gw, 'a) state"

subsection \<open>Actions\<close>

definition act :: "('s gw \<Rightarrow> 's gw) \<Rightarrow> ('s, unit) handler" where
  "act f = State (\<lambda>g. ((), f g))"

text \<open>A call of a service: \<open>ev\<close> says how its result is logged.\<close>

definition call :: "('s \<Rightarrow> 'r \<times> 's) \<Rightarrow> ('r \<Rightarrow> event) \<Rightarrow> ('s, 'r) handler" where
  "call f ev =
     State (\<lambda>g. case f (gw_env g) of (r, s') \<Rightarrow> (r, g\<lparr>gw_env := s', gw_log := ev r # gw_log g\<rparr>))"

definition respond :: "(response \<Rightarrow> response) \<Rightarrow> ('s, unit) handler" where
  "respond f = act (\<lambda>g. g\<lparr>gw_w := f (gw_w g)\<rparr>)"

definition set_header :: "string \<Rightarrow> string \<Rightarrow> ('s, unit) handler" where
  "set_header k v = respond (\<lambda>w. w\<lparr>w_header := hset k v (w_header w)\<rparr>)"

text \<open>A metric: its name and its labels (\<open>WithLabelValues(...).Inc()\<close>).\<close>

definition count :: "string \<Rightarrow> string list \<Rightarrow> ('s, unit) handler" where
  "count name labels = act (\<lambda>g. g\<lparr>gw_log := Counted name labels # gw_log g\<rparr>)"

definition with_form :: "(form \<Rightarrow> 'a \<times> form) \<Rightarrow> ('s, 'a) handler" where
  "with_form f = State (\<lambda>g. case f (gw_form g) of (x, f') \<Rightarrow> (x, g\<lparr>gw_form := f'\<rparr>))"

definition RequestID :: "('s, string) handler" where
  "RequestID = State (\<lambda>g. (gw_request_id g, g))"

text \<open>A handler called with a response writer of a proxy: it returns whether it panicked.\<close>

definition serve :: "'s http_handler \<Rightarrow> request \<Rightarrow> (bool \<Rightarrow> event) \<Rightarrow> ('s, bool) handler" where
  "serve h r ev =
     State (\<lambda>g. case h r (gw_w g) (gw_env g) of
       ((panicked, w'), s') \<Rightarrow> (panicked, g\<lparr>gw_w := w', gw_env := s', gw_log := ev panicked # gw_log g\<rparr>))"

subsection \<open>Weakest preconditions\<close>

text \<open>\<open>wp m Q g\<close>: the handler \<open>m\<close>, started in \<open>g\<close>, ends with a result and a state that satisfy \<open>Q\<close>.\<close>

definition wp :: "('s, 'a) handler \<Rightarrow> ('a \<Rightarrow> 's gw \<Rightarrow> bool) \<Rightarrow> 's gw \<Rightarrow> bool" where
  "wp m Q g = (case run_state m g of (x, g') \<Rightarrow> Q x g')"

lemma wp_bind [vcg]: "wp (State_Monad.bind m f) Q g = wp m (\<lambda>x. wp (f x) Q) g"
  by (simp add: wp_def State_Monad.bind_def split: prod.splits)

lemma wp_return [vcg]: "wp (State_Monad.return x) Q g = Q x g"
  by (simp add: wp_def State_Monad.return_def)

lemma wp_act [vcg]: "wp (act f) Q g = Q () (f g)"
  by (simp add: wp_def act_def)

lemma wp_respond [vcg]: "wp (respond f) Q g = Q () (g\<lparr>gw_w := f (gw_w g)\<rparr>)"
  by (simp add: respond_def wp_act)

lemma wp_set_header [vcg]:
  "wp (set_header k v) Q g = Q () (g\<lparr>gw_w := (gw_w g)\<lparr>w_header := hset k v (w_header (gw_w g))\<rparr>\<rparr>)"
  by (simp add: set_header_def wp_respond)

lemma wp_count [vcg]: "wp (count n ls) Q g = Q () (g\<lparr>gw_log := Counted n ls # gw_log g\<rparr>)"
  by (simp add: count_def wp_act)

lemma wp_RequestID [vcg]: "wp RequestID Q g = Q (gw_request_id g) g"
  by (simp add: wp_def RequestID_def)

lemma wp_with_form [vcg]:
  "wp (with_form f) Q g = Q (fst (f (gw_form g))) (g\<lparr>gw_form := snd (f (gw_form g))\<rparr>)"
  by (simp add: wp_def with_form_def split: prod.splits)

lemma wp_call [vcg]:
  "wp (call f ev) Q g =
     (\<forall>r s'. f (gw_env g) = (r, s') \<longrightarrow> Q r (g\<lparr>gw_env := s', gw_log := ev r # gw_log g\<rparr>))"
  by (simp add: wp_def call_def split: prod.splits)

lemma wp_serve [vcg]:
  "wp (serve h r ev) Q g =
     (\<forall>p w' s'. h r (gw_w g) (gw_env g) = ((p, w'), s') \<longrightarrow>
        Q p (g\<lparr>gw_w := w', gw_env := s', gw_log := ev p # gw_log g\<rparr>))"
  by (auto simp: wp_def serve_def split: prod.splits)

lemma wp_if [vcg]: "wp (if b then m else n) Q g = (if b then wp m Q g else wp n Q g)"
  by simp

lemma wp_case_option [vcg]:
  "wp (case x of None \<Rightarrow> m | Some y \<Rightarrow> f y) Q g = (case x of None \<Rightarrow> wp m Q g | Some y \<Rightarrow> wp (f y) Q g)"
  by (simp split: option.split)

lemma wp_case_sum [vcg]:
  "wp (case x of Inl e \<Rightarrow> m e | Inr y \<Rightarrow> f y) Q g = (case x of Inl e \<Rightarrow> wp (m e) Q g | Inr y \<Rightarrow> wp (f y) Q g)"
  by (simp split: sum.split)

lemma wp_case_prod [vcg]: "wp (case x of (a, b) \<Rightarrow> f a b) Q g = (case x of (a, b) \<Rightarrow> wp (f a b) Q g)"
  by (simp split: prod.split)

lemma wp_mono: "wp m Q g \<Longrightarrow> (\<And>x g'. Q x g' \<Longrightarrow> R x g') \<Longrightarrow> wp m R g"
  by (auto simp: wp_def split: prod.splits)

lemma wp_conj: "wp m (\<lambda>x g'. Q x g' \<and> R x g') g = (wp m Q g \<and> wp m R g)"
  by (auto simp: wp_def split: prod.splits)

text \<open>What a handler does to the state, without its result.\<close>

definition exec :: "('s, 'a) handler \<Rightarrow> 's gw \<Rightarrow> 's gw" where
  "exec m g = snd (run_state m g)"

lemma exec_wp: "wp m (\<lambda>_. Q) g = Q (exec m g)"
  by (simp add: wp_def exec_def split: prod.splits)

end
