(* ===== verification/Go_Proxy.thy ===== *)
theory Go_Proxy
  imports Gateway
begin

text \<open>
  The part of Go's \<open>net/http/httputil\<close> that the gateway's proxies rest on: \<open>ReverseProxy\<close> with its
  \<open>Director\<close>, \<open>ModifyResponse\<close> and \<open>ErrorHandler\<close>, the removal of hop-by-hop headers, protocol upgrades
  and interim (1xx) responses. The transport, which talks to the upstream, is a parameter.
\<close>

subsection \<open>Header keys and tokens\<close>

definition ascii_upper :: "char \<Rightarrow> char" where
  "ascii_upper c =
     (if CHR ''a'' \<le> c \<and> c \<le> CHR ''z''
      then (case c of Char b0 b1 b2 b3 b4 b5 b6 b7 \<Rightarrow> Char b0 b1 b2 b3 b4 False b6 b7) else c)"

fun capitalize :: "bool \<Rightarrow> string \<Rightarrow> string" where
  "capitalize up [] = []"
| "capitalize up (c # cs) =
     (let d = (if up then ascii_upper c else ascii_lower c) in d # capitalize (d = CHR ''-'') cs)"

text \<open>\<open>textproto.CanonicalMIMEHeaderKey\<close>: a key with a byte that is not one of a token stays as it is.\<close>

definition canonical_key :: "string \<Rightarrow> string" where
  "canonical_key k = (if list_all is_token_char k then capitalize True k else k)"

definition ows :: "char \<Rightarrow> bool" where
  "ows c \<longleftrightarrow> c = CHR 0x20 \<or> c = CHR 0x09"

definition trim_ows :: "string \<Rightarrow> string" where
  "trim_ows s = rev (dropWhile ows (rev (dropWhile ows s)))"

text \<open>\<open>httpguts.HeaderValuesContainsToken\<close>: ASCII letters compare without case, other bytes never match.\<close>

definition token_equal :: "string \<Rightarrow> string \<Rightarrow> bool" where
  "token_equal s t \<longleftrightarrow>
     list_all (\<lambda>c. c < CHR 0x80) (s @ t) \<and> map ascii_lower s = map ascii_lower t"

definition contains_token :: "string list \<Rightarrow> string \<Rightarrow> bool" where
  "contains_token vs token \<longleftrightarrow>
     list_ex (\<lambda>v. list_ex (\<lambda>part. token_equal (trim_ows part) token) (split_on CHR '','' v)) vs"

definition upgrade_type :: "header \<Rightarrow> string" where
  "upgrade_type h = (if contains_token (h ''Connection'') ''Upgrade'' then hget h ''Upgrade'' else [])"

definition printable :: "string \<Rightarrow> bool" where
  "printable s \<longleftrightarrow> list_all (\<lambda>c. CHR 0x20 \<le> c \<and> c \<le> CHR ''~'') s"

subsection \<open>Hop-by-hop headers\<close>

definition hopHeaders :: "string list" where
  "hopHeaders =
     [''Connection'', ''Proxy-Connection'', ''Keep-Alive'', ''Proxy-Authenticate'', ''Proxy-Authorization'',
      ''Te'', ''Trailer'', ''Transfer-Encoding'', ''Upgrade'']"

text \<open>The keys that the \<open>Connection\<close> header of a message names.\<close>

definition connection_keys :: "header \<Rightarrow> string list" where
  "connection_keys h =
     map canonical_key
       (filter (\<lambda>f. f \<noteq> []) (map trim_string (concat (map (split_on CHR '','') (h ''Connection'')))))"

definition remove_hop_by_hop :: "header \<Rightarrow> header" where
  "remove_hop_by_hop h = fold hdel hopHeaders (fold hdel (connection_keys h) h)"

definition copy_header :: "header \<Rightarrow> header \<Rightarrow> header" where
  "copy_header src dst = (\<lambda>k. dst k @ src k)"

subsection \<open>The proxy\<close>

text \<open>
  A response of the upstream: \<open>up_broken\<close> says that its body could not be copied to the end,
  \<open>up_takeover\<close> that, after a switch of protocols, both connections can be taken over. The
  transport gets the time limit of the request's context, and gives the interim responses that
  came first with the final outcome.
\<close>

record upstream_response =
  up_status :: nat
  up_header :: header
  up_body :: string
  up_broken :: bool
  up_takeover :: bool

datatype proxy_err = DeadlineExceeded | TransportFailure string | BadProtocol

type_synonym 's round_trip =
  "duration option \<Rightarrow> request \<Rightarrow> 's \<Rightarrow> ((nat \<times> header) list \<times> (proxy_err + upstream_response)) \<times> 's"

record 's httputil_proxy =
  hp_Director :: "request \<Rightarrow> request"
  hp_ModifyResponse :: "header \<Rightarrow> header"
  hp_ErrorHandler :: "proxy_err \<Rightarrow> response \<Rightarrow> 's \<Rightarrow> response \<times> 's"
  hp_Transport :: "'s round_trip"

text \<open>
  What is sent upstream: \<open>h\<close> is the header as the director left it, \<open>r\<close> the request as it came.
  The peer's address is appended to \<open>X-Forwarded-For\<close>, and a missing \<open>User-Agent\<close> is made
  empty, so that the transport adds none.
\<close>

definition forwarded_for :: "request \<Rightarrow> header \<Rightarrow> header" where
  "forwarded_for r h =
     (case split_host_port (r_remote_addr r) of
        None \<Rightarrow> h
      | Some (clientIP, _) \<Rightarrow>
          hset ''X-Forwarded-For''
            (if h ''X-Forwarded-For'' = [] then clientIP
             else join '', '' (h ''X-Forwarded-For'') @ '', '' @ clientIP) h)"

definition outgoing_header :: "request \<Rightarrow> header \<Rightarrow> header" where
  "outgoing_header r h =
     (let up = upgrade_type h;
          h1 = remove_hop_by_hop h;
          h2 = (if contains_token (r_header r ''Te'') ''trailers'' then hset ''Te'' ''trailers'' h1 else h1);
          h3 = (if up \<noteq> [] then hset ''Upgrade'' up (hset ''Connection'' ''Upgrade'' h2) else h2);
          h4 = forwarded_for r h3
      in if h4 ''User-Agent'' = [] then hset ''User-Agent'' [] h4 else h4)"

text \<open>\<open>Got1xxResponse\<close>: the interim response goes out with the header written so far, which is then cleared.\<close>

definition write_interim :: "nat \<times> header \<Rightarrow> response \<Rightarrow> response" where
  "write_interim early w = w\<lparr>w_recorded := fst early, w_header := empty_header\<rparr>"

text \<open>A switch of protocols: the response is written to the connection itself, past the response writer.\<close>

definition switch_protocols :: "header \<Rightarrow> response \<Rightarrow> response" where
  "switch_protocols h w =
     (let h' = copy_header h (w_header w)
      in w\<lparr>w_header := h', w_sent := (case w_sent w of None \<Rightarrow> Some (101, h') | Some x \<Rightarrow> Some x)\<rparr>)"

text \<open>\<open>WriteHeader\<close> panics on a status below 100; a body that breaks off panics with \<open>ErrAbortHandler\<close>.\<close>

definition copy_response :: "upstream_response \<Rightarrow> header \<Rightarrow> response \<Rightarrow> bool \<times> response" where
  "copy_response res h w =
     (let w' = w\<lparr>w_header := copy_header h (w_header w)\<rparr>
      in if up_status res < 100 then (True, w'\<lparr>w_recorded := up_status res\<rparr>)
         else (up_broken res, write_body (up_body res) (write_header (up_status res) w')))"

definition proxy_ServeHTTP :: "'s httputil_proxy \<Rightarrow> duration option \<Rightarrow> 's http_handler" where
  "proxy_ServeHTTP p limit r w s =
     (let outreq = hp_Director p r;
          reqUpType = upgrade_type (r_header outreq);
          failed = (\<lambda>e w s. case hp_ErrorHandler p e w s of (w', s') \<Rightarrow> ((False, w'), s'))
      in if \<not> printable reqUpType then failed BadProtocol w s
         else
           (let outreq' = outreq\<lparr>r_header := outgoing_header r (r_header outreq)\<rparr>
            in case hp_Transport p limit outreq' s of
                 ((early, result), s') \<Rightarrow>
                   (let w' = fold write_interim early w in
                    case result of
                      Inl e \<Rightarrow> failed e w' s'
                    | Inr res \<Rightarrow>
                        if up_status res = 101 then
                          (let h = hp_ModifyResponse p (up_header res) in
                           if \<not> printable (upgrade_type h)
                              \<or> \<not> token_equal (upgrade_type (r_header outreq')) (upgrade_type h)
                              \<or> \<not> up_takeover res
                           then failed BadProtocol w' s'
                           else ((False, switch_protocols h w'), s'))
                        else
                          (copy_response res (hp_ModifyResponse p (remove_hop_by_hop (up_header res))) w', s'))))"

end
