(* ===== verification/Reverse_Proxy.thy ===== *)
theory Reverse_Proxy
  imports Go_Proxy
begin

text \<open>
  \<open>src/internal/proxy\<close>: the reverse proxy to n8n, which rewrites what goes upstream (director) and the
  cookies of what comes back, limits the time of requests that are not WebSocket upgrades, and
  answers for an upstream that fails; and the limit on the size of request bodies.
\<close>

record 's ReverseProxy =
  rp_handler :: "'s httputil_proxy"
  rp_timeout :: duration

definition hasHeaderToken :: "string \<Rightarrow> string \<Rightarrow> bool" where
  "hasHeaderToken val token = list_ex (\<lambda>part. equal_fold (trim_space part) token) (split_on CHR '','' val)"

definition isWebSocketUpgrade :: "request \<Rightarrow> bool" where
  "isWebSocketUpgrade r \<longleftrightarrow>
     equal_fold (trim_space (hget (r_header r) ''Upgrade'')) ''websocket''
     \<and> hasHeaderToken (hget (r_header r) ''Connection'') ''upgrade''"

definition forwardedProto :: "request \<Rightarrow> string" where
  "forwardedProto r =
     (let proto = hget (r_header r) ''X-Forwarded-Proto''
      in if proto \<noteq> [] then hd (split_on CHR '','' proto)
         else if r_tls r then ''https'' else ''http'')"

definition appendXForwardedFor :: "request \<Rightarrow> request" where
  "appendXForwardedFor req =
     (let clientIP = (case split_host_port (r_remote_addr req) of
                        Some (host, _) \<Rightarrow> host | None \<Rightarrow> r_remote_addr req);
          prior = hget (r_header req) ''X-Forwarded-For''
      in req\<lparr>r_header :=
           hset ''X-Forwarded-For'' (if prior = [] then clientIP else prior @ '', '' @ clientIP) (r_header req)\<rparr>)"

definition singleJoiningSlash :: "string \<Rightarrow> string \<Rightarrow> string" where
  "singleJoiningSlash a b =
     (let aslash = suffix ''/'' a; bslash = prefix ''/'' b
      in if aslash \<and> bslash then a @ tl b
         else if \<not> aslash \<and> \<not> bslash then a @ ''/'' @ b
         else a @ b)"

definition director :: "url \<Rightarrow> url option \<Rightarrow> request \<Rightarrow> request" where
  "director upstream publicBase req0 =
     (let originalHost = (case publicBase of None \<Rightarrow> r_host req0 | Some b \<Rightarrow> u_host b);
          originalScheme = (case publicBase of None \<Rightarrow> forwardedProto req0 | Some b \<Rightarrow> u_scheme b);
          u = (r_url req0)\<lparr>u_scheme := u_scheme upstream, u_host := u_host upstream\<rparr>;
          u' = (if u_path upstream \<noteq> [] \<and> u_path upstream \<noteq> ''/''
                then u\<lparr>u_path := singleJoiningSlash (u_path upstream) (u_path u)\<rparr> else u);
          req = req0\<lparr>r_url := u', r_host := u_host upstream,
                      r_header := hset ''X-Forwarded-Proto'' originalScheme
                        (hset ''X-Forwarded-Host'' originalHost (r_header req0))\<rparr>;
          req' = appendXForwardedFor req;
          cookie = SanitizedUpstreamCookieHeader (hget (r_header req') ''Cookie'')
      in req'\<lparr>r_header :=
           (if cookie \<noteq> [] then hset ''Cookie'' cookie (r_header req') else hdel ''Cookie'' (r_header req'))\<rparr>)"

definition StatusText :: "nat \<Rightarrow> string" where
  "StatusText code = (if code = 504 then ''Gateway Timeout'' else if code = 502 then ''Bad Gateway'' else [])"

definition errorStatus :: "proxy_err \<Rightarrow> nat" where
  "errorStatus e = (if e = DeadlineExceeded then 504 else 502)"

text \<open>The error handler; \<open>onError\<close> is the callback, with its effect on the world.\<close>

definition upstreamError :: "('s \<Rightarrow> 's) option \<Rightarrow> proxy_err \<Rightarrow> response \<Rightarrow> 's \<Rightarrow> response \<times> 's" where
  "upstreamError onError e w s =
     (http_error (''upstream error: '' @ StatusText (errorStatus e)) (errorStatus e) w,
      case onError of None \<Rightarrow> s | Some f \<Rightarrow> f s)"

definition NewWithPublicBaseAndErrorCallback ::
  "'s round_trip \<Rightarrow> url \<Rightarrow> url option \<Rightarrow> duration \<Rightarrow> bool \<Rightarrow> ('s \<Rightarrow> 's) option \<Rightarrow> 's ReverseProxy" where
  "NewWithPublicBaseAndErrorCallback transport upstream publicBase timeout forceSecureCookies onError =
     \<lparr>rp_handler =
        \<lparr>hp_Director = director upstream publicBase,
         hp_ModifyResponse = RewriteSetCookies forceSecureCookies,
         hp_ErrorHandler = upstreamError onError,
         hp_Transport = transport\<rparr>,
      rp_timeout = timeout\<rparr>"

definition NewWithPublicBase ::
  "'s round_trip \<Rightarrow> url \<Rightarrow> url option \<Rightarrow> duration \<Rightarrow> bool \<Rightarrow> 's ReverseProxy" where
  "NewWithPublicBase transport upstream publicBase timeout forceSecureCookies =
     NewWithPublicBaseAndErrorCallback transport upstream publicBase timeout forceSecureCookies None"

definition NewReverseProxy :: "'s round_trip \<Rightarrow> url \<Rightarrow> duration \<Rightarrow> bool \<Rightarrow> 's ReverseProxy" where
  "NewReverseProxy transport upstream timeout forceSecureCookies =
     NewWithPublicBaseAndErrorCallback transport upstream None timeout forceSecureCookies None"

text \<open>\<open>ReverseProxy.ServeHTTP\<close>: the time limit is that of the context it passes on.\<close>

definition timeLimit :: "'s ReverseProxy \<Rightarrow> request \<Rightarrow> duration option" where
  "timeLimit p r = (if isWebSocketUpgrade r then None else if rp_timeout p > 0 then Some (rp_timeout p) else None)"

definition ReverseProxy_ServeHTTP :: "'s ReverseProxy \<Rightarrow> 's http_handler" where
  "ReverseProxy_ServeHTTP p r = proxy_ServeHTTP (rp_handler p) (timeLimit p r) r"

text \<open>
  \<open>BodyLimitMiddleware\<close>: \<open>http.MaxBytesReader\<close> lets at most \<open>limit\<close> bytes be read; a longer body
  ends in an error of the reader.
\<close>

fun limit_body :: "int \<Rightarrow> body \<Rightarrow> body" where
  "limit_body n (UrlencodedBody b) = (if int (length b) > n then UnreadableBody else UrlencodedBody b)"
| "limit_body n (MultipartBody b fs) = (if int (length b) > n then UnreadableBody else MultipartBody b fs)"
| "limit_body n (OtherBody b) = (if int (length b) > n then UnreadableBody else OtherBody b)"
| "limit_body n UnreadableBody = UnreadableBody"

definition BodyLimitMiddleware :: "'s http_handler \<Rightarrow> int \<Rightarrow> 's http_handler" where
  "BodyLimitMiddleware next limit r =
     next (if limit > 0 then r\<lparr>r_body := limit_body limit (r_body r)\<rparr> else r)"

text \<open>
  \<open>DrainAndClose\<close>, which nothing calls, on a reader with what is left to read: it reads at most 1024 bytes, so
  that the connection can be used again if that was all, and closes the reader.
\<close>

record body_reader =
  br_unread :: string
  br_closed :: bool

definition DrainAndClose :: "body_reader option \<Rightarrow> body_reader option" where
  "DrainAndClose = map_option (\<lambda>b. b\<lparr>br_unread := drop 1024 (br_unread b), br_closed := True\<rparr>)"

lemma DrainAndClose_drained:
  "DrainAndClose (Some b) = Some b' \<Longrightarrow> br_closed b' \<and> (br_unread b' = [] \<longleftrightarrow> length (br_unread b) \<le> 1024)"
  by (auto simp: DrainAndClose_def)

end
