(* ===== verification/Link_Page.thy ===== *)
theory Link_Page
  imports Tokens Go_Url
begin

text \<open>
  The page of \<open>GET /n8n-link\<close> (\<open>linkTemplate\<close> and \<open>linkPageData\<close> of \<open>src/internal/httpserver/server.go\<close>),
  with the escaping that \<open>html/template\<close> does in text and in quoted attributes. In the text of the
  template, \<open>html_text\<close> writes a quotation mark as \<open>@\<close> and a line end as \<open>~\<close> (neither occurs in it), and
  \<open>utf8_hex\<close> gives the bytes of the Korean texts.
\<close>

record linkPageData =
  pd_Email :: string
  pd_Name :: string
  pd_CSRFToken :: string
  pd_Linked :: bool
  pd_Error :: string
  pd_ReLinkHint :: bool

definition html_text :: "string \<Rightarrow> string" where
  "html_text s = map (\<lambda>c. if c = CHR ''@'' then CHR 0x22 else if c = CHR 0x7E then CHR 0x0A else c) s"

fun utf8_hex :: "string \<Rightarrow> string" where
  "utf8_hex (a # b # cs) = hex_byte a b # utf8_hex cs"
| "utf8_hex _ = []"

text \<open>\<open>htmlReplacementTable\<close> of \<open>html/template\<close>.\<close>

definition template_escape_byte :: "char \<Rightarrow> string" where
  "template_escape_byte c =
     (if c = CHR 0x00 then [CHR 0xEF, CHR 0xBF, CHR 0xBD]
      else if c = CHR 0x22 then ''&#34;'' else if c = CHR ''&'' then ''&amp;''
      else if c = CHR 0x27 then ''&#39;'' else if c = CHR ''+'' then ''&#43;''
      else if c = CHR ''<'' then ''&lt;'' else if c = CHR ''>'' then ''&gt;'' else [c])"

definition template_escape :: "string \<Rightarrow> string" where
  "template_escape s = concat (map template_escape_byte s)"

definition page_head :: string where
  "page_head =
     html_text ''<!doctype html>~<html lang=@ko@>~<head>~  <meta charset=@utf-8@>~  <me''
     @ html_text ''ta name=@viewport@ content=@width=device-width, initial-scale=1@>~  <t''
     @ html_text ''itle>n8n account link</title>~  <style>~    body{font-family:system-ui''
     @ html_text '',-apple-system,BlinkMacSystemFont,@Segoe UI@,sans-serif;margin:0;backg''
     @ html_text ''round:#f7f7f8;color:#18181b}~    main{max-width:420px;margin:8vh auto;''
     @ html_text ''padding:24px;background:white;border:1px solid #e4e4e7;border-radius:8''
     @ html_text ''px}~    label{display:block;margin:14px 0 6px;font-size:14px;font-weig''
     @ html_text ''ht:600}~    input{width:100%;box-sizing:border-box;padding:10px 12px;b''
     @ html_text ''order:1px solid #d4d4d8;border-radius:6px;font-size:15px}~    button{m''
     @ html_text ''argin-top:16px;width:100%;padding:10px 12px;border:0;border-radius:6px''
     @ html_text '';background:#111827;color:white;font-weight:700;cursor:pointer}~    bu''
     @ html_text ''tton.secondary{background:#b91c1c}~    p{line-height:1.5}~    .muted{c''
     @ html_text ''olor:#52525b;font-size:14px}~    .error{padding:10px 12px;background:#''
     @ html_text ''fef2f2;color:#991b1b;border:1px solid #fecaca;border-radius:6px}~  </s''
     @ html_text ''tyle>~</head>~<body>~<main>~  <h1>n8n ''
     @ utf8_hex ''EAB384ECA095''
     @ html_text '' ''
     @ utf8_hex ''EC97B0EAB2B0''
     @ html_text ''</h1>~  <p class=@muted@>''"

definition page_after_email :: string where
  "page_after_email =
     html_text ''</p>~  ''"

definition page_relink :: string where
  "page_relink =
     html_text ''<p class=@error@>''
     @ utf8_hex ''ECA080EC9EA5EB909C''
     @ html_text '' n8n ''
     @ utf8_hex ''EAB384ECA095EC9CBCEBA19C''
     @ html_text '' ''
     @ utf8_hex ''EBA19CEAB7B8EC9DB8ED95A0''
     @ html_text '' ''
     @ utf8_hex ''EC8898''
     @ html_text '' ''
     @ utf8_hex ''EC9786EC8AB5EB8B88EB8BA4''
     @ html_text ''. ''
     @ utf8_hex ''EB8BA4EC8B9C''
     @ html_text '' ''
     @ utf8_hex ''EC97B0EAB2B0ED9598EC84B8EC9A94''
     @ html_text ''.</p>''"

definition page_error :: string where
  "page_error =
     html_text ''<p class=@error@>''
     @ utf8_hex ''EC9A94ECB2ADEC9D84''
     @ html_text '' ''
     @ utf8_hex ''ECB298EBA6ACED95A0''
     @ html_text '' ''
     @ utf8_hex ''EC8898''
     @ html_text '' ''
     @ utf8_hex ''EC9786EC8AB5EB8B88EB8BA4''
     @ html_text ''.</p>''"

definition page_before_linked :: string where
  "page_before_linked =
     html_text ''~  ''"

definition page_linked :: string where
  "page_linked =
     html_text ''<p class=@muted@>''
     @ utf8_hex ''EC9DB4EBAFB8''
     @ html_text '' ''
     @ utf8_hex ''EC97B0EAB2B0EB909C''
     @ html_text '' n8n ''
     @ utf8_hex ''EAB384ECA095EC9DB4''
     @ html_text '' ''
     @ utf8_hex ''EC9E88EC8AB5EB8B88EB8BA4''
     @ html_text ''. ''
     @ utf8_hex ''EC8388''
     @ html_text '' ''
     @ utf8_hex ''EAB092EC9CBCEBA19C''
     @ html_text '' ''
     @ utf8_hex ''EB8BA4EC8B9C''
     @ html_text '' ''
     @ utf8_hex ''EC97B0EAB2B0ED95A0''
     @ html_text '' ''
     @ utf8_hex ''EC8898''
     @ html_text '' ''
     @ utf8_hex ''EC9E88EC8AB5EB8B88EB8BA4''
     @ html_text ''.</p>''"

definition page_form :: string where
  "page_form =
     html_text ''~  <form method=@post@ action=@/n8n-link@>~    <input type=@hidden@ na''
     @ html_text ''me=@csrf_token@ value=@''"

definition page_after_token :: string where
  "page_after_token =
     html_text ''@>~    <label for=@n8n_email_or_login_id@>n8n ''
     @ utf8_hex ''EC9DB4EBA994EC9DBC''
     @ html_text '' ''
     @ utf8_hex ''EB9890EB8A94''
     @ html_text '' ''
     @ utf8_hex ''EBA19CEAB7B8EC9DB8''
     @ html_text '' ID</label>~    <input id=@n8n_email_or_login_id@ name=@n8n_email_or_l''
     @ html_text ''ogin_id@ autocomplete=@username@ required>~    <label for=@n8n_passwor''
     @ html_text ''d@>n8n ''
     @ utf8_hex ''EBB984EBB080EBB288ED98B8''
     @ html_text ''</label>~    <input id=@n8n_password@ name=@n8n_password@ type=@passwo''
     @ html_text ''rd@ autocomplete=@current-password@ required>~    <button type=@submit''
     @ html_text ''@>''
     @ utf8_hex ''EC97B0EAB2B0''
     @ html_text ''</button>~  </form>~  ''"

definition page_delete_form :: string where
  "page_delete_form =
     html_text ''~  <form method=@post@ action=@/n8n-link@>~    <input type=@hidden@ na''
     @ html_text ''me=@_method@ value=@DELETE@>~    <input type=@hidden@ name=@csrf_token''
     @ html_text ''@ value=@''"

definition page_after_delete_token :: string where
  "page_after_delete_token =
     html_text ''@>~    <button class=@secondary@ type=@submit@>''
     @ utf8_hex ''EC97B0EAB2B0''
     @ html_text '' ''
     @ utf8_hex ''EC82ADECA09C''
     @ html_text ''</button>~  </form>~  ''"

definition page_end :: string where
  "page_end =
     html_text ''~</main>~</body>~</html>''"

definition linkPage :: "linkPageData \<Rightarrow> string" where
  "linkPage d =
     page_head
     @ (if pd_Name d \<noteq> [] then template_escape (pd_Name d) @ '' '' else [])
     @ template_escape (pd_Email d) @ page_after_email
     @ (if pd_ReLinkHint d then page_relink else if pd_Error d \<noteq> [] then page_error else [])
     @ page_before_linked
     @ (if pd_Linked d then page_linked else [])
     @ page_form @ template_escape (pd_CSRFToken d) @ page_after_token
     @ (if pd_Linked d
        then page_delete_form @ template_escape (pd_CSRFToken d) @ page_after_delete_token else [])
     @ page_end"

subsection \<open>Properties\<close>

definition markup :: "char \<Rightarrow> bool" where
  "markup c \<longleftrightarrow> List.member [CHR ''<'', CHR ''>'', CHR 0x22, CHR 0x27] c"

lemma filter_if: "filter P (if b then x else y) = (if b then filter P x else filter P y)"
  by simp

lemma escaped_literals:
  "filter markup [CHR 0xEF, CHR 0xBF, CHR 0xBD] = []" "filter markup ''&#34;'' = []"
  "filter markup ''&amp;'' = []" "filter markup ''&#39;'' = []" "filter markup ''&#43;'' = []"
  "filter markup ''&lt;'' = []" "filter markup ''&gt;'' = []"
  by code_simp+

lemma markup_cases: "markup c \<Longrightarrow> c = CHR ''<'' \<or> c = CHR ''>'' \<or> c = CHR 0x22 \<or> c = CHR 0x27"
  by (simp add: markup_def)

lemma escape_byte_no_markup: "filter markup (template_escape_byte c) = []"
proof (cases "markup c")
  case True
  then show ?thesis
    by (elim markup_cases [elim_format] disjE; hypsubst) code_simp+
next
  case False
  then show ?thesis
    unfolding template_escape_byte_def filter_if escaped_literals by simp
qed

lemma template_escape_no_markup: "filter markup (template_escape s) = []"
  by (induction s) (simp_all add: template_escape_def escape_byte_no_markup)

text \<open>
  Nothing that the identity provider or the query string supplies can add markup to the page:
  its angle brackets and quotation marks are those of the page for empty values, which differs only by
  which optional parts are shown.
\<close>

theorem linkPage_markup_is_fixed:
  "filter markup (linkPage d) =
   filter markup (linkPage \<lparr>pd_Email = [], pd_Name = [], pd_CSRFToken = [], pd_Linked = pd_Linked d,
     pd_Error = pd_Error d, pd_ReLinkHint = pd_ReLinkHint d\<rparr>)"
proof -
  have blank: "filter markup '' '' = []" by code_simp
  have name: "(if b then [] else []) = ([] :: string)" for b by simp
  show ?thesis
    unfolding linkPage_def linkPageData.simps filter_append filter_if template_escape_no_markup blank
    by (simp only: name append_Nil filter.simps append_Nil2 simp_thms if_True if_False)
qed

text \<open>The CSRF token, being base64 text, stands in the page as it is, so the form sends it back unchanged.\<close>

lemma template_escape_base64: "set t \<subseteq> set base64_digits \<Longrightarrow> template_escape t = t"
proof (induction t)
  case (Cons c t)
  have "list_all (\<lambda>c. template_escape [c] = [c]) base64_digits" by code_simp
  then have "template_escape [c] = [c]" using Cons.prems by (simp add: list_all_iff)
  then show ?case using Cons by (simp add: template_escape_def)
qed (simp add: template_escape_def)

end
