(* ===== verification/Handlers.thy ===== *)
theory Handlers
  imports Gateway Link_Page
begin

text \<open>
  The handlers of \<open>src/internal/httpserver/server.go\<close>, in the order of their dependencies: responses,
  session lookup, CSRF, the login bridge, one definition per endpoint, the dispatch of the internal
  endpoints, and \<open>ServeHTTP\<close>. Log lines are not modelled; metrics are entries of the log.
\<close>

subsection \<open>Responses\<close>

definition wantsJSON :: "request \<Rightarrow> bool" where
  "wantsJSON r \<longleftrightarrow> str_contains (hget (r_header r) ''Accept'') ''application/json''"

definition writeJSON :: "nat \<Rightarrow> json \<Rightarrow> response \<Rightarrow> response" where
  "writeJSON status v w =
     write_body (json_encode v @ newline)
       (write_header status (w\<lparr>w_header := hset ''Content-Type'' ''application/json'' (w_header w)\<rparr>))"

definition error_json :: "string \<Rightarrow> string \<Rightarrow> json" where
  "error_json code rid = JObject [(''error'', JString code), (''request_id'', JString rid)]"

definition writeError :: "request \<Rightarrow> nat \<Rightarrow> string \<Rightarrow> ('s, unit) handler" where
  "writeError r status code =
     (if wantsJSON r then do { rid \<leftarrow> RequestID; respond (writeJSON status (error_json code rid)) }
      else respond (http_error code status))"

definition redirect :: "request \<Rightarrow> string \<Rightarrow> ('s, unit) handler" where
  "redirect r target = respond (redirect_found r target)"

definition setCookie :: "cookie \<Rightarrow> ('s, unit) handler" where
  "setCookie c = respond (set_cookie c)"

definition setCookies :: "cookie list \<Rightarrow> ('s, unit) handler" where
  "setCookies cs = respond (fold set_cookie cs)"

definition applySecurityHeaders :: "bool \<Rightarrow> header \<Rightarrow> header" where
  "applySecurityHeaders includeCSP h =
     (let h' = hset ''X-Frame-Options'' ''SAMEORIGIN''
                 (hset ''Referrer-Policy'' ''no-referrer'' (hset ''X-Content-Type-Options'' ''nosniff'' h))
      in if includeCSP then
           hset ''Content-Security-Policy''
             (''default-src '' @ [CHR 0x27] @ ''self'' @ [CHR 0x27] @ ''; script-src '' @ [CHR 0x27] @ ''none''
              @ [CHR 0x27] @ ''; style-src '' @ [CHR 0x27] @ ''self'' @ [CHR 0x27] @ '' '' @ [CHR 0x27]
              @ ''unsafe-inline'' @ [CHR 0x27] @ ''; frame-ancestors '' @ [CHR 0x27] @ ''self'' @ [CHR 0x27]) h'
         else h')"

text \<open>\<open>int(d.Seconds())\<close>: whole seconds, towards zero.\<close>

definition whole_seconds :: "duration \<Rightarrow> int" where
  "whole_seconds d = (if d < 0 then - ((- d) div second) else d div second)"

definition writeProxySessionCookies :: "'s Server \<Rightarrow> string \<Rightarrow> ('s, unit) handler" where
  "writeProxySessionCookies S sessionID =
     setCookies (ProxySessionCookies sessionID (CookieSecure (cfg S)) (whole_seconds (SessionTTL (cfg S))))"

definition clearProxySessionCookies :: "'s Server \<Rightarrow> ('s, unit) handler" where
  "clearProxySessionCookies S = setCookies (ClearProxySessionCookies (CookieSecure (cfg S)))"

definition writeN8NCookies :: "'s Server \<Rightarrow> string list \<Rightarrow> ('s, unit) handler" where
  "writeN8NCookies S cookies =
     respond (\<lambda>w. w\<lparr>w_header :=
       fold (\<lambda>c. hadd ''Set-Cookie'' (RewriteSetCookie c (CookieSecure (cfg S)))) cookies (w_header w)\<rparr>)"

definition setBridgeCookie :: "'s Server \<Rightarrow> ('s, unit) handler" where
  "setBridgeCookie S =
     setCookie (N8NBridgeCookie (CookieSecure (cfg S)) (whole_seconds (SessionTTL (cfg S))))"

definition clearBridgeCookie :: "'s Server \<Rightarrow> ('s, unit) handler" where
  "clearBridgeCookie S = setCookie (ClearN8NBridgeCookie (CookieSecure (cfg S)))"

definition redirectToLogin :: "request \<Rightarrow> ('s, unit) handler" where
  "redirectToLogin r = redirect r (loginTarget r)"

subsection \<open>Headers for n8n, trusted proxies\<close>

definition remoteIP :: "string \<Rightarrow> string" where
  "remoteIP addr = (case split_host_port addr of Some (host, _) \<Rightarrow> host | None \<Rightarrow> addr)"

definition n8nLoginHeaders :: "'s Server \<Rightarrow> request \<Rightarrow> header" where
  "n8nLoginHeaders S r =
     (let h0 = fold (\<lambda>name h. if hget (r_header r) name \<noteq> [] then hset name (hget (r_header r) name) h else h)
                 [''User-Agent'', ''Accept-Language''] empty_header;
          clientIP = remoteIP (r_remote_addr r);
          h1 = (if clientIP \<noteq> [] then hset ''X-Real-Ip'' clientIP (hset ''X-Forwarded-For'' clientIP h0) else h0)
      in hset ''X-Forwarded-Proto'' (u_scheme (PublicBaseURL (cfg S)))
           (hset ''X-Forwarded-Host'' (u_host (PublicBaseURL (cfg S))) h1))"

definition remoteAddrTrusted :: "string \<Rightarrow> string list \<Rightarrow> bool" where
  "remoteAddrTrusted addr cidrs =
     (case parse_ip (remoteIP addr) of
        None \<Rightarrow> False
      | Some a \<Rightarrow>
          list_ex (\<lambda>raw. case parse_cidr raw of None \<Rightarrow> False | Some network \<Rightarrow> net_contains network a) cidrs)"

definition normalizeForwardedHeaders :: "'s Server \<Rightarrow> request \<Rightarrow> request" where
  "normalizeForwardedHeaders S r =
     (if TrustedProxyCIDRs (cfg S) = [] \<or> \<not> remoteAddrTrusted (r_remote_addr r) (TrustedProxyCIDRs (cfg S))
      then r\<lparr>r_header := hdel ''X-Forwarded-Proto'' (hdel ''X-Forwarded-Host''
               (hdel ''X-Forwarded-For'' (r_header r)))\<rparr>
      else r)"

subsection \<open>Credentials\<close>

definition getCredential :: "'s Server \<Rightarrow> string \<Rightarrow> string \<Rightarrow> ('s, vault_err + Credential) handler" where
  "getCredential S issuer subject =
     do { res \<leftarrow> call (srv_GetCredential S issuer subject) (ReadCredential issuer subject);
          case res of
            Inl e \<Rightarrow>
              do { count ''vault_operations'' [''read'', if e = CredNotFound then ''not_found'' else ''error''];
                   State_Monad.return (Inl e) }
          | Inr cred \<Rightarrow>
              do { count ''vault_operations'' [''read'', ''success'']; State_Monad.return (Inr cred) } }"

definition putCredential :: "'s Server \<Rightarrow> Credential \<Rightarrow> ('s, vault_err option) handler" where
  "putCredential S cred =
     do { res \<leftarrow> call (srv_PutCredential S cred) (WroteCredential cred);
          count ''vault_operations'' [''write'', if res = None then ''success'' else ''error''];
          State_Monad.return res }"

definition deleteCredential :: "'s Server \<Rightarrow> string \<Rightarrow> string \<Rightarrow> ('s, vault_err option) handler" where
  "deleteCredential S issuer subject =
     do { res \<leftarrow> call (srv_DeleteCredential S issuer subject) (RemovedCredential issuer subject);
          count ''vault_operations'' [''delete'', if res = None then ''success'' else ''error''];
          State_Monad.return res }"

subsection \<open>Sessions\<close>

text \<open>
  The identifiers in the session cookies, each once, by cookie name and then in the order of the
  header.
\<close>

definition sessionCookieNames :: "bool \<Rightarrow> string list" where
  "sessionCookieNames secure =
     [InsecureProxySessionCookieName, ProxySessionCookieNameForSecure secure, ProxySessionCookieName]"

definition sessionCookieIDs :: "'s Server \<Rightarrow> request \<Rightarrow> string list" where
  "sessionCookieIDs S r =
     fold (\<lambda>name. fold (\<lambda>(n, v) ids. if n \<noteq> name \<or> v = [] then ids
                                   else if List.member ids v then ids else ids @ [v]) (r_cookies r))
       (sessionCookieNames (CookieSecure (cfg S))) []"

text \<open>\<open>sessionID\<close>, which no handler calls.\<close>

definition requestSessionID :: "'s Server \<Rightarrow> request \<Rightarrow> string option" where
  "requestSessionID S r = (case sessionCookieIDs S r of [] \<Rightarrow> None | i # ids \<Rightarrow> Some i)"

text \<open>
  The loop of \<open>lookupSessionFromCookies\<close>. The result of that function is \<open>None\<close> if there is no session
  cookie (\<open>hadCookie\<close> false), and otherwise the error or the identifier and the session.
\<close>

fun lookupLoop :: "'s Server \<Rightarrow> string list \<Rightarrow> ('s, sess_err + (string \<times> Session)) handler" where
  "lookupLoop S [] = State_Monad.return (Inl SessNotFound)"
| "lookupLoop S (i # ids) =
     do { res \<leftarrow> call (srv_GetSession S i) (GotSession i);
          case res of
            Inr sess \<Rightarrow> State_Monad.return (Inr (i, sess))
          | Inl e \<Rightarrow> if e \<noteq> SessNotFound then State_Monad.return (Inl e) else lookupLoop S ids }"

definition lookupSessionFromCookies ::
  "'s Server \<Rightarrow> request \<Rightarrow> ('s, (sess_err + (string \<times> Session)) option) handler" where
  "lookupSessionFromCookies S r =
     (if sessionCookieIDs S r = [] then State_Monad.return None
      else do { res \<leftarrow> lookupLoop S (sessionCookieIDs S r); State_Monad.return (Some res) })"

text \<open>\<open>None\<close> is \<open>ok = false\<close>: the response has been written.\<close>

definition requireSession :: "'s Server \<Rightarrow> request \<Rightarrow> ('s, (string \<times> Session) option) handler" where
  "requireSession S r =
     do { res \<leftarrow> lookupSessionFromCookies S r;
          case res of
            None \<Rightarrow> do { redirectToLogin r; State_Monad.return None }
          | Some found \<Rightarrow>
              (case found of
                 Inl e \<Rightarrow>
                   if e = SessNotFound
                   then do { clearProxySessionCookies S; redirectToLogin r; State_Monad.return None }
                   else do { writeError r 503 ''session_store_unavailable''; State_Monad.return None }
               | Inr x \<Rightarrow> State_Monad.return (Some x)) }"

text \<open>\<open>r.FormValue\<close> and \<open>r.ParseForm\<close> on the form of the request.\<close>

definition formValue :: "request \<Rightarrow> string \<Rightarrow> ('s, string) handler" where
  "formValue r key = with_form (form_value r key)"

definition parseForm :: "request \<Rightarrow> ('s, bool) handler" where
  "parseForm r = with_form (\<lambda>f. case parse_form r f of (f', err) \<Rightarrow> (err, f'))"

definition validateCSRF :: "'s Server \<Rightarrow> request \<Rightarrow> string \<Rightarrow> ('s, bool) handler" where
  "validateCSRF S r sessionID =
     do { err \<leftarrow> parseForm r;
          if err then do { writeError r 400 ''invalid_form''; State_Monad.return False }
          else do { res \<leftarrow> call (srv_GetCSRF S sessionID) (GotCSRF sessionID);
                    case res of
                      Inl e \<Rightarrow> do { writeError r 403 ''csrf_invalid''; State_Monad.return False }
                    | Inr expected \<Rightarrow>
                        do { actual \<leftarrow> formValue r ''csrf_token'';
                             if \<not> EqualToken expected actual
                             then do { writeError r 403 ''csrf_invalid''; State_Monad.return False }
                             else State_Monad.return True } } }"

subsection \<open>The login bridge\<close>

definition loginResultLabel :: "n8n_err \<Rightarrow> string" where
  "loginResultLabel e =
     (case e of
        ErrInvalidCredential \<Rightarrow> ''invalid_credential''
      | ErrMFARequired \<Rightarrow> ''mfa_required''
      | ErrRateLimited \<Rightarrow> ''rate_limited''
      | _ \<Rightarrow> ''error'')"

definition handleN8NLoginError :: "request \<Rightarrow> n8n_err \<Rightarrow> bool \<Rightarrow> ('s, unit) handler" where
  "handleN8NLoginError r e redirectToRelink =
     (if e = ErrRateLimited then
        do { set_header ''Retry-After'' ''60''; writeError r 429 ''n8n_rate_limited'' }
      else if redirectToRelink then redirect r ''/n8n-link?error=relink_required''
      else writeError r 400 ''invalid_n8n_credential'')"

text \<open>The part that all bridge logins share: \<open>Login\<close>, its metric, and the error response.\<close>

definition bridgeLogin ::
  "'s Server \<Rightarrow> request \<Rightarrow> string \<Rightarrow> string \<Rightarrow> bool \<Rightarrow> ('s, LoginResult option) handler" where
  "bridgeLogin S r loginID password redirectToRelink =
     do { res \<leftarrow> call (srv_Login S loginID password [n8nLoginHeaders S r])
                   (LoggedIn loginID password [n8nLoginHeaders S r]);
          case snd res of
            Some e \<Rightarrow>
              do { count ''n8n_login'' [loginResultLabel e];
                   handleN8NLoginError r e redirectToRelink; State_Monad.return None }
          | None \<Rightarrow> do { count ''n8n_login'' [''success'']; State_Monad.return (Some (fst res)) } }"

text \<open>The other shared part: the stored credential, or the response when there is none.\<close>

definition bridgeCredential ::
  "'s Server \<Rightarrow> request \<Rightarrow> string \<Rightarrow> string \<Rightarrow> ('s, Credential option) handler" where
  "bridgeCredential S r issuer subject =
     do { res \<leftarrow> getCredential S issuer subject;
          case res of
            Inl e \<Rightarrow>
              if e = CredNotFound then do { redirect r ''/n8n-link''; State_Monad.return None }
              else do { writeError r 503 ''credential_store_unavailable''; State_Monad.return None }
          | Inr cred \<Rightarrow> State_Monad.return (Some cred) }"

definition loginAndRedirectTo :: "'s Server \<Rightarrow> request \<Rightarrow> Session \<Rightarrow> string \<Rightarrow> ('s, unit) handler" where
  "loginAndRedirectTo S r sess returnTo =
     do { found \<leftarrow> bridgeCredential S r (Issuer sess) (Subject sess);
          case found of
            None \<Rightarrow> State_Monad.return ()
          | Some cred \<Rightarrow>
              do { login \<leftarrow> bridgeLogin S r (N8NEmailOrLoginID cred) (N8NPassword cred) True;
                   case login of
                     None \<Rightarrow> State_Monad.return ()
                   | Some result \<Rightarrow>
                       do { writeN8NCookies S (lr_Cookies result);
                            setBridgeCookie S;
                            redirect r (safeReturnTo returnTo) } } }"

definition loginAndRedirect :: "'s Server \<Rightarrow> request \<Rightarrow> Session \<Rightarrow> ('s, unit) handler" where
  "loginAndRedirect S r sess = loginAndRedirectTo S r sess (safeReturnTo (request_uri (r_url r)))"

text \<open>The second half of \<open>handleCurrentUserBridge\<close>: a new login, answered with the body of its response.\<close>

definition currentUserByLogin :: "'s Server \<Rightarrow> request \<Rightarrow> Session \<Rightarrow> ('s, unit) handler" where
  "currentUserByLogin S r sess =
     do { found \<leftarrow> bridgeCredential S r (Issuer sess) (Subject sess);
          case found of
            None \<Rightarrow> State_Monad.return ()
          | Some cred \<Rightarrow>
              do { login \<leftarrow> bridgeLogin S r (N8NEmailOrLoginID cred) (N8NPassword cred) True;
                   case login of
                     None \<Rightarrow> State_Monad.return ()
                   | Some result \<Rightarrow>
                       do { writeN8NCookies S (lr_Cookies result);
                            setBridgeCookie S;
                            set_header ''Content-Type'' ''application/json'';
                            respond (write_header 200);
                            respond (write_body (lr_Body result)) } } }"

definition handleCurrentUserBridge :: "'s Server \<Rightarrow> request \<Rightarrow> Session \<Rightarrow> ('s, unit) handler" where
  "handleCurrentUserBridge S r sess =
     (if HasN8NBridgeCookie r then
        do { res \<leftarrow> call (srv_CurrentUser S (hget (r_header r) ''Cookie''))
                      (AskedUser (hget (r_header r) ''Cookie''));
             if snd res = None \<and> 200 \<le> cu_StatusCode (fst res) \<and> cu_StatusCode (fst res) < 300 then
               do { writeN8NCookies S (cu_Cookies (fst res));
                    (if cu_ContentType (fst res) \<noteq> []
                     then set_header ''Content-Type'' (cu_ContentType (fst res))
                     else set_header ''Content-Type'' ''application/json'');
                    respond (write_header (cu_StatusCode (fst res)));
                    respond (write_body (cu_Body (fst res))) }
             else currentUserByLogin S r sess }
      else currentUserByLogin S r sess)"

subsection \<open>Endpoints\<close>

text \<open>\<open>handleAuthLogin\<close>: the start of an OIDC login, once there is no usable session.\<close>

definition randomToken :: "'s Server \<Rightarrow> ('s, string option) handler" where
  "randomToken S = call (RandomBase64URL (srv_rand S) 32) (\<lambda>_. DrewRandom 32)"

definition requestedReturnTo :: "request \<Rightarrow> string" where
  "requestedReturnTo r =
     (let asked = query_get (r_url r) ''return_to''
      in if \<not> ValidReturnTo asked \<or> isForbiddenReturnPath asked then ''/'' else asked)"

definition startOIDCLogin :: "'s Server \<Rightarrow> request \<Rightarrow> ('s, unit) handler" where
  "startOIDCLogin S r =
     (let returnTo = requestedReturnTo r
      in do { state \<leftarrow> randomToken S;
              case state of
                None \<Rightarrow> writeError r 500 ''random_failed''
              | Some state \<Rightarrow>
                  do { nonce \<leftarrow> randomToken S;
                       case nonce of
                         None \<Rightarrow> writeError r 500 ''random_failed''
                       | Some nonce \<Rightarrow>
                           do { verifier \<leftarrow> randomToken S;
                                case verifier of
                                  None \<Rightarrow> writeError r 500 ''random_failed''
                                | Some verifier \<Rightarrow>
                                    do { now \<leftarrow> call (srv_now S) ReadClock;
                                         let v = \<lparr>Nonce = nonce, CodeVerifier = verifier,
                                                  ReturnTo = returnTo, StateCreatedAt = now\<rparr>;
                                         err \<leftarrow> call (srv_StoreOIDCState S state v) (StoredState state v);
                                         if err \<noteq> None then writeError r 503 ''session_store_unavailable''
                                         else do { count ''oidc_login'' [''started''];
                                                   redirect r (srv_AuthCodeURL S state nonce verifier) } } } } })"

definition handleAuthLogin :: "'s Server \<Rightarrow> request \<Rightarrow> ('s, unit) handler" where
  "handleAuthLogin S r =
     do { res \<leftarrow> lookupSessionFromCookies S r;
          case res of
            None \<Rightarrow> startOIDCLogin S r
          | Some found \<Rightarrow>
              (case found of
                 Inr (_, sess) \<Rightarrow> loginAndRedirectTo S r sess (nativeLoginReturnTo r)
               | Inl e \<Rightarrow>
                   if e = SessNotFound then do { clearProxySessionCookies S; startOIDCLogin S r }
                   else writeError r 503 ''session_store_unavailable'') }"

text \<open>
  \<open>handleAuthCallback\<close>, in two parts: up to the new session and its cookies, and the login at n8n
  that follows for a linked user.
\<close>

definition bridgeNewSession :: "'s Server \<Rightarrow> request \<Rightarrow> string \<Rightarrow> Identity \<Rightarrow> OIDCState \<Rightarrow> ('s, unit) handler" where
  "bridgeNewSession S r sessionID ident stored =
     do { found \<leftarrow> bridgeCredential S r (id_Issuer ident) (id_Subject ident);
          case found of
            None \<Rightarrow> State_Monad.return ()
          | Some cred \<Rightarrow>
              do { login \<leftarrow> bridgeLogin S r (N8NEmailOrLoginID cred) (N8NPassword cred) True;
                   case login of
                     None \<Rightarrow> State_Monad.return ()
                   | Some result \<Rightarrow>
                       do { saved \<leftarrow> call (srv_GetSession S sessionID) (GotSession sessionID);
                            case saved of
                              Inl e \<Rightarrow> writeError r 503 ''session_store_unavailable''
                            | Inr savedSess \<Rightarrow>
                                do { err \<leftarrow> call (srv_SaveSession S sessionID (savedSess\<lparr>Linked := True\<rparr>))
                                               (SavedSession sessionID (savedSess\<lparr>Linked := True\<rparr>));
                                     if err \<noteq> None then writeError r 503 ''session_store_unavailable''
                                     else do { writeN8NCookies S (lr_Cookies result);
                                               setBridgeCookie S;
                                               redirect r (safeReturnTo (ReturnTo stored)) } } } } }"

definition identitySession :: "Identity \<Rightarrow> Session" where
  "identitySession ident =
     \<lparr>Issuer = id_Issuer ident, Subject = id_Subject ident, Email = id_Email ident,
      Name = id_Name ident, Linked = False, CreatedAt = 0, ExpiresAt = 0\<rparr>"

definition handleAuthCallback :: "'s Server \<Rightarrow> request \<Rightarrow> ('s, unit) handler" where
  "handleAuthCallback S r =
     (let stateValue = query_get (r_url r) ''state''; code = query_get (r_url r) ''code''
      in if stateValue = [] \<or> code = [] then
           do { count ''oidc_login'' [''bad_callback'']; writeError r 400 ''invalid_oidc_callback'' }
         else
           do { taken \<leftarrow> call (srv_TakeOIDCState S stateValue) (TookState stateValue);
                case taken of
                  Inl e \<Rightarrow>
                    do { count ''oidc_login'' [''invalid_state'']; writeError r 400 ''invalid_oidc_state'' }
                | Inr stored \<Rightarrow>
                    do { exchanged \<leftarrow> call (srv_Exchange S code (Nonce stored) (CodeVerifier stored))
                                         (Exchanged code (Nonce stored) (CodeVerifier stored));
                         case exchanged of
                           Inl e \<Rightarrow>
                             do { count ''oidc_login'' [''exchange_failed''];
                                  writeError r 401 ''oidc_exchange_failed'' }
                         | Inr ident \<Rightarrow>
                             do { created \<leftarrow> call (srv_CreateSession S (identitySession ident))
                                                (CreatedSession (identitySession ident));
                                  case created of
                                    Inl e \<Rightarrow> writeError r 503 ''session_store_unavailable''
                                  | Inr sessionID \<Rightarrow>
                                      do { writeProxySessionCookies S sessionID;
                                           bridgeNewSession S r sessionID ident stored } } } })"

fun deleteSessions :: "'s Server \<Rightarrow> string list \<Rightarrow> ('s, unit) handler" where
  "deleteSessions S [] = State_Monad.return ()"
| "deleteSessions S (i # ids) =
     do { _ \<leftarrow> call (srv_DeleteSession S i) (DeletedSession i); deleteSessions S ids }"

definition n8nLogout :: "'s Server \<Rightarrow> request \<Rightarrow> ('s, unit) handler" where
  "n8nLogout S r =
     do { res \<leftarrow> call (srv_Logout S (hget (r_header r) ''Cookie'')) (LoggedOut (hget (r_header r) ''Cookie''));
          writeN8NCookies S (lo_Cookies (fst res)) }"

definition handleProxyLogout :: "'s Server \<Rightarrow> request \<Rightarrow> ('s, unit) handler" where
  "handleProxyLogout S r =
     do { deleteSessions S (sessionCookieIDs S r);
          n8nLogout S r;
          clearProxySessionCookies S;
          clearBridgeCookie S;
          redirect r ''/'' }"

definition handleN8NLogout :: "'s Server \<Rightarrow> request \<Rightarrow> ('s, unit) handler" where
  "handleN8NLogout S r = do { n8nLogout S r; clearBridgeCookie S; redirect r ''/'' }"

definition handleN8NSignout :: "'s Server \<Rightarrow> request \<Rightarrow> ('s, unit) handler" where
  "handleN8NSignout S r = do { clearBridgeCookie S; redirect r ''/'' }"

text \<open>The token for the form of \<open>handleLinkGet\<close>: the stored one, or a new one that is stored first.\<close>

definition csrfTokenFor :: "'s Server \<Rightarrow> string \<Rightarrow> ('s, string option) handler" where
  "csrfTokenFor S sessionID =
     do { res \<leftarrow> call (srv_GetCSRF S sessionID) (GotCSRF sessionID);
          case res of
            Inr token \<Rightarrow> State_Monad.return (Some token)
          | Inl e \<Rightarrow>
              if e \<noteq> SessNotFound then State_Monad.return None
              else do { drawn \<leftarrow> call (NewCSRFToken (srv_rand S)) (\<lambda>_. DrewRandom 32);
                        case drawn of
                          None \<Rightarrow> State_Monad.return None
                        | Some token \<Rightarrow>
                            do { err \<leftarrow> call (srv_SetCSRF S sessionID token) (StoredCSRF sessionID token);
                                 State_Monad.return (if err = None then Some token else None) } } }"

definition handleLinkGet :: "'s Server \<Rightarrow> request \<Rightarrow> ('s, unit) handler" where
  "handleLinkGet S r =
     do { found \<leftarrow> requireSession S r;
          case found of
            None \<Rightarrow> State_Monad.return ()
          | Some (sessionID, sess) \<Rightarrow>
              do { tok \<leftarrow> csrfTokenFor S sessionID;
                   case tok of
                     None \<Rightarrow> writeError r 503 ''csrf_unavailable''
                   | Some token \<Rightarrow>
                       do { cred \<leftarrow> getCredential S (Issuer sess) (Subject sess);
                            if isl cred \<and> cred \<noteq> Inl CredNotFound
                            then writeError r 503 ''credential_store_unavailable''
                            else do { set_header ''Content-Type'' ''text/html; charset=utf-8'';
                                      respond (write_body (linkPage
                                        \<lparr>pd_Email = Email sess, pd_Name = Name sess, pd_CSRFToken = token,
                                         pd_Linked = \<not> isl cred, pd_Error = query_get (r_url r) ''error'',
                                         pd_ReLinkHint =
                                           (query_get (r_url r) ''error'' = ''relink_required'')\<rparr>)) } } } }"

definition handleLinkDelete :: "'s Server \<Rightarrow> request \<Rightarrow> ('s, unit) handler" where
  "handleLinkDelete S r =
     do { found \<leftarrow> requireSession S r;
          case found of
            None \<Rightarrow> State_Monad.return ()
          | Some (sessionID, sess) \<Rightarrow>
              do { ok \<leftarrow> validateCSRF S r sessionID;
                   if \<not> ok then State_Monad.return ()
                   else do { err \<leftarrow> deleteCredential S (Issuer sess) (Subject sess);
                             if err \<noteq> None then writeError r 503 ''credential_store_unavailable''
                             else do { _ \<leftarrow> call (srv_SaveSession S sessionID (sess\<lparr>Linked := False\<rparr>))
                                              (SavedSession sessionID (sess\<lparr>Linked := False\<rparr>));
                                       redirect r ''/n8n-link'' } } } }"

text \<open>The end of \<open>handleLinkPost\<close>, once session, CSRF token and form are in order.\<close>

definition linkedCredential :: "Session \<Rightarrow> string \<Rightarrow> string \<Rightarrow> Credential" where
  "linkedCredential sess loginID password =
     \<lparr>cred_Issuer = Issuer sess, cred_Subject = Subject sess, cred_Email = Email sess,
      N8NEmailOrLoginID = loginID, N8NPassword = password, LinkedAt = 0, UpdatedAt = 0\<rparr>"

definition linkCredential ::
  "'s Server \<Rightarrow> request \<Rightarrow> string \<Rightarrow> Session \<Rightarrow> string \<Rightarrow> string \<Rightarrow> ('s, unit) handler" where
  "linkCredential S r sessionID sess loginID password =
     do { login \<leftarrow> bridgeLogin S r loginID password False;
          case login of
            None \<Rightarrow> State_Monad.return ()
          | Some result \<Rightarrow>
              do { err \<leftarrow> putCredential S (linkedCredential sess loginID password);
                   if err \<noteq> None then writeError r 503 ''credential_store_unavailable''
                   else do { _ \<leftarrow> call (srv_SaveSession S sessionID (sess\<lparr>Linked := True\<rparr>))
                                    (SavedSession sessionID (sess\<lparr>Linked := True\<rparr>));
                             writeN8NCookies S (lr_Cookies result);
                             setBridgeCookie S;
                             redirect r ''/'' } } }"

definition handleLinkPost :: "'s Server \<Rightarrow> request \<Rightarrow> ('s, unit) handler" where
  "handleLinkPost S r =
     do { override \<leftarrow> formValue r ''_method'';
          if override = ''DELETE'' then handleLinkDelete S r
          else
            do { found \<leftarrow> requireSession S r;
                 case found of
                   None \<Rightarrow> State_Monad.return ()
                 | Some (sessionID, sess) \<Rightarrow>
                     do { ok \<leftarrow> validateCSRF S r sessionID;
                          if \<not> ok then State_Monad.return ()
                          else
                            do { err \<leftarrow> parseForm r;
                                 if err then writeError r 400 ''invalid_form''
                                 else
                                   do { rawLoginID \<leftarrow> formValue r ''n8n_email_or_login_id'';
                                        password \<leftarrow> formValue r ''n8n_password'';
                                        let loginID = trim_space rawLoginID;
                                        if loginID = [] \<or> password = []
                                        then writeError r 400 ''missing_n8n_credential''
                                        else linkCredential S r sessionID sess loginID password } } } } }"

definition handleReady :: "'s Server \<Rightarrow> ('s, unit) handler" where
  "handleReady S =
     do { redis \<leftarrow> call (srv_PingSessions S) (\<lambda>e. Pinged ''redis'' (e = None));
          vault \<leftarrow> call (srv_PingCredentials S) (\<lambda>e. Pinged ''vault'' (e = None));
          n8n \<leftarrow> call (srv_PingN8N S) (\<lambda>e. Pinged ''n8n'' (e = None));
          oidc \<leftarrow> call (srv_PingOIDC S) (\<lambda>e. Pinged ''oidc'' (e = None));
          let check = (\<lambda>good. JString (if good then ''ok'' else ''error''));
          let ok = (redis = None \<and> vault = None \<and> n8n = None \<and> oidc = None);
          respond (writeJSON (if ok then 200 else 503)
            (JObject [(''ok'', JBool ok),
               (''checks'', JObject [(''redis'', check (redis = None)), (''vault'', check (vault = None)),
                  (''n8n'', check (n8n = None)), (''oidc'', check (oidc = None))])])) }"

definition handleNativeLoginAlias :: "'s Server \<Rightarrow> request \<Rightarrow> ('s, unit) handler" where
  "handleNativeLoginAlias S r =
     do { res \<leftarrow> lookupSessionFromCookies S r;
          case res of
            None \<Rightarrow> redirectToLogin r
          | Some found \<Rightarrow>
              (case found of
                 Inl e \<Rightarrow>
                   if e = SessNotFound then do { clearProxySessionCookies S; redirectToLogin r }
                   else writeError r 503 ''session_store_unavailable''
               | Inr (_, sess) \<Rightarrow> loginAndRedirectTo S r sess (nativeLoginReturnTo r)) }"

subsection \<open>Dispatch\<close>

text \<open>The result of a handler that calls a proxy is whether it panicked.\<close>

definition serveProtected :: "'s Server \<Rightarrow> request \<Rightarrow> ('s, bool) handler" where
  "serveProtected S r =
     do { found \<leftarrow> requireSession S r;
          case found of
            None \<Rightarrow> State_Monad.return False
          | Some (_, sess) \<Rightarrow>
              if CleanPath (u_path (r_url r)) = ''/rest/login'' \<and> r_method r = ''GET''
              then do { handleCurrentUserBridge S r sess; State_Monad.return False }
              else if \<not> HasN8NBridgeCookie r
              then do { loginAndRedirect S r sess; State_Monad.return False }
              else serve (srv_consoleProxy S) r (ConsoleProxied r) }"

definition serveInternal :: "'s Server \<Rightarrow> request \<Rightarrow> ('s, bool) handler" where
  "serveInternal S r =
     (let path = CleanPath (u_path (r_url r)); m = r_method r;
          done = (\<lambda>h. do { h; State_Monad.return False })
      in if path = ''/healthz'' \<and> m = ''GET'' then
           done (respond (writeJSON 200 (JObject [(''ok'', JBool True), (''status'', JString ''ok'')])))
         else if path = ''/readyz'' \<and> m = ''GET'' then done (handleReady S)
         else if path = ''/metrics'' \<and> m = ''GET'' then serve (srv_metricsHTTP S) r (\<lambda>_. ServedMetrics)
         else if path = ''/auth/login'' \<and> m = ''GET'' then done (handleAuthLogin S r)
         else if path = ''/auth/callback'' \<and> m = ''GET'' then done (handleAuthCallback S r)
         else if path = ''/auth/logout'' \<and> m = ''POST'' then done (handleProxyLogout S r)
         else if path = ''/rest/logout'' \<and> m = ''POST'' then done (handleN8NLogout S r)
         else if path = ''/signout'' \<and> m = ''GET'' then done (handleN8NSignout S r)
         else if path = ''/n8n-link'' \<and> m = ''GET'' then done (handleLinkGet S r)
         else if path = ''/n8n-link'' \<and> m = ''POST'' then done (handleLinkPost S r)
         else if path = ''/n8n-link'' \<and> m = ''DELETE'' then done (handleLinkDelete S r)
         else done (respond not_found))"

text \<open>\<open>UnixNano\<close>: nanoseconds since 1970, where \<open>time\<close> counts from year 1.\<close>

definition unix_nano :: "time \<Rightarrow> int" where
  "unix_nano t = t - 62135596800 * second"

definition requestID :: "'s Server \<Rightarrow> request \<Rightarrow> ('s, string) handler" where
  "requestID S r =
     (let incoming = trim_space (hget (r_header r) ''X-Request-Id'') in
      if incoming \<noteq> [] then State_Monad.return incoming
      else do { drawn \<leftarrow> call (RandomBase64URL (srv_rand S) 16) (\<lambda>_. DrewRandom 16);
                case drawn of
                  Some i \<Rightarrow> State_Monad.return (''req_'' @ i)
                | None \<Rightarrow> do { now \<leftarrow> call (srv_now S) ReadClock; State_Monad.return (int_decimal (unix_nano now)) } })"

definition setContextID :: "string \<Rightarrow> ('s, unit) handler" where
  "setContextID i = act (\<lambda>g. g\<lparr>gw_request_id := i\<rparr>)"

text \<open>The body of \<open>ServeHTTP\<close> by route class.\<close>

definition dispatch :: "'s Server \<Rightarrow> request \<Rightarrow> RouteClass \<Rightarrow> ('s, bool) handler" where
  "dispatch S r class =
     (case class of
        RouteInternal \<Rightarrow> serveInternal S r
      | RoutePublicExecution \<Rightarrow>
          do { count ''public_execution_inflight'' [''inc''];
               panicked \<leftarrow> serve (srv_publicProxy S) r (PublicProxied r);
               count ''public_execution_inflight'' [''dec''];
               State_Monad.return panicked }
      | RouteBlockedNativeLogin \<Rightarrow> do { respond not_found; State_Monad.return False }
      | RouteNativeLoginAlias \<Rightarrow> do { handleNativeLoginAlias S r; State_Monad.return False }
      | RouteProtectedConsole \<Rightarrow> do { panicked \<leftarrow> serveProtected S r; State_Monad.return panicked })"

definition includesCSP :: "RouteClass \<Rightarrow> bool" where
  "includesCSP class \<longleftrightarrow>
     class = RouteInternal \<or> class = RouteBlockedNativeLogin \<or> class = RouteNativeLoginAlias"

definition recordedStatus :: "('s, nat) handler" where
  "recordedStatus = State (\<lambda>g. (w_recorded (gw_w g), g))"

text \<open>
  \<open>ServeHTTP\<close>. The two deferred functions run at the end, the recovery from a panic first: it writes
  an error response over whatever has been written, and the metrics get the status recorded last.
\<close>

definition ServeHTTP :: "'s Server \<Rightarrow> request \<Rightarrow> ('s, unit) handler" where
  "ServeHTTP S r0 =
     do { now \<leftarrow> call (srv_now S) ReadClock;
          rid \<leftarrow> requestID S r0;
          setContextID rid;
          set_header ''X-Request-Id'' rid;
          let r = normalizeForwardedHeaders S r0;
          let class = ClassifyRoute (r_method r) (u_path (r_url r)) (PublicBypassPrefixes (cfg S));
          respond (\<lambda>w. w\<lparr>w_header := applySecurityHeaders (includesCSP class) (w_header w)\<rparr>);
          panicked \<leftarrow> dispatch S r class;
          (if panicked then respond (http_error ''internal server error'' 500) else State_Monad.return ());
          status \<leftarrow> recordedStatus;
          end \<leftarrow> call (srv_now S) ReadClock;
          count ''requests'' [route_class_name class, nat_decimal status];
          count ''request_duration'' [route_class_name class] }"

text \<open>Handling a request from a fresh response.\<close>

definition handle :: "'s Server \<Rightarrow> request \<Rightarrow> 's \<Rightarrow> 's gw" where
  "handle S r s =
     exec (ServeHTTP S r)
       \<lparr>gw_env = s, gw_request_id = [], gw_form = None, gw_w = new_response, gw_log = []\<rparr>"

end
