(* ===== verification/Safety.thy ===== *)
theory Safety
  imports Handlers
begin

text \<open>
  What the gateway may do, and only after what: a policy says for every call of a service which calls
  must have been made before it, with which results. The handlers are shown to obey the policy
  \<open>authorized\<close>, one lemma per handler, and the properties of the endpoints are read off it.
\<close>

subsection \<open>Policies\<close>

fun guarded :: "(event \<Rightarrow> event set \<Rightarrow> bool) \<Rightarrow> event list \<Rightarrow> bool" where
  "guarded A [] = True"
| "guarded A (e # past) = (A e (set past) \<and> guarded A past)"

text \<open>
  \<open>inv A F fm g\<close>: the log of \<open>g\<close> obeys the policy and contains the events \<open>F\<close>, and the form is \<open>fm\<close>.
  The rules of the locale push it through the actions; a policy is monotone, what was allowed stays
  allowed when more has happened.
\<close>

definition inv :: "(event \<Rightarrow> event set \<Rightarrow> bool) \<Rightarrow> event set \<Rightarrow> form \<Rightarrow> 's gw \<Rightarrow> bool" where
  "inv A F fm g \<longleftrightarrow> guarded A (gw_log g) \<and> F \<subseteq> set (gw_log g) \<and> gw_form g = fm"

locale trace_policy =
  fixes A :: "event \<Rightarrow> event set \<Rightarrow> bool"
  assumes mono: "A e F \<Longrightarrow> F \<subseteq> G \<Longrightarrow> A e G"
    and counted: "A (Counted n ls) F"
begin

lemma guarded_mem: "guarded A log \<Longrightarrow> e \<in> set log \<Longrightarrow> A e (set log)"
  by (induction log) (auto intro: mono)

lemma inv_weaken: "inv A F fm g \<Longrightarrow> F' \<subseteq> F \<Longrightarrow> inv A F' fm g"
  by (auto simp: inv_def)

lemma wp_bind_I: "wp m (\<lambda>x. wp (f x) Q) g \<Longrightarrow> wp (State_Monad.bind m f) Q g"
  by (simp add: wp_bind)

lemma wp_return_I: "Q x g \<Longrightarrow> wp (State_Monad.return x) Q g"
  by (simp add: wp_return)

lemma wp_if_I: "(b \<Longrightarrow> wp m Q g) \<Longrightarrow> (\<not> b \<Longrightarrow> wp n Q g) \<Longrightarrow> wp (if b then m else n) Q g"
  by simp

lemma wp_call_I:
  assumes "inv A F fm g" and "\<And>res. A (ev res) F"
    and "\<And>res g'. inv A (insert (ev res) F) fm g' \<Longrightarrow> Q res g'"
  shows "wp (call f ev) Q g"
proof -
  have "inv A (insert (ev res) F) fm (g\<lparr>gw_env := s', gw_log := ev res # gw_log g\<rparr>)" for res s'
    using assms(1) mono [OF assms(2)] by (auto simp: inv_def)
  then show ?thesis using assms(3) by (simp add: wp_call)
qed

lemma wp_serve_I:
  assumes "inv A F fm g" and "\<And>res. A (ev res) F"
    and "\<And>res g'. inv A (insert (ev res) F) fm g' \<Longrightarrow> Q res g'"
  shows "wp (serve h r ev) Q g"
proof -
  have "inv A (insert (ev res) F) fm (g\<lparr>gw_w := w', gw_env := s', gw_log := ev res # gw_log g\<rparr>)"
    for res w' s'
    using assms(1) mono [OF assms(2)] by (auto simp: inv_def)
  then show ?thesis using assms(3) by (simp add: wp_serve)
qed

lemma wp_respond_I:
  "inv A F fm g \<Longrightarrow> (\<And>g'. inv A F fm g' \<Longrightarrow> Q () g') \<Longrightarrow> wp (respond h) Q g"
  by (simp add: wp_respond inv_def)

lemma wp_set_header_I:
  "inv A F fm g \<Longrightarrow> (\<And>g'. inv A F fm g' \<Longrightarrow> Q () g') \<Longrightarrow> wp (set_header k v) Q g"
  by (simp add: wp_set_header inv_def)

lemma wp_count_I:
  assumes "inv A F fm g" and "\<And>g'. inv A F fm g' \<Longrightarrow> Q () g'"
  shows "wp (count n ls) Q g"
proof -
  have "inv A F fm (g\<lparr>gw_log := Counted n ls # gw_log g\<rparr>)"
    using assms(1) counted by (auto simp: inv_def)
  then show ?thesis using assms(2) by (simp add: wp_count)
qed

lemma wp_RequestID_I:
  "inv A F fm g \<Longrightarrow> (\<And>x g'. inv A F fm g' \<Longrightarrow> Q x g') \<Longrightarrow> wp RequestID Q g"
  by (simp add: wp_RequestID)

lemma wp_setContextID_I:
  "inv A F fm g \<Longrightarrow> (\<And>g'. inv A F fm g' \<Longrightarrow> Q () g') \<Longrightarrow> wp (setContextID i) Q g"
  by (simp add: setContextID_def wp_act inv_def)

lemma wp_recordedStatus_I:
  "inv A F fm g \<Longrightarrow> (\<And>x g'. inv A F fm g' \<Longrightarrow> Q x g') \<Longrightarrow> wp recordedStatus Q g"
  by (simp add: recordedStatus_def wp_def)

lemma wp_with_form_I:
  "inv A F fm g \<Longrightarrow> (\<And>g'. inv A F (snd (h fm)) g' \<Longrightarrow> Q (fst (h fm)) g') \<Longrightarrow> wp (with_form h) Q g"
  by (simp add: wp_with_form inv_def)

lemma wp_mono_I:
  "wp m R g \<Longrightarrow> (\<And>x g'. R x g' \<Longrightarrow> Q x g') \<Longrightarrow> wp m Q g"
  by (rule wp_mono)

text \<open>The actions that only write the response.\<close>

lemma wp_writeError_I:
  "inv A F fm g \<Longrightarrow> (\<And>g'. inv A F fm g' \<Longrightarrow> Q () g') \<Longrightarrow> wp (writeError r st code) Q g"
  unfolding writeError_def by (auto intro!: wp_bind_I wp_respond_I elim!: wp_RequestID_I)

lemma wp_redirect_I:
  "inv A F fm g \<Longrightarrow> (\<And>g'. inv A F fm g' \<Longrightarrow> Q () g') \<Longrightarrow> wp (redirect r t) Q g"
  unfolding redirect_def by (rule wp_respond_I)

lemma wp_setCookies_I:
  "inv A F fm g \<Longrightarrow> (\<And>g'. inv A F fm g' \<Longrightarrow> Q () g') \<Longrightarrow> wp (setCookies cs) Q g"
  unfolding setCookies_def by (rule wp_respond_I)

lemma wp_setCookie_I:
  "inv A F fm g \<Longrightarrow> (\<And>g'. inv A F fm g' \<Longrightarrow> Q () g') \<Longrightarrow> wp (setCookie c) Q g"
  unfolding setCookie_def by (rule wp_respond_I)

lemma wp_writeN8NCookies_I:
  "inv A F fm g \<Longrightarrow> (\<And>g'. inv A F fm g' \<Longrightarrow> Q () g') \<Longrightarrow> wp (writeN8NCookies S cs) Q g"
  unfolding writeN8NCookies_def by (rule wp_respond_I)

lemma wp_handleN8NLoginError_I:
  assumes "inv A F fm g" and "\<And>g'. inv A F fm g' \<Longrightarrow> Q () g'"
  shows "wp (handleN8NLoginError r e b) Q g"
  unfolding handleN8NLoginError_def
  using assms by (auto intro!: wp_bind_I wp_writeError_I wp_redirect_I elim!: wp_set_header_I)

end

subsection \<open>The policy of the gateway\<close>

text \<open>The class of a request.\<close>

definition class_of :: "'s Server \<Rightarrow> request \<Rightarrow> RouteClass" where
  "class_of S r = ClassifyRoute (r_method r) (u_path (r_url r)) (PublicBypassPrefixes (cfg S))"

text \<open>The value of a form field that a request carries, as \<open>validateCSRF\<close> and \<open>handleLinkPost\<close> read it.\<close>

definition submitted :: "request \<Rightarrow> string \<Rightarrow> string" where
  "submitted r key =
     fst (form_value r key (if r_method r = ''POST'' then None else fst (parse_form r None)))"

definition has_session :: "'s Server \<Rightarrow> request \<Rightarrow> event set \<Rightarrow> string \<Rightarrow> Session \<Rightarrow> bool" where
  "has_session S r F i sess \<longleftrightarrow> List.member (sessionCookieIDs S r) i \<and> GotSession i (Inr sess) \<in> F"

definition has_csrf :: "request \<Rightarrow> event set \<Rightarrow> string \<Rightarrow> bool" where
  "has_csrf r F i \<longleftrightarrow>
     submitted r ''csrf_token'' \<noteq> [] \<and> GotCSRF i (Inr (submitted r ''csrf_token'')) \<in> F"

definition has_identity :: "request \<Rightarrow> event set \<Rightarrow> Identity \<Rightarrow> bool" where
  "has_identity r F ident \<longleftrightarrow>
     (\<exists>v. TookState (query_get (r_url r) ''state'') (Inr v) \<in> F
        \<and> Exchanged (query_get (r_url r) ''code'') (Nonce v) (CodeVerifier v) (Inr ident) \<in> F)"

definition is_user :: "'s Server \<Rightarrow> request \<Rightarrow> event set \<Rightarrow> string \<Rightarrow> string \<Rightarrow> bool" where
  "is_user S r F issuer subject \<longleftrightarrow>
     (\<exists>i sess. has_session S r F i sess \<and> Issuer sess = issuer \<and> Subject sess = subject)
     \<or> (\<exists>ident. has_identity r F ident \<and> id_Issuer ident = issuer \<and> id_Subject ident = subject)"

fun authorized :: "'s Server \<Rightarrow> request \<Rightarrow> event \<Rightarrow> event set \<Rightarrow> bool" where
  "authorized S r (ConsoleProxied r' p) F =
     (r' = r \<and> class_of S r = RouteProtectedConsole \<and> HasN8NBridgeCookie r
      \<and> (\<exists>i sess. has_session S r F i sess))"
| "authorized S r (PublicProxied r' p) F =
     (r' = r \<and> class_of S r = RoutePublicExecution)"
| "authorized S r (CreatedSession x res) F = (\<exists>ident. has_identity r F ident \<and> x = identitySession ident)"
| "authorized S r (SavedSession i x res) F =
     ((\<exists>sess. has_session S r F i sess \<and> has_csrf r F i
          \<and> (x = sess\<lparr>Linked := True\<rparr> \<or> x = sess\<lparr>Linked := False\<rparr>))
      \<or> (\<exists>y sess. CreatedSession y (Inr i) \<in> F \<and> GotSession i (Inr sess) \<in> F \<and> x = sess\<lparr>Linked := True\<rparr>))"
| "authorized S r (DeletedSession i res) F = List.member (sessionCookieIDs S r) i"
| "authorized S r (StoredCSRF i t res) F = (\<exists>sess. has_session S r F i sess)"
| "authorized S r (ReadCredential issuer subject res) F = is_user S r F issuer subject"
| "authorized S r (WroteCredential c res) F =
     (\<exists>i sess hs result. has_session S r F i sess \<and> has_csrf r F i
        \<and> c = linkedCredential sess (trim_space (submitted r ''n8n_email_or_login_id'')) (submitted r ''n8n_password'')
        \<and> LoggedIn (N8NEmailOrLoginID c) (N8NPassword c) hs (result, None) \<in> F)"
| "authorized S r (RemovedCredential issuer subject res) F =
     (\<exists>i sess. has_session S r F i sess \<and> has_csrf r F i \<and> Issuer sess = issuer \<and> Subject sess = subject)"
| "authorized S r (LoggedIn l p hs res) F =
     ((\<exists>issuer subject c. is_user S r F issuer subject \<and> ReadCredential issuer subject (Inr c) \<in> F
         \<and> login_of c = (l, p))
      \<or> (\<exists>i sess. has_session S r F i sess \<and> has_csrf r F i
           \<and> l = trim_space (submitted r ''n8n_email_or_login_id'') \<and> p = submitted r ''n8n_password''))"
| "authorized S r (AskedUser c res) F =
     (HasN8NBridgeCookie r \<and> c = hget (r_header r) ''Cookie'' \<and> (\<exists>i sess. has_session S r F i sess))"
| "authorized S r e F = True"

lemmas monotone_facts = has_session_def has_csrf_def has_identity_def is_user_def

lemma has_session_mono: "has_session S r F i sess \<Longrightarrow> F \<subseteq> G \<Longrightarrow> has_session S r G i sess"
  by (auto simp: has_session_def)

lemma has_csrf_mono: "has_csrf r F i \<Longrightarrow> F \<subseteq> G \<Longrightarrow> has_csrf r G i"
  by (auto simp: has_csrf_def)

lemma has_identity_mono: "has_identity r F ident \<Longrightarrow> F \<subseteq> G \<Longrightarrow> has_identity r G ident"
  by (auto simp: has_identity_def)

lemma is_user_mono: "is_user S r F i u \<Longrightarrow> F \<subseteq> G \<Longrightarrow> is_user S r G i u"
  unfolding is_user_def using has_session_mono [of S r F] has_identity_mono [of r F] by blast

lemma authorized_mono:
  assumes "authorized S r e F" and "F \<subseteq> G"
  shows "authorized S r e G"
proof -
  note m = has_session_mono [OF _ assms(2)] has_csrf_mono [OF _ assms(2)]
    has_identity_mono [OF _ assms(2)] is_user_mono [OF _ assms(2)] subsetD [OF assms(2)]
  show ?thesis
    using assms(1)
    by (cases e) (simp_all, (blast intro: m)+)
qed

interpretation pol: trace_policy "authorized S r" for S r
  by unfold_locales (auto intro: authorized_mono)

subsection \<open>The handlers obey the policy\<close>

text \<open>
  One rule per handler: from \<open>inv\<close> before, and the calls that must have been made, it gives \<open>inv\<close> after
  with the calls that were made on the way to each result. \<open>F\<close> and \<open>G\<close> are sets of past events.
\<close>

abbreviation pol_inv :: "'s Server \<Rightarrow> request \<Rightarrow> event set \<Rightarrow> form \<Rightarrow> 's gw \<Rightarrow> bool" where
  "pol_inv S r \<equiv> inv (authorized S r)"

lemma wp_lookupLoop_I:
  assumes "pol_inv S r F fm g"
    and "\<And>e g'. pol_inv S r F fm g' \<Longrightarrow> Q (Inl e) g'"
    and "\<And>i sess g'. i \<in> set ids \<Longrightarrow> pol_inv S r (insert (GotSession i (Inr sess)) F) fm g' \<Longrightarrow> Q (Inr (i, sess)) g'"
  shows "wp (lookupLoop S ids) Q g"
  using assms
proof (induction ids arbitrary: g)
  case Nil
  then show ?case by (auto intro: pol.wp_return_I)
next
  case (Cons i ids)
  show ?case
    unfolding lookupLoop.simps
  proof (rule pol.wp_bind_I, rule pol.wp_call_I [OF Cons.prems(1)])
    fix res g'
    assume inv: "pol_inv S r (insert (GotSession i res) F) fm g'"
    then have inv': "pol_inv S r F fm g'" by (rule pol.inv_weaken) auto
    show "wp (case res of Inl e \<Rightarrow> if e \<noteq> SessNotFound then State_Monad.return (Inl e) else lookupLoop S ids
        | Inr sess \<Rightarrow> State_Monad.return (Inr (i, sess))) Q g'"
      using inv inv' Cons.prems(2,3) Cons.IH [OF inv']
      by (cases res) (auto intro: pol.wp_return_I)
  qed simp
qed

lemma wp_lookupSession_I:
  assumes "pol_inv S r F fm g"
    and "\<And>g'. pol_inv S r F fm g' \<Longrightarrow> Q None g'"
    and "\<And>e g'. pol_inv S r F fm g' \<Longrightarrow> Q (Some (Inl e)) g'"
    and "\<And>i sess G g'. F \<subseteq> G \<Longrightarrow> has_session S r G i sess \<Longrightarrow> pol_inv S r G fm g' \<Longrightarrow> Q (Some (Inr (i, sess))) g'"
  shows "wp (lookupSessionFromCookies S r) Q g"
proof -
  have found: "Q (Some (Inr (i, sess))) g'"
    if "i \<in> set (sessionCookieIDs S r)" "pol_inv S r (insert (GotSession i (Inr sess)) F) fm g'" for i sess g'
    by (rule assms(4) [OF _ _ that(2)]) (use that(1) in \<open>auto simp: has_session_def\<close>)
  show ?thesis
    unfolding lookupSessionFromCookies_def
    using assms(1-3) found
    by (auto intro!: pol.wp_return_I pol.wp_bind_I intro: wp_lookupLoop_I)
qed

lemma wp_requireSession_I:
  assumes "pol_inv S r F fm g"
    and "\<And>g'. pol_inv S r F fm g' \<Longrightarrow> Q None g'"
    and "\<And>i sess G g'. F \<subseteq> G \<Longrightarrow> has_session S r G i sess \<Longrightarrow> pol_inv S r G fm g' \<Longrightarrow> Q (Some (i, sess)) g'"
  shows "wp (requireSession S r) Q g"
  unfolding requireSession_def
proof (rule pol.wp_bind_I, rule wp_lookupSession_I [OF assms(1)])
  fix g' assume i: "pol_inv S r F fm g'"
  show "wp (case None of None \<Rightarrow> do { redirectToLogin r; State_Monad.return None }
      | Some found \<Rightarrow> (case found of Inl e \<Rightarrow> if e = SessNotFound
            then do { clearProxySessionCookies S; redirectToLogin r; State_Monad.return None }
            else do { writeError r 503 ''session_store_unavailable''; State_Monad.return None }
          | Inr x \<Rightarrow> State_Monad.return (Some x))) Q g'"
    using i assms(2) unfolding redirectToLogin_def
    by (auto intro!: pol.wp_bind_I pol.wp_redirect_I [OF i] pol.wp_return_I)
next
  fix e g' assume i: "pol_inv S r F fm g'"
  show "wp (case Some (Inl e) of None \<Rightarrow> do { redirectToLogin r; State_Monad.return None }
      | Some found \<Rightarrow> (case found of Inl e \<Rightarrow> if e = SessNotFound
            then do { clearProxySessionCookies S; redirectToLogin r; State_Monad.return None }
            else do { writeError r 503 ''session_store_unavailable''; State_Monad.return None }
          | Inr x \<Rightarrow> State_Monad.return (Some x))) Q g'"
    using i assms(2) unfolding redirectToLogin_def clearProxySessionCookies_def
    by (auto intro!: pol.wp_bind_I pol.wp_return_I pol.wp_setCookies_I [OF i] pol.wp_writeError_I [OF i]
        elim!: pol.wp_redirect_I)
qed (use assms(3) in \<open>auto intro: pol.wp_return_I\<close>)

lemmas vc_intro = pol.wp_bind_I pol.wp_return_I

lemmas vc_elim =
  pol.wp_respond_I pol.wp_set_header_I pol.wp_count_I pol.wp_redirect_I pol.wp_writeError_I
  pol.wp_setCookie_I pol.wp_setCookies_I pol.wp_writeN8NCookies_I pol.wp_handleN8NLoginError_I
  pol.wp_setContextID_I pol.wp_recordedStatus_I

text \<open>Forms: once parsed, the form does not change, and parsing it again reports no error.\<close>

lemma parse_multipart_form_Some [simp]: "parse_multipart_form r (Some vs) = Some vs"
  by (simp add: parse_multipart_form_def)

lemma parse_form_Some [simp]: "parse_form r (Some vs) = (Some vs, False)"
  by (simp add: parse_form_def)

lemma parse_form_is_Some: "\<exists>vs. fst (parse_form r f) = Some vs"
  by (auto simp: parse_form_def split: option.splits prod.splits)

lemma parse_multipart_form_is_Some: "\<exists>vs. parse_multipart_form r f = Some vs"
  using parse_form_is_Some [of r None] by (auto simp: parse_multipart_form_def split: option.splits)

lemma form_value_twice [simp]:
  "form_value r k (parse_multipart_form r f) = (fst (form_value r k f), parse_multipart_form r f)"
  "snd (form_value r k f) = parse_multipart_form r f"
  using parse_multipart_form_is_Some [of r f] by (auto simp: form_value_def Let_def)

text \<open>The form when the CSRF token is about to be checked: \<open>handleLinkPost\<close> has read a field before.\<close>

definition entry_form :: "request \<Rightarrow> form" where
  "entry_form r = (if r_method r = ''POST'' then parse_multipart_form r None else None)"

lemma submitted_entry:
  "fst (form_value r k (fst (parse_form r (entry_form r)))) = submitted r k"
proof (cases "r_method r = ''POST''")
  case True
  obtain vs where vs: "parse_multipart_form r None = Some vs" using parse_multipart_form_is_Some by blast
  then have "parse_form r (entry_form r) = (parse_multipart_form r None, False)"
    by (simp add: entry_form_def True)
  then show ?thesis by (simp add: submitted_def True)
qed (simp add: entry_form_def submitted_def)

lemma wp_validateCSRF_I:
  assumes "pol_inv S r F (entry_form r) g"
    and "\<And>fm g'. pol_inv S r F fm g' \<Longrightarrow> Q False g'"
    and "\<And>G fm g'. F \<subseteq> G \<Longrightarrow> has_csrf r G i \<Longrightarrow> fm = parse_multipart_form r (fst (parse_form r (entry_form r)))
      \<Longrightarrow> pol_inv S r G fm g' \<Longrightarrow> Q True g'"
  shows "wp (validateCSRF S r i) Q g"
  unfolding validateCSRF_def parseForm_def formValue_def
proof (rule pol.wp_bind_I, rule pol.wp_with_form_I [OF assms(1)])
  let ?fm = "fst (parse_form r (entry_form r))"
  fix g1 assume "pol_inv S r F (snd (case parse_form r (entry_form r) of (f', err) \<Rightarrow> (err, f'))) g1"
  then have g1: "pol_inv S r F ?fm g1" by (simp add: case_prod_unfold)
  have read: "wp (do { res \<leftarrow> call (srv_GetCSRF S i) (GotCSRF i);
      case res of
        Inl e \<Rightarrow> do { writeError r 403 ''csrf_invalid''; State_Monad.return False }
      | Inr expected \<Rightarrow>
          do { actual \<leftarrow> with_form (form_value r ''csrf_token'');
               if \<not> EqualToken expected actual
               then do { writeError r 403 ''csrf_invalid''; State_Monad.return False }
               else State_Monad.return True } }) Q g1"
  proof (rule pol.wp_bind_I, rule pol.wp_call_I [OF g1])
    fix res g2 assume g2: "pol_inv S r (insert (GotCSRF i res) F) ?fm g2"
    then have g2': "pol_inv S r F ?fm g2" by (rule pol.inv_weaken) auto
    show "wp (case res of Inl e \<Rightarrow> do { writeError r 403 ''csrf_invalid''; State_Monad.return False }
        | Inr expected \<Rightarrow>
            do { actual \<leftarrow> with_form (form_value r ''csrf_token'');
                 if \<not> EqualToken expected actual
                 then do { writeError r 403 ''csrf_invalid''; State_Monad.return False }
                 else State_Monad.return True }) Q g2"
    proof (cases res)
      case (Inl e)
      then show ?thesis using assms(2) by (auto intro!: vc_intro pol.wp_writeError_I [OF g2'])
    next
      case (Inr t)
      have "wp (do { actual \<leftarrow> with_form (form_value r ''csrf_token'');
               if \<not> EqualToken t actual
               then do { writeError r 403 ''csrf_invalid''; State_Monad.return False }
               else State_Monad.return True }) Q g2"
      proof (rule pol.wp_bind_I, rule pol.wp_with_form_I [OF g2])
        fix g3
        assume "pol_inv S r (insert (GotCSRF i res) F) (snd (form_value r ''csrf_token'' ?fm)) g3"
        then have g3: "pol_inv S r (insert (GotCSRF i (Inr t)) F) (parse_multipart_form r ?fm) g3"
          by (simp add: Inr)
        then have g3': "pol_inv S r F (parse_multipart_form r ?fm) g3" by (rule pol.inv_weaken) auto
        show "wp (if \<not> EqualToken t (fst (form_value r ''csrf_token'' ?fm))
               then do { writeError r 403 ''csrf_invalid''; State_Monad.return False }
               else State_Monad.return True) Q g3"
          unfolding submitted_entry EqualToken_eq
          using assms(2) assms(3) [OF subset_insertI _ refl g3]
          by (auto simp: has_csrf_def intro!: vc_intro pol.wp_writeError_I [OF g3'])
      qed
      then show ?thesis by (simp add: Inr)
    qed
  qed simp
  show "wp (if fst (case parse_form r (entry_form r) of (f', err) \<Rightarrow> (err, f'))
      then do { writeError r 400 ''invalid_form''; State_Monad.return False }
      else do { res \<leftarrow> call (srv_GetCSRF S i) (GotCSRF i);
          case res of
            Inl e \<Rightarrow> do { writeError r 403 ''csrf_invalid''; State_Monad.return False }
          | Inr expected \<Rightarrow>
              do { actual \<leftarrow> with_form (form_value r ''csrf_token'');
                   if \<not> EqualToken expected actual
                   then do { writeError r 403 ''csrf_invalid''; State_Monad.return False }
                   else State_Monad.return True } }) Q g1"
    using read assms(2) by (auto intro!: vc_intro pol.wp_writeError_I [OF g1])
qed

lemma wp_getCredential_I:
  assumes "pol_inv S r F fm g" and "is_user S r F i u"
    and "\<And>e g'. pol_inv S r F fm g' \<Longrightarrow> Q (Inl e) g'"
    and "\<And>c g'. pol_inv S r (insert (ReadCredential i u (Inr c)) F) fm g' \<Longrightarrow> Q (Inr c) g'"
  shows "wp (getCredential S i u) Q g"
  unfolding getCredential_def
proof (rule pol.wp_bind_I, rule pol.wp_call_I [OF assms(1)])
  fix res g' assume i: "pol_inv S r (insert (ReadCredential i u res) F) fm g'"
  then have i': "pol_inv S r F fm g'" by (rule pol.inv_weaken) auto
  show "wp (case res of
        Inl e \<Rightarrow> do { count ''vault_operations'' [''read'', if e = CredNotFound then ''not_found'' else ''error''];
                   State_Monad.return (Inl e) }
      | Inr cred \<Rightarrow> do { count ''vault_operations'' [''read'', ''success'']; State_Monad.return (Inr cred) }) Q g'"
  proof (cases res)
    case (Inl e)
    then show ?thesis using assms(3) by (auto intro!: vc_intro pol.wp_count_I [OF i'])
  next
    case (Inr c)
    then show ?thesis using assms(4) i by (auto intro!: vc_intro pol.wp_count_I [OF i])
  qed
qed (use assms(2) in simp)

lemma wp_bridgeCredential_I:
  assumes "pol_inv S r F fm g" and "is_user S r F i u"
    and "\<And>g'. pol_inv S r F fm g' \<Longrightarrow> Q None g'"
    and "\<And>c g'. pol_inv S r (insert (ReadCredential i u (Inr c)) F) fm g' \<Longrightarrow> Q (Some c) g'"
  shows "wp (bridgeCredential S r i u) Q g"
  unfolding bridgeCredential_def
  by (rule pol.wp_bind_I, rule wp_getCredential_I [OF assms(1,2)])
    (use assms(3,4) in \<open>auto intro!: vc_intro elim!: vc_elim\<close>)

lemma wp_bridgeLogin_I:
  assumes "pol_inv S r F fm g" and "\<And>res. authorized S r (LoggedIn l p [n8nLoginHeaders S r] res) F"
    and "\<And>g'. pol_inv S r F fm g' \<Longrightarrow> Q None g'"
    and "\<And>x g'. pol_inv S r (insert (LoggedIn l p [n8nLoginHeaders S r] (x, None)) F) fm g' \<Longrightarrow> Q (Some x) g'"
  shows "wp (bridgeLogin S r l p b) Q g"
  unfolding bridgeLogin_def
proof (rule pol.wp_bind_I, rule pol.wp_call_I [OF assms(1)])
  fix res g' assume i: "pol_inv S r (insert (LoggedIn l p [n8nLoginHeaders S r] res) F) fm g'"
  then have i': "pol_inv S r F fm g'" by (rule pol.inv_weaken) auto
  show "wp (case snd res of
        Some e \<Rightarrow> do { count ''n8n_login'' [loginResultLabel e]; handleN8NLoginError r e b; State_Monad.return None }
      | None \<Rightarrow> do { count ''n8n_login'' [''success'']; State_Monad.return (Some (fst res)) }) Q g'"
  proof (cases "snd res")
    case (Some e)
    then show ?thesis
      using assms(3) by (auto intro!: vc_intro pol.wp_count_I [OF i'] elim!: pol.wp_handleN8NLoginError_I)
  next
    case None
    then have "res = (fst res, None)" by (cases res) simp
    then show ?thesis
      using assms(4) i None by (auto intro!: vc_intro pol.wp_count_I [OF i])
  qed
qed (use assms(2) in simp)

text \<open>With the stored credential of the user, a login is always allowed.\<close>

lemma stored_login_allowed:
  assumes "is_user S r F i u"
  shows "authorized S r (LoggedIn (N8NEmailOrLoginID c) (N8NPassword c) hs res) (insert (ReadCredential i u (Inr c)) F)"
proof -
  have "is_user S r (insert (ReadCredential i u (Inr c)) F) i u" using assms by (rule is_user_mono) auto
  then show ?thesis by (auto simp: login_of_def)
qed

lemma wp_loginAndRedirectTo_I:
  assumes "pol_inv S r F fm g" and "is_user S r F (Issuer sess) (Subject sess)"
    and "\<And>G g'. F \<subseteq> G \<Longrightarrow> pol_inv S r G fm g' \<Longrightarrow> Q () g'"
  shows "wp (loginAndRedirectTo S r sess t) Q g"
  unfolding loginAndRedirectTo_def
  apply (rule pol.wp_bind_I, rule wp_bridgeCredential_I [OF assms(1,2)])
   apply (simp, rule pol.wp_return_I, erule assms(3) [OF order_refl])
  apply (simp, rule pol.wp_bind_I, erule wp_bridgeLogin_I)
    apply (rule stored_login_allowed [OF assms(2)])
   apply (simp, rule pol.wp_return_I, rule assms(3) [rotated], assumption, blast)
  apply (simp, rule pol.wp_bind_I, erule pol.wp_writeN8NCookies_I)
  apply (unfold setBridgeCookie_def, rule pol.wp_bind_I, erule pol.wp_setCookie_I, erule pol.wp_redirect_I)
  apply (rule assms(3) [rotated], assumption, blast)
  done

lemma wp_currentUserByLogin_I:
  assumes "pol_inv S r F fm g" and "is_user S r F (Issuer sess) (Subject sess)"
    and "\<And>G g'. F \<subseteq> G \<Longrightarrow> pol_inv S r G fm g' \<Longrightarrow> Q () g'"
  shows "wp (currentUserByLogin S r sess) Q g"
  unfolding currentUserByLogin_def
  apply (rule pol.wp_bind_I, rule wp_bridgeCredential_I [OF assms(1,2)])
   apply (simp, rule pol.wp_return_I, erule assms(3) [OF order_refl])
  apply (simp, rule pol.wp_bind_I, erule wp_bridgeLogin_I)
    apply (rule stored_login_allowed [OF assms(2)])
   apply (simp, rule pol.wp_return_I, rule assms(3) [rotated], assumption, blast)
  apply (simp, rule pol.wp_bind_I, erule pol.wp_writeN8NCookies_I)
  apply (unfold setBridgeCookie_def, rule pol.wp_bind_I, erule pol.wp_setCookie_I)
  apply (rule pol.wp_bind_I, erule pol.wp_set_header_I, rule pol.wp_bind_I, erule pol.wp_respond_I, erule pol.wp_respond_I)
  apply (rule assms(3) [rotated], assumption, blast)
  done

lemma has_session_user: "has_session S r F i sess \<Longrightarrow> is_user S r F (Issuer sess) (Subject sess)"
  by (auto simp: is_user_def)

lemma wp_handleCurrentUserBridge_I:
  assumes "pol_inv S r F fm g" and "has_session S r F i sess"
    and "\<And>G g'. F \<subseteq> G \<Longrightarrow> pol_inv S r G fm g' \<Longrightarrow> Q () g'"
  shows "wp (handleCurrentUserBridge S r sess) Q g"
proof (cases "HasN8NBridgeCookie r")
  case True
  have allowed: "authorized S r (AskedUser (hget (r_header r) ''Cookie'') res) F" for res
    using True assms(2) by auto
  show ?thesis
    unfolding handleCurrentUserBridge_def if_P [OF True]
  proof (rule pol.wp_bind_I, rule pol.wp_call_I [OF assms(1) allowed])
    fix res g' assume "pol_inv S r (insert (AskedUser (hget (r_header r) ''Cookie'') res) F) fm g'"
    then have i: "pol_inv S r F fm g'" by (rule pol.inv_weaken) auto
    show "wp (if snd res = None \<and> 200 \<le> cu_StatusCode (fst res) \<and> cu_StatusCode (fst res) < 300 then
               do { writeN8NCookies S (cu_Cookies (fst res));
                    (if cu_ContentType (fst res) \<noteq> []
                     then set_header ''Content-Type'' (cu_ContentType (fst res))
                     else set_header ''Content-Type'' ''application/json'');
                    respond (write_header (cu_StatusCode (fst res)));
                    respond (write_body (cu_Body (fst res))) }
             else currentUserByLogin S r sess) Q g'"
      using wp_currentUserByLogin_I [OF i has_session_user [OF assms(2)], of Q] assms(3)
      by (auto intro!: vc_intro pol.wp_writeN8NCookies_I [OF i] elim!: vc_elim)
  qed
next
  case False
  then show ?thesis
    unfolding handleCurrentUserBridge_def
    using wp_currentUserByLogin_I [OF assms(1) has_session_user [OF assms(2)], of Q] assms(3) by simp
qed

lemma wp_randomToken_I:
  assumes "pol_inv S r F fm g" and "\<And>x g'. pol_inv S r F fm g' \<Longrightarrow> Q x g'"
  shows "wp (randomToken S) Q g"
  unfolding randomToken_def
  by (rule pol.wp_call_I [OF assms(1)]) (auto intro!: assms(2) elim!: pol.inv_weaken)

lemma wp_startOIDCLogin_I:
  assumes "pol_inv S r F fm g" and "\<And>g'. pol_inv S r F fm g' \<Longrightarrow> Q () g'"
  shows "wp (startOIDCLogin S r) Q g"
  unfolding startOIDCLogin_def Let_def
  apply (rule pol.wp_bind_I, rule wp_randomToken_I [OF assms(1)], rename_tac x1 g1, case_tac x1)
   apply (simp, erule pol.wp_writeError_I, erule assms(2))
  apply (simp, rule pol.wp_bind_I, erule wp_randomToken_I, rename_tac g1 x2 g2, case_tac x2)
   apply (simp, erule pol.wp_writeError_I, erule assms(2))
  apply (simp, rule pol.wp_bind_I, erule wp_randomToken_I, rename_tac g2 x3 g3, case_tac x3)
   apply (simp, erule pol.wp_writeError_I, erule assms(2))
  apply (simp, rule pol.wp_bind_I, erule pol.wp_call_I, simp)
  apply (rule pol.wp_bind_I, erule pol.wp_call_I, simp, rename_tac e g5, case_tac e)
   apply (simp, rule pol.wp_bind_I, erule pol.wp_count_I, erule pol.wp_redirect_I)
   apply (rule assms(2), erule pol.inv_weaken, blast)
  apply (simp, erule pol.wp_writeError_I, rule assms(2), erule pol.inv_weaken, blast)
  done

lemma wp_handleAuthLogin_I:
  assumes "pol_inv S r F fm g" and "\<And>g'. pol_inv S r F fm g' \<Longrightarrow> Q () g'"
  shows "wp (handleAuthLogin S r) Q g"
  unfolding handleAuthLogin_def
  apply (rule pol.wp_bind_I, rule wp_lookupSession_I [OF assms(1)])
    apply (simp, erule wp_startOIDCLogin_I, erule assms(2))
   apply (rename_tac e g1, case_tac "e = SessNotFound")
    apply (simp add: clearProxySessionCookies_def, rule pol.wp_bind_I, erule pol.wp_setCookies_I)
    apply (erule wp_startOIDCLogin_I, erule assms(2))
   apply (simp, erule pol.wp_writeError_I, erule assms(2))
  apply (simp, erule wp_loginAndRedirectTo_I, erule has_session_user)
  apply (rule assms(2), erule pol.inv_weaken, blast)
  done

lemma wp_handleNativeLoginAlias_I:
  assumes "pol_inv S r F fm g" and "\<And>g'. pol_inv S r F fm g' \<Longrightarrow> Q () g'"
  shows "wp (handleNativeLoginAlias S r) Q g"
  unfolding handleNativeLoginAlias_def
  apply (rule pol.wp_bind_I, rule wp_lookupSession_I [OF assms(1)])
    apply (simp add: redirectToLogin_def, erule pol.wp_redirect_I, erule assms(2))
   apply (rename_tac e g1, case_tac "e = SessNotFound")
    apply (simp add: clearProxySessionCookies_def redirectToLogin_def, rule pol.wp_bind_I, erule pol.wp_setCookies_I)
    apply (erule pol.wp_redirect_I, erule assms(2))
   apply (simp, erule pol.wp_writeError_I, erule assms(2))
  apply (simp, erule wp_loginAndRedirectTo_I, erule has_session_user)
  apply (rule assms(2), erule pol.inv_weaken, blast)
  done

lemma wp_bridgeNewSession_I:
  assumes "pol_inv S r F fm g" and "has_identity r F ident" and "CreatedSession y (Inr i) \<in> F"
    and "\<And>g'. pol_inv S r F fm g' \<Longrightarrow> Q () g'"
  shows "wp (bridgeNewSession S r i ident stored) Q g"
proof -
  have user: "is_user S r F (id_Issuer ident) (id_Subject ident)" using assms(2) by (auto simp: is_user_def)
  show ?thesis
    unfolding bridgeNewSession_def
    apply (rule pol.wp_bind_I, rule wp_bridgeCredential_I [OF assms(1) user])
     apply (simp, rule pol.wp_return_I, erule assms(4))
    apply (simp, rule pol.wp_bind_I, erule wp_bridgeLogin_I)
      apply (rule stored_login_allowed [OF user])
     apply (simp, rule pol.wp_return_I, rule assms(4), erule pol.inv_weaken, blast)
    apply (simp, rule pol.wp_bind_I, erule pol.wp_call_I, simp, rename_tac res g3, case_tac res)
     apply (simp, erule pol.wp_writeError_I, rule assms(4), erule pol.inv_weaken, blast)
    apply (simp, rule pol.wp_bind_I, erule pol.wp_call_I)
     apply (simp, use assms(3) in blast)
    apply (rename_tac res g4, case_tac res)
     apply (simp, rule pol.wp_bind_I, erule pol.wp_writeN8NCookies_I)
     apply (unfold setBridgeCookie_def, rule pol.wp_bind_I, erule pol.wp_setCookie_I, erule pol.wp_redirect_I)
     apply (rule assms(4), erule pol.inv_weaken, blast)
    apply (simp, erule pol.wp_writeError_I, rule assms(4), erule pol.inv_weaken, blast)
    done
qed

lemma wp_handleAuthCallback_I:
  assumes "pol_inv S r F fm g" and "\<And>g'. pol_inv S r F fm g' \<Longrightarrow> Q () g'"
  shows "wp (handleAuthCallback S r) Q g"
proof (cases "query_get (r_url r) ''state'' = [] \<or> query_get (r_url r) ''code'' = []")
  case True
  then show ?thesis
    unfolding handleAuthCallback_def Let_def if_P [OF True]
    by (intro pol.wp_bind_I pol.wp_count_I [OF assms(1)]) (erule pol.wp_writeError_I, erule assms(2))
next
  case False
  show ?thesis
    unfolding handleAuthCallback_def Let_def if_not_P [OF False]
    apply (rule pol.wp_bind_I, rule pol.wp_call_I [OF assms(1)], simp, rename_tac taken g1, case_tac taken)
     apply (simp, rule pol.wp_bind_I, erule pol.wp_count_I, erule pol.wp_writeError_I)
     apply (rule assms(2), erule pol.inv_weaken, blast)
    apply (simp, rule pol.wp_bind_I, erule pol.wp_call_I, simp, rename_tac exch g2, case_tac exch)
     apply (simp, rule pol.wp_bind_I, erule pol.wp_count_I, erule pol.wp_writeError_I)
     apply (rule assms(2), erule pol.inv_weaken, blast)
    apply (simp, rule pol.wp_bind_I, erule pol.wp_call_I)
     apply (fastforce simp: has_identity_def)
    apply (rename_tac created g3, case_tac created)
     apply (simp, erule pol.wp_writeError_I, rule assms(2), erule pol.inv_weaken, blast)
    apply (simp add: writeProxySessionCookies_def, rule pol.wp_bind_I, erule pol.wp_setCookies_I)
    apply (erule wp_bridgeNewSession_I)
      apply (auto simp: has_identity_def) [1]
     apply (rule insertI1)
    apply (rule assms(2), erule pol.inv_weaken, blast)
    done
qed

lemma wp_deleteSessions_I:
  assumes "pol_inv S r F fm g" and "set ids \<subseteq> set (sessionCookieIDs S r)"
    and "\<And>g'. pol_inv S r F fm g' \<Longrightarrow> Q () g'"
  shows "wp (deleteSessions S ids) Q g"
  using assms(1,2)
proof (induction ids arbitrary: g)
  case Nil
  then show ?case using assms(3) by (auto intro: pol.wp_return_I)
next
  case (Cons i ids)
  show ?case
    unfolding deleteSessions.simps
  proof (rule pol.wp_bind_I, rule pol.wp_call_I [OF Cons.prems(1)])
    fix res g' assume "pol_inv S r (insert (DeletedSession i res) F) fm g'"
    then have "pol_inv S r F fm g'" by (rule pol.inv_weaken) auto
    then show "wp (deleteSessions S ids) Q g'" using Cons by simp
  qed (use Cons.prems(2) in simp)
qed

lemma wp_n8nLogout_I:
  assumes "pol_inv S r F fm g" and "\<And>g'. pol_inv S r F fm g' \<Longrightarrow> Q () g'"
  shows "wp (n8nLogout S r) Q g"
  unfolding n8nLogout_def
  apply (rule pol.wp_bind_I, rule pol.wp_call_I [OF assms(1)], simp)
  apply (erule pol.wp_writeN8NCookies_I, rule assms(2), erule pol.inv_weaken, blast)
  done

lemma wp_handleProxyLogout_I:
  assumes "pol_inv S r F fm g" and "\<And>g'. pol_inv S r F fm g' \<Longrightarrow> Q () g'"
  shows "wp (handleProxyLogout S r) Q g"
  unfolding handleProxyLogout_def clearProxySessionCookies_def clearBridgeCookie_def
  apply (rule pol.wp_bind_I, rule wp_deleteSessions_I [OF assms(1) order_refl])
  apply (rule pol.wp_bind_I, erule wp_n8nLogout_I, rule pol.wp_bind_I, erule pol.wp_setCookies_I)
  apply (rule pol.wp_bind_I, erule pol.wp_setCookie_I, erule pol.wp_redirect_I, erule assms(2))
  done

lemma wp_handleN8NLogout_I:
  assumes "pol_inv S r F fm g" and "\<And>g'. pol_inv S r F fm g' \<Longrightarrow> Q () g'"
  shows "wp (handleN8NLogout S r) Q g"
  unfolding handleN8NLogout_def clearBridgeCookie_def
  apply (rule pol.wp_bind_I, rule wp_n8nLogout_I [OF assms(1)])
  apply (rule pol.wp_bind_I, erule pol.wp_setCookie_I, erule pol.wp_redirect_I, erule assms(2))
  done

lemma wp_handleN8NSignout_I:
  assumes "pol_inv S r F fm g" and "\<And>g'. pol_inv S r F fm g' \<Longrightarrow> Q () g'"
  shows "wp (handleN8NSignout S r) Q g"
  unfolding handleN8NSignout_def clearBridgeCookie_def
  apply (rule pol.wp_bind_I, rule pol.wp_setCookie_I [OF assms(1)])
  apply (erule pol.wp_redirect_I, erule assms(2))
  done

lemma wp_csrfTokenFor_I:
  assumes "pol_inv S r F fm g" and "has_session S r F i sess"
    and "\<And>x g'. pol_inv S r F fm g' \<Longrightarrow> Q x g'"
  shows "wp (csrfTokenFor S i) Q g"
  unfolding csrfTokenFor_def
  apply (rule pol.wp_bind_I, rule pol.wp_call_I [OF assms(1)], simp, rename_tac res g1, case_tac res)
   apply (rename_tac e, case_tac "e = SessNotFound")
    apply (simp, rule pol.wp_bind_I, erule pol.wp_call_I, simp, rename_tac drawn g2, case_tac drawn)
     apply (simp, rule pol.wp_return_I, rule assms(3), erule pol.inv_weaken, blast)
    apply (simp, rule pol.wp_bind_I, erule pol.wp_call_I)
     apply (use assms(2) in \<open>auto simp: has_session_def\<close>) [1]
    apply (rule pol.wp_return_I, rule assms(3), erule pol.inv_weaken, blast)
   apply (simp, rule pol.wp_return_I, rule assms(3), erule pol.inv_weaken, blast)
  apply (simp, rule pol.wp_return_I, rule assms(3), erule pol.inv_weaken, blast)
  done

lemma wp_handleLinkGet_I:
  assumes "pol_inv S r F fm g" and "\<And>g'. pol_inv S r F fm g' \<Longrightarrow> Q () g'"
  shows "wp (handleLinkGet S r) Q g"
  unfolding handleLinkGet_def
  apply (rule pol.wp_bind_I, rule wp_requireSession_I [OF assms(1)])
   apply (simp, rule pol.wp_return_I, erule assms(2))
  apply (simp, rule pol.wp_bind_I, erule wp_csrfTokenFor_I, assumption, rename_tac i sess G g1 tok g2, case_tac tok)
   apply (simp, erule pol.wp_writeError_I, rule assms(2), erule pol.inv_weaken, blast)
  apply (simp, rule pol.wp_bind_I, erule wp_getCredential_I, erule has_session_user)
   apply (rename_tac e g3, case_tac "e = CredNotFound")
    apply (simp, rule pol.wp_bind_I, erule pol.wp_set_header_I, erule pol.wp_respond_I)
    apply (rule assms(2), erule pol.inv_weaken, blast)
   apply (simp, erule pol.wp_writeError_I, rule assms(2), erule pol.inv_weaken, blast)
  apply (simp, rule pol.wp_bind_I, erule pol.wp_set_header_I, erule pol.wp_respond_I)
  apply (rule assms(2), erule pol.inv_weaken, blast)
  done

lemma wp_deleteCredential_I:
  assumes "pol_inv S r F fm g" and "has_session S r F i sess" and "has_csrf r F i"
    and "\<And>x g'. pol_inv S r F fm g' \<Longrightarrow> Q x g'"
  shows "wp (deleteCredential S (Issuer sess) (Subject sess)) Q g"
  unfolding deleteCredential_def
  apply (rule pol.wp_bind_I, rule pol.wp_call_I [OF assms(1)])
   apply (simp, use assms(2,3) in blast)
  apply (rule pol.wp_bind_I, erule pol.wp_count_I, rule pol.wp_return_I)
  apply (rule assms(4), erule pol.inv_weaken, blast)
  done

lemma wp_saveLinked_I:
  assumes "pol_inv S r F fm g" and "has_session S r F i sess" and "has_csrf r F i"
    and "\<And>x g'. pol_inv S r F fm g' \<Longrightarrow> Q x g'"
  shows "wp (call (srv_SaveSession S i (sess\<lparr>Linked := b\<rparr>)) (SavedSession i (sess\<lparr>Linked := b\<rparr>))) Q g"
  apply (rule pol.wp_call_I [OF assms(1)])
   apply (use assms(2,3) in \<open>cases b; auto\<close>) [1]
  apply (rule assms(4), erule pol.inv_weaken, blast)
  done

lemma wp_handleLinkDelete_I:
  assumes "pol_inv S r F (entry_form r) g" and "\<And>fm g'. pol_inv S r F fm g' \<Longrightarrow> Q () g'"
  shows "wp (handleLinkDelete S r) Q g"
  unfolding handleLinkDelete_def
  apply (rule pol.wp_bind_I, rule wp_requireSession_I [OF assms(1)])
   apply (simp, rule pol.wp_return_I, erule assms(2))
  apply (simp, rule pol.wp_bind_I, erule wp_validateCSRF_I)
   apply (simp, rule pol.wp_return_I, rule assms(2), erule pol.inv_weaken, blast)
  apply (simp, rule pol.wp_bind_I)
  apply (frule has_session_mono, assumption)
  apply (erule wp_deleteCredential_I, assumption, assumption, rename_tac x g3, case_tac x)
   apply (simp, rule pol.wp_bind_I, erule wp_saveLinked_I, assumption, assumption)
   apply (erule pol.wp_redirect_I, rule assms(2), erule pol.inv_weaken, blast)
  apply (simp, erule pol.wp_writeError_I, rule assms(2), erule pol.inv_weaken, blast)
  done

lemma wp_putCredential_I:
  assumes "pol_inv S r F fm g" and "\<And>res. authorized S r (WroteCredential c res) F"
    and "\<And>x g'. pol_inv S r F fm g' \<Longrightarrow> Q x g'"
  shows "wp (putCredential S c) Q g"
  unfolding putCredential_def
  apply (rule pol.wp_bind_I, rule pol.wp_call_I [OF assms(1,2)])
  apply (rule pol.wp_bind_I, erule pol.wp_count_I, rule pol.wp_return_I)
  apply (rule assms(3), erule pol.inv_weaken, blast)
  done

lemma wp_linkCredential_I:
  assumes "pol_inv S r F fm g" and sess: "has_session S r F i sess" and csrf: "has_csrf r F i"
    and l: "l = trim_space (submitted r ''n8n_email_or_login_id'')" and p: "p = submitted r ''n8n_password''"
    and "\<And>g'. pol_inv S r F fm g' \<Longrightarrow> Q () g'"
  shows "wp (linkCredential S r i sess l p) Q g"
proof -
  have allowed: "authorized S r (WroteCredential (linkedCredential sess l p) res)
      (insert (LoggedIn l p [n8nLoginHeaders S r] (x, None)) F)" for x res
    using has_session_mono [OF sess subset_insertI] has_csrf_mono [OF csrf subset_insertI]
    by (force simp: linkedCredential_def l p)
  show ?thesis
    unfolding linkCredential_def
    apply (rule pol.wp_bind_I, rule wp_bridgeLogin_I [OF assms(1)])
      apply (simp, use sess csrf l p in blast)
     apply (simp, rule pol.wp_return_I, erule assms(6))
    apply (simp, rule pol.wp_bind_I, erule wp_putCredential_I, rule allowed)
    apply (rename_tac x g1 res g2, case_tac res)
     apply (simp, rule pol.wp_bind_I, rule wp_saveLinked_I, erule pol.inv_weaken, rule order_refl)
       apply (rule has_session_mono [OF sess], blast)
      apply (rule has_csrf_mono [OF csrf], blast)
     apply (rule pol.wp_bind_I, erule pol.wp_writeN8NCookies_I)
     apply (unfold setBridgeCookie_def, rule pol.wp_bind_I, erule pol.wp_setCookie_I, erule pol.wp_redirect_I)
     apply (rule assms(6), erule pol.inv_weaken, blast)
    apply (simp, erule pol.wp_writeError_I, rule assms(6), erule pol.inv_weaken, blast)
    done
qed

lemma post_forms:
  assumes "r_method r = ''POST''"
  shows "entry_form r = parse_multipart_form r None"
    and "parse_form r (parse_multipart_form r None) = (parse_multipart_form r None, False)"
    and "parse_multipart_form r (parse_multipart_form r None) = parse_multipart_form r None"
    and "form_value r k (parse_multipart_form r None) = (submitted r k, parse_multipart_form r None)"
  using parse_multipart_form_is_Some [of r None] assms
  by (auto simp: entry_form_def submitted_def)

lemma wp_handleLinkPost_I:
  assumes "pol_inv S r F None g" and post: "r_method r = ''POST''"
    and "\<And>fm g'. pol_inv S r F fm g' \<Longrightarrow> Q () g'"
  shows "wp (handleLinkPost S r) Q g"
  unfolding handleLinkPost_def
proof (rule pol.wp_bind_I, unfold formValue_def, rule pol.wp_with_form_I [OF assms(1)])
  fix g1 assume "pol_inv S r F (snd (form_value r ''_method'' None)) g1"
  then have g1: "pol_inv S r F (entry_form r) g1" by (simp add: post_forms(1) [OF post])
  note forms = post_forms [OF post]
  show "wp (if fst (form_value r ''_method'' None) = ''DELETE'' then handleLinkDelete S r
      else do { found \<leftarrow> requireSession S r;
             case found of
               None \<Rightarrow> State_Monad.return ()
             | Some (sessionID, sess) \<Rightarrow>
                 do { ok \<leftarrow> validateCSRF S r sessionID;
                      if \<not> ok then State_Monad.return ()
                      else do { err \<leftarrow> parseForm r;
                             if err then writeError r 400 ''invalid_form''
                             else do { rawLoginID \<leftarrow> with_form (form_value r ''n8n_email_or_login_id'');
                                    password \<leftarrow> with_form (form_value r ''n8n_password'');
                                    let loginID = trim_space rawLoginID;
                                    if loginID = [] \<or> password = []
                                    then writeError r 400 ''missing_n8n_credential''
                                    else linkCredential S r sessionID sess loginID password } } } }) Q g1"
    apply (rule pol.wp_if_I)
     apply (rule wp_handleLinkDelete_I [OF g1], erule assms(3))
    apply (rule pol.wp_bind_I, rule wp_requireSession_I [OF g1])
     apply (simp, rule pol.wp_return_I, erule assms(3))
    apply (simp, rule pol.wp_bind_I, erule wp_validateCSRF_I)
     apply (simp, rule pol.wp_return_I, rule assms(3), erule pol.inv_weaken, blast)
    apply (simp add: forms parseForm_def)
    apply (rule pol.wp_bind_I, erule pol.wp_with_form_I, simp add: forms)
    apply (rule pol.wp_bind_I, erule pol.wp_with_form_I)
    apply (rule pol.wp_bind_I, erule pol.wp_with_form_I)
    apply (unfold Let_def, rule pol.wp_if_I)
     apply (erule pol.wp_writeError_I, rule assms(3), erule pol.inv_weaken, blast)
    apply (erule wp_linkCredential_I, erule has_session_mono, assumption, assumption)
      apply (simp add: submitted_def post)
     apply (simp add: submitted_def post)
    apply (rule assms(3), erule pol.inv_weaken, blast)
    done
qed

lemma wp_handleReady_I:
  assumes "pol_inv S r F fm g" and "\<And>g'. pol_inv S r F fm g' \<Longrightarrow> Q () g'"
  shows "wp (handleReady S) Q g"
  unfolding handleReady_def Let_def
  apply (rule pol.wp_bind_I, rule pol.wp_call_I [OF assms(1)], simp)
  apply (rule pol.wp_bind_I, erule pol.wp_call_I, simp, rule pol.wp_bind_I, erule pol.wp_call_I, simp)
  apply (rule pol.wp_bind_I, erule pol.wp_call_I, simp, erule pol.wp_respond_I)
  apply (rule assms(2), erule pol.inv_weaken, blast)
  done

lemma wp_serveProtected_I:
  assumes "pol_inv S r F fm g" and "\<And>x g'. pol_inv S r F fm g' \<Longrightarrow> Q x g'"
    and "class_of S r = RouteProtectedConsole"
  shows "wp (serveProtected S r) Q g"
  unfolding serveProtected_def
  apply (rule pol.wp_bind_I, rule wp_requireSession_I [OF assms(1)])
   apply (simp, rule pol.wp_return_I, erule assms(2))
  apply (simp only: option.case prod.case, rule pol.wp_if_I)
   apply (rule pol.wp_bind_I, erule wp_handleCurrentUserBridge_I, assumption, rule pol.wp_return_I)
   apply (rule assms(2), erule pol.inv_weaken, blast)
  apply (rule pol.wp_if_I)
   apply (rule pol.wp_bind_I, unfold loginAndRedirect_def, erule wp_loginAndRedirectTo_I, erule has_session_user)
   apply (rule pol.wp_return_I, rule assms(2), erule pol.inv_weaken, blast)
  apply (erule pol.wp_serve_I, simp add: assms(3), blast)
  apply (rule assms(2), erule pol.inv_weaken, blast)
  done

text \<open>The handlers of the internal endpoints, with the result \<open>False\<close>.\<close>

lemma wp_done_I:
  "wp h (\<lambda>_. Q False) g \<Longrightarrow> wp (State_Monad.bind h (\<lambda>_. State_Monad.return False)) Q g"
  by (rule pol.wp_bind_I, erule wp_mono) (simp add: wp_return)

lemma wp_serveInternal_I:
  assumes i: "pol_inv S r F None g" and Q: "\<And>x fm g'. pol_inv S r F fm g' \<Longrightarrow> Q x g'"
  shows "wp (serveInternal S r) Q g"
  unfolding serveInternal_def Let_def
  apply (intro pol.wp_if_I)
             apply (rule wp_done_I, rule pol.wp_respond_I [OF i], erule Q)
            apply (rule wp_done_I, rule wp_handleReady_I [OF i], erule Q)
           apply (rule pol.wp_serve_I [OF i], simp, rule Q, erule pol.inv_weaken, blast)
          apply (rule wp_done_I, rule wp_handleAuthLogin_I [OF i], erule Q)
         apply (rule wp_done_I, rule wp_handleAuthCallback_I [OF i], erule Q)
        apply (rule wp_done_I, rule wp_handleProxyLogout_I [OF i], erule Q)
       apply (rule wp_done_I, rule wp_handleN8NLogout_I [OF i], erule Q)
      apply (rule wp_done_I, rule wp_handleN8NSignout_I [OF i], erule Q)
     apply (rule wp_done_I, rule wp_handleLinkGet_I [OF i], erule Q)
    apply (rule wp_done_I, erule conjE, rule wp_handleLinkPost_I [OF i], assumption, erule Q)
   apply (rule wp_done_I, rule wp_handleLinkDelete_I [where F = F])
    apply (use i in \<open>simp add: entry_form_def\<close>)
   apply (erule Q)
  apply (rule wp_done_I, rule pol.wp_respond_I [OF i], erule Q)
  done

lemma wp_requestID_I:
  assumes "pol_inv S r F fm g" and "\<And>x g'. pol_inv S r F fm g' \<Longrightarrow> Q x g'"
  shows "wp (requestID S r0) Q g"
  unfolding requestID_def Let_def
  apply (rule pol.wp_if_I)
   apply (rule pol.wp_return_I, rule assms(2), rule assms(1))
  apply (rule pol.wp_bind_I, rule pol.wp_call_I [OF assms(1)], simp, rename_tac drawn g1, case_tac drawn)
   apply (simp, rule pol.wp_bind_I, erule pol.wp_call_I, simp, rule pol.wp_return_I)
   apply (rule assms(2), erule pol.inv_weaken, blast)
  apply (simp, rule pol.wp_return_I, rule assms(2), erule pol.inv_weaken, blast)
  done

lemma wp_dispatch_I:
  assumes i: "pol_inv S r F None g" and Q: "\<And>x fm g'. pol_inv S r F fm g' \<Longrightarrow> Q x g'"
  shows "wp (dispatch S r (class_of S r)) Q g"
proof (cases "class_of S r")
  case RouteInternal
  then show ?thesis using wp_serveInternal_I [OF i Q] by (simp add: dispatch_def)
next
  case RoutePublicExecution
  then show ?thesis
    apply (simp add: dispatch_def)
    apply (rule pol.wp_bind_I, rule pol.wp_count_I [OF i], rule pol.wp_bind_I, erule pol.wp_serve_I)
     apply simp
    apply (rule pol.wp_bind_I, erule pol.wp_count_I, rule pol.wp_return_I)
    apply (rule Q, erule pol.inv_weaken, blast)
    done
next
  case RouteBlockedNativeLogin
  then show ?thesis
    using Q by (auto simp: dispatch_def intro!: vc_intro pol.wp_respond_I [OF i])
next
  case RouteNativeLoginAlias
  then show ?thesis
    by (simp add: dispatch_def) (rule wp_done_I, rule wp_handleNativeLoginAlias_I [OF i], erule Q)
next
  case RouteProtectedConsole
  then show ?thesis
    by (simp add: dispatch_def)
      (rule wp_serveProtected_I [OF i], erule Q, assumption)
qed

lemma wp_ServeHTTP_I:
  assumes r: "r = normalizeForwardedHeaders S r0" and i: "pol_inv S r F None g"
    and Q: "\<And>fm g'. pol_inv S r F fm g' \<Longrightarrow> Q () g'"
  shows "wp (ServeHTTP S r0) Q g"
  unfolding ServeHTTP_def Let_def r [symmetric] class_of_def [symmetric]
  apply (rule pol.wp_bind_I, rule pol.wp_call_I [OF i], simp)
  apply (rule pol.wp_bind_I, erule wp_requestID_I, rule pol.wp_bind_I, erule pol.wp_setContextID_I)
  apply (rule pol.wp_bind_I, erule pol.wp_set_header_I, rule pol.wp_bind_I, erule pol.wp_respond_I)
  apply (rule pol.wp_bind_I, erule wp_dispatch_I, rule pol.wp_bind_I, rule pol.wp_if_I)
   apply (erule pol.wp_respond_I, rule pol.wp_bind_I, erule pol.wp_recordedStatus_I)
   apply (rule pol.wp_bind_I, erule pol.wp_call_I, simp, rule pol.wp_bind_I, erule pol.wp_count_I, erule pol.wp_count_I)
   apply (rule Q, erule pol.inv_weaken, blast)
  apply (rule pol.wp_return_I, rule pol.wp_bind_I, erule pol.wp_recordedStatus_I)
  apply (rule pol.wp_bind_I, erule pol.wp_call_I, simp, rule pol.wp_bind_I, erule pol.wp_count_I, erule pol.wp_count_I)
  apply (rule Q, erule pol.inv_weaken, blast)
  done

text \<open>
  Every call that the gateway makes for a request was authorized by calls it made before; \<open>gw_log\<close> has
  the newest event first, so \<open>guarded\<close> speaks of every prefix of what happened.
\<close>

lemma handle_guarded: "guarded (authorized S (normalizeForwardedHeaders S r)) (gw_log (handle S r s))"
proof -
  have "wp (ServeHTTP S r) (\<lambda>_ g. guarded (authorized S (normalizeForwardedHeaders S r)) (gw_log g))
      \<lparr>gw_env = s, gw_request_id = [], gw_form = None, gw_w = new_response, gw_log = []\<rparr>"
    by (rule wp_ServeHTTP_I [OF refl, where F = "{}"]) (simp_all add: inv_def)
  then show ?thesis by (simp add: exec_wp handle_def)
qed

lemma guarded_before: "guarded A (later @ e # earlier) \<Longrightarrow> A e (set earlier)"
  by (induction later) auto

lemma authorized_before:
  "gw_log (handle S r s) = later @ e # earlier \<Longrightarrow>
     authorized S (normalizeForwardedHeaders S r) e (set earlier)"
  using guarded_before handle_guarded by metis

lemma handle_authorized:
  "e \<in> set (gw_log (handle S r s)) \<Longrightarrow>
     authorized S (normalizeForwardedHeaders S r) e (set (gw_log (handle S r s)))"
  using pol.guarded_mem [OF handle_guarded] .

text \<open>Dropping forwarding headers changes neither cookies nor forms nor the URL.\<close>

lemma normalize_simps [simp]:
  "r_url (normalizeForwardedHeaders S r) = r_url r"
  "r_method (normalizeForwardedHeaders S r) = r_method r"
  "r_body (normalizeForwardedHeaders S r) = r_body r"
  "r_header (normalizeForwardedHeaders S r) ''Cookie'' = r_header r ''Cookie''"
  by (simp_all add: normalizeForwardedHeaders_def)

lemma normalize_cookies [simp]:
  "r_cookies (normalizeForwardedHeaders S r) = r_cookies r"
  "sessionCookieIDs S (normalizeForwardedHeaders S r) = sessionCookieIDs S r"
  "HasN8NBridgeCookie (normalizeForwardedHeaders S r) = HasN8NBridgeCookie r"
  "hget (r_header (normalizeForwardedHeaders S r)) ''Cookie'' = hget (r_header r) ''Cookie''"
  by (simp_all add: r_cookies_def sessionCookieIDs_def HasN8NBridgeCookie_def r_cookie_def hget_def)

lemma normalize_forms [simp]: "submitted (normalizeForwardedHeaders S r) k = submitted r k"
proof -
  have "parse_form (normalizeForwardedHeaders S r) f = parse_form r f" for f
    by (simp only: parse_form_def parse_post_form_def normalize_simps)
  then show ?thesis
    by (simp only: submitted_def form_value_def parse_multipart_form_def normalize_simps)
qed

lemma normalize_facts [simp]:
  "has_session S (normalizeForwardedHeaders S r) F i sess = has_session S r F i sess"
  "has_csrf (normalizeForwardedHeaders S r) F i = has_csrf r F i"
  "has_identity (normalizeForwardedHeaders S r) F ident = has_identity r F ident"
  "is_user S (normalizeForwardedHeaders S r) F i u = is_user S r F i u"
  "class_of S (normalizeForwardedHeaders S r) = class_of S r"
  by (simp_all add: monotone_facts class_of_def)

end
