(* ===== verification/Footprint.thy ===== *)
theory Footprint
  imports Safety
begin

text \<open>
  Which events a handler can log, and what it keeps of the response: invariants of the state of a
  request that every action of a handler preserves.
\<close>

subsection \<open>Invariants of handlers\<close>

definition preserves :: "('s gw \<Rightarrow> bool) \<Rightarrow> ('s, 'a) handler \<Rightarrow> bool" where
  "preserves I m \<longleftrightarrow> (\<forall>g. I g \<longrightarrow> wp m (\<lambda>_. I) g)"

named_theorems frame
  "rules that show that a handler preserves an invariant, from its actions"

lemma preserves_exec: "preserves I m \<Longrightarrow> I g \<Longrightarrow> I (exec m g)"
  by (simp add: preserves_def exec_wp)

lemma preserves_bind [frame]:
  "preserves I m \<Longrightarrow> (\<And>x. preserves I (f x)) \<Longrightarrow> preserves I (State_Monad.bind m f)"
  unfolding preserves_def wp_bind by (blast intro: wp_mono)

lemma preserves_return [frame]: "preserves I (State_Monad.return x)"
  by (simp add: preserves_def wp_return)

lemma preserves_if [frame]:
  "(b \<Longrightarrow> preserves I m) \<Longrightarrow> (\<not> b \<Longrightarrow> preserves I n) \<Longrightarrow> preserves I (if b then m else n)"
  by simp

lemma preserves_option [frame]:
  "preserves I m \<Longrightarrow> (\<And>y. preserves I (f y)) \<Longrightarrow> preserves I (case x of None \<Rightarrow> m | Some y \<Rightarrow> f y)"
  by (cases x) simp_all

lemma preserves_sum [frame]:
  "(\<And>e. preserves I (m e)) \<Longrightarrow> (\<And>y. preserves I (f y)) \<Longrightarrow>
     preserves I (case x of Inl e \<Rightarrow> m e | Inr y \<Rightarrow> f y)"
  by (cases x) simp_all

lemma preserves_prod [frame]:
  "(\<And>a b. preserves I (f a b)) \<Longrightarrow> preserves I (case x of (a, b) \<Rightarrow> f a b)"
  by (cases x) simp

subsection \<open>Footprints\<close>

text \<open>\<open>footprint E m\<close>: \<open>m\<close> adds only events of \<open>E\<close> to the log.\<close>

definition footprint :: "(event \<Rightarrow> bool) \<Rightarrow> ('s, 'a) handler \<Rightarrow> bool" where
  "footprint E m \<longleftrightarrow>
     (\<forall>g. wp m (\<lambda>_ g'. \<exists>new. gw_log g' = new @ gw_log g \<and> list_all E new) g)"

named_theorems emits
  "rules that bound the events of a handler by those of its actions"

lemma footprint_exec: "footprint E m \<Longrightarrow> \<exists>new. gw_log (exec m g) = new @ gw_log g \<and> list_all E new"
  unfolding footprint_def exec_wp by blast

lemma footprint_bind [emits]:
  assumes "footprint E m" and "\<And>x. footprint E (f x)"
  shows "footprint E (State_Monad.bind m f)"
  unfolding footprint_def
proof (intro allI)
  fix g
  show "wp (State_Monad.bind m f) (\<lambda>_ g'. \<exists>new. gw_log g' = new @ gw_log g \<and> list_all E new) g"
    unfolding wp_bind
  proof (rule wp_mono [OF assms(1) [unfolded footprint_def, rule_format, of g]])
    fix x and g' :: "'a gw"
    assume "\<exists>new. gw_log g' = new @ gw_log g \<and> list_all E new"
    then obtain new where new: "gw_log g' = new @ gw_log g" "list_all E new" by blast
    show "wp (f x) (\<lambda>_ g'. \<exists>new. gw_log g' = new @ gw_log g \<and> list_all E new) g'"
    proof (rule wp_mono [OF assms(2) [unfolded footprint_def, rule_format, of x g']])
      fix y and g'' :: "'a gw"
      assume "\<exists>later. gw_log g'' = later @ gw_log g' \<and> list_all E later"
      then obtain later where "gw_log g'' = later @ gw_log g'" "list_all E later" by blast
      then show "\<exists>new. gw_log g'' = new @ gw_log g \<and> list_all E new"
        using new by (intro exI [of _ "later @ new"]) simp
    qed
  qed
qed

lemma footprint_silent:
  "(\<And>g. gw_log (snd (run_state m g)) = gw_log g) \<Longrightarrow> footprint E m"
  unfolding footprint_def wp_def by (simp add: case_prod_unfold)

lemma footprint_one:
  "(\<And>g. \<exists>e. gw_log (snd (run_state m g)) = e # gw_log g \<and> E e) \<Longrightarrow> footprint E m"
proof -
  assume one: "\<And>g. \<exists>e. gw_log (snd (run_state m g)) = e # gw_log g \<and> E e"
  have "\<exists>new. gw_log (snd (run_state m g)) = new @ gw_log g \<and> list_all E new" for g
  proof -
    obtain e where "gw_log (snd (run_state m g)) = e # gw_log g \<and> E e" using one by blast
    then show ?thesis by (intro exI [of _ "[e]"]) simp
  qed
  then show "footprint E m" by (simp add: footprint_def wp_def case_prod_unfold)
qed

lemma footprint_return [emits]: "footprint E (State_Monad.return x)"
  by (rule footprint_silent) (simp add: State_Monad.return_def)

lemma footprint_call [emits]: "(\<And>r. E (ev r)) \<Longrightarrow> footprint E (call f ev)"
  by (rule footprint_one) (simp add: call_def case_prod_unfold)

lemma footprint_serve [emits]: "(\<And>p. E (ev p)) \<Longrightarrow> footprint E (serve h r ev)"
  by (rule footprint_one) (simp add: serve_def case_prod_unfold)

lemma footprint_count [emits]: "E (Counted n ls) \<Longrightarrow> footprint E (count n ls)"
  by (rule footprint_one) (simp add: count_def act_def)

lemma footprint_respond [emits]: "footprint E (respond f)"
  by (rule footprint_silent) (simp add: respond_def act_def)

lemma footprint_set_header [emits]: "footprint E (set_header k v)"
  unfolding set_header_def by (rule footprint_respond)

lemma footprint_RequestID [emits]: "footprint E RequestID"
  by (rule footprint_silent) (simp add: RequestID_def)

lemma footprint_setContextID [emits]: "footprint E (setContextID i)"
  by (rule footprint_silent) (simp add: setContextID_def act_def)

lemma footprint_recordedStatus [emits]: "footprint E recordedStatus"
  by (rule footprint_silent) (simp add: recordedStatus_def)

lemma footprint_with_form [emits]: "footprint E (with_form f)"
  by (rule footprint_silent) (simp add: with_form_def case_prod_unfold)

lemma footprint_if [emits]:
  "(b \<Longrightarrow> footprint E m) \<Longrightarrow> (\<not> b \<Longrightarrow> footprint E n) \<Longrightarrow> footprint E (if b then m else n)"
  by simp

lemma footprint_option [emits]:
  "footprint E m \<Longrightarrow> (\<And>y. footprint E (f y)) \<Longrightarrow> footprint E (case x of None \<Rightarrow> m | Some y \<Rightarrow> f y)"
  by (cases x) simp_all

lemma footprint_sum [emits]:
  "(\<And>e. footprint E (m e)) \<Longrightarrow> (\<And>y. footprint E (f y)) \<Longrightarrow>
     footprint E (case x of Inl e \<Rightarrow> m e | Inr y \<Rightarrow> f y)"
  by (cases x) simp_all

lemma footprint_prod [emits]:
  "(\<And>a b. footprint E (f a b)) \<Longrightarrow> footprint E (case x of (a, b) \<Rightarrow> f a b)"
  by (cases x) simp

lemma footprint_mono: "footprint E m \<Longrightarrow> (\<And>e. E e \<Longrightarrow> E' e) \<Longrightarrow> footprint E' m"
  unfolding footprint_def by (blast intro: wp_mono list.pred_mono_strong)

text \<open>The helpers of the handlers.\<close>

lemma footprint_responses [emits]:
  "footprint E (writeError r st c)" "footprint E (redirect r t)" "footprint E (setCookie ck)"
  "footprint E (setCookies cks)" "footprint E (redirectToLogin r)"
  "footprint E (writeProxySessionCookies S i)" "footprint E (clearProxySessionCookies S)"
  "footprint E (writeN8NCookies S cs)" "footprint E (setBridgeCookie S)" "footprint E (clearBridgeCookie S)"
  "footprint E (handleN8NLoginError r e b)" "footprint E (formValue r k)" "footprint E (parseForm r)"
  unfolding writeError_def redirect_def setCookie_def setCookies_def redirectToLogin_def
    writeProxySessionCookies_def clearProxySessionCookies_def writeN8NCookies_def setBridgeCookie_def
    clearBridgeCookie_def handleN8NLoginError_def formValue_def parseForm_def
  by (intro emits)+

lemma footprint_lookupLoop [emits]:
  "(\<And>i res. E (GotSession i res)) \<Longrightarrow> footprint E (lookupLoop S ids)"
  by (induction ids) (auto intro!: emits)


subsection \<open>The footprints of the handlers\<close>

text \<open>
  \<open>during c\<close>: the events that may happen while a request of class \<open>c\<close> is dispatched. The events of
  a login at n8n (\<open>bridging\<close>) are common to all classes that know users.
\<close>

fun during :: "RouteClass \<Rightarrow> event \<Rightarrow> bool" where
  "during c (Counted n ls) = (n \<noteq> ''requests'' \<and> n \<noteq> ''request_duration'' \<and> (n = ''public_execution_inflight'' \<longrightarrow> c = RoutePublicExecution))"
| "during c (GotSession i res) = (c \<in> {RouteInternal, RouteNativeLoginAlias, RouteProtectedConsole})"
| "during c (ReadCredential i u res) = (c \<in> {RouteInternal, RouteNativeLoginAlias, RouteProtectedConsole})"
| "during c (LoggedIn l p hs res) = (c \<in> {RouteInternal, RouteNativeLoginAlias, RouteProtectedConsole})"
| "during c (AskedUser k res) = (c = RouteProtectedConsole)"
| "during c (ConsoleProxied r p) = (c = RouteProtectedConsole)"
| "during c (PublicProxied r p) = (c = RoutePublicExecution)"
| "during c e = (c = RouteInternal)"

definition bridging :: "(event \<Rightarrow> bool) \<Rightarrow> bool" where
  "bridging E \<longleftrightarrow>
     (\<forall>i res. E (GotSession i res)) \<and> (\<forall>i u res. E (ReadCredential i u res))
     \<and> (\<forall>l p hs res. E (LoggedIn l p hs res))
     \<and> (\<forall>ls. E (Counted ''vault_operations'' ls)) \<and> (\<forall>ls. E (Counted ''n8n_login'' ls))"

lemma bridging_during:
  "c \<in> {RouteInternal, RouteNativeLoginAlias, RouteProtectedConsole} \<Longrightarrow> bridging (during c)"
  by (auto simp: bridging_def)

lemma footprint_sessions [emits]:
  assumes "bridging E"
  shows "footprint E (lookupSessionFromCookies S r)" "footprint E (requireSession S r)"
  using assms unfolding lookupSessionFromCookies_def requireSession_def bridging_def
  by (intro emits; simp)+

lemma footprint_bridge [emits]:
  assumes "bridging E"
  shows "footprint E (getCredential S i u)" "footprint E (bridgeCredential S r i u)"
    "footprint E (bridgeLogin S r l p b)" "footprint E (loginAndRedirectTo S r sess t)"
    "footprint E (loginAndRedirect S r sess)" "footprint E (currentUserByLogin S r sess)"
    "footprint E (handleNativeLoginAlias S r)"
proof -
  note b = assms [unfolded bridging_def]
  show 1: "footprint E (getCredential S i u)" for i u
    unfolding getCredential_def by (intro emits) (simp_all add: b)
  show 2: "footprint E (bridgeCredential S r i u)" for i u
    unfolding bridgeCredential_def by (intro emits 1)
  show 3: "footprint E (bridgeLogin S r l p b)" for l p b
    unfolding bridgeLogin_def by (intro emits) (simp_all add: b)
  show 4: "footprint E (loginAndRedirectTo S r sess t)" for sess t
    unfolding loginAndRedirectTo_def by (intro emits 2 3)
  show "footprint E (loginAndRedirect S r sess)"
    unfolding loginAndRedirect_def by (rule 4)
  show "footprint E (currentUserByLogin S r sess)"
    unfolding currentUserByLogin_def by (intro emits 2 3)
  show "footprint E (handleNativeLoginAlias S r)"
    unfolding handleNativeLoginAlias_def by (intro emits 4 assms)
qed

lemma footprint_console:
  "footprint (during RouteProtectedConsole) (serveProtected S r)"
  unfolding serveProtected_def handleCurrentUserBridge_def
  by (intro emits bridging_during; simp)

text \<open>The endpoints of the gateway itself.\<close>

lemma footprint_deleteSessions [emits]:
  "(\<And>i res. E (DeletedSession i res)) \<Longrightarrow> footprint E (deleteSessions S ids)"
  by (induction ids) (auto intro!: emits)

lemma footprint_endpoints [emits]:
  "footprint (during RouteInternal) (handleAuthLogin S r)"
  "footprint (during RouteInternal) (handleAuthCallback S r)"
  "footprint (during RouteInternal) (handleProxyLogout S r)"
  "footprint (during RouteInternal) (handleN8NLogout S r)"
  "footprint (during RouteInternal) (handleN8NSignout S r)"
  "footprint (during RouteInternal) (handleLinkGet S r)"
  "footprint (during RouteInternal) (handleLinkDelete S r)"
  "footprint (during RouteInternal) (handleLinkPost S r)"
  "footprint (during RouteInternal) (handleReady S)"
proof -
  have b: "bridging (during RouteInternal)" by (rule bridging_during) simp
  show "footprint (during RouteInternal) (handleAuthLogin S r)"
    unfolding handleAuthLogin_def startOIDCLogin_def randomToken_def Let_def by (intro emits b; simp)
  show "footprint (during RouteInternal) (handleAuthCallback S r)"
    unfolding handleAuthCallback_def bridgeNewSession_def Let_def by (intro emits b; simp)
  show "footprint (during RouteInternal) (handleProxyLogout S r)"
    unfolding handleProxyLogout_def n8nLogout_def by (intro emits; simp)
  show "footprint (during RouteInternal) (handleN8NLogout S r)"
    unfolding handleN8NLogout_def n8nLogout_def by (intro emits; simp)
  show "footprint (during RouteInternal) (handleN8NSignout S r)"
    unfolding handleN8NSignout_def by (intro emits)
  show "footprint (during RouteInternal) (handleLinkGet S r)"
    unfolding handleLinkGet_def csrfTokenFor_def by (intro emits b; simp)
  have v: "footprint (during RouteInternal) (validateCSRF S r i)" for i
    unfolding validateCSRF_def by (intro emits; simp)
  show d: "footprint (during RouteInternal) (handleLinkDelete S r)"
    unfolding handleLinkDelete_def deleteCredential_def by (intro emits v b; simp)
  show "footprint (during RouteInternal) (handleLinkPost S r)"
    unfolding handleLinkPost_def linkCredential_def putCredential_def Let_def by (intro emits v d b; simp)
  show "footprint (during RouteInternal) (handleReady S)"
    unfolding handleReady_def Let_def by (intro emits; simp)
qed

lemma footprint_internal: "footprint (during RouteInternal) (serveInternal S r)"
  unfolding serveInternal_def Let_def by (intro emits; simp)

lemma footprint_dispatch: "footprint (during c) (dispatch S r c)"
  by (cases c)
    (auto simp: dispatch_def intro!: emits footprint_internal footprint_console bridging_during)

end
