(* ===== verification/Responses.thy ===== *)
theory Responses
  imports Footprint
begin

text \<open>
  Invariants of the response: what every way of writing a response keeps, every handler keeps. The
  locale names the ways; it is instantiated for the headers that the gateway sets before it
  dispatches a request.
\<close>

definition keeps :: "(response \<Rightarrow> bool) \<Rightarrow> ('s, 'a) handler \<Rightarrow> bool" where
  "keeps R m \<longleftrightarrow> preserves (\<lambda>g. R (gw_w g)) m"

definition keeps_response :: "(response \<Rightarrow> bool) \<Rightarrow> 's http_handler \<Rightarrow> bool" where
  "keeps_response R h \<longleftrightarrow> (\<forall>r w s. R w \<longrightarrow> R (snd (fst (h r w s))))"

locale response_invariant =
  fixes R :: "response \<Rightarrow> bool"
  assumes keep_error: "R w \<Longrightarrow> R (http_error msg code w)"
    and keep_json: "R w \<Longrightarrow> R (writeJSON code j w)"
    and keep_redirect: "R w \<Longrightarrow> R (redirect_found r t w)"
    and keep_cookie: "R w \<Longrightarrow> R (set_cookie c w)"
    and keep_n8n_cookie: "R w \<Longrightarrow> R (w\<lparr>w_header := hadd ''Set-Cookie'' v (w_header w)\<rparr>)"
    and keep_type: "R w \<Longrightarrow> R (w\<lparr>w_header := hset ''Content-Type'' v (w_header w)\<rparr>)"
    and keep_retry: "R w \<Longrightarrow> R (w\<lparr>w_header := hset ''Retry-After'' v (w_header w)\<rparr>)"
    and keep_status: "R w \<Longrightarrow> R (write_header code w)"
    and keep_body: "R w \<Longrightarrow> R (write_body b w)"
begin

lemma keeps_bind: "keeps R m \<Longrightarrow> (\<And>x. keeps R (f x)) \<Longrightarrow> keeps R (State_Monad.bind m f)"
  unfolding keeps_def by (rule preserves_bind)

lemma keeps_if: "(b \<Longrightarrow> keeps R m) \<Longrightarrow> (\<not> b \<Longrightarrow> keeps R n) \<Longrightarrow> keeps R (if b then m else n)"
  by simp

lemma keeps_option: "keeps R m \<Longrightarrow> (\<And>y. keeps R (f y)) \<Longrightarrow> keeps R (case x of None \<Rightarrow> m | Some y \<Rightarrow> f y)"
  by (cases x) simp_all

lemma keeps_sum: "(\<And>e. keeps R (m e)) \<Longrightarrow> (\<And>y. keeps R (f y)) \<Longrightarrow> keeps R (case x of Inl e \<Rightarrow> m e | Inr y \<Rightarrow> f y)"
  by (cases x) simp_all

lemma keeps_prod: "(\<And>a b. keeps R (f a b)) \<Longrightarrow> keeps R (case x of (a, b) \<Rightarrow> f a b)"
  by (cases x) simp

lemma keeps_actions:
  "keeps R (State_Monad.return x)" "keeps R (call c ev)" "keeps R (count n ls)" "keeps R RequestID"
  "keeps R (setContextID i)" "keeps R recordedStatus" "keeps R (with_form k)"
  unfolding keeps_def preserves_def recordedStatus_def setContextID_def
  by (simp_all add: wp_return wp_call wp_count wp_RequestID wp_act wp_with_form)
    (simp add: wp_def)

lemma keeps_respond: "(\<And>w. R w \<Longrightarrow> R (h w)) \<Longrightarrow> keeps R (respond h)"
  by (simp add: keeps_def preserves_def wp_respond)

lemma keeps_serve: "keeps_response R h \<Longrightarrow> keeps R (serve h r ev)"
  by (auto simp: keeps_def preserves_def wp_serve keeps_response_def dest!: spec [of _ r])
    (metis fst_conv snd_conv)

lemmas keeps_rules = keeps_bind keeps_if keeps_option keeps_sum keeps_prod keeps_actions

lemma keeps_headers:
  "keeps R (set_header ''Content-Type'' v)" "keeps R (set_header ''Retry-After'' v)"
  unfolding set_header_def by (rule keeps_respond, erule keep_type keep_retry)+

lemma keep_cookies: "R w \<Longrightarrow> R (fold set_cookie cs w)"
  by (induction cs arbitrary: w) (auto intro: keep_cookie)

lemma keep_n8n_cookies:
  "R w \<Longrightarrow> R (w\<lparr>w_header := fold (\<lambda>c. hadd ''Set-Cookie'' (RewriteSetCookie c b)) cs (w_header w)\<rparr>)"
proof (induction cs arbitrary: w)
  case (Cons c cs)
  from Cons.IH [OF keep_n8n_cookie [OF Cons.prems]] show ?case by simp
qed simp

lemma keeps_writers:
  "keeps R (writeError r st c)" "keeps R (redirect r t)" "keeps R (setCookie ck)" "keeps R (setCookies cks)"
  "keeps R (writeN8NCookies S cs)" "keeps R (respond (write_header st))" "keeps R (respond (write_body b))"
  "keeps R (respond (writeJSON st v))" "keeps R (respond not_found)" "keeps R (respond (http_error msg st))"
  unfolding writeError_def redirect_def setCookie_def setCookies_def writeN8NCookies_def not_found_def
  by (intro keeps_rules keeps_respond keep_error keep_json keep_redirect keep_cookie keep_cookies
      keep_n8n_cookies keep_status keep_body; assumption)+

lemma keeps_combined:
  "keeps R (redirectToLogin r)" "keeps R (writeProxySessionCookies S i)" "keeps R (clearProxySessionCookies S)"
  "keeps R (setBridgeCookie S)" "keeps R (clearBridgeCookie S)" "keeps R (handleN8NLoginError r e b)"
  "keeps R (formValue r k)" "keeps R (parseForm r)"
  unfolding redirectToLogin_def writeProxySessionCookies_def clearProxySessionCookies_def setBridgeCookie_def
    clearBridgeCookie_def handleN8NLoginError_def formValue_def parseForm_def
  by (intro keeps_rules keeps_writers keeps_headers)+

lemma keeps_loops: "keeps R (lookupLoop S ids)" "keeps R (deleteSessions S ids)"
  by (induction ids) (auto intro!: keeps_rules)

lemmas keeps_steps = keeps_rules keeps_headers keeps_writers keeps_combined keeps_loops

lemma keeps_bridge:
  "keeps R (lookupSessionFromCookies S r)" "keeps R (requireSession S r)" "keeps R (validateCSRF S r i)"
  "keeps R (getCredential S is u)" "keeps R (bridgeCredential S r is u)" "keeps R (bridgeLogin S r l p b)"
  "keeps R (loginAndRedirectTo S r sess t)" "keeps R (currentUserByLogin S r sess)" "keeps R (n8nLogout S r)"
  unfolding loginAndRedirectTo_def currentUserByLogin_def bridgeCredential_def bridgeLogin_def getCredential_def
    validateCSRF_def requireSession_def lookupSessionFromCookies_def n8nLogout_def
  by (intro keeps_steps)+

lemma keeps_endpoints:
  "keeps R (handleAuthLogin S r)" "keeps R (handleAuthCallback S r)" "keeps R (handleProxyLogout S r)"
  "keeps R (handleN8NLogout S r)" "keeps R (handleN8NSignout S r)" "keeps R (handleLinkGet S r)"
  "keeps R (handleLinkDelete S r)" "keeps R (handleLinkPost S r)" "keeps R (handleReady S)"
  "keeps R (handleNativeLoginAlias S r)" "keeps R (handleCurrentUserBridge S r sess)"
proof -
  note steps = keeps_steps keeps_bridge
  show d: "keeps R (handleLinkDelete S r)"
    unfolding handleLinkDelete_def deleteCredential_def by (intro steps)
  show "keeps R (handleAuthLogin S r)"
    unfolding handleAuthLogin_def startOIDCLogin_def randomToken_def Let_def by (intro steps)
  show "keeps R (handleAuthCallback S r)"
    unfolding handleAuthCallback_def bridgeNewSession_def Let_def by (intro steps)
  show "keeps R (handleProxyLogout S r)" "keeps R (handleN8NLogout S r)" "keeps R (handleN8NSignout S r)"
    unfolding handleProxyLogout_def handleN8NLogout_def handleN8NSignout_def by (intro steps)+
  show "keeps R (handleLinkGet S r)"
    unfolding handleLinkGet_def csrfTokenFor_def by (intro steps)
  show "keeps R (handleLinkPost S r)"
    unfolding handleLinkPost_def linkCredential_def putCredential_def Let_def by (intro steps d)
  show "keeps R (handleReady S)" "keeps R (handleNativeLoginAlias S r)" "keeps R (handleCurrentUserBridge S r sess)"
    unfolding handleReady_def handleNativeLoginAlias_def handleCurrentUserBridge_def Let_def by (intro steps)+
qed

lemma keeps_dispatch:
  assumes "keeps_response R (srv_publicProxy S)" and "keeps_response R (srv_consoleProxy S)"
    and "keeps_response R (srv_metricsHTTP S)"
  shows "keeps R (dispatch S r c)"
proof -
  note steps = keeps_steps keeps_bridge keeps_endpoints keeps_serve [OF assms(1)] keeps_serve [OF assms(2)]
    keeps_serve [OF assms(3)]
  have "keeps R (serveInternal S r)" unfolding serveInternal_def Let_def by (intro steps)
  moreover have "keeps R (serveProtected S r)"
    unfolding serveProtected_def loginAndRedirect_def by (intro steps)
  ultimately show ?thesis by (cases c) (auto simp: dispatch_def intro!: steps)
qed

end


subsection \<open>Headers that stay\<close>

text \<open>\<open>kept k v\<close>: the first value of the header \<open>k\<close> is \<open>v\<close>, in the header map and in what was sent.\<close>

definition kept :: "string \<Rightarrow> string \<Rightarrow> response \<Rightarrow> bool" where
  "kept k v w \<longleftrightarrow>
     hget (w_header w) k = v \<and> (case w_sent w of None \<Rightarrow> True | Some (code, h) \<Rightarrow> hget h k = v)"

locale kept_header =
  fixes k v :: string
  assumes not_written: "k \<notin> {''Content-Type'', ''Content-Length'', ''Retry-After'', ''Location''}"
    and nosniff: "k = ''X-Content-Type-Options'' \<Longrightarrow> v = ''nosniff''"
    and nonempty: "k = ''Set-Cookie'' \<Longrightarrow> v \<noteq> []"
begin

lemma kept_map: "kept k v (w\<lparr>w_header := h\<rparr>) = (hget h k = v \<and> (case w_sent w of None \<Rightarrow> True | Some (code, h) \<Rightarrow> hget h k = v))"
  by (simp add: kept_def)

lemma kept_cookie_header: "hget h k = v \<Longrightarrow> hget (hadd ''Set-Cookie'' c h) k = v"
  using nonempty by (cases "k = ''Set-Cookie''") (auto simp: hget_def hadd_def split: list.splits)

lemma kept_write_header: "kept k v w \<Longrightarrow> kept k v (write_header code w)"
  by (auto simp: kept_def write_header_def split: option.splits)

lemma kept_write_body: "kept k v w \<Longrightarrow> kept k v (write_body b w)"
  by (auto simp: kept_def write_body_def split: option.splits)

lemma kept_set: "kept k v w \<Longrightarrow> k' \<noteq> k \<Longrightarrow> kept k v (w\<lparr>w_header := hset k' x (w_header w)\<rparr>)"
  by (simp add: kept_def hget_hset)

lemma kept_same: "kept k v w \<Longrightarrow> hget h k = v \<Longrightarrow> kept k v (w\<lparr>w_header := h\<rparr>)"
  by (simp add: kept_def)

lemma not_written': "''Content-Type'' \<noteq> k" "''Content-Length'' \<noteq> k" "''Retry-After'' \<noteq> k" "''Location'' \<noteq> k"
  using not_written by (simp_all add: eq_commute)

lemma hget_kept: "kept k v w \<Longrightarrow> hget (w_header w) k = v"
  by (simp add: kept_def)

lemma kept_error: "kept k v w \<Longrightarrow> kept k v (http_error msg code w)"
  unfolding http_error_def
  using not_written nosniff
  by (intro kept_write_body kept_write_header kept_same) (auto simp: hget_kept)

lemma kept_redirect:
  assumes w: "kept k v w"
  shows "kept k v (redirect_found r t w)"
proof -
  define h where "h = hset ''Location'' (hex_escape_non_ascii (redirect_location (u_path (r_url r)) t)) (w_header w)"
  have "hget h k = v" using not_written' w by (simp add: h_def hget_kept)
  moreover have "hget (hset ''Content-Type'' x h) k = v" for x using calculation not_written' by simp
  ultimately show ?thesis
    unfolding redirect_found_def Let_def h_def [symmetric]
    by (simp add: kept_write_body kept_write_header kept_same w)
qed

end

sublocale kept_header \<subseteq> response_invariant "kept k v"
proof unfold_locales
  fix w msg code j r t c x b
  assume w: "kept k v w"
  show "kept k v (http_error msg code w)" by (rule kept_error [OF w])
  show "kept k v (writeJSON code j w)"
    unfolding writeJSON_def by (intro kept_write_body kept_write_header kept_set w not_written')
  show "kept k v (redirect_found r t w)" by (rule kept_redirect [OF w])
  show "kept k v (set_cookie c w)"
    using w kept_cookie_header by (auto simp: set_cookie_def kept_def)
  show "kept k v (w\<lparr>w_header := hadd ''Set-Cookie'' x (w_header w)\<rparr>)"
    using w kept_cookie_header by (auto simp: kept_def)
  show "kept k v (w\<lparr>w_header := hset ''Content-Type'' x (w_header w)\<rparr>)"
    "kept k v (w\<lparr>w_header := hset ''Retry-After'' x (w_header w)\<rparr>)"
    by (intro kept_set w not_written')+
  show "kept k v (write_header code w)" by (rule kept_write_header [OF w])
  show "kept k v (write_body b w)" by (rule kept_write_body [OF w])
qed

interpretation nosniff: kept_header "''X-Content-Type-Options''" "''nosniff''" by unfold_locales simp_all
interpretation framing: kept_header "''X-Frame-Options''" "''SAMEORIGIN''" by unfold_locales simp_all
interpretation referrer: kept_header "''Referrer-Policy''" "''no-referrer''" by unfold_locales simp_all
interpretation request_id: kept_header "''X-Request-Id''" rid for rid by unfold_locales simp_all
interpretation csp: kept_header "''Content-Security-Policy''" policy for policy by unfold_locales simp_all

end
