(* ===== verification/Demo.thy ===== *)
theory Demo
  imports Handlers
begin

text \<open>
  A concrete gateway on which the properties are tried out: sessions in the in-memory store, one
  credential cell, the fake clients of the tests, a fixed clock, proxies that answer 200, and a
  configuration for https. It is the counterpart of \<open>newTestServer\<close> in \<open>server_test.go\<close>.
\<close>

record world =
  w_sessions :: MemoryStore
  w_credential :: "Credential option"

definition demo_time :: time where
  "demo_time = 100 * second"

definition demo_cfg :: Config where
  "demo_cfg =
     \<lparr>ListenAddr = '':8080'', PublicBaseURL = the (url_parse ''https://gw.example''),
      N8NUpstreamURL = the (url_parse ''http://n8n:5678''), OIDCIssuerURL = ''https://idp'',
      OIDCClientID = ''gw'', OIDCClientSecret = ''s'', OIDCScopes = [''openid''], RedisURL = ''r'',
      VaultAddr = ''v'', VaultToken = ''t'', VaultRoleID = [], VaultSecretID = [],
      VaultKVMount = ''secret'', VaultKVPrefix = ''n8n-gw/users'', SessionTTL = 60 * second,
      OIDCStateTTL = 60 * second, ConsoleProxyTimeout = 60 * second,
      PublicExecutionTimeout = 60 * second, PublicExecutionBodyLimit = 1000,
      PublicBypassPrefixes = defaultBypassPrefixes, CookieSecure = True, TrustedProxyCIDRs = [],
      LogLevel = ''info''\<rparr>"

text \<open>An operation of the in-memory session store, on the world.\<close>

definition on_sessions :: "(MemoryStore \<Rightarrow> 'r \<times> MemoryStore) \<Rightarrow> world \<Rightarrow> 'r \<times> world" where
  "on_sessions f s = (case f (w_sessions s) of (r, m) \<Rightarrow> (r, s\<lparr>w_sessions := m\<rparr>))"

definition demo_login :: "string \<Rightarrow> string \<Rightarrow> world \<Rightarrow> (LoginResult \<times> n8n_err option) \<times> world" where
  "demo_login l p s =
     (if p = ''good'' then ((\<lparr>lr_StatusCode = 200, lr_Body = ''{}'', lr_Cookies = [''n8n-auth=abc'']\<rparr>, None), s)
      else if p = ''busy'' then ((no_login_result, Some ErrRateLimited), s)
      else ((no_login_result, Some ErrInvalidCredential), s))"

definition demo_n8n :: "world FakeClient" where
  "demo_n8n = \<lparr>LoginFunc = Some demo_login, CurrentUserFunc = None, LogoutFunc = None, PingFunc = None\<rparr>"

definition demo_oidc :: "world FakeOidc" where
  "demo_oidc =
     \<lparr>AuthURL = ''https://idp/auth'',
      FakeIdentity = \<lparr>id_Issuer = ''https://idp'', id_Subject = ''u1'', id_Email = ''u@x'', id_Name = ''U''\<rparr>,
      ExchangeFunc = None, OidcPingFunc = None\<rparr>"

definition demo_proxy :: "world http_handler" where
  "demo_proxy r w s = ((False, write_body ''n8n'' (write_header 200 w)), s)"

definition demo :: "world Server" where
  "demo =
     \<lparr>cfg = demo_cfg, srv_now = (\<lambda>s. (demo_time, s)), srv_rand = (\<lambda>n. on_sessions (mem_rand n)),
      srv_CreateSession = (\<lambda>x. on_sessions (CreateSession demo_time x)),
      srv_SaveSession = (\<lambda>i x. on_sessions (SaveSession i x)),
      srv_GetSession = (\<lambda>i. on_sessions (GetSession demo_time i)),
      srv_DeleteSession = (\<lambda>i. on_sessions (DeleteSession i)),
      srv_StoreOIDCState = (\<lambda>k v. on_sessions (StoreOIDCState k v)),
      srv_TakeOIDCState = (\<lambda>k. on_sessions (TakeOIDCState k)),
      srv_GetCSRF = (\<lambda>i. on_sessions (GetCSRF i)), srv_SetCSRF = (\<lambda>i t. on_sessions (SetCSRF i t)),
      srv_PingSessions = on_sessions PingMemory,
      srv_GetCredential = (\<lambda>i u s. (case w_credential s of
          Some c \<Rightarrow> if cred_Issuer c = i \<and> cred_Subject c = u then Inr c else Inl CredNotFound
        | None \<Rightarrow> Inl CredNotFound, s)),
      srv_PutCredential = (\<lambda>c s. (None, s\<lparr>w_credential := Some c\<rparr>)),
      srv_DeleteCredential = (\<lambda>i u s. (None, s\<lparr>w_credential := None\<rparr>)),
      srv_PingCredentials = (\<lambda>s. (None, s)),
      srv_AuthCodeURL = fake_AuthCodeURL demo_oidc, srv_Exchange = fake_Exchange demo_oidc,
      srv_PingOIDC = fake_OidcPing demo_oidc,
      srv_Login = fake_Login demo_n8n, srv_CurrentUser = fake_CurrentUser demo_n8n,
      srv_Logout = fake_Logout demo_n8n, srv_PingN8N = fake_Ping demo_n8n,
      srv_publicProxy = demo_proxy, srv_consoleProxy = demo_proxy, srv_metricsHTTP = demo_proxy\<rparr>"

subsection \<open>Requests and worlds\<close>

definition demo_header :: "string \<Rightarrow> header" where
  "demo_header cookies k =
     (if k = ''Cookie'' then (if cookies = [] then [] else [cookies])
      else if k = ''X-Request-Id'' then [''rq''] else [])"

definition demo_request :: "string \<Rightarrow> string \<Rightarrow> string \<Rightarrow> body \<Rightarrow> request" where
  "demo_request method target cookies body =
     \<lparr>r_method = method, r_url = the (parse_request_uri target), r_header = demo_header cookies,
      r_host = ''gw.example'', r_remote_addr = ''10.0.0.7:4711'', r_tls = True, r_body = body\<rparr>"

definition demo_session :: Session where
  "demo_session =
     \<lparr>Issuer = ''https://idp'', Subject = ''u1'', Email = ''u@x'', Name = ''U'', Linked = False,
      CreatedAt = 100 * second, ExpiresAt = 160 * second\<rparr>"

definition demo_credential :: "string \<Rightarrow> Credential" where
  "demo_credential password =
     \<lparr>cred_Issuer = ''https://idp'', cred_Subject = ''u1'', cred_Email = ''u@x'',
      N8NEmailOrLoginID = ''me'', N8NPassword = password, LinkedAt = 0, UpdatedAt = 0\<rparr>"

text \<open>A world where the session \<open>sid\<close> is live with the CSRF token \<open>tok\<close>, and the login \<open>st\<close> is pending.\<close>

definition demo_world :: "Credential option \<Rightarrow> world" where
  "demo_world c =
     \<lparr>w_sessions =
        snd (StoreOIDCState ''st'' example_state
          (snd (SetCSRF ''sid'' ''tok'' (snd (SaveSession ''sid'' demo_session
            (NewMemoryStore (60 * second) (60 * second) [''A'', ''B'', ''C'', ''D'', ''E''])))))),
      w_credential = c\<rparr>"

definition session_cookie :: string where
  "session_cookie = ''__Host-n8np_session=sid''"

definition bridge_cookies :: string where
  "bridge_cookies = session_cookie @ ''; n8np_n8n_bridge=1''"

end
