(* ===== verification/Guarantees.thy ===== *)
theory Guarantees
  imports Responses Demo
begin

text \<open>
  What \<open>ServeHTTP\<close> guarantees for every request, whatever the services answer: which services a request
  of each class can reach, what must have happened before, and what is written back.
\<close>

subsection \<open>The parts of \<open>ServeHTTP\<close>\<close>

definition prologue :: "'s Server \<Rightarrow> request \<Rightarrow> ('s, unit) handler" where
  "prologue S r =
     do { now \<leftarrow> call (srv_now S) ReadClock;
          rid \<leftarrow> requestID S r;
          setContextID rid;
          set_header ''X-Request-Id'' rid;
          respond (\<lambda>w. w\<lparr>w_header := applySecurityHeaders (includesCSP (class_of S r)) (w_header w)\<rparr>) }"

definition epilogue :: "'s Server \<Rightarrow> RouteClass \<Rightarrow> bool \<Rightarrow> ('s, unit) handler" where
  "epilogue S class panicked =
     do { (if panicked then respond (http_error ''internal server error'' 500) else State_Monad.return ());
          status \<leftarrow> recordedStatus;
          end \<leftarrow> call (srv_now S) ReadClock;
          count ''requests'' [route_class_name class, nat_decimal status];
          count ''request_duration'' [route_class_name class] }"

lemma class_of_normalized: "class_of S (normalizeForwardedHeaders S r) = class_of S r"
  by simp

lemma ServeHTTP_parts:
  "ServeHTTP S r =
     do { prologue S r;
          panicked \<leftarrow> dispatch S (normalizeForwardedHeaders S r) (class_of S r);
          epilogue S (class_of S r) panicked }"
  by (simp add: ServeHTTP_def prologue_def epilogue_def Let_def class_of_def)

lemma exec_bind: "exec (State_Monad.bind m f) g = exec (f (fst (run_state m g))) (exec m g)"
  by (simp add: exec_def State_Monad.bind_def case_prod_unfold)

text \<open>The state in which the dispatch starts, and the state in which it ends.\<close>

definition entered :: "'s Server \<Rightarrow> request \<Rightarrow> 's \<Rightarrow> 's gw" where
  "entered S r s =
     exec (prologue S r)
       \<lparr>gw_env = s, gw_request_id = [], gw_form = None, gw_w = new_response, gw_log = []\<rparr>"

definition dispatched :: "'s Server \<Rightarrow> request \<Rightarrow> 's \<Rightarrow> bool \<times> 's gw" where
  "dispatched S r s =
     run_state (dispatch S (normalizeForwardedHeaders S r) (class_of S r)) (entered S r s)"

lemma handle_parts:
  "handle S r s = exec (epilogue S (class_of S r) (fst (dispatched S r s))) (snd (dispatched S r s))"
  unfolding handle_def ServeHTTP_parts exec_bind dispatched_def entered_def by (simp add: exec_def)

lemma run_simps:
  "run_state (State_Monad.bind m f) g = run_state (f (fst (run_state m g))) (snd (run_state m g))"
  "run_state (State_Monad.return x) g = (x, g)"
  "run_state (call c ev) g =
     (fst (c (gw_env g)), g\<lparr>gw_env := snd (c (gw_env g)), gw_log := ev (fst (c (gw_env g))) # gw_log g\<rparr>)"
  "run_state (respond upd) g = ((), g\<lparr>gw_w := upd (gw_w g)\<rparr>)"
  "run_state (set_header k v) g = ((), g\<lparr>gw_w := (gw_w g)\<lparr>w_header := hset k v (w_header (gw_w g))\<rparr>\<rparr>)"
  "run_state (count n ls) g = ((), g\<lparr>gw_log := Counted n ls # gw_log g\<rparr>)"
  "run_state (setContextID i) g = ((), g\<lparr>gw_request_id := i\<rparr>)"
  "run_state RequestID g = (gw_request_id g, g)"
  "run_state recordedStatus g = (w_recorded (gw_w g), g)"
  "run_state (with_form k2) g = (fst (k2 (gw_form g)), g\<lparr>gw_form := snd (k2 (gw_form g))\<rparr>)"
  "run_state (serve h r ev2) g =
     (fst (fst (h r (gw_w g) (gw_env g))),
      g\<lparr>gw_w := snd (fst (h r (gw_w g) (gw_env g))), gw_env := snd (h r (gw_w g) (gw_env g)),
        gw_log := ev2 (fst (fst (h r (gw_w g) (gw_env g)))) # gw_log g\<rparr>)"
  by (simp_all add: State_Monad.bind_def State_Monad.return_def call_def respond_def set_header_def
      count_def act_def setContextID_def RequestID_def recordedStatus_def with_form_def serve_def
      case_prod_unfold)

text \<open>What the prologue leaves: nothing sent, no form, only the clock and entropy used.\<close>

fun bookkeeping :: "event \<Rightarrow> bool" where
  "bookkeeping (ReadClock t) = True"
| "bookkeeping (DrewRandom n) = (n = 16)"
| "bookkeeping e = False"

lemma footprint_prologue: "footprint bookkeeping (prologue S r)"
  unfolding prologue_def requestID_def Let_def by (intro emits; simp)

lemma entered_log: "list_all bookkeeping (gw_log (entered S r s))"
  using footprint_exec [OF footprint_prologue, of S r
      "\<lparr>gw_env = s, gw_request_id = [], gw_form = None, gw_w = new_response, gw_log = []\<rparr>"]
  by (auto simp: entered_def)

lemma dispatched_log:
  "\<exists>mid. gw_log (snd (dispatched S r s)) = mid @ gw_log (entered S r s)
     \<and> list_all (during (class_of S r)) mid"
  unfolding dispatched_def
  using footprint_exec [OF footprint_dispatch] by (fastforce simp: exec_def)

lemma handle_log:
  "\<exists>t. gw_log (handle S r s) =
     Counted ''request_duration'' [route_class_name (class_of S r)]
     # Counted ''requests'' [route_class_name (class_of S r), nat_decimal (w_recorded (gw_w (handle S r s)))]
     # ReadClock t # gw_log (snd (dispatched S r s))"
  by (simp add: handle_parts epilogue_def exec_def run_simps)

lemma handle_response:
  "gw_w (handle S r s) =
     (if fst (dispatched S r s) then http_error ''internal server error'' 500 (gw_w (snd (dispatched S r s)))
      else gw_w (snd (dispatched S r s)))"
  by (simp add: handle_parts epilogue_def exec_def run_simps)


subsection \<open>What a request can reach\<close>

fun allowed_in :: "RouteClass \<Rightarrow> event \<Rightarrow> bool" where
  "allowed_in c e = (bookkeeping e \<or> during c e
     \<or> (case e of Counted n ls \<Rightarrow> n \<in> {''requests'', ''request_duration''} | _ \<Rightarrow> False))"

text \<open>
  Property C5. The class of a request bounds what it can reach: a public execution request reaches its
  proxy and nothing else, a blocked native login reaches no service at all, the native login pages
  read sessions and credentials and log in at n8n but never reach a proxy, a console request
  never writes a session or a credential, and only the gateway's own endpoints do.
\<close>

theorem route_isolation: "list_all (allowed_in (class_of S r)) (gw_log (handle S r s))"
proof -
  obtain t where t: "gw_log (handle S r s) =
     Counted ''request_duration'' [route_class_name (class_of S r)]
     # Counted ''requests'' [route_class_name (class_of S r), nat_decimal (w_recorded (gw_w (handle S r s)))]
     # ReadClock t # gw_log (snd (dispatched S r s))"
    using handle_log [of S r s] by (rule exE)
  obtain mid where "gw_log (snd (dispatched S r s)) = mid @ gw_log (entered S r s)"
    and "list_all (during (class_of S r)) mid"
    using dispatched_log [of S r s] by blast
  then show ?thesis using t entered_log [of S r s] by (auto elim: list.pred_mono_strong)
qed

fun is_counter :: "string \<Rightarrow> event \<Rightarrow> bool" where
  "is_counter n (Counted n' ls) = (n = n')"
| "is_counter n e = False"

lemma no_counter_entered: "filter (is_counter n) (gw_log (entered S r s)) = []"
proof -
  have "bookkeeping e \<Longrightarrow> \<not> is_counter n e" for e by (cases e) auto
  then show ?thesis using entered_log [of S r s] by (auto simp: filter_empty_conv list_all_iff)
qed

lemma no_counter_dispatched:
  assumes "\<And>ls. \<not> during (class_of S r) (Counted n ls)"
  shows "filter (is_counter n) (gw_log (snd (dispatched S r s))) = []"
proof -
  have "during (class_of S r) e \<Longrightarrow> \<not> is_counter n e" for e
    using assms by (cases e) auto
  then show ?thesis
    using dispatched_log [of S r s] no_counter_entered [of n S r s]
    by (auto simp: filter_empty_conv list_all_iff)
qed

text \<open>
  Every request is counted exactly once, under its class and the status that was recorded
  last for its response, also when a proxy panicked.
\<close>

theorem counted_once:
  "filter (is_counter ''requests'') (gw_log (handle S r s)) =
     [Counted ''requests'' [route_class_name (class_of S r), nat_decimal (w_recorded (gw_w (handle S r s)))]]"
  using handle_log [of S r s] no_counter_dispatched [of S r "''requests''" s] by auto

text \<open>
  The gauge of public executions in flight goes up once and down once for a public
  request, in this order and around the proxy, even when the proxy panics, and is untouched otherwise.
\<close>

theorem inflight_balanced:
  "filter (is_counter ''public_execution_inflight'') (gw_log (handle S r s)) =
     (if class_of S r = RoutePublicExecution
      then [Counted ''public_execution_inflight'' [''dec''], Counted ''public_execution_inflight'' [''inc'']]
      else [])"
proof (cases "class_of S r = RoutePublicExecution")
  case True
  then have "filter (is_counter ''public_execution_inflight'') (gw_log (snd (dispatched S r s))) =
      [Counted ''public_execution_inflight'' [''dec''], Counted ''public_execution_inflight'' [''inc'']]"
    by (simp add: dispatched_def dispatch_def run_simps no_counter_entered)
  then show ?thesis using True handle_log [of S r s] by auto
next
  case False
  then show ?thesis
    using handle_log [of S r s] no_counter_dispatched [of S r "''public_execution_inflight''" s] by auto
qed


subsection \<open>What must have happened before\<close>

text \<open>
  The policy \<open>authorized\<close> is weakened to one rule per concern. In a rule, \<open>F\<close> is the set of the events
  before the one that is judged.
\<close>

lemma guarded_weaken: "guarded A log \<Longrightarrow> (\<And>e F. A e F \<Longrightarrow> B e F) \<Longrightarrow> guarded B log"
  by (induction log) auto

lemma handle_obeys:
  "(\<And>e F. authorized S (normalizeForwardedHeaders S r) e F \<Longrightarrow> B e F) \<Longrightarrow> guarded B (gw_log (handle S r s))"
  using guarded_weaken [OF handle_guarded] .

fun console_rule :: "'s Server \<Rightarrow> request \<Rightarrow> event \<Rightarrow> event set \<Rightarrow> bool" where
  "console_rule S r (ConsoleProxied r' p) F =
     (r' = normalizeForwardedHeaders S r \<and> class_of S r = RouteProtectedConsole \<and> HasN8NBridgeCookie r
      \<and> (\<exists>i sess. List.member (sessionCookieIDs S r) i \<and> GotSession i (Inr sess) \<in> F))"
| "console_rule S r (AskedUser c res) F =
     (HasN8NBridgeCookie r \<and> c = hget (r_header r) ''Cookie''
      \<and> (\<exists>i sess. List.member (sessionCookieIDs S r) i \<and> GotSession i (Inr sess) \<in> F))"
| "console_rule S r e F = True"

text \<open>
  Property C1. Nothing reaches the n8n console without a session: before a request is passed to the
  console proxy, or its user is asked for at n8n, the session store has returned a session for an
  identifier in one of the request's own cookies, and the request carries the bridge cookie of a
  finished n8n login. What is passed on is the request without untrusted forwarding headers.
\<close>

theorem console_requires_session: "guarded (console_rule S r) (gw_log (handle S r s))"
proof (rule handle_obeys)
  fix e F assume a: "authorized S (normalizeForwardedHeaders S r) e F"
  show "console_rule S r e F"
  proof (cases e)
    case (AskedUser c res)
    then show ?thesis using a by (fastforce simp: has_session_def)
  next
    case (ConsoleProxied r' p)
    then show ?thesis using a by (fastforce simp: has_session_def)
  qed simp_all
qed

fun credential_rule :: "'s Server \<Rightarrow> request \<Rightarrow> event \<Rightarrow> event set \<Rightarrow> bool" where
  "credential_rule S r (WroteCredential c res) F =
     (\<exists>i sess hs result. has_session S r F i sess \<and> has_csrf r F i
        \<and> cred_Issuer c = Issuer sess \<and> cred_Subject c = Subject sess
        \<and> N8NEmailOrLoginID c = trim_space (submitted r ''n8n_email_or_login_id'')
        \<and> N8NPassword c = submitted r ''n8n_password''
        \<and> LoggedIn (N8NEmailOrLoginID c) (N8NPassword c) hs (result, None) \<in> F)"
| "credential_rule S r (RemovedCredential issuer subject res) F =
     (\<exists>i sess. has_session S r F i sess \<and> has_csrf r F i \<and> Issuer sess = issuer \<and> Subject sess = subject)"
| "credential_rule S r e F = True"

text \<open>
  Property C2. A stored credential changes only by its owner: it is written or removed only for the
  identity of a session that one of the request's cookies names, after the token submitted with the
  form was compared with the session's own CSRF token, and what is written is the login submitted
  in the form, which n8n has just accepted.
\<close>

theorem credential_changes_are_authorized: "guarded (credential_rule S r) (gw_log (handle S r s))"
proof (rule handle_obeys)
  fix e F assume a: "authorized S (normalizeForwardedHeaders S r) e F"
  show "credential_rule S r e F"
  proof (cases e)
    case (WroteCredential c res)
    then obtain i sess hs result where "has_session S r F i sess" "has_csrf r F i"
      "c = linkedCredential sess (trim_space (submitted r ''n8n_email_or_login_id'')) (submitted r ''n8n_password'')"
      "LoggedIn (N8NEmailOrLoginID c) (N8NPassword c) hs (result, None) \<in> F"
      using a by auto
    then show ?thesis
      unfolding WroteCredential credential_rule.simps
      by (intro exI [of _ i] exI [of _ sess] exI [of _ hs] exI [of _ result]) (simp add: linkedCredential_def)
  qed (use a in auto)
qed

fun session_rule :: "'s Server \<Rightarrow> request \<Rightarrow> event \<Rightarrow> event set \<Rightarrow> bool" where
  "session_rule S r (CreatedSession x res) F =
     (\<not> Linked x \<and> (\<exists>v ident. TookState (query_get (r_url r) ''state'') (Inr v) \<in> F
        \<and> Exchanged (query_get (r_url r) ''code'') (Nonce v) (CodeVerifier v) (Inr ident) \<in> F
        \<and> Issuer x = id_Issuer ident \<and> Subject x = id_Subject ident))"
| "session_rule S r (SavedSession i x res) F =
     (\<exists>sess. GotSession i (Inr sess) \<in> F \<and> (\<exists>b. x = sess\<lparr>Linked := b\<rparr>))"
| "session_rule S r (DeletedSession i res) F = List.member (sessionCookieIDs S r) i"
| "session_rule S r e F = True"

text \<open>
  Property C3. Sessions come only from the identity provider: one is created only for the identity that
  the provider returned for the code of this callback, with the nonce and the verifier of the pending
  login that the callback's state named and that was taken from the store. An existing session is only
  ever saved with its link flag changed, and only sessions of the request's own cookies are deleted.
\<close>

theorem sessions_come_from_the_provider: "guarded (session_rule S r) (gw_log (handle S r s))"
proof (rule handle_obeys)
  fix e F assume a: "authorized S (normalizeForwardedHeaders S r) e F"
  show "session_rule S r e F"
  proof (cases e)
    case (CreatedSession x res)
    then obtain ident v where "TookState (query_get (r_url r) ''state'') (Inr v) \<in> F"
      "Exchanged (query_get (r_url r) ''code'') (Nonce v) (CodeVerifier v) (Inr ident) \<in> F"
      "x = identitySession ident"
      using a by (auto simp: has_identity_def)
    then show ?thesis
      unfolding CreatedSession session_rule.simps
      by (intro conjI exI [of _ v] exI [of _ ident]) (simp_all add: identitySession_def)
  qed (use a in \<open>auto simp: has_session_def\<close>)
qed

fun password_rule :: "'s Server \<Rightarrow> request \<Rightarrow> event \<Rightarrow> event set \<Rightarrow> bool" where
  "password_rule S r (ReadCredential issuer subject res) F = is_user S r F issuer subject"
| "password_rule S r (LoggedIn l p hs res) F =
     ((\<exists>issuer subject c. is_user S r F issuer subject \<and> ReadCredential issuer subject (Inr c) \<in> F
         \<and> N8NEmailOrLoginID c = l \<and> N8NPassword c = p)
      \<or> (\<exists>i sess. has_session S r F i sess \<and> has_csrf r F i
           \<and> l = trim_space (submitted r ''n8n_email_or_login_id'') \<and> p = submitted r ''n8n_password''))"
| "password_rule S r e F = True"

text \<open>
  Property C4. Nobody is logged in at n8n as somebody else: a credential is read only for the identity of
  the request's session (or of the login that has just been completed), and the login sent to n8n is
  either that stored credential or the one submitted, under a valid CSRF token, in the link form.
\<close>

theorem login_uses_own_credential: "guarded (password_rule S r) (gw_log (handle S r s))"
proof (rule handle_obeys)
  fix e F assume "authorized S (normalizeForwardedHeaders S r) e F"
  then show "password_rule S r e F" by (cases e) (auto simp: login_of_def)
qed


subsection \<open>What is written back\<close>

lemma entered_simps:
  "gw_form (entered S r s) = None"
  "gw_w (entered S r s) =
     new_response\<lparr>w_header := applySecurityHeaders (includesCSP (class_of S r))
       (hset ''X-Request-Id'' (gw_request_id (entered S r s)) empty_header)\<rparr>"
  by (simp_all add: entered_def prologue_def requestID_def Let_def exec_def run_simps new_response_def
      split: option.split)

lemma entered_request_id:
  "trim_space (hget (r_header r) ''X-Request-Id'') \<noteq> [] \<Longrightarrow>
     gw_request_id (entered S r s) = trim_space (hget (r_header r) ''X-Request-Id'')"
  by (simp add: entered_def prologue_def requestID_def Let_def exec_def run_simps)

definition contentSecurityPolicy :: string where
  "contentSecurityPolicy = hget (applySecurityHeaders True empty_header) ''Content-Security-Policy''"

text \<open>
  A proxy is polite when it leaves the first value of the headers that the gateway sets before it
  calls the proxy.
\<close>

definition gateway_headers :: "string list" where
  "gateway_headers =
     [''X-Content-Type-Options'', ''X-Frame-Options'', ''Referrer-Policy'', ''Content-Security-Policy'',
      ''X-Request-Id'']"

definition gateway_header :: "string \<Rightarrow> string \<Rightarrow> bool" where
  "gateway_header k v \<longleftrightarrow>
     k \<in> set gateway_headers \<and> v \<noteq> [] \<and> (k = ''X-Content-Type-Options'' \<longrightarrow> v = ''nosniff'')"

definition polite :: "'s http_handler \<Rightarrow> bool" where
  "polite h \<longleftrightarrow> (\<forall>k v. gateway_header k v \<longrightarrow> keeps_response (kept k v) h)"

lemma gateway_header_values:
  "gateway_header ''X-Content-Type-Options'' ''nosniff''" "gateway_header ''X-Frame-Options'' ''SAMEORIGIN''"
  "gateway_header ''Referrer-Policy'' ''no-referrer''"
  "gateway_header ''Content-Security-Policy'' contentSecurityPolicy" "gateway_header ''X-Request-Id'' rid = (rid \<noteq> [])"
  by (simp_all add: gateway_header_def gateway_headers_def contentSecurityPolicy_def applySecurityHeaders_def Let_def)

lemma decimal_nonempty: "int_decimal n \<noteq> []"
proof -
  have "nat_decimal m \<noteq> []" for m by (subst nat_decimal.simps) simp
  then show ?thesis by (simp add: int_decimal_def)
qed

lemma entered_request_id_nonempty: "gw_request_id (entered S r s) \<noteq> []"
  by (simp add: entered_def prologue_def requestID_def Let_def exec_def run_simps decimal_nonempty
      split: option.split)

lemma dispatched_keeps:
  assumes "response_invariant R" and "keeps_response R (srv_publicProxy S)"
    and "keeps_response R (srv_consoleProxy S)" and "keeps_response R (srv_metricsHTTP S)"
    and "R (gw_w (entered S r s))"
  shows "R (gw_w (handle S r s))"
proof -
  have "keeps R (dispatch S (normalizeForwardedHeaders S r) (class_of S r))"
    using response_invariant.keeps_dispatch [OF assms(1-4)] .
  then have "R (gw_w (snd (dispatched S r s)))"
    using assms(5) unfolding keeps_def dispatched_def by (auto dest: preserves_exec simp: exec_def)
  then show ?thesis
    using response_invariant.keep_error [OF assms(1)] by (simp add: handle_response)
qed

text \<open>
  Every response carries the security headers, whoever wrote it: the first values of
  \<open>X-Content-Type-Options\<close>, \<open>X-Frame-Options\<close> and \<open>Referrer-Policy\<close> are the gateway's, on the pages of the
  gateway also that of \<open>Content-Security-Policy\<close>, and \<open>X-Request-Id\<close> is the request's identifier,
  which is the client's where it sent one. This holds for the header map and for what went out.
\<close>

lemma security_headers:
  assumes "polite (srv_publicProxy S)" and "polite (srv_consoleProxy S)" and "polite (srv_metricsHTTP S)"
  shows "let w = gw_w (handle S r s); incoming = trim_space (hget (r_header r) ''X-Request-Id'') in
    kept ''X-Content-Type-Options'' ''nosniff'' w \<and> kept ''X-Frame-Options'' ''SAMEORIGIN'' w
    \<and> kept ''Referrer-Policy'' ''no-referrer'' w
    \<and> (if includesCSP (class_of S r) then kept ''Content-Security-Policy'' contentSecurityPolicy w else True)
    \<and> (\<exists>rid. kept ''X-Request-Id'' rid w \<and> (if incoming = [] then rid \<noteq> [] else rid = incoming))"
proof -
  have keep: "kept k v (gw_w (handle S r s))"
    if "response_invariant (kept k v)" "gateway_header k v" "kept k v (gw_w (entered S r s))" for k v
    using dispatched_keeps [OF that(1) _ _ _ that(3)] assms that(2) unfolding polite_def by blast
  have w: "gw_w (entered S r s) =
     new_response\<lparr>w_header := applySecurityHeaders (includesCSP (class_of S r))
       (hset ''X-Request-Id'' (gw_request_id (entered S r s)) empty_header)\<rparr>"
    by (rule entered_simps(2))
  have "kept ''X-Content-Type-Options'' ''nosniff'' (gw_w (handle S r s))"
    "kept ''X-Frame-Options'' ''SAMEORIGIN'' (gw_w (handle S r s))"
    "kept ''Referrer-Policy'' ''no-referrer'' (gw_w (handle S r s))"
    by (rule keep, unfold_locales, rule gateway_header_values, subst w,
        simp add: kept_def new_response_def applySecurityHeaders_def Let_def)+
  moreover have "includesCSP (class_of S r) \<Longrightarrow>
      kept ''Content-Security-Policy'' contentSecurityPolicy (gw_w (handle S r s))"
    by (rule keep, unfold_locales, rule gateway_header_values, subst w)
      (simp add: kept_def new_response_def applySecurityHeaders_def Let_def contentSecurityPolicy_def)
  moreover have "kept ''X-Request-Id'' (gw_request_id (entered S r s)) (gw_w (handle S r s))"
    by (rule keep, unfold_locales, simp add: gateway_header_values entered_request_id_nonempty, subst w)
      (simp add: kept_def new_response_def applySecurityHeaders_def Let_def)
  ultimately show ?thesis using entered_request_id [of r S s] entered_request_id_nonempty [of S r s]
    by (auto simp: Let_def)
qed

lemma demo_proxy_polite: "polite demo_proxy"
  by (simp add: polite_def keeps_response_def demo_proxy_def kept_def write_body_def write_header_def
      split: option.splits)

lemma demo_proxies: "srv_publicProxy demo = demo_proxy" "srv_consoleProxy demo = demo_proxy" "srv_metricsHTTP demo = demo_proxy"
  by (simp_all add: demo_def)

end
