(* ===== verification/Upstream.thy ===== *)
theory Upstream
  imports Reverse_Proxy Guarantees
begin

text \<open>
  What the reverse proxy of \<open>src/internal/proxy\<close> sends to n8n and what it makes of n8n's answers, for every
  request, every configuration and every upstream.
\<close>

subsection \<open>What goes upstream\<close>

lemma fold_hdel [http_simps]: "fold hdel ks h k = (if k \<in> set ks then [] else h k)"
  by (induction ks arbitrary: h) auto

lemma remove_hop_by_hop_apply [http_simps]:
  "remove_hop_by_hop h k = (if k \<in> set hopHeaders \<or> k \<in> set (connection_keys h) then [] else h k)"
  by (simp add: remove_hop_by_hop_def fold_hdel)

text \<open>The request that is sent upstream for \<open>r\<close>, \<open>None\<close> when its \<open>Upgrade\<close> header is refused.\<close>

definition upstream_request :: "url \<Rightarrow> url option \<Rightarrow> request \<Rightarrow> request option" where
  "upstream_request U B r =
     (let d = director U B r
      in if printable (upgrade_type (r_header d))
         then Some (d\<lparr>r_header := outgoing_header r (r_header d)\<rparr>) else None)"

text \<open>A transport that notes the requests it is given, the newest first.\<close>

definition recording :: "'s round_trip \<Rightarrow> ('s \<times> request list) round_trip" where
  "recording T limit q w = (case w of (s, qs) \<Rightarrow> (case T limit q s of (res, s') \<Rightarrow> (res, s', q # qs)))"

abbreviation gateway_proxy where
  "gateway_proxy \<equiv> NewWithPublicBaseAndErrorCallback"

lemma gateway_proxy_handler [http_simps]:
  "rp_handler (gateway_proxy T U B timeout secure onError) =
     \<lparr>hp_Director = director U B, hp_ModifyResponse = RewriteSetCookies secure,
      hp_ErrorHandler = upstreamError onError, hp_Transport = T\<rparr>"
  "rp_timeout (gateway_proxy T U B timeout secure onError) = timeout"
  by (simp_all add: NewWithPublicBaseAndErrorCallback_def)

lemma recorded:
  "snd (snd (ReverseProxy_ServeHTTP (gateway_proxy (recording T) U B timeout secure
       (map_option (\<lambda>f (s, qs). (f s, qs)) onError)) r w (s, qs)))
   = (case upstream_request U B r of None \<Rightarrow> qs | Some q \<Rightarrow> q # qs)"
  by (cases onError)
    (simp_all add: ReverseProxy_ServeHTTP_def proxy_ServeHTTP_def http_simps Let_def upstream_request_def
      recording_def upstreamError_def split: prod.splits sum.splits)

lemma r_cookies_single: "r_cookies r = (case r_header r ''Cookie'' of [] \<Rightarrow> [] | [l] \<Rightarrow> read_cookie_line l | ls \<Rightarrow> concat (map read_cookie_line ls))"
  by (simp add: r_cookies_def split: list.splits)

lemma director_simps [http_simps]:
  "r_method (director U B r) = r_method r" "r_body (director U B r) = r_body r"
  "r_remote_addr (director U B r) = r_remote_addr r" "r_host (director U B r) = u_host U"
  "u_scheme (r_url (director U B r)) = u_scheme U" "u_host (r_url (director U B r)) = u_host U"
  "u_raw_query (r_url (director U B r)) = u_raw_query (r_url r)"
  "u_path (r_url (director U B r)) =
     (if u_path U \<noteq> [] \<and> u_path U \<noteq> ''/'' then singleJoiningSlash (u_path U) (u_path (r_url r)) else u_path (r_url r))"
  by (simp_all add: director_def Let_def appendXForwardedFor_def)

lemma director_header:
  "r_header (director U B r) ''Cookie'' =
     (let c = SanitizedUpstreamCookieHeader (hget (r_header r) ''Cookie'') in if c = [] then [] else [c])"
  "r_header (director U B r) ''X-Forwarded-Host'' =
     [case B of None \<Rightarrow> r_host r | Some b \<Rightarrow> u_host b]"
  "r_header (director U B r) ''X-Forwarded-Proto'' =
     [case B of None \<Rightarrow> forwardedProto r | Some b \<Rightarrow> u_scheme b]"
  "k \<notin> {''Cookie'', ''X-Forwarded-Host'', ''X-Forwarded-Proto'', ''X-Forwarded-For''} \<Longrightarrow>
     r_header (director U B r) k = r_header r k"
  by (simp_all add: director_def Let_def appendXForwardedFor_def)


lemma director_connection [http_simps]:
  "connection_keys (r_header (director U B r)) = connection_keys (r_header r)"
  "upgrade_type (r_header (director U B r)) = upgrade_type (r_header r)"
  by (simp_all add: connection_keys_def upgrade_type_def hget_def director_header)

lemma forwarded_for_other [http_simps]: "k \<noteq> ''X-Forwarded-For'' \<Longrightarrow> forwarded_for r h k = h k"
  by (simp add: forwarded_for_def split: option.splits prod.splits)

text \<open>Every header but five is the director's, unless it is a hop-by-hop header or named by \<open>Connection\<close>.\<close>

lemma outgoing_header_other:
  assumes "k \<notin> {''Te'', ''Connection'', ''Upgrade'', ''X-Forwarded-For'', ''User-Agent''}"
  shows "outgoing_header r h k = (if k \<in> set hopHeaders \<or> k \<in> set (connection_keys h) then [] else h k)"
  using assms by (auto simp: outgoing_header_def Let_def http_simps)

lemma outgoing_header_upgrade:
  "outgoing_header r h ''Connection'' = (if upgrade_type h \<noteq> [] then [''Upgrade''] else [])"
  "outgoing_header r h ''Upgrade'' = (if upgrade_type h \<noteq> [] then [upgrade_type h] else [])"
  "outgoing_header r h ''Te'' = (if contains_token (r_header r ''Te'') ''trailers'' then [''trailers''] else [])"
  by (simp_all add: outgoing_header_def Let_def http_simps) (simp_all add: hopHeaders_def)

lemma upstream_request_Some:
  "upstream_request U B r = Some q \<Longrightarrow>
     q = (director U B r)\<lparr>r_header := outgoing_header r (r_header (director U B r))\<rparr>"
  by (simp add: upstream_request_def Let_def split: if_splits)

lemma upstream_cookie_lines:
  assumes "upstream_request U B r = Some q"
  shows "r_header q ''Cookie'' = [] \<or> r_header q ''Cookie'' = [SanitizedUpstreamCookieHeader (hget (r_header r) ''Cookie'')]"
  by (simp add: upstream_request_Some [OF assms] outgoing_header_other director_header Let_def)

text \<open>
  The headers that the proxy does not pass on as they are. Every other header, the method, the query
  and the body are the client's.
\<close>

definition rewritten_headers :: "request \<Rightarrow> string list" where
  "rewritten_headers r =
     [''Cookie'', ''X-Forwarded-Host'', ''X-Forwarded-Proto'', ''X-Forwarded-For'', ''User-Agent'']
     @ hopHeaders @ connection_keys (r_header r)"

definition safe_upstream :: "url \<Rightarrow> url option \<Rightarrow> request \<Rightarrow> request \<Rightarrow> bool" where
  "safe_upstream U B r q \<longleftrightarrow>
     u_scheme (r_url q) = u_scheme U \<and> u_host (r_url q) = u_host U \<and> r_host q = u_host U
     \<and> r_method q = r_method r \<and> r_body q = r_body r \<and> u_raw_query (r_url q) = u_raw_query (r_url r)
     \<and> list_ex (\<lambda>c. isProxyCookieName (fst c)) (r_cookies q) = False
     \<and> list_all (\<lambda>k. r_header q k = []) (removeAll ''Connection'' (removeAll ''Upgrade'' (removeAll ''Te'' hopHeaders)))
     \<and> List.member [[], [''Upgrade'']] (r_header q ''Connection'')
     \<and> List.member [[], [case B of None \<Rightarrow> r_host r | Some b \<Rightarrow> u_host b]] (r_header q ''X-Forwarded-Host'')
     \<and> List.member [[], [case B of None \<Rightarrow> forwardedProto r | Some b \<Rightarrow> u_scheme b]] (r_header q ''X-Forwarded-Proto'')
     \<and> (\<lambda>k. if List.member (rewritten_headers r) k then [] else r_header q k)
         = (\<lambda>k. if List.member (rewritten_headers r) k then [] else r_header r k)"

lemma safe_upstream_request:
  assumes "upstream_request U B r = Some q"
  shows "safe_upstream U B r q"
proof -
  note q = upstream_request_Some [OF assms]
  have "list_ex (\<lambda>c. isProxyCookieName (fst c)) (r_cookies q) = False"
    using upstream_cookie_lines [OF assms] gateway_cookies_removed [of "hget (r_header r) ''Cookie''"]
    by (auto simp: r_cookies_def list_ex_iff)
  moreover have "list_all (\<lambda>k. r_header q k = []) (removeAll ''Connection'' (removeAll ''Upgrade'' (removeAll ''Te'' hopHeaders)))"
    unfolding q by (simp add: outgoing_header_other hopHeaders_def)
  moreover have "(\<lambda>k. if List.member (rewritten_headers r) k then [] else r_header q k)
      = (\<lambda>k. if List.member (rewritten_headers r) k then [] else r_header r k)"
    by (rule ext) (simp add: q rewritten_headers_def outgoing_header_other director_header director_simps director_connection
        hopHeaders_def)
  ultimately show ?thesis
    unfolding safe_upstream_def
    by (simp add: q outgoing_header_other outgoing_header_upgrade director_simps director_header hopHeaders_def)
qed



subsection \<open>What comes back\<close>

lemma RewriteSetCookies_apply:
  "RewriteSetCookies secure h k =
     (if k = ''Set-Cookie'' then map (\<lambda>c. RewriteSetCookie c secure) (h k) else h k)"
proof -
  have "fold (\<lambda>c. hadd ''Set-Cookie'' (RewriteSetCookie c secure)) cs g k =
      (if k = ''Set-Cookie'' then g k @ map (\<lambda>c. RewriteSetCookie c secure) cs else g k)" for cs g k
    by (induction cs arbitrary: g) auto
  then show ?thesis by (simp add: RewriteSetCookies_def Let_def)
qed

text \<open>A transport without interim responses; they clear the header map of the gateway's response.\<close>

definition no_interim :: "'s round_trip \<Rightarrow> bool" where
  "no_interim T \<longleftrightarrow> (\<forall>limit q s. fst (fst (T limit q s)) = [])"

lemma kept_copy_header:
  "kept k v w \<Longrightarrow> v \<noteq> [] \<Longrightarrow> kept k v (w\<lparr>w_header := copy_header h (w_header w)\<rparr>)"
  by (auto simp: kept_def copy_header_def hget_def split: list.splits)

lemma kept_http_error:
  assumes "gateway_header k v" and "kept k v w"
  shows "kept k v (http_error msg code w)"
proof -
  have "kept_header k v"
    using assms(1) by unfold_locales (auto simp: gateway_header_def gateway_headers_def)
  then show ?thesis using assms(2) by (rule kept_header.kept_error)
qed


definition fails :: "('s \<Rightarrow> 's) option \<Rightarrow> proxy_err \<Rightarrow> response \<Rightarrow> 's \<Rightarrow> (bool \<times> response) \<times> 's" where
  "fails onError e w s =
     ((False, http_error (''upstream error: '' @ StatusText (errorStatus e)) (errorStatus e) w),
      case onError of None \<Rightarrow> s | Some f \<Rightarrow> f s)"

text \<open>Whether an upstream that answers 101 switched to the protocol that was asked for.\<close>

definition switched :: "request \<Rightarrow> upstream_response \<Rightarrow> bool" where
  "switched q res \<longleftrightarrow>
     printable (upgrade_type (up_header res))
     \<and> token_equal (upgrade_type (r_header q)) (upgrade_type (up_header res)) \<and> up_takeover res"

lemma upgrade_type_cookies: "upgrade_type (RewriteSetCookies secure h) = upgrade_type h"
  by (simp add: upgrade_type_def hget_def RewriteSetCookies_apply)

lemma upgrade_type_outgoing: "upgrade_type (outgoing_header r h) = upgrade_type h"
proof -
  have "token_equal (trim_ows ''Upgrade'') ''Upgrade''" "split_on CHR '','' ''Upgrade'' = [''Upgrade'']"
    by code_simp+
  then show ?thesis
    by (simp add: upgrade_type_def [of "outgoing_header r h"] outgoing_header_upgrade hget_def contains_token_def)
qed

text \<open>The gateway's proxy, step by step.\<close>

lemma proxy_run:
  "ReverseProxy_ServeHTTP (gateway_proxy T U B timeout secure onError) r w s =
     (case upstream_request U B r of
        None \<Rightarrow> fails onError BadProtocol w s
      | Some q \<Rightarrow>
          (case T (timeLimit (gateway_proxy T U B timeout secure onError) r) q s of
             ((early, result), s') \<Rightarrow>
               (let w' = fold write_interim early w in
                case result of
                  Inl e \<Rightarrow> fails onError e w' s'
                | Inr res \<Rightarrow>
                    if up_status res = 101 then
                      (if switched q res then ((False, switch_protocols (RewriteSetCookies secure (up_header res)) w'), s')
                       else fails onError BadProtocol w' s')
                    else
                      (copy_response res (RewriteSetCookies secure (remove_hop_by_hop (up_header res))) w', s'))))"
  by (auto simp: ReverseProxy_ServeHTTP_def proxy_ServeHTTP_def http_simps Let_def upstream_request_def
      upstreamError_def fails_def switched_def upgrade_type_cookies upgrade_type_outgoing
      split: prod.splits sum.splits option.splits)

lemma kept_after_proxy:
  assumes "gateway_header k v" and "kept k v w"
  shows "kept k v (snd (copy_response res h w))" and "kept k v (switch_protocols h w)"
    and "kept k v (snd (fst (fails onError e w s)))"
proof -
  have c: "kept k v (w\<lparr>w_header := copy_header h (w_header w)\<rparr>)"
    using assms kept_copy_header by (auto simp: gateway_header_def)
  then show "kept k v (snd (copy_response res h w))"
    by (auto simp: copy_response_def Let_def kept_def write_body_def write_header_def split: option.splits)
  show "kept k v (switch_protocols h w)"
    using c by (auto simp: switch_protocols_def Let_def kept_def split: option.splits)
  show "kept k v (snd (fst (fails onError e w s)))"
    using kept_http_error [OF assms] by (simp add: fails_def)
qed

text \<open>The gateway's reverse proxy is polite, as long as the upstream sends no interim response.\<close>

lemma reverse_proxy_polite:
  assumes "no_interim T"
  shows "polite (ReverseProxy_ServeHTTP (gateway_proxy T U B timeout secure onError))"
proof -
  have "kept k v (snd (fst (ReverseProxy_ServeHTTP (gateway_proxy T U B timeout secure onError) r w s)))"
    if kv: "gateway_header k v" and w: "kept k v w" for k v r w s
  proof -
    have early: "early = []" if "T l q s = ((early, res), s')" for l q early res s'
      using assms that by (metis fst_conv no_interim_def)
    show ?thesis
      unfolding proxy_run
      by (auto simp: Let_def kept_after_proxy [OF kv w] dest: early split: option.split prod.split sum.split)
  qed
  then show ?thesis unfolding polite_def keeps_response_def by blast
qed

lemma limited_polite: "polite h \<Longrightarrow> polite (BodyLimitMiddleware h limit)"
  by (auto simp: polite_def keeps_response_def BodyLimitMiddleware_def)


text \<open>What the client gets on every branch.\<close>

definition client_header :: "bool \<Rightarrow> header \<Rightarrow> header \<Rightarrow> header" where
  "client_header secure gateway upstream k =
     gateway k @
     (if k \<in> set hopHeaders \<or> k \<in> set (connection_keys upstream) then []
      else if k = ''Set-Cookie'' then map (\<lambda>c. RewriteSetCookie c secure) (upstream k) else upstream k)"

definition answers_failure :: "('s \<Rightarrow> 's) option \<Rightarrow> proxy_err \<Rightarrow> 's \<Rightarrow> (bool \<times> response) \<times> 's \<Rightarrow> bool" where
  "answers_failure onError e s result \<longleftrightarrow>
     (case result of ((panicked, w), s') \<Rightarrow>
        panicked = False
        \<and> map_option fst (w_sent w) = Some (case e of DeadlineExceeded \<Rightarrow> 504 | _ \<Rightarrow> 502)
        \<and> w_body w = ''upstream error: '' @ (case e of DeadlineExceeded \<Rightarrow> ''Gateway Timeout'' | _ \<Rightarrow> ''Bad Gateway'') @ newline
        \<and> w_recorded w = (case e of DeadlineExceeded \<Rightarrow> 504 | _ \<Rightarrow> 502)
        \<and> s' = (case onError of None \<Rightarrow> s | Some f \<Rightarrow> f s))"

lemma fails_answers:
  assumes "w_sent w = None" and "w_body w = []"
  shows "answers_failure onError e s (fails onError e w s)"
  using assms
  by (cases e) (simp_all add: answers_failure_def fails_def http_error_def write_header_def write_body_def
      errorStatus_def StatusText_def)

lemma interim_unsent: "w_sent (fold write_interim early w) = w_sent w" "w_body (fold write_interim early w) = w_body w"
  "w_header (fold write_interim early w) = (if early = [] then w_header w else empty_header)"
  "w_recorded (fold write_interim early w) = (if early = [] then w_recorded w else fst (last early))"
  by (induction early arbitrary: w) (auto simp: write_interim_def)

definition unsent :: "header \<Rightarrow> response" where
  "unsent h = new_response\<lparr>w_header := h\<rparr>"

lemma unsent_simps: "w_header (unsent h) = h" "w_sent (unsent h) = None" "w_body (unsent h) = []" "w_recorded (unsent h) = 200"
  by (simp_all add: unsent_def new_response_def)



subsection \<open>The address of the client\<close>

lemma director_forwarded_for:
  "split_host_port (r_remote_addr r) = Some (ip, port) \<Longrightarrow>
   r_header (director U B r) ''X-Forwarded-For'' =
     [if hget (r_header r) ''X-Forwarded-For'' = [] then ip else hget (r_header r) ''X-Forwarded-For'' @ '', '' @ ip]"
  by (simp add: director_def Let_def appendXForwardedFor_def)

lemma outgoing_forwarded_for:
  assumes "split_host_port (r_remote_addr r) = Some (ip, port)"
  shows "outgoing_header r h ''X-Forwarded-For'' =
    [if h ''X-Forwarded-For'' = [] \<or> ''X-Forwarded-For'' \<in> set (connection_keys h) then ip
     else join '', '' (h ''X-Forwarded-For'') @ '', '' @ ip]"
  using assms by (simp add: outgoing_header_def Let_def http_simps forwarded_for_def hopHeaders_def)

definition client_chain :: "'s Server \<Rightarrow> request \<Rightarrow> string \<Rightarrow> string" where
  "client_chain S r ip =
     (let prior = (if TrustedProxyCIDRs (cfg S) = [] \<or> \<not> remoteAddrTrusted (r_remote_addr r) (TrustedProxyCIDRs (cfg S))
                   then [] else hget (r_header r) ''X-Forwarded-For'')
      in if List.member (connection_keys (r_header r)) ''X-Forwarded-For'' then ip
         else (if prior = [] then ip else prior @ '', '' @ ip) @ '', '' @ ip)"

text \<open>
  Property C28. n8n is told the address of the peer: a client that is not a trusted proxy cannot put an
  address of its choice into \<open>X-Forwarded-For\<close>. (The address comes twice, because both the director and
  \<open>httputil.ReverseProxy\<close> append it.)
\<close>

theorem client_address_upstream:
  "case split_host_port (r_remote_addr r) of
     None \<Rightarrow> True
   | Some (ip, port) \<Rightarrow>
       list_all (\<lambda>q. r_header q ''X-Forwarded-For'' = [client_chain S r ip])
         (snd (snd (ReverseProxy_ServeHTTP (gateway_proxy (recording T) U B timeout secure
            (map_option (\<lambda>f (s, qs). (f s, qs)) onError)) (normalizeForwardedHeaders S r) w (s, []))))"
proof -
  let ?n = "normalizeForwardedHeaders S r"
  have a: "r_remote_addr ?n = r_remote_addr r" by (simp add: normalizeForwardedHeaders_def)
  have c: "connection_keys (r_header ?n) = connection_keys (r_header r)"
    by (simp add: normalizeForwardedHeaders_def connection_keys_def)
  have x: "hget (r_header ?n) ''X-Forwarded-For'' =
      (if TrustedProxyCIDRs (cfg S) = [] \<or> \<not> remoteAddrTrusted (r_remote_addr r) (TrustedProxyCIDRs (cfg S))
       then [] else hget (r_header r) ''X-Forwarded-For'')"
    by (simp add: normalizeForwardedHeaders_def)
  have "r_header q ''X-Forwarded-For'' = [client_chain S r ip]"
    if "upstream_request U B ?n = Some q" "split_host_port (r_remote_addr r) = Some (ip, port)" for q ip port
    using that(2) a
    by (simp add: upstream_request_Some [OF that(1)] outgoing_forwarded_for director_forwarded_for director_connection
        c x client_chain_def Let_def)
  then show ?thesis unfolding recorded by (auto split: option.split prod.split)
qed

end
