(* ===== verification/Replies.thy ===== *)
theory Replies
  imports Guarantees
begin

text \<open>
  The reply of the endpoints, status and location, as tables over the answers of the services: one table
  per flow, which has every error branch, and the lemma that the handler implements it.
\<close>

lemmas run_rules = run_simps case_prod_unfold

subsection \<open>Replies\<close>

definition reply :: "response \<Rightarrow> (nat \<times> string) option" where
  "reply w = map_option (\<lambda>(code, h). (code, hget h ''Location'')) (w_sent w)"

text \<open>A response on which nothing has been decided.\<close>

definition fresh :: "response \<Rightarrow> bool" where
  "fresh w \<longleftrightarrow> w_sent w = None \<and> hget (w_header w) ''Location'' = []"

definition location :: "request \<Rightarrow> string \<Rightarrow> string" where
  "location r target = hex_escape_non_ascii (redirect_location (u_path (r_url r)) target)"

lemma fresh_set_cookie [simp]: "fresh (set_cookie c w) = fresh w"
  by (simp add: fresh_def set_cookie_def)

lemma fresh_set_cookies [simp]: "fresh (fold set_cookie cs w) = fresh w"
  by (induction cs arbitrary: w) simp_all

lemma hget_n8n_cookies [simp]:
  "k \<noteq> ''Set-Cookie'' \<Longrightarrow>
     hget (fold (\<lambda>c. hadd ''Set-Cookie'' (RewriteSetCookie c b)) cs h) k = hget h k"
  by (induction cs arbitrary: h) simp_all

lemma fresh_header [simp]:
  "hget h ''Location'' = hget (w_header w) ''Location'' \<Longrightarrow> fresh (w\<lparr>w_header := h\<rparr>) = fresh w"
  by (simp add: fresh_def)

lemma fresh_entered [simp]: "fresh (gw_w (entered S r s))"
  by (subst entered_simps)
    (simp add: fresh_def new_response_def applySecurityHeaders_def Let_def hget_def)

lemma reply_write_header: "fresh w \<Longrightarrow> reply (write_header c w) = Some (c, hget (w_header w) ''Location'')"
  by (simp add: reply_def write_header_def fresh_def)

lemma reply_write_body: "reply (write_body b (write_header c w)) = reply (write_header c w)"
  by (simp add: reply_def write_body_def write_header_def split: option.splits)

lemma reply_error [simp]: "fresh w \<Longrightarrow> reply (http_error msg c w) = Some (c, [])"
  by (simp add: http_error_def reply_write_body reply_write_header) (simp add: fresh_def)

lemma reply_json [simp]: "fresh w \<Longrightarrow> reply (writeJSON c v w) = Some (c, [])"
  by (simp add: writeJSON_def reply_write_body reply_write_header) (simp add: fresh_def)

lemma reply_redirect [simp]: "fresh w \<Longrightarrow> reply (redirect_found r t w) = Some (302, location r t)"
  by (simp add: redirect_found_def Let_def location_def reply_def write_header_def write_body_def fresh_def)

text \<open>The result of running a handler on a state with a fresh response.\<close>

lemma run_writeError [simp]:
  "fresh (gw_w g) \<Longrightarrow> reply (gw_w (snd (run_state (writeError r c code) g))) = Some (c, [])"
  by (simp add: writeError_def run_rules)

lemma run_redirect [simp]:
  "fresh (gw_w g) \<Longrightarrow> reply (gw_w (snd (run_state (redirect r t) g))) = Some (302, location r t)"
  by (simp add: redirect_def run_rules)

lemma run_cookies [simp]:
  "run_state (setCookie c) g = ((), g\<lparr>gw_w := set_cookie c (gw_w g)\<rparr>)"
  "run_state (setCookies cs) g = ((), g\<lparr>gw_w := fold set_cookie cs (gw_w g)\<rparr>)"
  by (simp_all add: setCookie_def setCookies_def run_rules)

lemma run_login_cookies [simp]:
  "snd (run_state (writeN8NCookies S cs) g) =
     g\<lparr>gw_w := (gw_w g)\<lparr>w_header :=
       fold (\<lambda>c. hadd ''Set-Cookie'' (RewriteSetCookie c (CookieSecure (cfg S)))) cs (w_header (gw_w g))\<rparr>\<rparr>"
  "snd (run_state (setBridgeCookie S) g) =
     g\<lparr>gw_w := set_cookie (N8NBridgeCookie (CookieSecure (cfg S)) (whole_seconds (SessionTTL (cfg S)))) (gw_w g)\<rparr>"
  by (simp_all add: writeN8NCookies_def setBridgeCookie_def run_rules)

lemma run_clear [simp]:
  "snd (run_state (clearProxySessionCookies S) g) =
     g\<lparr>gw_w := fold set_cookie (ClearProxySessionCookies (CookieSecure (cfg S))) (gw_w g)\<rparr>"
  "snd (run_state (clearBridgeCookie S) g) =
     g\<lparr>gw_w := set_cookie (ClearN8NBridgeCookie (CookieSecure (cfg S))) (gw_w g)\<rparr>"
  by (simp_all add: clearProxySessionCookies_def clearBridgeCookie_def)

subsection \<open>The login bridge\<close>

text \<open>
  The reply while a user is logged in at n8n with the stored credential, given what follows on
  success: \<open>k result s\<close>, with n8n's result and the world in which it was returned.
\<close>

definition bridged_reply ::
  "'s Server \<Rightarrow> request \<Rightarrow> string \<Rightarrow> string \<Rightarrow> (LoginResult \<Rightarrow> 's \<Rightarrow> nat \<times> string) \<Rightarrow> 's \<Rightarrow> nat \<times> string" where
  "bridged_reply S r issuer subject k s =
     (case srv_GetCredential S issuer subject s of
        (Inl CredNotFound, s') \<Rightarrow> (302, location r ''/n8n-link'')
      | (Inl (VaultFail m), s') \<Rightarrow> (503, [])
      | (Inr c, s') \<Rightarrow>
          (case srv_Login S (N8NEmailOrLoginID c) (N8NPassword c) [n8nLoginHeaders S r] s' of
             ((result, None), s'') \<Rightarrow> k result s''
           | ((result, Some e), s'') \<Rightarrow>
               if e = ErrRateLimited then (429, []) else (302, location r ''/n8n-link?error=relink_required'')))"

lemma run_getCredential:
  "run_state (getCredential S i u) g =
     (case srv_GetCredential S i u (gw_env g) of (res, s') \<Rightarrow>
        (res, g\<lparr>gw_env := s',
                gw_log := Counted ''vault_operations'' [''read'', case res of Inr c \<Rightarrow> ''success''
                    | Inl e \<Rightarrow> if e = CredNotFound then ''not_found'' else ''error'']
                  # ReadCredential i u res # gw_log g\<rparr>))"
  by (simp add: getCredential_def run_rules split: sum.split)

lemma reply_loginError [simp]:
  "fresh (gw_w g) \<Longrightarrow> reply (gw_w (snd (run_state (handleN8NLoginError r e b) g))) =
     Some (if e = ErrRateLimited then (429, [])
           else if b then (302, location r ''/n8n-link?error=relink_required'') else (400, []))"
  by (simp add: handleN8NLoginError_def run_rules)

lemma bridgeLogin_reply:
  assumes "fresh (gw_w g)"
    and "\<And>result g'. fresh (gw_w g') \<Longrightarrow> gw_form g' = gw_form g \<Longrightarrow>
      reply (gw_w (snd (run_state (f (Some result)) g'))) = Some (k result (gw_env g'))"
    and "f None = State_Monad.return y"
  shows "reply (gw_w (snd (run_state (State_Monad.bind (bridgeLogin S r l p b) f) g))) =
    Some (case srv_Login S l p [n8nLoginHeaders S r] (gw_env g) of
        ((result, None), s') \<Rightarrow> k result s'
      | ((result, Some e), s') \<Rightarrow>
          if e = ErrRateLimited then (429, [])
          else if b then (302, location r ''/n8n-link?error=relink_required'') else (400, []))"
  using assms
  by (simp add: bridgeLogin_def run_rules split: option.split)

lemma bridged:
  assumes "fresh (gw_w g)"
    and "\<And>result g'. fresh (gw_w g') \<Longrightarrow>
      reply (gw_w (snd (run_state (f result) g'))) = Some (k result (gw_env g'))"
  shows "reply (gw_w (snd (run_state
      (do { found \<leftarrow> bridgeCredential S r issuer subject;
            case found of
              None \<Rightarrow> State_Monad.return ()
            | Some cred \<Rightarrow>
                do { login \<leftarrow> bridgeLogin S r (N8NEmailOrLoginID cred) (N8NPassword cred) True;
                     case login of None \<Rightarrow> State_Monad.return () | Some result \<Rightarrow> f result } }) g))) =
    Some (bridged_reply S r issuer subject k (gw_env g))"
proof (cases "srv_GetCredential S issuer subject (gw_env g)")
  case (Pair res s')
  show ?thesis
  proof (cases res)
    case (Inl e)
    then show ?thesis
      using assms(1) Pair
      by (cases e) (simp_all add: bridgeCredential_def run_rules run_getCredential bridged_reply_def)
  next
    case (Inr c)
    let ?F = "\<lambda>login. case login of None \<Rightarrow> State_Monad.return () | Some result \<Rightarrow> f result"
    define g' where "g' = snd (run_state (getCredential S issuer subject) g)"
    have g': "gw_env g' = s'" "gw_w g' = gw_w g"
      using Pair Inr by (simp_all add: g'_def run_getCredential)
    have "reply (gw_w (snd (run_state
        (State_Monad.bind (bridgeLogin S r (N8NEmailOrLoginID c) (N8NPassword c) True) ?F) g'))) =
        Some (bridged_reply S r issuer subject k (gw_env g))"
      using Pair Inr assms
      by (subst bridgeLogin_reply [where k = k]) (simp_all add: g' bridged_reply_def split: prod.split option.split)
    then show ?thesis
      using Pair Inr by (simp add: bridgeCredential_def run_rules run_getCredential g'_def)
  qed
qed

abbreviation bridge_reply ::
  "'s Server \<Rightarrow> request \<Rightarrow> Session \<Rightarrow> string \<Rightarrow> 's \<Rightarrow> nat \<times> string" where
  "bridge_reply S r sess target \<equiv>
     bridged_reply S r (Issuer sess) (Subject sess) (\<lambda>_ _. (302, location r (safeReturnTo target)))"

lemma loginAndRedirectTo_reply:
  "fresh (gw_w g) \<Longrightarrow> reply (gw_w (snd (run_state (loginAndRedirectTo S r sess t) g))) =
     Some (bridge_reply S r sess t (gw_env g))"
  unfolding loginAndRedirectTo_def by (rule bridged) (simp_all add: run_rules)

subsection \<open>Finding the session\<close>

fun lookup_answer :: "'s Server \<Rightarrow> string list \<Rightarrow> 's \<Rightarrow> (sess_err + (string \<times> Session)) \<times> 's" where
  "lookup_answer S [] s = (Inl SessNotFound, s)"
| "lookup_answer S (i # ids) s =
     (case srv_GetSession S i s of
        (Inr sess, s') \<Rightarrow> (Inr (i, sess), s')
      | (Inl SessNotFound, s') \<Rightarrow> lookup_answer S ids s'
      | (Inl (SessFail m), s') \<Rightarrow> (Inl (SessFail m), s'))"

definition session_answer :: "'s Server \<Rightarrow> request \<Rightarrow> 's \<Rightarrow> (sess_err + (string \<times> Session)) option \<times> 's" where
  "session_answer S r s =
     (if sessionCookieIDs S r = [] then (None, s)
      else (case lookup_answer S (sessionCookieIDs S r) s of (a, s') \<Rightarrow> (Some a, s')))"

lemma run_lookupLoop:
  "fst (run_state (lookupLoop S ids) g) = fst (lookup_answer S ids (gw_env g))
   \<and> gw_env (snd (run_state (lookupLoop S ids) g)) = snd (lookup_answer S ids (gw_env g))
   \<and> gw_w (snd (run_state (lookupLoop S ids) g)) = gw_w g
   \<and> gw_form (snd (run_state (lookupLoop S ids) g)) = gw_form g"
proof (induction ids arbitrary: g)
  case (Cons i ids)
  show ?case
    using Cons.IH
    by (cases "srv_GetSession S i (gw_env g)")
      (auto simp: run_rules split: sum.splits sess_err.splits)
qed (simp add: run_rules)

lemma run_lookup [simp]:
  "fst (run_state (lookupSessionFromCookies S r) g) = fst (session_answer S r (gw_env g))"
  "gw_env (snd (run_state (lookupSessionFromCookies S r) g)) = snd (session_answer S r (gw_env g))"
  "gw_w (snd (run_state (lookupSessionFromCookies S r) g)) = gw_w g"
  "gw_form (snd (run_state (lookupSessionFromCookies S r) g)) = gw_form g"
  using run_lookupLoop [of S "sessionCookieIDs S r" g]
  by (simp_all add: lookupSessionFromCookies_def session_answer_def run_rules)

text \<open>The reply of an endpoint that needs a session, given what it replies to a user with one.\<close>

definition session_reply ::
  "request \<Rightarrow> (sess_err + (string \<times> Session)) option \<Rightarrow> (string \<Rightarrow> Session \<Rightarrow> nat \<times> string) \<Rightarrow> nat \<times> string" where
  "session_reply r answer rest =
     (case answer of
        Some (Inr (i, sess)) \<Rightarrow> rest i sess
      | Some (Inl (SessFail m)) \<Rightarrow> (503, [])
      | _ \<Rightarrow> (302, location r (loginTarget r)))"

lemma run_requireSession_ok:
  "fst (session_answer S r (gw_env g)) = Some (Inr (i, sess)) \<Longrightarrow>
     fst (run_state (requireSession S r) g) = Some (i, sess)
     \<and> gw_env (snd (run_state (requireSession S r) g)) = snd (session_answer S r (gw_env g))
     \<and> gw_w (snd (run_state (requireSession S r) g)) = gw_w g
     \<and> gw_form (snd (run_state (requireSession S r) g)) = gw_form g"
  by (simp add: requireSession_def run_rules)

lemma run_redirectToLogin [simp]:
  "fresh (gw_w g) \<Longrightarrow> reply (gw_w (snd (run_state (redirectToLogin r) g))) = Some (302, location r (loginTarget r))"
  by (simp add: redirectToLogin_def)

lemma run_requireSession_fails:
  assumes "fresh (gw_w g)" and "\<And>i sess. fst (session_answer S r (gw_env g)) \<noteq> Some (Inr (i, sess))"
  shows "fst (run_state (requireSession S r) g) = None
     \<and> reply (gw_w (snd (run_state (requireSession S r) g))) =
         Some (session_reply r (fst (session_answer S r (gw_env g))) rest)"
  using assms
  by (auto simp: requireSession_def run_rules session_reply_def split: option.splits sum.splits sess_err.splits)

lemma requireSession_reply:
  assumes "fresh (gw_w g)"
    and "\<And>i sess. fst (session_answer S r (gw_env g)) = Some (Inr (i, sess)) \<Longrightarrow>
      reply (gw_w (snd (run_state (f (Some (i, sess))) (snd (run_state (requireSession S r) g))))) = Some (rest i sess)"
    and "f None = State_Monad.return y"
  shows "reply (gw_w (snd (run_state (State_Monad.bind (requireSession S r) f) g))) =
    Some (session_reply r (fst (session_answer S r (gw_env g))) rest)"
proof (cases "\<exists>i sess. fst (session_answer S r (gw_env g)) = Some (Inr (i, sess))")
  case True
  then obtain i sess where ok: "fst (session_answer S r (gw_env g)) = Some (Inr (i, sess))" by blast
  then show ?thesis
    using run_requireSession_ok [OF ok] assms(2) [OF ok] by (simp add: run_rules session_reply_def)
next
  case False
  then show ?thesis
    using run_requireSession_fails [OF assms(1), of S r rest] assms(3) by (simp add: run_rules)
qed


subsection \<open>Console requests without a bridge, and the native login pages\<close>

text \<open>Where a user is sent after a successful login at n8n.\<close>

definition bridge_target :: "RouteClass \<Rightarrow> request \<Rightarrow> string" where
  "bridge_target class r =
     (if class = RouteNativeLoginAlias then nativeLoginReturnTo r else safeReturnTo (request_uri (r_url r)))"

definition sign_in_reply :: "'s Server \<Rightarrow> request \<Rightarrow> string \<Rightarrow> 's \<Rightarrow> nat \<times> string" where
  "sign_in_reply S r target s =
     (case session_answer S r s of
        (answer, s') \<Rightarrow> session_reply r answer
          (\<lambda>i sess. bridge_reply S r sess target s'))"

lemma alias_reply:
  assumes "fresh (gw_w g)"
  shows "reply (gw_w (snd (run_state (handleNativeLoginAlias S r) g))) =
    Some (sign_in_reply S r (nativeLoginReturnTo r) (gw_env g))"
  using assms
  by (auto simp: handleNativeLoginAlias_def run_rules sign_in_reply_def session_reply_def
      loginAndRedirectTo_reply split: option.splits sum.splits sess_err.splits)

lemma console_reply:
  assumes "fresh (gw_w g)" and "\<not> HasN8NBridgeCookie r"
    and "\<not> (CleanPath (u_path (r_url r)) = ''/rest/login'' \<and> r_method r = ''GET'')"
  shows "reply (gw_w (snd (run_state (serveProtected S r) g))) =
    Some (sign_in_reply S r (safeReturnTo (request_uri (r_url r))) (gw_env g))"
    and "fst (run_state (serveProtected S r) g) = False"
proof -
  have no: "\<not> fst (run_state (case x of None \<Rightarrow> State_Monad.return False
      | Some (i, sess) \<Rightarrow> do { loginAndRedirect S r sess; State_Monad.return False }) g')" for x g'
    by (simp add: run_rules split: option.split)
  have serve: "serveProtected S r = State_Monad.bind (requireSession S r) (\<lambda>x. case x of None \<Rightarrow> State_Monad.return False
      | Some (i, sess) \<Rightarrow> do { loginAndRedirect S r sess; State_Monad.return False })"
    unfolding serveProtected_def using assms(2,3)
    by (intro arg_cong [where f = "State_Monad.bind (requireSession S r)"] ext) (auto split: option.split)
  show "fst (run_state (serveProtected S r) g) = False"
    unfolding serve run_simps(1) by (simp only: no)
  show "reply (gw_w (snd (run_state (serveProtected S r) g))) =
    Some (sign_in_reply S r (safeReturnTo (request_uri (r_url r))) (gw_env g))"
    unfolding serve sign_in_reply_def case_prod_unfold
  proof (rule requireSession_reply [OF assms(1)])
    fix i sess
    assume ok: "fst (session_answer S r (gw_env g)) = Some (Inr (i, sess))"
    show "reply (gw_w (snd (run_state (case Some (i, sess) of None \<Rightarrow> State_Monad.return False
          | Some y \<Rightarrow> do { loginAndRedirect S r (snd y); State_Monad.return False })
          (snd (run_state (requireSession S r) g))))) =
        Some (bridge_reply S r sess (safeReturnTo (request_uri (r_url r))) (snd (session_answer S r (gw_env g))))"
      using run_requireSession_ok [OF ok] assms(1)
      by (simp add: run_rules loginAndRedirect_def loginAndRedirectTo_reply)
  qed simp
qed



subsection \<open>The callback of the identity provider\<close>

definition new_session_reply :: "'s Server \<Rightarrow> request \<Rightarrow> string \<Rightarrow> Identity \<Rightarrow> string \<Rightarrow> 's \<Rightarrow> nat \<times> string" where
  "new_session_reply S r sid ident target =
     bridged_reply S r (id_Issuer ident) (id_Subject ident)
       (\<lambda>result s. case srv_GetSession S sid s of
          (Inl e, s') \<Rightarrow> (503, [])
        | (Inr sess, s') \<Rightarrow>
            if fst (srv_SaveSession S sid (sess\<lparr>Linked := True\<rparr>) s') = None
            then (302, location r (safeReturnTo target)) else (503, []))"

definition callback_reply :: "'s Server \<Rightarrow> request \<Rightarrow> 's \<Rightarrow> nat \<times> string" where
  "callback_reply S r s =
     (let state = query_get (r_url r) ''state''; code = query_get (r_url r) ''code'' in
      if state = [] \<or> code = [] then (400, [])
      else case srv_TakeOIDCState S state s of
        (Inl e, s1) \<Rightarrow> (400, [])
      | (Inr v, s1) \<Rightarrow>
          (case srv_Exchange S code (Nonce v) (CodeVerifier v) s1 of
             (Inl e, s2) \<Rightarrow> (401, [])
           | (Inr ident, s2) \<Rightarrow>
               (case srv_CreateSession S (identitySession ident) s2 of
                  (Inl e, s3) \<Rightarrow> (503, [])
                | (Inr sid, s3) \<Rightarrow> new_session_reply S r sid ident (ReturnTo v) s3)))"

lemma bridgeNewSession_reply:
  "fresh (gw_w g) \<Longrightarrow> reply (gw_w (snd (run_state (bridgeNewSession S r sid ident v) g))) =
     Some (new_session_reply S r sid ident (ReturnTo v) (gw_env g))"
  unfolding bridgeNewSession_def new_session_reply_def
  by (rule bridged) (simp_all add: run_rules split: sum.split)

lemma handleAuthCallback_reply:
  assumes "fresh (gw_w g)"
  shows "reply (gw_w (snd (run_state (handleAuthCallback S r) g))) = Some (callback_reply S r (gw_env g))"
  using assms
  by (auto simp: handleAuthCallback_def callback_reply_def Let_def run_rules writeProxySessionCookies_def
      bridgeNewSession_reply split: sum.split)

text \<open>What is known of a request that is dispatched to an endpoint of the gateway.\<close>

lemma internal_class:
  assumes "isInternalPath (CleanPath (u_path (r_url r)))"
  shows "class_of S r = RouteInternal"
  using assms by (simp add: class_of_def ClassifyRoute_def Let_def)

lemma handle_internal:
  assumes "isInternalPath (CleanPath (u_path (r_url r)))"
    and "serveInternal S (normalizeForwardedHeaders S r) =
      State_Monad.bind h (\<lambda>_. State_Monad.return False)"
  shows "gw_w (handle S r s) = gw_w (snd (run_state h (entered S r s)))"
  using assms(2) internal_class [OF assms(1), of S]
  by (simp add: handle_response dispatched_def dispatch_def run_rules)

text \<open>
  Property C18. The callback's error table: a callback without state or code, or with an unknown or used
  state, is 400, a code that the provider does not confirm is 401, a failing session store is 503; with
  a session, an unlinked user goes to the link page, and a linked one is logged in at n8n and sent to
  the page where the login started, and nowhere else.
\<close>

theorem callback_replies:
  assumes "CleanPath (u_path (r_url r)) = ''/auth/callback''" and "r_method r = ''GET''"
  shows "reply (gw_w (handle S r s)) =
    Some (callback_reply S (normalizeForwardedHeaders S r) (gw_env (entered S r s)))"
proof -
  let ?r = "normalizeForwardedHeaders S r"
  have "serveInternal S ?r = State_Monad.bind (handleAuthCallback S ?r) (\<lambda>_. State_Monad.return False)"
    using assms by (simp add: serveInternal_def)
  then have "gw_w (handle S r s) = gw_w (snd (run_state (handleAuthCallback S ?r) (entered S r s)))"
    using assms by (intro handle_internal) (simp_all add: isInternalPath_def)
  then show ?thesis by (simp add: handleAuthCallback_reply)
qed

subsection \<open>The link form\<close>

text \<open>The answer of the CSRF check: the status of the refusal, if it is refused.\<close>

definition csrf_refusal :: "'s Server \<Rightarrow> request \<Rightarrow> string \<Rightarrow> 's \<Rightarrow> (nat \<times> string) option" where
  "csrf_refusal S r sid s =
     (case fst (srv_GetCSRF S sid s) of
        Inl e \<Rightarrow> Some (403, [])
      | Inr token \<Rightarrow> if token = submitted r ''csrf_token'' \<and> token \<noteq> [] then None else Some (403, []))"

definition link_reply :: "'s Server \<Rightarrow> request \<Rightarrow> string \<Rightarrow> Session \<Rightarrow> 's \<Rightarrow> nat \<times> string" where
  "link_reply S r sid sess s =
     (case csrf_refusal S r sid s of
        Some refusal \<Rightarrow> refusal
      | None \<Rightarrow>
          (let l = trim_space (submitted r ''n8n_email_or_login_id''); p = submitted r ''n8n_password'' in
           if l = [] \<or> p = [] then (400, [])
           else (case srv_Login S l p [n8nLoginHeaders S r] (snd (srv_GetCSRF S sid s)) of
               ((result, None), s1) \<Rightarrow>
                 if fst (srv_PutCredential S (linkedCredential sess l p) s1) = None
                 then (302, location r ''/'') else (503, [])
             | ((result, Some e), s1) \<Rightarrow> if e = ErrRateLimited then (429, []) else (400, []))))"

definition unlink_reply :: "'s Server \<Rightarrow> request \<Rightarrow> string \<Rightarrow> Session \<Rightarrow> 's \<Rightarrow> nat \<times> string" where
  "unlink_reply S r sid sess s =
     (case csrf_refusal S r sid s of
        Some refusal \<Rightarrow> refusal
      | None \<Rightarrow>
          if fst (srv_DeleteCredential S (Issuer sess) (Subject sess) (snd (srv_GetCSRF S sid s))) = None
          then (302, location r ''/n8n-link'') else (503, []))"

definition link_form_reply :: "'s Server \<Rightarrow> request \<Rightarrow> 's \<Rightarrow> nat \<times> string" where
  "link_form_reply S r s =
     (case session_answer S r s of
        (answer, s') \<Rightarrow> session_reply r answer
          (\<lambda>sid sess. if submitted r ''_method'' = ''DELETE'' then unlink_reply S r sid sess s'
                       else link_reply S r sid sess s'))"

text \<open>The form of a POST request once a field of it has been read.\<close>

definition read_form :: "request \<Rightarrow> 's gw \<Rightarrow> bool" where
  "read_form r g \<longleftrightarrow> r_method r = ''POST'' \<and> gw_form g = parse_multipart_form r None"

lemma read_form_value:
  assumes "read_form r g"
  shows "run_state (formValue r k) g = (submitted r k, g)"
proof -
  have "form_value r k (gw_form g) = (submitted r k, gw_form g)"
    using assms form_value_twice(1) [of r k None] by (simp add: read_form_def submitted_def)
  then show ?thesis by (simp add: formValue_def run_rules)
qed

lemma read_form_parse:
  assumes "read_form r g"
  shows "run_state (parseForm r) g = (False, g)"
proof -
  obtain vs where "gw_form g = Some vs"
    using assms parse_multipart_form_is_Some [of r None] by (auto simp: read_form_def)
  then show ?thesis by (simp add: parseForm_def run_rules)
qed

lemma run_validateCSRF:
  assumes "read_form r g" and "fresh (gw_w g)"
  shows "csrf_refusal S r sid (gw_env g) = None \<Longrightarrow>
      fst (run_state (validateCSRF S r sid) g)
      \<and> gw_w (snd (run_state (validateCSRF S r sid) g)) = gw_w g
      \<and> read_form r (snd (run_state (validateCSRF S r sid) g))
      \<and> gw_env (snd (run_state (validateCSRF S r sid) g)) = snd (srv_GetCSRF S sid (gw_env g))"
    and "csrf_refusal S r sid (gw_env g) = Some x \<Longrightarrow>
      \<not> fst (run_state (validateCSRF S r sid) g)
      \<and> reply (gw_w (snd (run_state (validateCSRF S r sid) g))) = Some x"
proof -
  have form: "read_form r (g\<lparr>gw_env := s', gw_log := l\<rparr>)" for s' l
    using assms(1) by (simp add: read_form_def)
  note run = validateCSRF_def run_rules read_form_parse [OF assms(1)] read_form_value [OF form]
  show "csrf_refusal S r sid (gw_env g) = None \<Longrightarrow>
      fst (run_state (validateCSRF S r sid) g)
      \<and> gw_w (snd (run_state (validateCSRF S r sid) g)) = gw_w g
      \<and> read_form r (snd (run_state (validateCSRF S r sid) g))
      \<and> gw_env (snd (run_state (validateCSRF S r sid) g)) = snd (srv_GetCSRF S sid (gw_env g))"
    by (auto simp: csrf_refusal_def run EqualToken_eq form split: sum.splits if_splits)
  show "csrf_refusal S r sid (gw_env g) = Some x \<Longrightarrow>
      \<not> fst (run_state (validateCSRF S r sid) g)
      \<and> reply (gw_w (snd (run_state (validateCSRF S r sid) g))) = Some x"
    using assms(2)
    by (auto simp: csrf_refusal_def run EqualToken_eq split: sum.splits if_splits)
qed

lemma validateCSRF_reply:
  assumes "read_form r g" and "fresh (gw_w g)"
    and "\<And>g'. read_form r g' \<Longrightarrow> fresh (gw_w g') \<Longrightarrow> gw_env g' = snd (srv_GetCSRF S sid (gw_env g)) \<Longrightarrow>
      reply (gw_w (snd (run_state (f True) g'))) = Some rest"
    and "f False = State_Monad.return y"
  shows "reply (gw_w (snd (run_state (State_Monad.bind (validateCSRF S r sid) f) g))) =
    Some (case csrf_refusal S r sid (gw_env g) of Some refusal \<Rightarrow> refusal | None \<Rightarrow> rest)"
proof (cases "csrf_refusal S r sid (gw_env g)")
  case None
  then show ?thesis
    using run_validateCSRF(1) [OF assms(1,2) None] assms(2,3) by (simp add: run_rules)
next
  case (Some x)
  then show ?thesis
    using run_validateCSRF(2) [OF assms(1,2) Some] assms(4) by (simp add: run_rules)
qed

lemma linkCredential_reply:
  assumes "fresh (gw_w g)"
  shows "reply (gw_w (snd (run_state (linkCredential S r sid sess l p) g))) =
    Some (case srv_Login S l p [n8nLoginHeaders S r] (gw_env g) of
        ((result, None), s1) \<Rightarrow>
          if fst (srv_PutCredential S (linkedCredential sess l p) s1) = None
          then (302, location r ''/'') else (503, [])
      | ((result, Some e), s1) \<Rightarrow> if e = ErrRateLimited then (429, []) else (400, []))"
  unfolding linkCredential_def
  by (subst bridgeLogin_reply [OF assms, where
        k = "\<lambda>result s1. if fst (srv_PutCredential S (linkedCredential sess l p) s1) = None
          then (302, location r ''/'') else (503, [])"])
    (simp_all add: putCredential_def run_rules)

lemma handleLinkDelete_reply:
  assumes "fresh (gw_w g)" and "read_form r g"
  shows "reply (gw_w (snd (run_state (handleLinkDelete S r) g))) =
    Some (case session_answer S r (gw_env g) of
      (answer, s') \<Rightarrow> session_reply r answer (\<lambda>sid sess. unlink_reply S r sid sess s'))"
  unfolding handleLinkDelete_def case_prod_unfold
proof (rule requireSession_reply [OF assms(1)])
  fix sid sess
  assume ok: "fst (session_answer S r (gw_env g)) = Some (Inr (sid, sess))"
  let ?g = "snd (run_state (requireSession S r) g)"
  have g: "read_form r ?g" "fresh (gw_w ?g)" "gw_env ?g = snd (session_answer S r (gw_env g))"
    using run_requireSession_ok [OF ok] assms by (simp_all add: read_form_def)
  show "reply (gw_w (snd (run_state (case Some (sid, sess) of
        None \<Rightarrow> State_Monad.return ()
      | Some found \<Rightarrow>
          do { ok \<leftarrow> validateCSRF S r (fst found);
               if \<not> ok then State_Monad.return ()
               else do { err \<leftarrow> deleteCredential S (Issuer (snd found)) (Subject (snd found));
                         if err \<noteq> None then writeError r 503 ''credential_store_unavailable''
                         else do { _ \<leftarrow> call (srv_SaveSession S (fst found) ((snd found)\<lparr>Linked := False\<rparr>))
                                          (SavedSession (fst found) ((snd found)\<lparr>Linked := False\<rparr>));
                                   redirect r ''/n8n-link'' } } }) ?g))) =
      Some (unlink_reply S r sid sess (snd (session_answer S r (gw_env g))))"
    unfolding option.case fst_conv snd_conv unlink_reply_def g(3) [symmetric]
    by (rule validateCSRF_reply [OF g(1,2)]) (simp_all add: deleteCredential_def run_rules)
qed simp

lemma handleLinkPost_reply:
  assumes "fresh (gw_w g)" and "gw_form g = None" and post: "r_method r = ''POST''"
  shows "reply (gw_w (snd (run_state (handleLinkPost S r) g))) = Some (link_form_reply S r (gw_env g))"
proof -
  let ?g = "g\<lparr>gw_form := parse_multipart_form r None\<rparr>"
  have first: "run_state (formValue r ''_method'') g = (submitted r ''_method'', ?g)"
    using assms(2) post by (simp add: formValue_def run_rules submitted_def)
  have g: "fresh (gw_w ?g)" "read_form r ?g" "gw_env ?g = gw_env g"
    using assms(1) post by (simp_all add: read_form_def)
  show ?thesis
  proof (cases "submitted r ''_method'' = ''DELETE''")
    case True
    then show ?thesis
      using handleLinkDelete_reply [OF g(1,2), of S]
      by (simp add: handleLinkPost_def run_simps(1) first link_form_reply_def case_prod_unfold)
  next
    case False
    let ?rest = "\<lambda>sid sess. do { ok \<leftarrow> validateCSRF S r sid;
        if \<not> ok then State_Monad.return ()
        else
          do { err \<leftarrow> parseForm r;
               if err then writeError r 400 ''invalid_form''
               else
                 do { rawLoginID \<leftarrow> formValue r ''n8n_email_or_login_id'';
                      password \<leftarrow> formValue r ''n8n_password'';
                      let loginID = trim_space rawLoginID;
                      if loginID = [] \<or> password = []
                      then writeError r 400 ''missing_n8n_credential''
                      else linkCredential S r sid sess loginID password } } }"
    have "reply (gw_w (snd (run_state
        (State_Monad.bind (requireSession S r)
          (\<lambda>found. case found of None \<Rightarrow> State_Monad.return () | Some (sid, sess) \<Rightarrow> ?rest sid sess)) ?g))) =
        Some (session_reply r (fst (session_answer S r (gw_env ?g)))
          (\<lambda>sid sess. link_reply S r sid sess (snd (session_answer S r (gw_env ?g)))))"
    proof (rule requireSession_reply [OF g(1)])
      fix sid sess
      assume ok: "fst (session_answer S r (gw_env ?g)) = Some (Inr (sid, sess))"
      let ?h = "snd (run_state (requireSession S r) ?g)"
      have h: "read_form r ?h" "fresh (gw_w ?h)" "gw_env ?h = snd (session_answer S r (gw_env ?g))"
        using run_requireSession_ok [OF ok] g by (simp_all add: read_form_def)
      show "reply (gw_w (snd (run_state (case Some (sid, sess) of
            None \<Rightarrow> State_Monad.return () | Some (sid, sess) \<Rightarrow> ?rest sid sess) ?h))) =
          Some (link_reply S r sid sess (snd (session_answer S r (gw_env ?g))))"
        unfolding option.case prod.case link_reply_def h(3) [symmetric]
        by (rule validateCSRF_reply [OF h(1,2)])
          (simp_all add: run_simps(1,2) read_form_parse read_form_value linkCredential_reply Let_def)
    qed simp
    moreover have "link_form_reply S r (gw_env g) =
        session_reply r (fst (session_answer S r (gw_env ?g)))
          (\<lambda>sid sess. link_reply S r sid sess (snd (session_answer S r (gw_env ?g))))"
      using False by (simp add: link_form_reply_def case_prod_unfold)
    ultimately show ?thesis
      using False unfolding handleLinkPost_def run_simps(1) first
      by (simp only: fst_conv snd_conv if_False g(3) run_simps(1))
  qed
qed

text \<open>
  Property C19. The link form's table: without a session the login, a wrong or missing CSRF token 403
  before anything else is looked at, an empty field 400, a login that n8n rejects 400 and one it rate
  limits 429, a failing credential store 503; and the user goes home only when the credential was
  accepted by n8n and stored. With \<open>_method=DELETE\<close> the credential is removed, under the same checks.
  A body that cannot be parsed is treated as an empty form: it never reaches \<open>invalid_form\<close>.
\<close>

theorem link_form_replies:
  assumes "CleanPath (u_path (r_url r)) = ''/n8n-link''" and "r_method r = ''POST''"
  shows "reply (gw_w (handle S r s)) =
    Some (link_form_reply S (normalizeForwardedHeaders S r) (gw_env (entered S r s)))"
proof -
  let ?r = "normalizeForwardedHeaders S r"
  have "serveInternal S ?r = State_Monad.bind (handleLinkPost S ?r) (\<lambda>_. State_Monad.return False)"
    using assms by (simp add: serveInternal_def)
  then have "gw_w (handle S r s) = gw_w (snd (run_state (handleLinkPost S ?r) (entered S r s)))"
    using assms by (intro handle_internal) (simp_all add: isInternalPath_def)
  then show ?thesis using assms(2) by (simp add: handleLinkPost_reply entered_simps(1))
qed

subsection \<open>Trying the tables out\<close>

lemma demo_trim: "trim_space ''rq'' = ''rq''"
  by code_simp

lemma demo_entered_env:
  "gw_env (entered demo (demo_request m t c b) s) = s"
  by (simp add: entered_def prologue_def requestID_def Let_def exec_def run_rules demo_def demo_request_def
      demo_header_def hget_def demo_trim)

definition signin_request :: request where
  "signin_request = demo_request ''GET'' ''/signin'' session_cookie (OtherBody [])"

lemma signin_class: "class_of demo signin_request = RouteNativeLoginAlias"
  by code_simp

lemma signin_path: "CleanPath (u_path (r_url signin_request)) = ''/signin''"
  by code_simp

lemma signin_outcome:
  "sign_in_reply demo (normalizeForwardedHeaders demo signin_request)
     (nativeLoginReturnTo (normalizeForwardedHeaders demo signin_request))
     (demo_world (Some (demo_credential ''good''))) = (302, ''/'')"
  by code_simp


definition callback_request :: request where
  "callback_request = demo_request ''GET'' ''/auth/callback?state=st&code=c'' [] (OtherBody [])"

lemma callback_path: "CleanPath (u_path (r_url callback_request)) = ''/auth/callback''"
  by code_simp

lemma callback_outcome:
  "callback_reply demo (normalizeForwardedHeaders demo callback_request)
     (demo_world (Some (demo_credential ''good''))) = (302, ''/'')"
  by code_simp

theorem callback_replies_witness:
  "reply (gw_w (handle demo callback_request (demo_world (Some (demo_credential ''good''))))) = Some (302, ''/'')"
proof -
  have env: "gw_env (entered demo callback_request s) = s" for s
    unfolding callback_request_def by (rule demo_entered_env)
  have "r_method callback_request = ''GET''" by (simp add: callback_request_def demo_request_def)
  then show ?thesis
    using callback_replies [of callback_request demo "demo_world (Some (demo_credential ''good''))"]
      callback_path callback_outcome
    by (simp add: env)
qed

definition link_request :: request where
  "link_request =
     demo_request ''POST'' ''/n8n-link'' session_cookie
       (UrlencodedBody ''csrf_token=tok&n8n_email_or_login_id=me&n8n_password=good'')"

lemma link_path: "CleanPath (u_path (r_url link_request)) = ''/n8n-link''"
  by code_simp

lemma link_outcome:
  "link_form_reply demo (normalizeForwardedHeaders demo link_request) (demo_world None) = (302, ''/'')"
  by code_simp

theorem link_form_replies_witness:
  "reply (gw_w (handle demo link_request (demo_world None))) = Some (302, ''/'')"
proof -
  have env: "gw_env (entered demo link_request s) = s" for s
    unfolding link_request_def by (rule demo_entered_env)
  have "r_method link_request = ''POST''" by (simp add: link_request_def demo_request_def)
  then show ?thesis
    using link_form_replies [of link_request demo "demo_world None"] link_path link_outcome
    by (simp add: env)
qed

end
