(* ===== verification/Endpoints.thy ===== *)
theory Endpoints
  imports Replies
begin

text \<open>
  End-to-end behaviour of single endpoints: logout, readiness, the blocked native login, the public
  executions, and the recovery from a panic.
\<close>

subsection \<open>Logout\<close>

fun deleted_id :: "event \<Rightarrow> string option" where
  "deleted_id (DeletedSession i res) = Some i"
| "deleted_id e = None"

definition sent_cookies :: "response \<Rightarrow> string list" where
  "sent_cookies w = (case w_sent w of None \<Rightarrow> [] | Some (code, h) \<Rightarrow> h ''Set-Cookie'')"

lemma run_deleteSessions:
  "gw_w (snd (run_state (deleteSessions S ids) g)) = gw_w g
   \<and> List.map_filter deleted_id (gw_log (snd (run_state (deleteSessions S ids) g))) =
       rev ids @ List.map_filter deleted_id (gw_log g)"
proof (induction ids arbitrary: g)
  case (Cons i ids)
  show ?case
    using Cons.IH [of "g\<lparr>gw_env := snd (srv_DeleteSession S i (gw_env g)),
      gw_log := DeletedSession i (fst (srv_DeleteSession S i (gw_env g))) # gw_log g\<rparr>"]
    by (simp add: run_rules List.map_filter_def)
qed (simp add: run_rules)

lemma clear_cookies_shown:
  "list_all (\<lambda>c. cookie_string c \<noteq> []) (ClearProxySessionCookies secure @ [ClearN8NBridgeCookie secure])"
proof -
  have "list_all (\<lambda>c. cookie_string c \<noteq> []) (ClearProxySessionCookies True @ [ClearN8NBridgeCookie True])"
    "list_all (\<lambda>c. cookie_string c \<noteq> []) (ClearProxySessionCookies False @ [ClearN8NBridgeCookie False])"
    by code_simp+
  then show ?thesis by (cases secure) (simp_all only:)
qed

lemma set_cookies_header:
  "list_all (\<lambda>c. cookie_string c \<noteq> []) cs \<Longrightarrow>
     w_header (fold set_cookie cs w) ''Set-Cookie'' = w_header w ''Set-Cookie'' @ map cookie_string cs"
  by (induction cs arbitrary: w) (simp_all add: set_cookie_def)

lemma n8n_cookies_header:
  "fold (\<lambda>c. hadd ''Set-Cookie'' (RewriteSetCookie c b)) cs h ''Set-Cookie'' =
     h ''Set-Cookie'' @ map (\<lambda>c. RewriteSetCookie c b) cs"
  by (induction cs arbitrary: h) simp_all

lemma sent_cookies_redirect:
  "fresh w \<Longrightarrow> sent_cookies (redirect_found r t w) = w_header w ''Set-Cookie''"
  by (simp add: sent_cookies_def redirect_found_def Let_def write_body_def write_header_def fresh_def)

lemma logout_run:
  assumes "CleanPath (u_path (r_url r)) = ''/auth/logout''" and "r_method r = ''POST''"
  obtains w n8n e where "gw_w (handle S r s) = redirect_found (normalizeForwardedHeaders S r) ''/'' w" and "fresh w"
    and "w_header w ''Set-Cookie'' = map (\<lambda>c. RewriteSetCookie c (CookieSecure (cfg S))) n8n
      @ map cookie_string (ClearProxySessionCookies (CookieSecure (cfg S)) @ [ClearN8NBridgeCookie (CookieSecure (cfg S))])"
    and "gw_log (snd (dispatched S r s)) =
      e # gw_log (snd (run_state (deleteSessions S (sessionCookieIDs S r)) (entered S r s)))" and "deleted_id e = None"
proof -
  let ?r = "normalizeForwardedHeaders S r" and ?secure = "CookieSecure (cfg S)"
  have cls: "class_of S r = RouteInternal"
    by (rule internal_class) (simp add: isInternalPath_def assms(1))
  have serve: "serveInternal S ?r = State_Monad.bind (handleProxyLogout S ?r) (\<lambda>_. State_Monad.return False)"
    using assms by (simp add: serveInternal_def)
  define g where "g = snd (run_state (deleteSessions S (sessionCookieIDs S r)) (entered S r s))"
  define n8n where "n8n = lo_Cookies (fst (fst (srv_Logout S (hget (r_header r) ''Cookie'') (gw_env g))))"
  have w: "gw_w g = gw_w (entered S r s)"
    using run_deleteSessions [of S "sessionCookieIDs S r" "entered S r s"] by (simp add: g_def)
  define h where "h = fold (\<lambda>c. hadd ''Set-Cookie'' (RewriteSetCookie c ?secure)) n8n (w_header (gw_w g))"
  define w' where "w' = set_cookie (ClearN8NBridgeCookie ?secure)
      (fold set_cookie (ClearProxySessionCookies ?secure) ((gw_w g)\<lparr>w_header := h\<rparr>))"
  have run: "fst (dispatched S r s) = False \<and> gw_w (snd (dispatched S r s)) = redirect_found ?r ''/'' w'
      \<and> (\<exists>e. deleted_id e = None \<and> gw_log (snd (dispatched S r s)) = e # gw_log g)"
    using cls serve
    by (simp add: dispatched_def dispatch_def handleProxyLogout_def n8nLogout_def run_rules redirect_def
        g_def [symmetric] w'_def h_def n8n_def writeN8NCookies_def clearProxySessionCookies_def clearBridgeCookie_def)
  have "fresh w'" unfolding w'_def by (simp add: h_def w)
  moreover have "w_header (gw_w g) ''Set-Cookie'' = []"
    unfolding w entered_simps(2)
    by (simp add: applySecurityHeaders_def Let_def new_response_def)
  then have "w_header w' ''Set-Cookie'' = map (\<lambda>c. RewriteSetCookie c ?secure) n8n
         @ map cookie_string (ClearProxySessionCookies ?secure @ [ClearN8NBridgeCookie ?secure])"
    using set_cookies_header [OF clear_cookies_shown [of ?secure], of "(gw_w g)\<lparr>w_header := h\<rparr>"]
    by (simp add: w'_def h_def n8n_cookies_header)
  moreover have "gw_w (handle S r s) = redirect_found ?r ''/'' w'"
    using run by (simp add: handle_response)
  ultimately show ?thesis using that run by (auto simp: g_def)
qed

lemma logout_reply:
  assumes "CleanPath (u_path (r_url r)) = ''/auth/logout''" and "r_method r = ''POST''"
  shows "reply (gw_w (handle S r s)) = Some (302, location r ''/'')"
proof (rule logout_run [OF assms, of S s])
  fix w
  assume "gw_w (handle S r s) = redirect_found (normalizeForwardedHeaders S r) ''/'' w" and "fresh w"
  then show ?thesis by (simp add: location_def)
qed

text \<open>
  Property C20. Logging out deletes every session that a cookie of the request names, in any of the cookie
  names and not only the first, whatever the deletions and the logout at n8n answer; the browser is
  told to drop the session cookies and the bridge cookie after the cookies of n8n's answer.
\<close>

theorem logout_is_complete:
  assumes "CleanPath (u_path (r_url r)) = ''/auth/logout''" and "r_method r = ''POST''"
  shows "List.map_filter deleted_id (rev (gw_log (handle S r s))) = sessionCookieIDs S r
    \<and> reply (gw_w (handle S r s)) = Some (302, location r ''/'')
    \<and> (\<exists>n8n. sent_cookies (gw_w (handle S r s)) =
         map (\<lambda>c. RewriteSetCookie c (CookieSecure (cfg S))) n8n
         @ map cookie_string (ClearProxySessionCookies (CookieSecure (cfg S))
             @ [ClearN8NBridgeCookie (CookieSecure (cfg S))]))"
proof -
  obtain w n8n e where w: "gw_w (handle S r s) = redirect_found (normalizeForwardedHeaders S r) ''/'' w" "fresh w"
      "w_header w ''Set-Cookie'' = map (\<lambda>c. RewriteSetCookie c (CookieSecure (cfg S))) n8n
        @ map cookie_string (ClearProxySessionCookies (CookieSecure (cfg S)) @ [ClearN8NBridgeCookie (CookieSecure (cfg S))])"
    and e: "gw_log (snd (dispatched S r s)) =
        e # gw_log (snd (run_state (deleteSessions S (sessionCookieIDs S r)) (entered S r s)))" "deleted_id e = None"
    using logout_run [OF assms] by metis
  have "bookkeeping e \<Longrightarrow> deleted_id e = None" for e by (cases e) auto
  then have "List.map_filter deleted_id (gw_log (entered S r s)) = []"
    using entered_log [of S r s] by (auto simp: List.map_filter_def filter_empty_conv list_all_iff)
  then have log: "List.map_filter deleted_id (gw_log (snd (run_state (deleteSessions S (sessionCookieIDs S r)) (entered S r s)))) =
      rev (sessionCookieIDs S r)"
    using run_deleteSessions [of S "sessionCookieIDs S r" "entered S r s"] by simp
  have rev: "List.map_filter deleted_id (rev l) = rev (List.map_filter deleted_id l)" for l
    by (simp add: List.map_filter_def rev_filter rev_map)
  obtain t f where "gw_log (handle S r s) =
     Counted ''request_duration'' [route_class_name (class_of S r)]
     # Counted ''requests'' [route_class_name (class_of S r), nat_decimal (w_recorded (gw_w (handle S r s)))]
     # ReadClock t # f # gw_log (snd (run_state (deleteSessions S (sessionCookieIDs S r)) (entered S r s)))"
    and "deleted_id f = None"
    using handle_log [of S r s] e by auto
  then have "List.map_filter deleted_id (rev (gw_log (handle S r s))) = sessionCookieIDs S r"
    using log unfolding rev by (simp add: List.map_filter_def)
  then show ?thesis
    using w(2,3) sent_cookies_redirect [OF w(2)] by (auto simp: w(1) location_def)
qed


definition logout_request :: request where
  "logout_request = demo_request ''POST'' ''/auth/logout'' bridge_cookies (OtherBody [])"

lemma logout_facts:
  "CleanPath (u_path (r_url logout_request)) = ''/auth/logout''"
  "sessionCookieIDs demo logout_request = [''sid'']" "location logout_request ''/'' = ''/''"
  by code_simp+

theorem logout_is_complete_witness:
  "List.map_filter deleted_id (rev (gw_log (handle demo logout_request (demo_world None)))) = [''sid'']
   \<and> reply (gw_w (handle demo logout_request (demo_world None))) = Some (302, ''/'')"
proof -
  have "r_method logout_request = ''POST''" by (simp add: logout_request_def demo_request_def)
  then show ?thesis
    using logout_is_complete [of logout_request demo "demo_world None"] logout_facts by simp
qed

subsection \<open>Readiness\<close>

fun is_ping :: "event \<Rightarrow> bool" where
  "is_ping (Pinged name ok) = True"
| "is_ping e = False"

lemma no_ping_entered: "filter is_ping (gw_log (entered S r s)) = []"
proof -
  have "bookkeeping e \<Longrightarrow> \<not> is_ping e" for e by (cases e) auto
  then show ?thesis using entered_log [of S r s] by (auto simp: filter_empty_conv list_all_iff)
qed

text \<open>
  The readiness check always asks all four services, in this order and each once, also when
  one has failed, and reports 200 exactly when all of them are well and 503 otherwise.
\<close>

theorem readiness_asks_everyone:
  assumes "CleanPath (u_path (r_url r)) = ''/readyz''" and "r_method r = ''GET''"
  shows "\<exists>redis vault n8n oidc.
      filter is_ping (rev (gw_log (handle S r s))) =
        [Pinged ''redis'' redis, Pinged ''vault'' vault, Pinged ''n8n'' n8n, Pinged ''oidc'' oidc]
      \<and> reply (gw_w (handle S r s)) =
          Some (if redis \<and> vault \<and> n8n \<and> oidc then 200 else 503, [])"
proof -
  let ?r = "normalizeForwardedHeaders S r"
  have cls: "class_of S r = RouteInternal"
    by (rule internal_class) (simp add: isInternalPath_def assms(1))
  have serve: "serveInternal S ?r = State_Monad.bind (handleReady S) (\<lambda>_. State_Monad.return False)"
    using assms by (simp add: serveInternal_def)
  obtain t where log: "gw_log (handle S r s) =
     Counted ''request_duration'' [route_class_name (class_of S r)]
     # Counted ''requests'' [route_class_name (class_of S r), nat_decimal (w_recorded (gw_w (handle S r s)))]
     # ReadClock t # gw_log (snd (dispatched S r s))"
    using handle_log [of S r s] by (rule exE)
  have pings: "filter is_ping (rev (gw_log (entered S r s))) = []"
    using no_ping_entered [of S r s] by (simp add: rev_filter [symmetric])
  define e1 where "e1 = srv_PingSessions S (gw_env (entered S r s))"
  define e2 where "e2 = srv_PingCredentials S (snd e1)"
  define e3 where "e3 = srv_PingN8N S (snd e2)"
  define e4 where "e4 = srv_PingOIDC S (snd e3)"
  note e = e1_def e2_def e3_def e4_def
  have "filter is_ping (rev (gw_log (handle S r s))) =
      [Pinged ''redis'' (fst e1 = None), Pinged ''vault'' (fst e2 = None), Pinged ''n8n'' (fst e3 = None),
       Pinged ''oidc'' (fst e4 = None)]"
    unfolding log
    by (simp add: dispatched_def dispatch_def cls serve handleReady_def Let_def run_rules pings e)
  moreover have "reply (gw_w (handle S r s)) =
      Some (if fst e1 = None \<and> fst e2 = None \<and> fst e3 = None \<and> fst e4 = None then 200 else 503, [])"
    by (simp add: handle_response dispatched_def dispatch_def cls serve handleReady_def Let_def run_rules e)
  ultimately show ?thesis by blast
qed

definition ready_request :: request where
  "ready_request = demo_request ''GET'' ''/readyz'' [] (OtherBody [])"

lemma ready_path: "CleanPath (u_path (r_url ready_request)) = ''/readyz''"
  by code_simp

theorem readiness_asks_everyone_witness:
  "\<exists>redis vault n8n oidc.
      filter is_ping (rev (gw_log (handle demo ready_request (demo_world None)))) =
        [Pinged ''redis'' redis, Pinged ''vault'' vault, Pinged ''n8n'' n8n, Pinged ''oidc'' oidc]
      \<and> reply (gw_w (handle demo ready_request (demo_world None))) =
          Some (if redis \<and> vault \<and> n8n \<and> oidc then 200 else 503, [])"
  by (rule readiness_asks_everyone [OF ready_path]) (simp add: ready_request_def demo_request_def)

subsection \<open>Blocked logins, public executions and panics\<close>

text \<open>
  Public executions go straight to their proxy: the response is the proxy's, started from the
  gateway's headers, and the proxy gets the request without untrusted forwarding headers. A blocked
  native login is 404 and nothing is asked or changed outside the gateway.
\<close>

theorem public_and_blocked_requests:
  assumes "class_of S r = RoutePublicExecution \<or> class_of S r = RouteBlockedNativeLogin"
  shows "if class_of S r = RouteBlockedNativeLogin
    then reply (gw_w (handle S r s)) = Some (404, []) \<and> dispatched S r s = (False, snd (dispatched S r s))
      \<and> gw_env (snd (dispatched S r s)) = gw_env (entered S r s)
    else dispatched S r s =
      (case srv_publicProxy S (normalizeForwardedHeaders S r) (gw_w (entered S r s)) (gw_env (entered S r s)) of
         ((panicked, w), s') \<Rightarrow>
           (panicked, (entered S r s)\<lparr>gw_w := w, gw_env := s',
              gw_log := Counted ''public_execution_inflight'' [''dec'']
                # PublicProxied (normalizeForwardedHeaders S r) panicked
                # Counted ''public_execution_inflight'' [''inc''] # gw_log (entered S r s)\<rparr>))"
  using assms
  by (auto simp: handle_response dispatched_def dispatch_def run_rules not_found_def)

definition webhook_request :: request where
  "webhook_request = demo_request ''POST'' ''/webhook/abc'' [] (OtherBody [])"

definition native_login_request :: request where
  "native_login_request = demo_request ''POST'' ''/rest/login'' [] (OtherBody [])"

lemma public_classes:
  "class_of demo webhook_request = RoutePublicExecution"
  "class_of demo native_login_request = RouteBlockedNativeLogin"
  by code_simp+

theorem public_and_blocked_requests_witness:
  "reply (gw_w (handle demo native_login_request (demo_world None))) = Some (404, [])"
  using public_and_blocked_requests [of demo native_login_request "demo_world None"] public_classes(2) by simp

text \<open>
  A panic while a request is dispatched never escapes: the status that is recorded and counted
  is 500. The client sees 500 only if nothing had been sent; otherwise it keeps the status it has, and
  the text of the error is added to the partial body.
\<close>

theorem panics_are_recovered:
  "case dispatched S r s of (panicked, g) \<Rightarrow>
     if panicked then
       w_recorded (gw_w (handle S r s)) = 500
       \<and> map_option fst (w_sent (gw_w (handle S r s))) =
           (case w_sent (gw_w g) of None \<Rightarrow> Some 500 | Some (code, h) \<Rightarrow> Some code)
       \<and> w_body (gw_w (handle S r s)) = w_body (gw_w g) @ ''internal server error'' @ newline
     else gw_w (handle S r s) = gw_w g"
  by (simp add: handle_response case_prod_unfold http_error_def write_body_def write_header_def
      split: option.splits)

end
