(* ===== verification/Assembly.thy ===== *)
theory Assembly
  imports Upstream Endpoints
begin

text \<open>
  \<open>httpserver.New\<close>: the server with its two reverse proxies, and what the properties of the handlers and
  of the proxy say about the whole.
\<close>

subsection \<open>The server\<close>

text \<open>
  \<open>Dependencies\<close>: the services and the configuration (the fields of a server), and the two proxies, which
  the program leaves out. \<open>upstreamErrors\<close> is the effect of the counter of upstream errors with its label,
  \<open>metricsHTTP\<close> the handler of the metrics library.
\<close>

record 's Dependencies =
  deps_Services :: "'s Server"
  deps_PublicProxy :: "'s http_handler option"
  deps_ConsoleProxy :: "'s http_handler option"

definition newPublicProxy :: "'s round_trip \<Rightarrow> (string \<Rightarrow> 's \<Rightarrow> 's) \<Rightarrow> Config \<Rightarrow> 's http_handler" where
  "newPublicProxy transport upstreamErrors c =
     BodyLimitMiddleware
       (ReverseProxy_ServeHTTP
         (NewWithPublicBaseAndErrorCallback transport (N8NUpstreamURL c) (Some (PublicBaseURL c))
           (PublicExecutionTimeout c) (CookieSecure c)
           (Some (upstreamErrors (route_class_name RoutePublicExecution)))))
       (PublicExecutionBodyLimit c)"

definition newConsoleProxy :: "'s round_trip \<Rightarrow> (string \<Rightarrow> 's \<Rightarrow> 's) \<Rightarrow> Config \<Rightarrow> 's http_handler" where
  "newConsoleProxy transport upstreamErrors c =
     ReverseProxy_ServeHTTP
       (NewWithPublicBaseAndErrorCallback transport (N8NUpstreamURL c) (Some (PublicBaseURL c))
         (ConsoleProxyTimeout c) (CookieSecure c)
         (Some (upstreamErrors (route_class_name RouteProtectedConsole))))"

definition NewServer ::
  "'s round_trip \<Rightarrow> (string \<Rightarrow> 's \<Rightarrow> 's) \<Rightarrow> 's http_handler \<Rightarrow> 's Dependencies \<Rightarrow> 's Server" where
  "NewServer transport upstreamErrors metricsHTTP deps =
     (let c = cfg (deps_Services deps)
      in (deps_Services deps)
           \<lparr>srv_publicProxy :=
              (case deps_PublicProxy deps of Some p \<Rightarrow> p | None \<Rightarrow> newPublicProxy transport upstreamErrors c),
            srv_consoleProxy :=
              (case deps_ConsoleProxy deps of Some p \<Rightarrow> p | None \<Rightarrow> newConsoleProxy transport upstreamErrors c),
            srv_metricsHTTP := metricsHTTP\<rparr>)"

text \<open>The server that the program runs, which is given no proxies.\<close>

definition production :: "'s round_trip \<Rightarrow> (string \<Rightarrow> 's \<Rightarrow> 's) \<Rightarrow> 's http_handler \<Rightarrow> 's Server \<Rightarrow> 's Server" where
  "production T errors metrics S =
     NewServer T errors metrics \<lparr>deps_Services = S, deps_PublicProxy = None, deps_ConsoleProxy = None\<rparr>"

lemma production_simps [simp]:
  "cfg (production T errors metrics S) = cfg S"
  "srv_publicProxy (production T errors metrics S) = newPublicProxy T errors (cfg S)"
  "srv_consoleProxy (production T errors metrics S) = newConsoleProxy T errors (cfg S)"
  "srv_metricsHTTP (production T errors metrics S) = metrics"
  by (simp_all add: production_def NewServer_def Let_def)

lemma new_proxies_polite:
  assumes "no_interim T"
  shows "polite (newPublicProxy T errors c)" and "polite (newConsoleProxy T errors c)"
  unfolding newPublicProxy_def newConsoleProxy_def
  by (intro limited_polite reverse_proxy_polite [OF assms])+

subsection \<open>The security headers of the program\<close>

text \<open>
  Property C21. Every response of the program carries the security headers and the request identifier, also
  when it is n8n's, whatever n8n answers. The first values of \<open>X-Content-Type-Options\<close>,
  \<open>X-Frame-Options\<close> and \<open>Referrer-Policy\<close> are the gateway's, on the pages of the gateway also that of
  \<open>Content-Security-Policy\<close>, and \<open>X-Request-Id\<close> is the request's identifier, which is the client's
  where it sent one. This holds for the header map and for what went out. It is assumed that n8n sends no
  interim responses, and that the handler of the metrics library leaves these headers alone.
\<close>

theorem program_security_headers:
  assumes "no_interim T" and "polite metrics"
  shows "let S' = production T errors metrics S; w = gw_w (handle S' r s);
      incoming = trim_space (hget (r_header r) ''X-Request-Id'') in
    kept ''X-Content-Type-Options'' ''nosniff'' w \<and> kept ''X-Frame-Options'' ''SAMEORIGIN'' w
    \<and> kept ''Referrer-Policy'' ''no-referrer'' w
    \<and> (if includesCSP (class_of S' r) then kept ''Content-Security-Policy'' contentSecurityPolicy w else True)
    \<and> (\<exists>rid. kept ''X-Request-Id'' rid w \<and> (if incoming = [] then rid \<noteq> [] else rid = incoming))"
  using security_headers [of "production T errors metrics S" r s] new_proxies_polite [OF assms(1)] assms(2)
  by (simp add: Let_def)

definition node_answer :: upstream_response where
  "node_answer =
     \<lparr>up_status = 200, up_header = empty_header, up_body = ''ok'', up_broken = False, up_takeover = False\<rparr>"

definition node_transport :: "'s round_trip" where
  "node_transport limit q s =
     ((if r_header q ''Expect'' = [] then [] else [(100, empty_header)],
       Inr node_answer), s)"

definition demo_metrics :: "'s http_handler" where
  "demo_metrics r w s = ((False, write_body ''metrics'' w), s)"

definition demo_program :: "world Server" where
  "demo_program = production node_transport (\<lambda>_ s. s) demo_metrics demo"

definition expecting :: request where
  "expecting = webhook_request\<lparr>r_header := hset ''Expect'' ''100-continue'' (r_header webhook_request)\<rparr>"

lemma dispatched_public:
  assumes "class_of S r = RoutePublicExecution"
  shows "fst (dispatched S r s) =
      fst (fst (srv_publicProxy S (normalizeForwardedHeaders S r) (gw_w (entered S r s)) (gw_env (entered S r s))))"
    and "gw_w (snd (dispatched S r s)) =
      snd (fst (srv_publicProxy S (normalizeForwardedHeaders S r) (gw_w (entered S r s)) (gw_env (entered S r s))))"
    and "gw_env (snd (dispatched S r s)) =
      snd (srv_publicProxy S (normalizeForwardedHeaders S r) (gw_w (entered S r s)) (gw_env (entered S r s)))"
  using assms by (simp_all add: dispatched_def dispatch_def run_rules)


text \<open>The response to a public execution when n8n answers in full.\<close>

definition public_request :: "'s Server \<Rightarrow> request \<Rightarrow> request option" where
  "public_request S r =
     (let c = cfg S; n = normalizeForwardedHeaders S r
      in upstream_request (N8NUpstreamURL c) (Some (PublicBaseURL c))
           (if PublicExecutionBodyLimit c > 0 then n\<lparr>r_body := limit_body (PublicExecutionBodyLimit c) (r_body n)\<rparr> else n))"

lemma public_response:
  assumes "class_of S r = RoutePublicExecution" and "public_request S r = Some q"
    and "\<And>limit s. \<exists>s'. T limit q s = ((early, Inr res), s')"
    and "200 \<le> up_status res" and "\<not> up_broken res"
  shows "w_sent (gw_w (handle (production T errors metrics S) r s)) =
    Some (up_status res, client_header (CookieSecure (cfg S))
      (if early = [] then w_header (gw_w (entered (production T errors metrics S) r s)) else empty_header) (up_header res))"
proof -
  let ?S = "production T errors metrics S"
  have c: "class_of ?S r = RoutePublicExecution" using assms(1) by (simp add: class_of_def)
  have n: "normalizeForwardedHeaders ?S r = normalizeForwardedHeaders S r"
    by (simp add: normalizeForwardedHeaders_def)
  obtain h where e: "gw_w (entered ?S r s) = unsent h" by (simp add: entered_simps unsent_def)
  have "copy_header (RewriteSetCookies secure (remove_hop_by_hop g)) h' = client_header secure h' g" for secure g h'
    by (auto simp: copy_header_def client_header_def RewriteSetCookies_apply remove_hop_by_hop_apply)
  moreover obtain s' where "\<And>limit s. T limit q s = ((early, Inr res), s' limit s)"
    using assms(3) by metis
  ultimately show ?thesis
    using assms(2,4,5)
    by (simp add: handle_response dispatched_public [OF c] newPublicProxy_def BodyLimitMiddleware_def n proxy_run
        public_request_def Let_def e copy_response_def interim_unsent unsent_simps write_header_def write_body_def)
qed

definition dead_transport :: "world round_trip" where
  "dead_transport limit q s = (([], Inl DeadlineExceeded), s)"

theorem program_security_headers_witness:
  "kept ''X-Frame-Options'' ''SAMEORIGIN''
     (gw_w (handle (production dead_transport (\<lambda>_ s. s) demo_metrics demo)
        webhook_request (demo_world None)))"
proof -
  have "no_interim dead_transport" by (simp add: no_interim_def dead_transport_def)
  moreover have "polite (demo_metrics :: world http_handler)"
    by (auto simp: polite_def keeps_response_def demo_metrics_def kept_def write_body_def split: option.splits)
  ultimately show ?thesis
    using program_security_headers [of dead_transport demo_metrics "\<lambda>_ s. s" demo
        webhook_request "demo_world None"]
    by (simp add: Let_def)
qed

lemma program_class: "class_of demo_program r = class_of demo r"
  by (simp add: demo_program_def class_of_def)

text \<open>
  Property C24. A defect: an interim response of n8n clears the headers that the gateway has set. A client that
  sends \<open>Expect: 100-continue\<close>, which the proxy passes on and which n8n answers with an interim 100, gets a
  response without \<open>X-Frame-Options\<close>, \<open>X-Content-Type-Options\<close>, \<open>Referrer-Policy\<close> and \<open>X-Request-Id\<close>;
  without \<open>Expect\<close> it gets them.
\<close>

theorem interim_response_clears_headers:
  "case (w_sent (gw_w (handle demo_program expecting (demo_world None))),
         w_sent (gw_w (handle demo_program webhook_request (demo_world None)))) of
     (Some (code, h), Some (code', h')) \<Rightarrow>
       code = 200 \<and> code' = 200
       \<and> list_all (\<lambda>k. h k = [] \<and> h' k \<noteq> [])
           [''X-Frame-Options'', ''X-Content-Type-Options'', ''Referrer-Policy'', ''X-Request-Id'']
   | _ \<Rightarrow> False"
proof -
  have passed_on: "\<exists>q. public_request demo r = Some q \<and> r_header q ''Expect'' = r_header r ''Expect''"
    if "r_header r ''Connection'' = []" for r
    using that
    by (simp add: public_request_def Let_def upstream_request_def normalizeForwardedHeaders_def upgrade_type_def
        contains_token_def director_header outgoing_header_other connection_keys_def printable_def hopHeaders_def)
  have c: "class_of demo expecting = RoutePublicExecution"
    using public_classes(1) by (simp add: class_of_def expecting_def)
  have h: "r_header webhook_request ''Connection'' = []" "r_header expecting ''Connection'' = []"
    "r_header webhook_request ''Expect'' = []" "r_header expecting ''Expect'' = [''100-continue'']"
    by (simp_all add: expecting_def webhook_request_def demo_request_def demo_header_def)
  obtain p q where
    p: "public_request demo webhook_request = Some p" "r_header p ''Expect'' = []" and
    q: "public_request demo expecting = Some q" "r_header q ''Expect'' = [''100-continue'']"
    using passed_on [OF h(1)] passed_on [OF h(2)] h(3,4) by metis
  have k: "w_header (gw_w (entered S r s)) k \<noteq> []"
    if "k \<in> {''X-Frame-Options'', ''X-Content-Type-Options'', ''Referrer-Policy'', ''X-Request-Id''}" for S r s k
    using that by (auto simp: entered_simps applySecurityHeaders_def new_response_def Let_def)
  show ?thesis
    unfolding demo_program_def
    by (simp add: public_response [where res = node_answer and early = "[(100, empty_header)]", OF c q(1)]
        public_response [where res = node_answer and early = "[]", OF public_classes(1) p(1)]
        node_transport_def p(2) q(2) node_answer_def client_header_def connection_keys_def hopHeaders_def k)
qed


subsection \<open>The limit on bodies\<close>

definition too_large :: "'s Server \<Rightarrow> request \<Rightarrow> bool" where
  "too_large S r \<longleftrightarrow>
     (let limit = PublicExecutionBodyLimit (cfg S) in limit > 0 \<and> limit_body limit (r_body r) = UnreadableBody)"


definition reading_transport :: "world round_trip" where
  "reading_transport limit q s =
     (([], if r_body q = UnreadableBody then Inl (TransportFailure ''http: request body too large'')
           else Inr node_answer), s)"


end
