(* ===== verification/Go_Time.thy ===== *)
theory Go_Time
  imports Go_Net "HOL-Library.Monad_Syntax"
begin

text \<open>
  The part of Go's \<open>time\<close> that the stores use: the calendar, and times in the format of RFC 3339. A
  time is an instant (\<open>int\<close> nanoseconds since January 1 of year 1, UTC), so the zone that a parsed
  time remembers is not kept; the gateway writes times in UTC.
\<close>

subsection \<open>The calendar\<close>

definition leap_year :: "int \<Rightarrow> bool" where
  "leap_year y \<longleftrightarrow> y mod 4 = 0 \<and> (y mod 100 \<noteq> 0 \<or> y mod 400 = 0)"

definition days_before_year :: "int \<Rightarrow> int" where
  "days_before_year y = 365 * (y - 1) + (y - 1) div 4 - (y - 1) div 100 + (y - 1) div 400"

definition month_lengths :: "int \<Rightarrow> int list" where
  "month_lengths y = [31, if leap_year y then 29 else 28, 31, 30, 31, 30, 31, 31, 30, 31, 30, 31]"

text \<open>The year of a day (days since January 1 of year 1), by cycles of 400, 100, 4 and 1 years.\<close>

definition year_of_day :: "int \<Rightarrow> int" where
  "year_of_day d =
     (let n = d div 146097; r = d mod 146097;
          c = min 3 (r div 36524); r1 = r - 36524 * c;
          q = r1 div 1461; r2 = r1 - 1461 * q;
          y = min 3 (r2 div 365)
      in 400 * n + 100 * c + 4 * q + y + 1)"

fun split_month :: "int list \<Rightarrow> int \<Rightarrow> nat \<times> int" where
  "split_month [] d = (0, d)"
| "split_month (l # ls) d =
     (if d < l then (0, d) else (case split_month ls (d - l) of (m, r) \<Rightarrow> (Suc m, r)))"

text \<open>Year, month (from 1) and day of the month (from 1).\<close>

definition date_of_day :: "int \<Rightarrow> int \<times> nat \<times> nat" where
  "date_of_day d =
     (let y = year_of_day d
      in case split_month (month_lengths y) (d - days_before_year y) of (m, r) \<Rightarrow> (y, m + 1, nat r + 1))"

definition day_of_date :: "int \<Rightarrow> nat \<Rightarrow> nat \<Rightarrow> int" where
  "day_of_date y m d = days_before_year y + sum_list (take (m - 1) (month_lengths y)) + int d - 1"

lemma year_of_day_parts:
  obtains n c q y r where "d = 146097 * n + 36524 * c + 1461 * q + 365 * y + r"
    and "year_of_day d = 400 * n + 100 * c + 4 * q + y + 1"
    and "0 \<le> c" "c \<le> 3" "0 \<le> q" "q \<le> 24" "0 \<le> y" "y \<le> 3" "0 \<le> r"
    and "y < 3 \<Longrightarrow> r < 365" and "r < 366" and "c < 3 \<Longrightarrow> q = 24 \<Longrightarrow> y = 3 \<Longrightarrow> r < 365"
proof -
  define n where "n = d div 146097"
  define r0 where "r0 = d mod 146097"
  define c where "c = min 3 (r0 div 36524)"
  define r1 where "r1 = r0 - 36524 * c"
  define q where "q = r1 div 1461"
  define r2 where "r2 = r1 - 1461 * q"
  define y where "y = min 3 (r2 div 365)"
  have r0: "0 \<le> r0" "r0 < 146097" by (simp_all add: r0_def)
  have d: "d = 146097 * n + r0" by (simp add: n_def r0_def)
  have c: "0 \<le> c" "c \<le> 3" "0 \<le> r1" "r1 \<le> 36524" "c < 3 \<Longrightarrow> r1 < 36524"
    using r0 unfolding c_def r1_def by (simp_all add: min_def split: if_splits) linarith+
  have r2: "r2 = r1 mod 1461" by (simp add: r2_def q_def minus_mult_div_eq_mod)
  have q: "0 \<le> q" "q \<le> 24" using c by (auto simp: q_def)
  have r2b: "0 \<le> r2" "r2 < 1461" by (simp_all add: r2)
  have y: "0 \<le> y" "y \<le> 3" using r2b by (simp_all add: y_def)
  have "0 \<le> r2 - 365 * y" "y < 3 \<Longrightarrow> r2 - 365 * y < 365" "r2 - 365 * y < 366"
    using r2b unfolding y_def by (simp_all add: min_def split: if_splits) linarith+
  moreover have "r2 - 365 * y < 365" if "c < 3" "q = 24" "y = 3"
    using c(5) [OF that(1)] that by (simp add: r2_def)
  moreover have "d = 146097 * n + 36524 * c + 1461 * q + 365 * y + (r2 - 365 * y)"
    unfolding r2_def r1_def using d by simp
  moreover have "year_of_day d = 400 * n + 100 * c + 4 * q + y + 1"
    by (simp only: y_def r2_def q_def r1_def c_def r0_def n_def year_of_day_def Let_def)
  ultimately show ?thesis
    using that [of n c q y "r2 - 365 * y"] c(1,2) q y by blast
qed

lemma div_bounds:
  assumes "0 \<le> c" "c \<le> 3" "0 \<le> q" "q \<le> 24" "0 \<le> y" "y \<le> (3::int)"
  shows "(400 * n + 100 * c + 4 * q + y) div 4 = 100 * n + 25 * c + q"
    and "(400 * n + 100 * c + 4 * q + y) div 100 = 4 * n + c"
    and "(400 * n + 100 * c + 4 * q + y) div 400 = n"
  using assms by linarith+

text \<open>The year of a day is the one that the day falls into.\<close>

lemma year_of_day_bounds:
  "days_before_year (year_of_day d) \<le> d
   \<and> d - days_before_year (year_of_day d) < (if leap_year (year_of_day d) then 366 else 365)"
proof -
  obtain n c q y r where p: "d = 146097 * n + 36524 * c + 1461 * q + 365 * y + r"
    and Y: "year_of_day d = 400 * n + 100 * c + 4 * q + y + 1"
    and b: "0 \<le> c" "c \<le> 3" "0 \<le> q" "q \<le> 24" "0 \<le> y" "y \<le> 3" and r: "0 \<le> r"
    "y < 3 \<Longrightarrow> r < 365" "r < 366" "c < 3 \<Longrightarrow> q = 24 \<Longrightarrow> y = 3 \<Longrightarrow> r < 365"
    using year_of_day_parts [of d] by blast
  have "days_before_year (year_of_day d) = d - r"
    unfolding days_before_year_def Y using div_bounds [OF b, of n] by (simp add: p)
  moreover have "leap_year (year_of_day d)" if "y = 3" "q < 24 \<or> c = 3"
  proof -
    have "400 * n + 100 * c + 4 * q + 3 + 1 = 4 * (100 * n + 25 * c + q + 1)" by simp
    then have "(400 * n + 100 * c + 4 * q + 3 + 1) mod 4 = 0" by (metis mod_mult_self1_is_0)
    moreover have "(400 * n + 100 * c + 4 * q + 3 + 1) mod 100 \<noteq> 0" if "q < 24"
    proof -
      have "400 * n + 100 * c + 4 * q + 3 + 1 = 4 * (q + 1) + 100 * (4 * n + c)" by simp
      then have "(400 * n + 100 * c + 4 * q + 3 + 1) mod 100 = 4 * (q + 1)"
        using that b by (simp only: mod_mult_self2) simp
      then show ?thesis using b by simp
    qed
    moreover have "(400 * n + 100 * c + 4 * q + 3 + 1) mod 400 = 0" if "q = 24" "c = 3"
    proof -
      have "400 * n + 100 * c + 4 * q + 3 + 1 = 400 * (n + 1)" using that by simp
      then show ?thesis by (metis mod_mult_self1_is_0)
    qed
    moreover have "q < 24 \<or> q = 24 \<and> c = 3" using that(2) b by auto
    ultimately show ?thesis unfolding leap_year_def Y that(1) by metis
  qed
  ultimately show ?thesis using r b by (cases "y = 3") force+
qed


lemma split_month_bounds:
  "0 \<le> d \<Longrightarrow> d < sum_list ls \<Longrightarrow> split_month ls d = (m, r) \<Longrightarrow>
     m < length ls \<and> 0 \<le> r \<and> r < ls ! m \<and> sum_list (take m ls) + r = d"
  by (induction ls d arbitrary: m r rule: split_month.induct) (fastforce split: if_splits prod.splits)+

lemma sum_month_lengths: "sum_list (month_lengths y) = (if leap_year y then 366 else 365)"
  by (simp add: month_lengths_def)

lemma length_month_lengths [simp]: "length (month_lengths y) = 12"
  by (simp add: month_lengths_def)

lemma month_lengths_bound: "i < 12 \<Longrightarrow> 28 \<le> month_lengths y ! i \<and> month_lengths y ! i \<le> 31"
  by (auto simp: month_lengths_def nth_Cons numeral_eq_Suc less_Suc_eq split: nat.split)

text \<open>The date of a day is a valid date, and it is that day.\<close>

lemma date_of_day_valid:
  assumes "date_of_day d = (y, m, k)"
  shows "y = year_of_day d" and "1 \<le> m" and "m \<le> 12" and "1 \<le> k"
    and "int k \<le> month_lengths y ! (m - 1)" and "day_of_date y m k = d"
proof -
  let ?y = "year_of_day d"
  obtain i r where sm: "split_month (month_lengths ?y) (d - days_before_year ?y) = (i, r)"
    by (cases "split_month (month_lengths ?y) (d - days_before_year ?y)")
  have "i < 12 \<and> 0 \<le> r \<and> r < month_lengths ?y ! i
      \<and> sum_list (take i (month_lengths ?y)) + r = d - days_before_year ?y"
    using split_month_bounds [OF _ _ sm] year_of_day_bounds [of d] by (simp add: sum_month_lengths)
  moreover have "y = ?y" "m = i + 1" "k = nat r + 1"
    using assms by (simp_all add: date_of_day_def Let_def sm)
  ultimately show "y = ?y" "1 \<le> m" "m \<le> 12" "1 \<le> k" "int k \<le> month_lengths y ! (m - 1)" "day_of_date y m k = d"
    by (auto simp: day_of_date_def)
qed

subsection \<open>Fields\<close>

definition digit :: "nat \<Rightarrow> char" where
  "digit n = char_of (48 + n)"

definition pad2 :: "nat \<Rightarrow> string" where
  "pad2 n = [digit (n div 10), digit (n mod 10)]"

definition pad4 :: "nat \<Rightarrow> string" where
  "pad4 n = [digit (n div 1000), digit (n div 100 mod 10), digit (n div 10 mod 10), digit (n mod 10)]"

definition digit_value :: "char \<Rightarrow> nat" where
  "digit_value c = of_char c - 48"

lemma digit_facts:
  assumes "n < 10"
  shows "is_digit (digit n)" and "digit_value (digit n) = n" and "digit n \<noteq> CHR ''.''" and "digit n \<noteq> CHR '',''"
proof -
  have "list_all (\<lambda>n. is_digit (digit n) \<and> digit_value (digit n) = n \<and> digit n \<noteq> CHR ''.'' \<and> digit n \<noteq> CHR '','') [0..<10]"
    by code_simp
  then show "is_digit (digit n)" "digit_value (digit n) = n" "digit n \<noteq> CHR ''.''" "digit n \<noteq> CHR '',''"
    using assms by (simp_all add: list_all_iff)
qed


subsection \<open>Writing\<close>

text \<open>The nanoseconds of a time within its day, and \<open>Format(time.RFC3339)\<close> of a time in UTC.\<close>

abbreviation day :: duration where
  "day \<equiv> 24 * (60 * minute)"

definition format_date :: "int \<Rightarrow> nat \<Rightarrow> nat \<Rightarrow> string" where
  "format_date y m d = pad4 (nat y) @ ''-'' @ pad2 m @ ''-'' @ pad2 d"

definition format_clock :: "nat \<Rightarrow> string" where
  "format_clock s = pad2 (s div 3600) @ '':'' @ pad2 (s div 60 mod 60) @ '':'' @ pad2 (s mod 60)"

definition format_rfc3339 :: "time \<Rightarrow> string" where
  "format_rfc3339 t =
     (case date_of_day (t div day) of
        (y, m, d) \<Rightarrow> format_date y m d @ ''T'' @ format_clock (nat (t mod day div second)) @ ''Z'')"

subsection \<open>Reading\<close>

text \<open>
  \<open>time.Parse(time.RFC3339, _)\<close>: the fields in the order of the layout. The hour may have one digit,
  a fraction of a second may follow the seconds, after a dot or a comma, and the zone is \<open>Z\<close> or an
  offset.
\<close>

definition getnum :: "bool \<Rightarrow> string \<Rightarrow> (nat \<times> string) option" where
  "getnum fixed s =
     (case s of
        [] \<Rightarrow> None
      | a # rest \<Rightarrow>
          if \<not> is_digit a then None
          else
            (case rest of
               b # rest' \<Rightarrow>
                 if is_digit b then Some (digit_value a * 10 + digit_value b, rest')
                 else if fixed then None else Some (digit_value a, rest)
             | [] \<Rightarrow> if fixed then None else Some (digit_value a, rest)))"

definition get_year :: "string \<Rightarrow> (nat \<times> string) option" where
  "get_year s =
     (if length s \<ge> 4 \<and> list_all is_digit (take 4 s) then Some (decimal (take 4 s), drop 4 s) else None)"

definition expect :: "char \<Rightarrow> string \<Rightarrow> string option" where
  "expect c s = (case s of [] \<Rightarrow> None | d # rest \<Rightarrow> if d = c then Some rest else None)"

definition get_field :: "nat \<Rightarrow> nat \<Rightarrow> bool \<Rightarrow> string \<Rightarrow> (nat \<times> string) option" where
  "get_field lo hi fixed s =
     (case getnum fixed s of
        None \<Rightarrow> None
      | Some (n, rest) \<Rightarrow> if lo \<le> n \<and> n \<le> hi then Some (n, rest) else None)"

definition get_fraction :: "string \<Rightarrow> nat \<times> string" where
  "get_fraction s =
     (case s of
        p # d # _ \<Rightarrow>
          if (p = CHR ''.'' \<or> p = CHR '','') \<and> is_digit d then
            (let ds = takeWhile is_digit (tl s); k = take 9 ds
             in (decimal k * 10 ^ (9 - length k), drop (length ds) (tl s)))
          else (0, s)
      | _ \<Rightarrow> (0, s))"

text \<open>The offset of the zone in seconds.\<close>

definition get_zone :: "string \<Rightarrow> (int \<times> string) option" where
  "get_zone s =
     (case s of
        [] \<Rightarrow> None
      | c # rest \<Rightarrow>
          if c = CHR ''Z'' then Some (0, rest)
          else if length s < 6 \<or> s ! 3 \<noteq> CHR '':'' then None
          else
            (case (get_field 0 24 True (take 2 (drop 1 s)), get_field 0 60 True (take 2 (drop 4 s))) of
               (Some (h, _), Some (m, _)) \<Rightarrow>
                 if c = CHR ''+'' then Some (int (h * 3600 + m * 60), drop 6 s)
                 else if c = CHR ''-'' then Some (- int (h * 3600 + m * 60), drop 6 s)
                 else None
             | _ \<Rightarrow> None))"

definition parse_date :: "string \<Rightarrow> ((nat \<times> nat \<times> nat) \<times> string) option" where
  "parse_date s =
     do { (y, s) \<leftarrow> get_year s;
          s \<leftarrow> expect CHR ''-'' s;
          (m, s) \<leftarrow> get_field 1 12 True s;
          s \<leftarrow> expect CHR ''-'' s;
          (d, s) \<leftarrow> getnum True s;
          Some ((y, m, d), s) }"

definition parse_clock :: "string \<Rightarrow> ((nat \<times> nat) \<times> string) option" where
  "parse_clock s =
     do { (h, s) \<leftarrow> get_field 0 23 False s;
          s \<leftarrow> expect CHR '':'' s;
          (m, s) \<leftarrow> get_field 0 59 True s;
          s \<leftarrow> expect CHR '':'' s;
          (sec, s) \<leftarrow> get_field 0 59 True s;
          (let (ns, s) = get_fraction s in Some ((h * 3600 + m * 60 + sec, ns), s)) }"

definition parse_rfc3339 :: "string \<Rightarrow> time option" where
  "parse_rfc3339 s =
     do { ((y, m, d), s) \<leftarrow> parse_date s;
          s \<leftarrow> expect CHR ''T'' s;
          ((secs, ns), s) \<leftarrow> parse_clock s;
          (offset, s) \<leftarrow> get_zone s;
          (if s = [] \<and> 1 \<le> d \<and> int d \<le> month_lengths (int y) ! (m - 1)
           then Some (day_of_date (int y) m d * day + (int secs - offset) * second + int ns)
           else None) }"

text \<open>The times that both formats can write.\<close>

definition four_digit_year :: "time \<Rightarrow> bool" where
  "four_digit_year t \<longleftrightarrow> 0 \<le> year_of_day (t div day) \<and> year_of_day (t div day) < 10000"

lemma time_examples:
  "format_rfc3339 0 = ''0001-01-01T00:00:00Z''"
  "format_rfc3339 (62135596800 * second + 123) = ''1970-01-01T00:00:00Z''"
  "format_rfc3339 ((62135596800 + 951826155) * second) = ''2000-02-29T12:09:15Z''"
  "parse_rfc3339 ''2000-02-29T12:09:15Z'' = Some ((62135596800 + 951826155) * second)"
  "parse_rfc3339 ''2000-02-29T21:09:15.5+09:00'' = Some ((62135596800 + 951826155) * second + 500000000)"
  "parse_rfc3339 ''2001-02-29T12:09:15Z'' = None"
  by code_simp+


subsection \<open>Reading what was written\<close>

lemma getnum_pad2 [simp]: "n < 100 \<Longrightarrow> getnum fixed (pad2 n @ s) = Some (n, s)"
  using digit_facts [of "n div 10"] digit_facts [of "n mod 10"] by (simp add: getnum_def pad2_def)

lemma get_field_pad2 [simp]: "lo \<le> n \<Longrightarrow> n \<le> hi \<Longrightarrow> n < 100 \<Longrightarrow> get_field lo hi fixed (pad2 n @ s) = Some (n, s)"
  by (simp add: get_field_def)

lemma expect_Cons [simp]: "expect c (c # s) = Some s"
  by (simp add: expect_def)

lemma get_year_pad4 [simp]:
  assumes "n < 10000"
  shows "get_year (pad4 n @ s) = Some (n, s)"
proof -
  have lt: "n div 1000 < 10" "n div 100 mod 10 < 10" "n div 10 mod 10 < 10" "n mod 10 < 10" using assms by simp_all
  note v = lt [THEN digit_facts(2), unfolded digit_value_def]
  have "n div 1000 = n div 10 div 10 div 10" "n div 100 = n div 10 div 10" by (simp_all add: div_mult2_eq [symmetric])
  then have "((n div 1000 * 10 + n div 100 mod 10) * 10 + n div 10 mod 10) * 10 + n mod 10 = n" by simp
  then have "decimal (pad4 n) = n" by (simp add: decimal_def pad4_def v del: mult.commute)
  moreover have "length (pad4 n) = 4" "list_all is_digit (pad4 n)"
    using lt [THEN digit_facts(1)] by (simp_all add: pad4_def)
  ultimately show ?thesis by (simp add: get_year_def)
qed

lemma parse_date_format:
  assumes "0 \<le> y" "y < 10000" "1 \<le> m" "m \<le> 12" "d < 100"
  shows "parse_date (format_date y m d @ s) = Some ((nat y, m, d), s)"
  using assms by (simp add: parse_date_def format_date_def)

lemma parse_clock_format:
  assumes "n < 86400"
  shows "parse_clock (format_clock n @ ''Z'' @ s) = Some ((n, 0), ''Z'' @ s)"
proof -
  have "n div 3600 = n div 60 div 60" by (simp add: div_mult2_eq [symmetric])
  moreover have "n div 60 div 60 * 60 + n div 60 mod 60 = n div 60" "n div 60 * 60 + n mod 60 = n" by simp_all
  ultimately have "n div 3600 * 3600 + n div 60 mod 60 * 60 + n mod 60 = n" by linarith
  moreover have h: "n div 3600 < 24" using assms by simp
  moreover have "get_fraction (CHR ''Z'' # s) = (0, CHR ''Z'' # s)"
    by (simp add: get_fraction_def split: list.split)
  moreover have "n div 3600 \<le> 23" "n div 60 mod 60 \<le> 59" "n mod 60 \<le> 59"
    using h by simp_all
  ultimately show ?thesis by (simp add: parse_clock_def format_clock_def)
qed

lemma parse_written:
  assumes "0 \<le> y" "y < 10000" "1 \<le> m" "m \<le> 12" "1 \<le> d" "int d \<le> month_lengths y ! (m - 1)" "n < 86400"
  shows "parse_rfc3339 (format_date y m d @ ''T'' @ format_clock n @ ''Z'') =
    Some (day_of_date y m d * day + int n * second)"
proof -
  have "month_lengths y ! (m - 1) \<le> 31" using month_lengths_bound [of "m - 1" y] assms by simp
  then have "d < 100" using assms(6) by linarith
  then show ?thesis
    using assms by (simp add: parse_rfc3339_def parse_date_format parse_clock_format [simplified, of _ "[]"] get_zone_def)
qed

text \<open>A time in years 0 to 9999 is read back up to its fraction of a second.\<close>

lemma parse_format_rfc3339:
  assumes "four_digit_year t"
  shows "parse_rfc3339 (format_rfc3339 t) = Some (t - t mod second)"
proof -
  obtain y m d where dt: "date_of_day (t div day) = (y, m, d)" by (cases "date_of_day (t div day)")
  note v = date_of_day_valid [OF dt]
  have y: "0 \<le> y" "y < 10000" using assms v(1) by (simp_all add: four_digit_year_def)
  let ?n = "nat (t mod day div second)"
  have "0 \<le> t mod day" "t mod day < day" by simp_all
  then have n: "?n < 86400" and tn: "int ?n = t mod day div second" by (simp_all add: nat_less_iff div_less_iff_less_mult)
  have "t div day * day + t mod day div second * second = t - t mod second"
  proof -
    have "t mod day mod second = t mod second" by (simp add: mod_mod_cancel)
    then have "t mod day div second * second = t mod day - t mod second"
      using div_mult_mod_eq [of "t mod day" second] by simp
    then show ?thesis using div_mult_mod_eq [of t day] by simp
  qed
  then have "day_of_date y m d * day + int ?n * second = t - t mod second" by (simp only: v(6) tn)
  moreover have "format_rfc3339 t = format_date y m d @ ''T'' @ format_clock ?n @ ''Z''"
    by (simp only: format_rfc3339_def dt prod.case)
  ultimately show ?thesis using parse_written [OF y v(2-5) n] by simp
qed

end
