(* ===== verification/Vault_Store.thy ===== *)
theory Vault_Store
  imports Go_Time Credential_Store "HOL-Library.Signed_Division"
begin

text \<open>
  \<open>src/internal/vault/credential_store.go\<close>: the store that keeps n8n credentials in a KV version 2 engine
  of HashiCorp Vault. The Vault client library is a parameter: each of its operations is a function of
  the client's token and the state of the world.
\<close>

subsection \<open>The client library\<close>

text \<open>A value of a secret's data (\<open>any\<close>), as far as the code looks into it.\<close>

datatype vault_value = VString string | VMap "string \<rightharpoonup> vault_value" | VOther

type_synonym vault_data = "string \<rightharpoonup> vault_value"

record secret =
  sec_Data :: "vault_data option"
  sec_Auth :: "(string \<times> int) option"

datatype api_err = ResponseError nat string | ApiFailure string

fun api_text :: "api_err \<Rightarrow> string" where
  "api_text (ResponseError status text) = text"
| "api_text (ApiFailure text) = text"

record 's VaultApi =
  api_Read :: "string \<Rightarrow> string \<Rightarrow> 's \<Rightarrow> (api_err + secret option) \<times> 's"
  api_Write :: "string \<Rightarrow> string \<Rightarrow> vault_data \<Rightarrow> 's \<Rightarrow> (api_err + secret option) \<times> 's"
  api_Delete :: "string \<Rightarrow> string \<Rightarrow> 's \<Rightarrow> (api_err + secret option) \<times> 's"
  api_LookupSelf :: "string \<Rightarrow> 's \<Rightarrow> (api_err + secret option) \<times> 's"
  api_RenewSelf :: "string \<Rightarrow> 's \<Rightarrow> (api_err + secret option) \<times> 's"
  api_now :: "'s \<Rightarrow> time \<times> 's"

subsection \<open>The store\<close>

text \<open>
  \<open>KVStore\<close>; the token that its client holds, which logging in changes, is part of the state
  \<open>'s vault\<close>, beside the world.
\<close>

record KVStore =
  kv_mount :: string
  kv_prefix :: string
  kv_roleID :: string
  kv_secretID :: string

record AuthConfig =
  auth_Token :: string
  auth_RoleID :: string
  auth_SecretID :: string

record 's vault =
  vt_token :: string
  vt_world :: 's

type_synonym ('s, 'a) api_call = "string \<Rightarrow> 's \<Rightarrow> (api_err + 'a) \<times> 's"

definition with_token :: "('s, 'a) api_call \<Rightarrow> 's vault \<Rightarrow> (api_err + 'a) \<times> 's vault" where
  "with_token f v = (case f (vt_token v) (vt_world v) of (r, w) \<Rightarrow> (r, v\<lparr>vt_world := w\<rparr>))"

text \<open>A login: the lease duration of the new token in seconds.\<close>

definition login_data :: "string \<Rightarrow> string \<Rightarrow> vault_data" where
  "login_data roleID secretID = [''role_id'' \<mapsto> VString roleID, ''secret_id'' \<mapsto> VString secretID]"

definition loginAppRole :: "'s VaultApi \<Rightarrow> string \<Rightarrow> string \<Rightarrow> 's vault \<Rightarrow> (string + int) \<times> 's vault" where
  "loginAppRole A roleID secretID v =
     (case with_token (\<lambda>t. api_Write A t ''auth/approle/login'' (login_data roleID secretID)) v of
        (Inl e, v') \<Rightarrow> (Inl (''vault approle login: '' @ api_text e), v')
      | (Inr s, v') \<Rightarrow>
          (case Option.bind s sec_Auth of
             None \<Rightarrow> (Inl ''vault approle login did not return a token'', v')
           | Some (token, lease) \<Rightarrow>
               if token = [] then (Inl ''vault approle login did not return a token'', v')
               else (Inr lease, v'\<lparr>vt_token := token\<rparr>)))"

definition isVaultAuthError :: "api_err \<Rightarrow> bool" where
  "isVaultAuthError e =
     (case e of
        ResponseError status text \<Rightarrow> status = 401 \<or> status = 403
      | ApiFailure text \<Rightarrow> str_contains (to_lower text) ''permission denied'')"

definition reauthenticateAfterAuthError :: "'s VaultApi \<Rightarrow> KVStore \<Rightarrow> api_err \<Rightarrow> 's vault \<Rightarrow> bool \<times> 's vault" where
  "reauthenticateAfterAuthError A K e v =
     (if kv_roleID K = [] \<or> kv_secretID K = [] \<or> \<not> isVaultAuthError e then (False, v)
      else
        (case loginAppRole A (kv_roleID K) (kv_secretID K) v of
           (Inl _, v') \<Rightarrow> (False, v')
         | (Inr _, v') \<Rightarrow> (True, v')))"

subsection \<open>Credentials as data\<close>

definition stringValue :: "vault_value option \<Rightarrow> string" where
  "stringValue x = (case x of Some (VString s) \<Rightarrow> s | _ \<Rightarrow> [])"

definition parseTime :: "string \<Rightarrow> time" where
  "parseTime v = (if v = [] then 0 else case parse_rfc3339 v of Some t \<Rightarrow> t | None \<Rightarrow> 0)"

definition decodeCredential :: "vault_data \<Rightarrow> string + Credential" where
  "decodeCredential data =
     (let cred =
        \<lparr>cred_Issuer = stringValue (data ''issuer''), cred_Subject = stringValue (data ''subject''),
         cred_Email = stringValue (data ''email''),
         N8NEmailOrLoginID = stringValue (data ''n8n_email_or_login_id''),
         N8NPassword = stringValue (data ''n8n_password''), LinkedAt = 0, UpdatedAt = 0\<rparr>
      in if cred_Issuer cred = [] \<or> cred_Subject cred = [] \<or> N8NEmailOrLoginID cred = [] \<or> N8NPassword cred = []
         then Inl ''vault credential is missing required fields''
         else Inr (cred\<lparr>LinkedAt := parseTime (stringValue (data ''linked_at'')),
                        UpdatedAt := parseTime (stringValue (data ''updated_at''))\<rparr>))"

definition credentialData :: "Credential \<Rightarrow> vault_data" where
  "credentialData cred =
     [''issuer'' \<mapsto> VString (cred_Issuer cred), ''subject'' \<mapsto> VString (cred_Subject cred),
      ''email'' \<mapsto> VString (cred_Email cred),
      ''n8n_email_or_login_id'' \<mapsto> VString (N8NEmailOrLoginID cred),
      ''n8n_password'' \<mapsto> VString (N8NPassword cred),
      ''linked_at'' \<mapsto> VString (format_rfc3339 (LinkedAt cred)),
      ''updated_at'' \<mapsto> VString (format_rfc3339 (UpdatedAt cred))]"

text \<open>The credential in the answer to a read.\<close>

definition secretCredential :: "secret option \<Rightarrow> vault_err + Credential" where
  "secretCredential s =
     (case Option.bind s sec_Data of
        None \<Rightarrow> Inl CredNotFound
      | Some d \<Rightarrow>
          (case d ''data'' of
             Some (VMap m) \<Rightarrow> (case decodeCredential m of Inl e \<Rightarrow> Inl (VaultFail e) | Inr c \<Rightarrow> Inr c)
           | _ \<Rightarrow> Inl CredNotFound))"

subsection \<open>Operations\<close>

definition KVGet :: "'s VaultApi \<Rightarrow> KVStore \<Rightarrow> string \<Rightarrow> string \<Rightarrow> 's vault \<Rightarrow> (vault_err + Credential) \<times> 's vault" where
  "KVGet A K issuer subject v =
     (let read = with_token (\<lambda>t. api_Read A t (dataPath (kv_mount K) (kv_prefix K) issuer subject));
          failed = (\<lambda>e. Inl (VaultFail (''vault read credential: '' @ api_text e)))
      in case read v of
           (Inr s, v1) \<Rightarrow> (secretCredential s, v1)
         | (Inl e, v1) \<Rightarrow>
             (case reauthenticateAfterAuthError A K e v1 of
                (False, v2) \<Rightarrow> (failed e, v2)
              | (True, v2) \<Rightarrow>
                  (case read v2 of
                     (Inl e', v3) \<Rightarrow> (failed e', v3)
                   | (Inr s, v3) \<Rightarrow> (secretCredential s, v3))))"

definition KVPut :: "'s VaultApi \<Rightarrow> KVStore \<Rightarrow> Credential \<Rightarrow> 's vault \<Rightarrow> vault_err option \<times> 's vault" where
  "KVPut A K cred0 v0 =
     (case api_now A (vt_world v0) of
        (now, w) \<Rightarrow>
          (let cred = cred0\<lparr>LinkedAt := (if LinkedAt cred0 = 0 then now else LinkedAt cred0), UpdatedAt := now\<rparr>;
               payload = [''data'' \<mapsto> VMap (credentialData cred)];
               write = with_token (\<lambda>t. api_Write A t
                         (dataPath (kv_mount K) (kv_prefix K) (cred_Issuer cred) (cred_Subject cred)) payload);
               failed = (\<lambda>e. Some (VaultFail (''vault write credential: '' @ api_text e)))
           in case write (v0\<lparr>vt_world := w\<rparr>) of
                (Inr _, v1) \<Rightarrow> (None, v1)
              | (Inl e, v1) \<Rightarrow>
                  (case reauthenticateAfterAuthError A K e v1 of
                     (False, v2) \<Rightarrow> (failed e, v2)
                   | (True, v2) \<Rightarrow>
                       (case write v2 of (Inr _, v3) \<Rightarrow> (None, v3) | (Inl e', v3) \<Rightarrow> (failed e', v3)))))"

definition KVDelete :: "'s VaultApi \<Rightarrow> KVStore \<Rightarrow> string \<Rightarrow> string \<Rightarrow> 's vault \<Rightarrow> vault_err option \<times> 's vault" where
  "KVDelete A K issuer subject v =
     (let delete = with_token (\<lambda>t. api_Delete A t (metadataPath (kv_mount K) (kv_prefix K) issuer subject));
          failed = (\<lambda>e. Some (VaultFail (''vault delete credential metadata: '' @ api_text e)))
      in case delete v of
           (Inr _, v1) \<Rightarrow> (None, v1)
         | (Inl e, v1) \<Rightarrow>
             (case reauthenticateAfterAuthError A K e v1 of
                (False, v2) \<Rightarrow> (failed e, v2)
              | (True, v2) \<Rightarrow>
                  (case delete v2 of (Inr _, v3) \<Rightarrow> (None, v3) | (Inl e', v3) \<Rightarrow> (failed e', v3))))"

definition KVPing :: "'s VaultApi \<Rightarrow> KVStore \<Rightarrow> 's vault \<Rightarrow> vault_err option \<times> 's vault" where
  "KVPing A K v =
     (let failed = (\<lambda>e. Some (VaultFail (''vault token lookup: '' @ api_text e)))
      in case with_token (api_LookupSelf A) v of
           (Inr _, v1) \<Rightarrow> (None, v1)
         | (Inl e, v1) \<Rightarrow>
             (case reauthenticateAfterAuthError A K e v1 of
                (False, v2) \<Rightarrow> (failed e, v2)
              | (True, v2) \<Rightarrow>
                  (case with_token (api_LookupSelf A) v2 of
                     (Inr _, v3) \<Rightarrow> (None, v3) | (Inl e', v3) \<Rightarrow> (failed e', v3))))"


subsection \<open>Starting\<close>

text \<open>
  \<open>startTokenRenewal\<close>: the interval of its ticker, in Go's 64-bit integers, and what it does at a tick.
\<close>

definition wrap64 :: "int \<Rightarrow> int" where
  "wrap64 x = signed_take_bit 63 x"

definition minInterval :: duration where
  "minInterval = 5 * minute"

definition renewalInterval :: "int \<Rightarrow> duration" where
  "renewalInterval ttlSeconds0 =
     (let ttlSeconds = (if ttlSeconds0 \<le> 0 then 3600 else ttlSeconds0);
          interval = wrap64 ((wrap64 (ttlSeconds * 2) sdiv 3) * second)
      in if interval < minInterval then minInterval else interval)"

definition renewalTick :: "'s VaultApi \<Rightarrow> KVStore \<Rightarrow> 's vault \<Rightarrow> 's vault" where
  "renewalTick A K v =
     (case with_token (api_RenewSelf A) v of
        (Inr _, v1) \<Rightarrow> v1
      | (Inl _, v1) \<Rightarrow> snd (loginAppRole A (kv_roleID K) (kv_secretID K) v1))"

text \<open>
  \<open>NewStore\<close>: \<open>newClient\<close> makes the client for an address. The result is the client, the store and the
  interval of the renewal, if that was started.
\<close>

definition NewStore ::
  "(string \<Rightarrow> string + 's VaultApi) \<Rightarrow> string \<Rightarrow> AuthConfig \<Rightarrow> string \<Rightarrow> string \<Rightarrow> 's vault
    \<Rightarrow> (string + 's VaultApi \<times> KVStore \<times> duration option) \<times> 's vault" where
  "NewStore newClient addr auth mount pfx v =
     (case newClient addr of
        Inl e \<Rightarrow> (Inl (''create vault client: '' @ e), v)
      | Inr A \<Rightarrow>
          (let store = \<lparr>kv_mount = trim_chars mount ''/'', kv_prefix = trim_chars pfx ''/'', kv_roleID = [], kv_secretID = []\<rparr>
           in if auth_Token auth \<noteq> [] then (Inr (A, store, None), v\<lparr>vt_token := auth_Token auth\<rparr>)
              else if auth_RoleID auth \<noteq> [] \<and> auth_SecretID auth \<noteq> [] then
                (case loginAppRole A (auth_RoleID auth) (auth_SecretID auth) v of
                   (Inl e, v') \<Rightarrow> (Inl e, v')
                 | (Inr ttl, v') \<Rightarrow>
                     (Inr (A, store\<lparr>kv_roleID := auth_RoleID auth, kv_secretID := auth_SecretID auth\<rparr>,
                           Some (renewalInterval ttl)), v'))
              else (Inl ''vault auth is not configured'', v)))"

subsection \<open>One retry\<close>

text \<open>
  The plan that all operations follow: a call that fails is made again if, and only if, the error was
  one of authentication and a new login succeeded. The second result stands.
\<close>

definition retried ::
  "'s VaultApi \<Rightarrow> KVStore \<Rightarrow> ('s vault \<Rightarrow> (api_err + 'a) \<times> 's vault) \<Rightarrow> 's vault \<Rightarrow> (api_err + 'a) \<times> 's vault" where
  "retried A K f v =
     (case f v of
        (Inr x, v1) \<Rightarrow> (Inr x, v1)
      | (Inl e, v1) \<Rightarrow>
          (case reauthenticateAfterAuthError A K e v1 of (again, v2) \<Rightarrow> if again then f v2 else (Inl e, v2)))"

definition failure :: "string \<Rightarrow> api_err + 'a \<Rightarrow> vault_err option" where
  "failure what r = (case r of Inl e \<Rightarrow> Some (VaultFail (what @ api_text e)) | Inr _ \<Rightarrow> None)"

definition stamped :: "Credential \<Rightarrow> time \<Rightarrow> Credential" where
  "stamped c now = c\<lparr>LinkedAt := (if LinkedAt c = 0 then now else LinkedAt c), UpdatedAt := now\<rparr>"

abbreviation read_call where
  "read_call A K i u \<equiv> with_token (\<lambda>t. api_Read A t (dataPath (kv_mount K) (kv_prefix K) i u))"

abbreviation write_call where
  "write_call A K c \<equiv>
     with_token (\<lambda>t. api_Write A t (dataPath (kv_mount K) (kv_prefix K) (cred_Issuer c) (cred_Subject c))
       [''data'' \<mapsto> VMap (credentialData c)])"

abbreviation delete_call where
  "delete_call A K i u \<equiv> with_token (\<lambda>t. api_Delete A t (metadataPath (kv_mount K) (kv_prefix K) i u))"

lemma KVGet_retried:
  "KVGet A K i u v =
     (case retried A K (read_call A K i u) v of
        (Inl e, v') \<Rightarrow> (Inl (VaultFail (''vault read credential: '' @ api_text e)), v')
      | (Inr s, v') \<Rightarrow> (secretCredential s, v'))"
  by (simp add: KVGet_def retried_def Let_def split: prod.split sum.split)

lemma KVPut_retried:
  "KVPut A K c v =
     (case api_now A (vt_world v) of
        (now, w) \<Rightarrow> apfst (failure ''vault write credential: '')
          (retried A K (write_call A K (stamped c now)) (v\<lparr>vt_world := w\<rparr>)))"
  by (simp add: KVPut_def retried_def failure_def stamped_def Let_def split: prod.split sum.split)

lemma KVDelete_retried:
  "KVDelete A K i u v =
     apfst (failure ''vault delete credential metadata: '') (retried A K (delete_call A K i u) v)"
  by (simp add: KVDelete_def retried_def failure_def Let_def split: prod.split sum.split)

lemma KVPing_retried:
  "KVPing A K v = apfst (failure ''vault token lookup: '') (retried A K (with_token (api_LookupSelf A)) v)"
  by (simp add: KVPing_def retried_def failure_def Let_def split: prod.split sum.split)


end
