(* ===== verification/Vault_Laws.thy ===== *)
theory Vault_Laws
  imports Vault_Store
begin

text \<open>
  What the Vault store promises: its operations meet the contract of a credential store wherever the
  engine does what Vault documents for version 2 of its KV engine, and what is written is read back.
\<close>

subsection \<open>The renewal of tokens\<close>

lemma wrap64_id: "- (2 ^ 63) \<le> x \<Longrightarrow> x < 2 ^ 63 \<Longrightarrow> wrap64 x = x"
  by (simp add: wrap64_def signed_take_bit_int_eq_self)

lemma renewalInterval_value:
  assumes "0 < ttl" and "ttl \<le> 13000000000"
  shows "renewalInterval ttl = max minInterval ((2 * ttl div 3) * second)"
proof -
  have "wrap64 (ttl * 2) = 2 * ttl" using assms by (subst wrap64_id) simp_all
  moreover have "(2 * ttl) sdiv 3 = 2 * ttl div 3" using assms by (simp add: signed_divide_int_def)
  moreover have "2 * ttl div 3 \<le> 8666666667" "0 \<le> 2 * ttl div 3" using assms by simp_all
  then have "wrap64 ((2 * ttl div 3) * second) = (2 * ttl div 3) * second"
    by (intro wrap64_id) simp_all
  ultimately show ?thesis using assms by (simp add: renewalInterval_def Let_def max_def)
qed


subsection \<open>The data of a credential\<close>

definition complete :: "Credential \<Rightarrow> bool" where
  "complete c \<longleftrightarrow> cred_Issuer c \<noteq> [] \<and> cred_Subject c \<noteq> [] \<and> N8NEmailOrLoginID c \<noteq> [] \<and> N8NPassword c \<noteq> []"

definition whole_seconds :: "Credential \<Rightarrow> Credential" where
  "whole_seconds c =
     c\<lparr>LinkedAt := LinkedAt c - LinkedAt c mod second, UpdatedAt := UpdatedAt c - UpdatedAt c mod second\<rparr>"

lemma parseTime_format: "four_digit_year t \<Longrightarrow> parseTime (format_rfc3339 t) = t - t mod second"
  using parse_format_rfc3339 [of t]
  by (auto simp: four_digit_year_def parseTime_def parse_rfc3339_def parse_date_def get_year_def)

lemma decode_credentialData:
  assumes "complete c" and "four_digit_year (LinkedAt c)" and "four_digit_year (UpdatedAt c)"
  shows "decodeCredential (credentialData c) = Inr (whole_seconds c)"
  using assms
  by (simp add: decodeCredential_def credentialData_def stringValue_def complete_def parseTime_format
      whole_seconds_def Let_def)

subsection \<open>Paths\<close>

text \<open>A mount or prefix of one or more normal segments.\<close>

definition clean_path :: "string \<Rightarrow> bool" where
  "clean_path p \<longleftrightarrow> list_all normal_segment (split_on CHR ''/'' p)"

definition slot_of :: "KVStore \<Rightarrow> string \<Rightarrow> string \<Rightarrow> string" where
  "slot_of K issuer subject =
     (if kv_prefix K = [] then [] else kv_prefix K @ ''/'') @ HashComponent issuer @ ''/'' @ HashComponent subject"

lemma path_clean_normal:
  assumes "clean_path p"
  shows "path_clean p = p"
proof -
  have n: "normal_segment q" if "q \<in> set (split_on CHR ''/'' p)" for q
    using assms that by (simp add: clean_path_def list_all_iff)
  have p: "p \<noteq> []" using assms by (auto simp: clean_path_def normal_segment_def)
  moreover have "hd p \<noteq> CHR ''/''"
    using n [of "[]"] p by (cases p) (auto simp: normal_segment_def)
  ultimately show ?thesis by (simp add: path_clean_def clean_segments_id n join_split_on)
qed

lemma clean_path_join:
  "clean_path p \<Longrightarrow> clean_path q \<Longrightarrow> clean_path (p @ ''/'' @ q)"
  by (simp add: clean_path_def split_on_append)

lemma clean_path_hash: "clean_path (HashComponent v)"
  using HashComponent_normal [of v] by (simp add: clean_path_def split_on_notin normal_segment_def)

lemma vault_paths:
  assumes "clean_path (kv_mount K)" and "kv_prefix K = [] \<or> clean_path (kv_prefix K)"
  shows "dataPath (kv_mount K) (kv_prefix K) i u = kv_mount K @ ''/data/'' @ slot_of K i u"
    and "metadataPath (kv_mount K) (kv_prefix K) i u = kv_mount K @ ''/metadata/'' @ slot_of K i u"
proof -
  have ne: "p \<noteq> []" if "clean_path p" for p using that by (auto simp: clean_path_def normal_segment_def)
  have "path_join [kv_mount K, w, kv_prefix K, HashComponent i, HashComponent u]
      = kv_mount K @ ''/'' @ w @ ''/'' @ slot_of K i u" if "clean_path w" for w
  proof -
    have "clean_path (kv_mount K @ ''/'' @ w @ ''/'' @ slot_of K i u)"
      using assms that clean_path_hash [of i] clean_path_hash [of u]
      by (auto simp: slot_of_def intro!: clean_path_join [simplified])
    from path_clean_normal [OF this] show ?thesis
      using assms that ne [OF clean_path_hash] by (auto simp: path_join_def slot_of_def dest: ne)
  qed
  from this [of "''data''"] this [of "''metadata''"]
  show "dataPath (kv_mount K) (kv_prefix K) i u = kv_mount K @ ''/data/'' @ slot_of K i u"
    "metadataPath (kv_mount K) (kv_prefix K) i u = kv_mount K @ ''/metadata/'' @ slot_of K i u"
    by (simp_all add: dataPath_def metadataPath_def clean_path_def normal_segment_def)
qed


subsection \<open>The engine\<close>

text \<open>
  Version 2 of Vault's KV engine, mounted at \<open>mount\<close>, as its documentation describes it: \<open>contents\<close> is the
  current data of every key. Reading and writing go to \<open>mount/data/key\<close>; deleting
  \<open>mount/metadata/key\<close> removes all versions. An operation that reports an error may or may not have
  had its effect on its own key. Logging in touches no key.
\<close>

definition secret_data :: "secret option \<Rightarrow> vault_data option" where
  "secret_data s =
     Option.bind (Option.bind s sec_Data) (\<lambda>d. case d ''data'' of Some (VMap m) \<Rightarrow> Some m | _ \<Rightarrow> None)"

lemma secretCredential_data:
  "secretCredential s =
     (case secret_data s of
        None \<Rightarrow> Inl CredNotFound
      | Some m \<Rightarrow> (case decodeCredential m of Inl e \<Rightarrow> Inl (VaultFail e) | Inr c \<Rightarrow> Inr c))"
proof (cases s)
  case (Some x)
  then show ?thesis
    by (cases "sec_Data x") (auto simp: secretCredential_def secret_data_def split: option.split vault_value.split)
qed (simp add: secretCredential_def secret_data_def)

locale vault_kv2 =
  fixes A :: "'s VaultApi" and mount :: string and contents :: "'s \<Rightarrow> string \<rightharpoonup> vault_data"
  assumes read_data: "api_Read A t (mount @ ''/data/'' @ k) w = (Inr s, w') \<Longrightarrow>
      contents w' = contents w \<and> secret_data s = contents w k"
    and read_fails: "api_Read A t (mount @ ''/data/'' @ k) w = (Inl e, w') \<Longrightarrow> contents w' = contents w"
    and write_data: "api_Write A t (mount @ ''/data/'' @ k) [''data'' \<mapsto> VMap m] w = (Inr s, w') \<Longrightarrow>
      contents w' = (contents w)(k \<mapsto> m)"
    and write_fails: "api_Write A t (mount @ ''/data/'' @ k) d w = (Inl e, w') \<Longrightarrow>
      (contents w')(k := contents w k) = contents w"
    and delete_data: "api_Delete A t (mount @ ''/metadata/'' @ k) w = (Inr s, w') \<Longrightarrow>
      contents w' = (contents w)(k := None)"
    and delete_fails: "api_Delete A t (mount @ ''/metadata/'' @ k) w = (Inl e, w') \<Longrightarrow>
      (contents w')(k := contents w k) = contents w"
    and login_keeps: "api_Write A t ''auth/approle/login'' d w = (r, w') \<Longrightarrow> contents w' = contents w"
    and clock_keeps: "api_now A w = (now, w') \<Longrightarrow> contents w' = contents w"
begin

abbreviation kept_in :: "'s vault \<Rightarrow> string \<rightharpoonup> vault_data" where
  "kept_in v \<equiv> contents (vt_world v)"

lemma reauth_keeps: "reauthenticateAfterAuthError A K e v = (b, v') \<Longrightarrow> kept_in v' = kept_in v"
  using login_keeps
  by (auto simp: reauthenticateAfterAuthError_def loginAppRole_def with_token_def
      split: if_splits prod.splits sum.splits option.splits)

text \<open>A retried call that succeeds has the effect of one that succeeds at once.\<close>

lemma retried_read:
  assumes "retried A K (with_token (\<lambda>t. api_Read A t (mount @ ''/data/'' @ k))) v = (Inr s, v')"
  shows "kept_in v' = kept_in v \<and> secret_data s = kept_in v k"
  using assms read_data read_fails reauth_keeps
  by (fastforce simp: retried_def with_token_def split: prod.splits sum.splits if_splits)

lemma retried_update:
  assumes "retried A K (with_token f) v = (Inr s, v')"
    and "\<And>t w s w'. f t w = (Inr s, w') \<Longrightarrow> contents w' = (contents w)(k := x)"
    and "\<And>t w e w'. f t w = (Inl e, w') \<Longrightarrow> (contents w')(k := contents w k) = contents w"
  shows "kept_in v' = (kept_in v)(k := x)"
proof (cases "f (vt_token v) (vt_world v)")
  case (Pair r w1)
  show ?thesis
  proof (cases r)
    case (Inr y)
    then show ?thesis using assms(1,2) Pair by (auto simp: retried_def with_token_def)
  next
    case (Inl e)
    obtain b v2 where a: "reauthenticateAfterAuthError A K e (v\<lparr>vt_world := w1\<rparr>) = (b, v2)"
      by (cases "reauthenticateAfterAuthError A K e (v\<lparr>vt_world := w1\<rparr>)")
    have "kept_in v2 = contents w1" using reauth_keeps [OF a] by simp
    moreover have "contents (vt_world v') = (kept_in v2)(k := x)"
      using assms(1,2) Pair Inl a
      by (auto simp: retried_def with_token_def split: prod.splits if_splits)
    moreover have "(contents w1)(k := contents (vt_world v) k) = contents (vt_world v)"
      using assms(3) Pair Inl by blast
    ultimately show ?thesis by (metis fun_upd_upd)
  qed
qed

end

text \<open>The login kept under a key.\<close>

definition login_at :: "('s \<Rightarrow> string \<rightharpoonup> vault_data) \<Rightarrow> 's vault \<Rightarrow> string \<Rightarrow> (string \<times> string) option" where
  "login_at contents v k =
     map_option (\<lambda>m. (stringValue (m ''n8n_email_or_login_id''), stringValue (m ''n8n_password'')))
       (contents (vt_world v) k)"

lemma decoded_login:
  "decodeCredential m = Inr c \<Longrightarrow>
     login_of c = (stringValue (m ''n8n_email_or_login_id''), stringValue (m ''n8n_password''))"
  by (auto simp: decodeCredential_def login_of_def Let_def split: if_splits)

lemma credentialData_login:
  "(stringValue (credentialData c ''n8n_email_or_login_id''), stringValue (credentialData c ''n8n_password'')) = login_of c"
  by (simp add: credentialData_def stringValue_def login_of_def)

text \<open>A store whose paths need no cleaning, on such an engine.\<close>

locale kv_store = vault_kv2 A "kv_mount K" contents
  for A :: "'s VaultApi" and K :: KVStore and contents :: "'s \<Rightarrow> string \<rightharpoonup> vault_data" +
  assumes mount_clean: "clean_path (kv_mount K)"
    and prefix_clean: "kv_prefix K = [] \<or> clean_path (kv_prefix K)"
begin

lemmas paths = vault_paths [OF mount_clean prefix_clean]

lemma KVPut_stores:
  assumes "KVPut A K c v = (None, v')"
  shows "\<exists>now w. api_now A (vt_world v) = (now, w)
    \<and> kept_in v' = (kept_in v)(slot_of K (cred_Issuer c) (cred_Subject c) \<mapsto> credentialData (stamped c now))"
proof -
  obtain now w where n: "api_now A (vt_world v) = (now, w)" by (cases "api_now A (vt_world v)")
  obtain s where "retried A K (write_call A K (stamped c now)) (v\<lparr>vt_world := w\<rparr>) = (Inr s, v')"
    using assms by (auto simp: KVPut_retried n failure_def apfst_def map_prod_def split: prod.splits sum.splits)
  then have "kept_in v' = (contents w)(slot_of K (cred_Issuer c) (cred_Subject c) \<mapsto> credentialData (stamped c now))"
    using retried_update [of K _ "v\<lparr>vt_world := w\<rparr>" s v' "slot_of K (cred_Issuer c) (cred_Subject c)"
        "Some (credentialData (stamped c now))"] write_data write_fails
    by (auto simp: paths stamped_def)
  then show ?thesis using n clock_keeps by simp
qed

lemma KVGet_reads:
  assumes "KVGet A K i u v = (r, v')"
  shows "case r of
      Inr c \<Rightarrow> kept_in v' = kept_in v \<and> Option.bind (kept_in v (slot_of K i u)) (\<lambda>m. Some (decodeCredential m)) = Some (Inr c)
    | Inl e \<Rightarrow> e = CredNotFound \<longrightarrow> kept_in v' = kept_in v \<and> kept_in v (slot_of K i u) = None"
proof (cases "retried A K (read_call A K i u) v")
  case (Pair x v1)
  show ?thesis
  proof (cases x)
    case (Inl e)
    then show ?thesis using assms Pair by (auto simp: KVGet_retried)
  next
    case (Inr s)
    have k: "kept_in v1 = kept_in v" "secret_data s = kept_in v (slot_of K i u)"
      using retried_read [of K "slot_of K i u" v s v1] Pair Inr by (simp_all add: paths)
    have r: "r = secretCredential s" "v' = v1" using assms Pair Inr by (auto simp: KVGet_retried)
    show ?thesis
      using k by (auto simp: r secretCredential_data split: sum.split option.splits)
  qed
qed

lemma KVDelete_removes:
  assumes "KVDelete A K i u v = (None, v')"
  shows "kept_in v' = (kept_in v)(slot_of K i u := None)"
proof -
  obtain s where "retried A K (delete_call A K i u) v = (Inr s, v')"
    using assms by (auto simp: KVDelete_retried failure_def apfst_def map_prod_def split: prod.splits sum.splits)
  then show ?thesis
    using retried_update [of K _ v s v' "slot_of K i u" None] delete_data delete_fails by (auto simp: paths)
qed

end

sublocale kv_store \<subseteq> credential_store "KVGet A K" "KVPut A K" "KVDelete A K" "login_at contents" "slot_of K"
proof unfold_locales
  fix i u v v' c
  show "KVGet A K i u v = (Inr c, v') \<Longrightarrow>
      login_at contents v (slot_of K i u) = Some (login_of c) \<and> login_at contents v' = login_at contents v"
    using KVGet_reads [of i u v "Inr c" v'] decoded_login
    by (auto simp: login_at_def fun_eq_iff split: bind_splits)
  show "KVGet A K i u v = (Inl CredNotFound, v') \<Longrightarrow>
      login_at contents v (slot_of K i u) = None \<and> login_at contents v' = login_at contents v"
    using KVGet_reads [of i u v "Inl CredNotFound" v'] by (auto simp: login_at_def fun_eq_iff)
  show "KVPut A K c v = (None, v') \<Longrightarrow>
      login_at contents v' = (login_at contents v)(slot_of K (cred_Issuer c) (cred_Subject c) := Some (login_of c))"
    by (rule ext, drule KVPut_stores)
      (use credentialData_login in \<open>auto simp: login_at_def stamped_def login_of_def\<close>)
  show "KVDelete A K i u v = (None, v') \<Longrightarrow> login_at contents v' = (login_at contents v)(slot_of K i u := None)"
    using KVDelete_removes [of i u v v'] by (auto simp: login_at_def fun_eq_iff)
qed

context kv_store
begin

lemma is_credential_store:
  "credential_store (KVGet A K) (KVPut A K) (KVDelete A K) (login_at contents) (slot_of K)"
  by unfold_locales

lemma KVPut_KVGet:
  assumes "KVPut A K c v = (None, v1)" and "complete c"
    and "four_digit_year (LinkedAt c)" and "four_digit_year (fst (api_now A (vt_world v)))"
  shows "case fst (KVGet A K (cred_Issuer c) (cred_Subject c) v1) of
      Inr d \<Rightarrow> d = whole_seconds (stamped c (fst (api_now A (vt_world v)))) | Inl e \<Rightarrow> e \<noteq> CredNotFound"
proof -
  let ?s = "stamped c (fst (api_now A (vt_world v)))"
  have k: "kept_in v1 (slot_of K (cred_Issuer c) (cred_Subject c)) = Some (credentialData ?s)"
    using KVPut_stores [OF assms(1)] by auto
  have "decodeCredential (credentialData ?s) = Inr (whole_seconds ?s)"
    using assms(2-4) by (intro decode_credentialData) (auto simp: stamped_def complete_def)
  then show ?thesis
    using k KVGet_reads [of "cred_Issuer c" "cred_Subject c" v1 "fst (KVGet A K (cred_Issuer c) (cred_Subject c) v1)"
        "snd (KVGet A K (cred_Issuer c) (cred_Subject c) v1)"]
    by (auto split: sum.splits)
qed

end

subsection \<open>An engine\<close>

text \<open>
  A KV engine that checks tokens, for concrete runs: a call with a token it does not know is refused
  with 403, and a login with the right identifiers makes a new token known.
\<close>

record kv_world =
  kv_contents :: "string \<rightharpoonup> vault_data"
  kv_tokens :: "string list"
  kv_clock :: time

definition after_prefix :: "string \<Rightarrow> string \<Rightarrow> string option" where
  "after_prefix p s = (if prefix p s then Some (drop (length p) s) else None)"

lemma after_prefix_append [simp]: "after_prefix p (p @ s) = Some s"
  by (simp add: after_prefix_def)

definition permission_denied :: api_err where
  "permission_denied = ResponseError 403 ''permission denied''"

definition kv_engine :: "kv_world VaultApi" where
  "kv_engine =
     \<lparr>api_Read = (\<lambda>t p w.
        if \<not> List.member (kv_tokens w) t then (Inl permission_denied, w)
        else
          (case after_prefix ''kv/data/'' p of
             None \<Rightarrow> (Inr None, w)
           | Some k \<Rightarrow>
               (Inr (map_option (\<lambda>m. \<lparr>sec_Data = Some [''data'' \<mapsto> VMap m], sec_Auth = None\<rparr>) (kv_contents w k)), w))),
      api_Write = (\<lambda>t p d w.
        if p = ''auth/approle/login'' then
          (if stringValue (d ''role_id'') = ''role'' \<and> stringValue (d ''secret_id'') = ''secret''
           then (Inr (Some \<lparr>sec_Data = None, sec_Auth = Some (''fresh'', 3600)\<rparr>),
                 w\<lparr>kv_tokens := ''fresh'' # kv_tokens w\<rparr>)
           else (Inl (ResponseError 400 ''invalid role or secret ID''), w))
        else if \<not> List.member (kv_tokens w) t then (Inl permission_denied, w)
        else
          (case (after_prefix ''kv/data/'' p, d ''data'') of
             (Some k, Some (VMap m)) \<Rightarrow> (Inr None, w\<lparr>kv_contents := (kv_contents w)(k \<mapsto> m)\<rparr>)
           | _ \<Rightarrow> (Inl (ResponseError 400 ''no data provided''), w))),
      api_Delete = (\<lambda>t p w.
        if \<not> List.member (kv_tokens w) t then (Inl permission_denied, w)
        else
          (case after_prefix ''kv/metadata/'' p of
             None \<Rightarrow> (Inr None, w)
           | Some k \<Rightarrow> (Inr None, w\<lparr>kv_contents := (kv_contents w)(k := None)\<rparr>))),
      api_LookupSelf = (\<lambda>t w. (if List.member (kv_tokens w) t then Inr None else Inl permission_denied, w)),
      api_RenewSelf = (\<lambda>t w. (if List.member (kv_tokens w) t then Inr None else Inl permission_denied, w)),
      api_now = (\<lambda>w. (kv_clock w, w\<lparr>kv_clock := kv_clock w + 1\<rparr>))\<rparr>"

definition demo_kv :: KVStore where
  "demo_kv = \<lparr>kv_mount = ''kv'', kv_prefix = ''n8n/users'', kv_roleID = ''role'', kv_secretID = ''secret''\<rparr>"

interpretation engine: kv_store kv_engine demo_kv kv_contents
proof unfold_locales
  note d = kv_engine_def demo_kv_def secret_data_def
  fix t k w s w' e m d r and now :: time
  show "api_Read kv_engine t (kv_mount demo_kv @ ''/data/'' @ k) w = (Inr s, w') \<Longrightarrow>
      kv_contents w' = kv_contents w \<and> secret_data s = kv_contents w k"
    using after_prefix_append [of "''kv/data/''" k]
    by (cases "kv_contents w k") (auto simp: d split: if_splits)
  show "api_Read kv_engine t (kv_mount demo_kv @ ''/data/'' @ k) w = (Inl e, w') \<Longrightarrow> kv_contents w' = kv_contents w"
    by (auto simp: d split: if_splits option.splits)
  show "api_Write kv_engine t (kv_mount demo_kv @ ''/data/'' @ k) [''data'' \<mapsto> VMap m] w = (Inr s, w') \<Longrightarrow>
      kv_contents w' = (kv_contents w)(k \<mapsto> m)"
    using after_prefix_append [of "''kv/data/''" k] by (auto simp: d split: if_splits)
  show "api_Write kv_engine t (kv_mount demo_kv @ ''/data/'' @ k) d w = (Inl e, w') \<Longrightarrow>
      (kv_contents w')(k := kv_contents w k) = kv_contents w"
    by (auto simp: d split: if_splits option.splits vault_value.splits)
  show "api_Delete kv_engine t (kv_mount demo_kv @ ''/metadata/'' @ k) w = (Inr s, w') \<Longrightarrow>
      kv_contents w' = (kv_contents w)(k := None)"
    using after_prefix_append [of "''kv/metadata/''" k] by (auto simp: d split: if_splits)
  show "api_Delete kv_engine t (kv_mount demo_kv @ ''/metadata/'' @ k) w = (Inl e, w') \<Longrightarrow>
      (kv_contents w')(k := kv_contents w k) = kv_contents w"
    by (auto simp: d split: if_splits option.splits)
  show "api_Write kv_engine t ''auth/approle/login'' d w = (r, w') \<Longrightarrow> kv_contents w' = kv_contents w"
    by (auto simp: d split: if_splits)
  show "api_now kv_engine w = (now, w') \<Longrightarrow> kv_contents w' = kv_contents w"
    by (auto simp: d)
  show "clean_path (kv_mount demo_kv)" "kv_prefix demo_kv = [] \<or> clean_path (kv_prefix demo_kv)"
    unfolding demo_kv_def clean_path_def by code_simp+
qed


text \<open>
  Property C37. On a KV version 2 engine the Vault store meets the contract of a credential store, that the
  in-memory store meets too: what is put is what is got, for the users whose slot it is and for no others,
  and what is deleted is gone, whatever logins happen in between.
\<close>

theorem vault_store_meets_contract:
  assumes "kv_store A K contents"
  shows "credential_store (KVGet A K) (KVPut A K) (KVDelete A K) (login_at contents) (slot_of K)"
  using assms by (rule kv_store.is_credential_store)

theorem vault_store_meets_contract_witness:
  "credential_store (KVGet kv_engine demo_kv) (KVPut kv_engine demo_kv) (KVDelete kv_engine demo_kv)
     (login_at kv_contents) (slot_of demo_kv)"
  using vault_store_meets_contract [OF engine.kv_store_axioms] .


definition stale_vault :: "kv_world vault" where
  "stale_vault = \<lparr>vt_token = ''old'', vt_world = \<lparr>kv_contents = Map.empty, kv_tokens = [], kv_clock = 5 * second + 7\<rparr>\<rparr>"

definition vault_credential :: Credential where
  "vault_credential =
     \<lparr>cred_Issuer = ''https://idp'', cred_Subject = ''u1'', cred_Email = ''u@x'',
      N8NEmailOrLoginID = ''me'', N8NPassword = ''pw'', LinkedAt = 0, UpdatedAt = 0\<rparr>"

lemma demo_paths:
  "dataPath (kv_mount demo_kv) (kv_prefix demo_kv) i u = ''kv/data/'' @ slot_of demo_kv i u"
  using engine.paths(1) [of i u] by (simp add: demo_kv_def)

text \<open>With a token that the engine does not know any more, putting and getting succeed after a login.\<close>

lemma stale_token_healed:
  "\<exists>v1. KVPut kv_engine demo_kv vault_credential stale_vault = (None, v1) \<and> vt_token v1 = ''fresh''
     \<and> \<not> isl (fst (KVGet kv_engine demo_kv ''https://idp'' ''u1'' v1))"
proof -
  have p: "after_prefix ''kv/data/'' (dataPath ''kv'' ''n8n/users'' i u) = Some (slot_of demo_kv i u)"
    "dataPath ''kv'' ''n8n/users'' i u \<noteq> ''auth/approle/login''" for i u
    using demo_paths [of i u] after_prefix_append [of "''kv/data/''" "slot_of demo_kv i u"]
    by (simp_all add: demo_kv_def)
  have d: "decodeCredential (credentialData (stamped vault_credential (5 * second + 7)))
      = Inr (whole_seconds (stamped vault_credential (5 * second + 7)))"
    by (rule decode_credentialData)
      (simp_all add: vault_credential_def complete_def stamped_def four_digit_year_def year_of_day_def Let_def)
  show ?thesis
    using d
    by (simp add: KVPut_retried KVGet_retried retried_def with_token_def kv_engine_def demo_kv_def p
        permission_denied_def reauthenticateAfterAuthError_def isVaultAuthError_def loginAppRole_def login_data_def
        stringValue_def stale_vault_def failure_def secretCredential_def vault_credential_def stamped_def)
qed


end
