(* ===== verification/Go_Json_Text.thy ===== *)
theory Go_Json_Text
  imports Go_Json Go_Net
begin

text \<open>
  The text between the quotes of a JSON string: how \<open>encoding/json\<close> decodes it (\<open>unquote\<close> of
  \<open>decode.go\<close>), and that a Go string that was encoded is decoded again, with every byte that is not part
  of well-formed UTF-8 replaced by U+FFFD.
\<close>

subsection \<open>Runes\<close>

definition rune_error :: string where
  "rune_error = [CHR 0xEF, CHR 0xBF, CHR 0xBD]"

text \<open>\<open>utf8.AppendRune\<close>: a surrogate half and a number past U+10FFFF count as U+FFFD.\<close>

definition utf8_encode :: "nat \<Rightarrow> string" where
  "utf8_encode r =
     (if r < 0x80 then [char_of r]
      else if r < 0x800 then [char_of (0xC0 + r div 64), char_of (0x80 + r mod 64)]
      else if 0xD800 \<le> r \<and> r < 0xE000 \<or> 0x10FFFF < r then rune_error
      else if r < 0x10000 then
        [char_of (0xE0 + r div 4096), char_of (0x80 + r div 64 mod 64), char_of (0x80 + r mod 64)]
      else
        [char_of (0xF0 + r div 262144), char_of (0x80 + r div 4096 mod 64), char_of (0x80 + r div 64 mod 64),
         char_of (0x80 + r mod 64)])"

text \<open>
  A string with each byte that \<open>utf8.DecodeRune\<close> cannot read replaced by U+FFFD.
\<close>

function replace_invalid :: "string \<Rightarrow> string" where
  "replace_invalid [] = []"
| "replace_invalid (c # cs) =
     (if c < CHR 0x80 then c # replace_invalid cs
      else
        (let n = utf8_length (c # cs) in
         if n = 0 then rune_error @ replace_invalid cs
         else take n (c # cs) @ replace_invalid (drop (n - 1) cs)))"
  by pat_completeness auto
termination
  by (relation "measure length") auto

declare replace_invalid.simps [simp del]


subsection \<open>Escapes\<close>

text \<open>\<open>getu4\<close>: the number of an escape \<open>\uXXXX\<close> that a text begins with.\<close>

definition getu4 :: "string \<Rightarrow> nat option" where
  "getu4 s =
     (if length s \<ge> 6 \<and> s ! 0 = backslash \<and> s ! 1 = CHR ''u'' \<and> list_all ishex (take 4 (drop 2 s))
      then Some (hex_number (take 4 (drop 2 s))) else None)"

definition json_escape :: "char \<Rightarrow> char" where
  "json_escape e =
     (if e = CHR ''b'' then CHR 0x08 else if e = CHR ''f'' then CHR 0x0C
      else if e = CHR ''n'' then CHR 0x0A else if e = CHR ''r'' then CHR 0x0D
      else if e = CHR ''t'' then CHR 0x09 else e)"

definition surrogate :: "nat \<Rightarrow> bool" where
  "surrogate r \<longleftrightarrow> 0xD800 \<le> r \<and> r < 0xE000"

text \<open>
  \<open>utf16.DecodeRune\<close> of the two halves of a surrogate pair, \<open>None\<close> where it gives U+FFFD. After a half
  that has no partner, the text that follows is decoded on its own.
\<close>

definition decode_pair :: "nat \<Rightarrow> nat option \<Rightarrow> nat option" where
  "decode_pair r1 second_half =
     (case second_half of
        None \<Rightarrow> None
      | Some r2 \<Rightarrow>
          if 0xD800 \<le> r1 \<and> r1 < 0xDC00 \<and> 0xDC00 \<le> r2 \<and> r2 < 0xE000
          then Some ((r1 - 0xD800) * 0x400 + (r2 - 0xDC00) + 0x10000) else None)"

function json_unquote :: "string \<Rightarrow> string" where
  "json_unquote [] = []"
| "json_unquote (c # cs) =
     (if c = backslash then
        (case getu4 (c # cs) of
           Some r \<Rightarrow>
             (if surrogate r then
                (case decode_pair r (getu4 (drop 5 cs)) of
                   Some q \<Rightarrow> utf8_encode q @ json_unquote (drop 11 cs)
                 | None \<Rightarrow> rune_error @ json_unquote (drop 5 cs))
              else utf8_encode r @ json_unquote (drop 5 cs))
         | None \<Rightarrow> (case cs of [] \<Rightarrow> [] | e # es \<Rightarrow> json_escape e # json_unquote es))
      else if c < CHR 0x80 then c # json_unquote cs
      else
        (let n = utf8_length (c # cs) in
         if n = 0 then rune_error @ json_unquote cs
         else take n (c # cs) @ json_unquote (drop (n - 1) cs)))"
  by pat_completeness auto
termination
  by (relation "measure length") auto

declare json_unquote.simps [simp del]

lemma json_text_examples:
  "json_unquote (''a'' @ [backslash] @ ''u00e9b'') = ''a'' @ [CHR 0xC3, CHR 0xA9] @ ''b''"
  "json_unquote ([backslash] @ ''ud83d'' @ [backslash] @ ''ude00'') = [CHR 0xF0, CHR 0x9F, CHR 0x98, CHR 0x80]"
  "json_unquote ([backslash] @ ''ud83dx'') = rune_error @ ''x''"
  "json_unquote [backslash, CHR ''n'', backslash, backslash] = [CHR 0x0A, backslash]"
  "replace_invalid [CHR ''a'', CHR 0xFF, CHR 0xC3, CHR 0xA9] = CHR ''a'' # rune_error @ [CHR 0xC3, CHR 0xA9]"
  by code_simp+


subsection \<open>Where a string ends\<close>

text \<open>The text of a string up to its closing quote, and what follows.\<close>

definition simple_escape :: "char \<Rightarrow> bool" where
  "simple_escape e \<longleftrightarrow> e = CHR 0x22 \<or> e = backslash \<or> List.member ''/bfnrt'' e"

fun raw_string :: "string \<Rightarrow> (string \<times> string) option" where
  "raw_string [] = None"
| "raw_string (c # cs) =
     (if c = CHR 0x22 then Some ([], cs)
      else if c = backslash then
        (case cs of
           [] \<Rightarrow> None
         | e # es \<Rightarrow>
             if simple_escape e then map_option (apfst (\<lambda>r. c # e # r)) (raw_string es)
             else if e = CHR ''u'' \<and> length es \<ge> 4 \<and> list_all ishex (take 4 es)
             then map_option (apfst (\<lambda>r. c # e # r)) (raw_string es)
             else None)
      else if c < CHR 0x20 then None
      else map_option (apfst (\<lambda>r. c # r)) (raw_string cs))"

lemma raw_string_length: "raw_string s = Some (k, r) \<Longrightarrow> length r < length s"
  by (induction s arbitrary: k r rule: raw_string.induct) (fastforce split: if_splits list.splits)+


subsection \<open>Decoding what was encoded\<close>

lemma utf8_bytes:
  "CHR 0xC2 \<le> b \<Longrightarrow> CHR 0x80 \<le> b" "CHR 0xE0 \<le> b \<Longrightarrow> CHR 0x80 \<le> b" "CHR 0xF0 \<le> b \<Longrightarrow> CHR 0x80 \<le> b"
  "utf8_second b c \<Longrightarrow> CHR 0x80 \<le> c" "cont_byte c \<Longrightarrow> CHR 0x80 \<le> c"
proof -
  have le: "CHR 0x80 \<le> c" if "a \<le> c" "CHR 0x80 \<le> a" for a c :: char using that order_trans by blast
  show "CHR 0xC2 \<le> b \<Longrightarrow> CHR 0x80 \<le> b" "CHR 0xE0 \<le> b \<Longrightarrow> CHR 0x80 \<le> b" "CHR 0xF0 \<le> b \<Longrightarrow> CHR 0x80 \<le> b"
    by (erule le, simp)+
  show "utf8_second b c \<Longrightarrow> CHR 0x80 \<le> c" "cont_byte c \<Longrightarrow> CHR 0x80 \<le> c"
    using le [of "CHR 0xA0" c] le [of "CHR 0x90" c] by (simp_all add: utf8_second_def cont_byte_def split: if_splits)
qed

lemma utf8_length_cases:
  assumes "utf8_length s \<noteq> 0"
  obtains b c cs where "s = b # c # cs" "\<And>t. utf8_length (b # c # t) = 2" "CHR 0x80 \<le> b" "CHR 0x80 \<le> c"
  | b c d cs where "s = b # c # d # cs" "\<And>t. utf8_length (b # c # d # t) = 3" "CHR 0x80 \<le> b" "CHR 0x80 \<le> c"
      "CHR 0x80 \<le> d"
  | b c d e cs where "s = b # c # d # e # cs" "\<And>t. utf8_length (b # c # d # e # t) = 4"
      "CHR 0x80 \<le> b" "CHR 0x80 \<le> c" "CHR 0x80 \<le> d" "CHR 0x80 \<le> e"
proof -
  obtain b c cs where s: "s = b # c # cs" using assms by (cases s rule: utf8_length.cases) auto
  consider "CHR 0xC2 \<le> b" "b \<le> CHR 0xDF" "utf8_second b c"
    | d ds where "\<not> (CHR 0xC2 \<le> b \<and> b \<le> CHR 0xDF)" "CHR 0xE0 \<le> b" "b \<le> CHR 0xEF" "cs = d # ds"
        "utf8_second b c" "cont_byte d"
    | d e es where "\<not> (CHR 0xC2 \<le> b \<and> b \<le> CHR 0xDF)" "\<not> (CHR 0xE0 \<le> b \<and> b \<le> CHR 0xEF)"
        "CHR 0xF0 \<le> b" "b \<le> CHR 0xF4" "cs = d # e # es" "utf8_second b c" "cont_byte d" "cont_byte e"
    using assms unfolding s utf8_length.simps by (simp split: if_split_asm list.splits)
  then show ?thesis
  proof cases
    case 1
    then show ?thesis using s by (intro that(1) [of b c cs]) (simp_all add: utf8_bytes)
  next
    case (2 d ds)
    show ?thesis by (rule that(2) [of b c d ds]) (use 2 s in \<open>simp_all add: utf8_bytes\<close>)
  next
    case (3 d e es)
    show ?thesis by (rule that(3) [of b c d e es]) (use 3 s in \<open>simp_all add: utf8_bytes\<close>)
  qed
qed

lemma utf8_length_take:
  assumes "utf8_length s \<noteq> 0"
  shows "utf8_length (take (utf8_length s) s @ t) = utf8_length s"
    and "list_all (\<lambda>c. CHR 0x80 \<le> c) (take (utf8_length s) s)"
    and "utf8_length s \<le> length s" and "2 \<le> utf8_length s" and "CHR 0x80 \<le> hd s"
  using utf8_length_cases [OF assms]
  by (cases; simp del: utf8_length.simps add: numeral_eq_Suc)+

lemma rune_error_facts: "utf8_length (rune_error @ t) = 3" "list_all (\<lambda>c. CHR 0x80 \<le> c) rune_error"
  by (simp_all add: rune_error_def utf8_second_def cont_byte_def)

text \<open>A well-formed sequence of bytes beyond ASCII is left as it is.\<close>

lemma multi_byte:
  assumes "utf8_length u = length u" and "u \<noteq> []" and "\<And>t. utf8_length (u @ t) = utf8_length u"
  shows "json_unquote (u @ t) = u @ json_unquote t" and "replace_invalid (u @ t) = u @ replace_invalid t"
proof -
  obtain c cs where u: "u = c # cs" using assms(2) by (cases u) auto
  have "CHR 0x80 \<le> c" using utf8_length_take(5) [of u] assms(1) u by simp
  then have c: "\<not> c < CHR 0x80" "c \<noteq> backslash" by (auto simp: backslash_def)
  have "utf8_length (c # cs @ t) = Suc (length cs)" using assms(1,3) u by simp
  then show "json_unquote (u @ t) = u @ json_unquote t" "replace_invalid (u @ t) = u @ replace_invalid t"
    using c by (simp_all add: json_unquote.simps(2) replace_invalid.simps(2) u Let_def)
qed

declare utf8_length.simps [simp del]

lemma rune_error_unquote: "json_unquote (rune_error @ t) = rune_error @ json_unquote t"
  "replace_invalid (rune_error @ t) = rune_error @ replace_invalid t"
proof -
  have "utf8_length rune_error = length rune_error" "rune_error \<noteq> []"
    using rune_error_facts(1) [of "[]"] by (simp_all add: rune_error_def)
  then show "json_unquote (rune_error @ t) = rune_error @ json_unquote t"
    "replace_invalid (rune_error @ t) = rune_error @ replace_invalid t"
    using rune_error_facts(1) rune_error_facts(1) [of "[]"] by (intro multi_byte; simp)+
qed

lemma getu4_escape:
  "getu4 (backslash # CHR ''u'' # a # b # c # d # t) =
     (if list_all ishex [a, b, c, d] then Some (hex_number [a, b, c, d]) else None)"
  by (simp add: getu4_def numeral_eq_Suc)

text \<open>An escape of four digits that is no surrogate half is the character it names.\<close>

lemma escape_unquote:
  assumes "list_all ishex [a, b, c, d]" and "hex_number [a, b, c, d] = r" and "\<not> surrogate r"
  shows "json_unquote (backslash # CHR ''u'' # a # b # c # d # t) = utf8_encode r @ json_unquote t"
  using assms by (simp add: json_unquote.simps(2) getu4_escape numeral_eq_Suc)

lemma escape_unquote_rune:
  "json_unquote (backslash # ''ufffd'' @ t) = rune_error @ json_unquote t"
  "json_unquote (backslash # ''u2028'' @ t) = [CHR 0xE2, CHR 0x80, CHR 0xA8] @ json_unquote t"
  "json_unquote (backslash # ''u2029'' @ t) = [CHR 0xE2, CHR 0x80, CHR 0xA9] @ json_unquote t"
proof -
  have f: "list_all ishex ''fffd''" "hex_number ''fffd'' = 0xFFFD" "\<not> surrogate 0xFFFD" "utf8_encode 0xFFFD = rune_error"
    "list_all ishex ''2028''" "hex_number ''2028'' = 0x2028" "\<not> surrogate 0x2028"
    "utf8_encode 0x2028 = [CHR 0xE2, CHR 0x80, CHR 0xA8]"
    "list_all ishex ''2029''" "hex_number ''2029'' = 0x2029" "\<not> surrogate 0x2029"
    "utf8_encode 0x2029 = [CHR 0xE2, CHR 0x80, CHR 0xA9]"
    by code_simp+
  show "json_unquote (backslash # ''ufffd'' @ t) = rune_error @ json_unquote t"
    "json_unquote (backslash # ''u2028'' @ t) = [CHR 0xE2, CHR 0x80, CHR 0xA8] @ json_unquote t"
    "json_unquote (backslash # ''u2029'' @ t) = [CHR 0xE2, CHR 0x80, CHR 0xA9] @ json_unquote t"
    using escape_unquote [OF f(1-3), of t] escape_unquote [OF f(5-7), of t] escape_unquote [OF f(9-11), of t]
    by (simp_all only: f append.simps)
qed

text \<open>What an ASCII character is written as is read as that character.\<close>

lemma ascii_enumeration:
  assumes "list_all (\<lambda>n. P (char_of n)) [0..<128]" and "c < CHR 0x80"
  shows "P c"
proof -
  define n where "n = (of_char c :: nat)"
  have "n < 128" using assms(2) by (simp add: n_def less_char_def)
  then have "P (char_of n)" using assms(1) by (simp add: list_all_iff)
  then show ?thesis by (simp add: n_def)
qed

definition hex_escaped :: "char \<Rightarrow> bool" where
  "hex_escaped c \<longleftrightarrow>
     c < CHR 0x20 \<and> \<not> List.member [CHR 0x08, CHR 0x09, CHR 0x0A, CHR 0x0C, CHR 0x0D] c \<or> List.member ''<>&'' c"

lemma hex_escape_facts:
  assumes "hex_escaped c" and "c < CHR 0x80"
  shows "list_all ishex [CHR ''0'', CHR ''0'', lowerhex (of_char c div 16), lowerhex (of_char c mod 16)]"
    and "hex_number [CHR ''0'', CHR ''0'', lowerhex (of_char c div 16), lowerhex (of_char c mod 16)] = of_char c"
proof -
  let ?P = "\<lambda>c. hex_escaped c \<longrightarrow>
    list_all ishex [CHR ''0'', CHR ''0'', lowerhex (of_char c div 16), lowerhex (of_char c mod 16)]
    \<and> hex_number [CHR ''0'', CHR ''0'', lowerhex (of_char c div 16), lowerhex (of_char c mod 16)] = of_char c"
  have "list_all (\<lambda>n. ?P (char_of n)) [0..<128]" by code_simp
  from ascii_enumeration [OF this assms(2)] assms(1)
  show "list_all ishex [CHR ''0'', CHR ''0'', lowerhex (of_char c div 16), lowerhex (of_char c mod 16)]"
    and "hex_number [CHR ''0'', CHR ''0'', lowerhex (of_char c div 16), lowerhex (of_char c mod 16)] = of_char c"
    by blast+
qed

text \<open>The characters that are written as an escape of one letter.\<close>

lemma json_ascii_unquote:
  assumes "c < CHR 0x80"
  shows "json_unquote (json_ascii c @ t) = c # json_unquote t"
proof (cases "hex_escaped c")
  case True
  have "\<not> hex_escaped backslash" "\<not> hex_escaped CHR 0x22" "\<not> hex_escaped CHR 0x08" "\<not> hex_escaped CHR 0x0C"
    "\<not> hex_escaped CHR 0x0A" "\<not> hex_escaped CHR 0x0D" "\<not> hex_escaped CHR 0x09"
    by code_simp+
  then have "c \<noteq> backslash" "c \<noteq> CHR 0x22" "c \<noteq> CHR 0x08" "c \<noteq> CHR 0x0C" "c \<noteq> CHR 0x0A" "c \<noteq> CHR 0x0D"
    "c \<noteq> CHR 0x09"
    using True by blast+
  moreover have "c < CHR 0x20 \<or> c = CHR ''<'' \<or> c = CHR ''>'' \<or> c = CHR ''&''"
    using True unfolding hex_escaped_def by (elim disjE) simp_all
  ultimately have j: "json_ascii c =
      [backslash, CHR ''u'', CHR ''0'', CHR ''0'', lowerhex (of_char c div 16), lowerhex (of_char c mod 16)]"
    unfolding json_ascii_def by presburger
  have lt: "of_char c < (128 :: nat)" using assms by (simp add: less_char_def)
  then have "\<not> surrogate (of_char c)" "utf8_encode (of_char c) = [c]"
    by (simp_all add: surrogate_def utf8_encode_def)
  then show ?thesis using escape_unquote [OF hex_escape_facts [OF True assms]] j by simp
next
  case False
  have esc: "json_unquote (backslash # e # t) = json_escape e # json_unquote t" if "e \<noteq> CHR ''u''" for e
    using that by (simp add: json_unquote.simps(2) getu4_def)
  have plain: "json_unquote (c # t) = c # json_unquote t" if "c \<noteq> backslash"
    using that assms by (simp add: json_unquote.simps(2))
  have escapes:
    "json_ascii backslash = [backslash, backslash]" "json_ascii CHR 0x22 = [backslash, CHR 0x22]"
    "json_ascii CHR 0x08 = [backslash, CHR ''b'']" "json_ascii CHR 0x0C = [backslash, CHR ''f'']"
    "json_ascii CHR 0x0A = [backslash, CHR ''n'']" "json_ascii CHR 0x0D = [backslash, CHR ''r'']"
    "json_ascii CHR 0x09 = [backslash, CHR ''t'']"
    "json_escape backslash = backslash" "json_escape CHR 0x22 = CHR 0x22" "json_escape CHR ''b'' = CHR 0x08"
    "json_escape CHR ''f'' = CHR 0x0C" "json_escape CHR ''n'' = CHR 0x0A" "json_escape CHR ''r'' = CHR 0x0D"
    "json_escape CHR ''t'' = CHR 0x09" "backslash \<noteq> CHR ''u''"
    by code_simp+
  have "json_ascii c = [c]" if "c \<noteq> backslash" "c \<noteq> CHR 0x22" "c \<noteq> CHR 0x08" "c \<noteq> CHR 0x0C" "c \<noteq> CHR 0x0A"
      "c \<noteq> CHR 0x0D" "c \<noteq> CHR 0x09"
    using that False by (simp add: json_ascii_def hex_escaped_def)
  then consider "c = backslash" | "c = CHR 0x22" | "c = CHR 0x08" | "c = CHR 0x0C" | "c = CHR 0x0A" | "c = CHR 0x0D"
    | "c = CHR 0x09" | "json_ascii c = [c]" "c \<noteq> backslash"
    by blast
  then show ?thesis by cases (simp_all add: escapes esc plain)
qed

lemma replace_invalid_ascii: "c < CHR 0x80 \<Longrightarrow> replace_invalid (c # t) = c # replace_invalid t"
  by (simp add: replace_invalid.simps(2))

text \<open>A sequence that is well-formed UTF-8, at the front of a string.\<close>

lemma multi_byte_front:
  assumes "utf8_length (c # cs) = n" and "n \<noteq> 0"
  shows "json_unquote (take n (c # cs) @ t) = take n (c # cs) @ json_unquote t"
    and "replace_invalid (take n (c # cs) @ t) = take n (c # cs) @ replace_invalid t"
    and "replace_invalid (c # cs) = take n (c # cs) @ replace_invalid (drop (n - 1) cs)"
proof -
  let ?u = "take n (c # cs)"
  note f = utf8_length_take [of "c # cs", unfolded assms(1), OF assms(2)]
  have "utf8_length ?u = length ?u" "?u \<noteq> []" using f(1) [of "[]"] f(3) assms(2) by simp_all
  moreover have "\<And>t. utf8_length (?u @ t) = utf8_length ?u" using f(1) f(1) [of "[]"] by simp
  ultimately show "json_unquote (?u @ t) = ?u @ json_unquote t" "replace_invalid (?u @ t) = ?u @ replace_invalid t"
    by (rule multi_byte)+
  have "\<not> c < CHR 0x80" using f(5) by simp
  then show "replace_invalid (c # cs) = ?u @ replace_invalid (drop (n - 1) cs)"
    using assms by (simp add: replace_invalid.simps(2) Let_def)
qed

text \<open>A string in which everything is well formed stays as it is.\<close>

lemma replace_invalid_idem [simp]: "replace_invalid (replace_invalid s) = replace_invalid s"
proof (induction s rule: replace_invalid.induct)
  case (2 c cs)
  show ?case
  proof (cases "c < CHR 0x80")
    case False
    define n where "n = utf8_length (c # cs)"
    show ?thesis
    proof (cases "n = 0")
      case True
      then have "replace_invalid (c # cs) = rune_error @ replace_invalid cs"
        using False n_def by (simp add: replace_invalid.simps(2))
      then show ?thesis using 2(2) [OF False n_def True] rune_error_unquote(2) by simp
    next
      case n: False
      note front = multi_byte_front [OF n_def [symmetric] n]
      show ?thesis using 2(3) [OF False n_def n] by (simp only: front)
    qed
  qed (simp add: 2(1) replace_invalid_ascii)
qed (simp add: replace_invalid.simps)

text \<open>Decoding an encoded string.\<close>

lemma json_unquote_chars: "json_unquote (json_chars s) = replace_invalid s"
proof (induction s rule: json_chars.induct)
  case 1
  show ?case by (simp add: json_chars.simps json_unquote.simps replace_invalid.simps)
next
  case (2 c cs)
  show ?case
  proof (cases "c < CHR 0x80")
    case True
    then show ?thesis using 2(1) by (simp add: json_chars.simps json_ascii_unquote replace_invalid_ascii)
  next
    case False
    define n where "n = utf8_length (c # cs)"
    show ?thesis
    proof (cases "n = 0")
      case True
      then show ?thesis
        using 2(2) [OF False n_def] False n_def
        by (simp add: json_chars.simps escape_unquote_rune [simplified] replace_invalid.simps(2))
    next
      case n: False
      note front = multi_byte_front [OF n_def [symmetric] n]
      show ?thesis
      proof (cases "take 2 (c # cs) = [CHR 0xE2, CHR 0x80] \<and> n = 3
          \<and> ((c # cs) ! 2 = CHR 0xA8 \<or> (c # cs) ! 2 = CHR 0xA9)")
        case True
        have "3 \<le> length (c # cs)" using True utf8_length_take(3) [of "c # cs"] n unfolding n_def by metis
        then obtain b d ds where "cs = b # d # ds" by (cases cs; cases "tl cs") auto
        then have cs: "c = CHR 0xE2" "cs = CHR 0x80 # d # ds" "n = 3" "d = CHR 0xA8 \<or> d = CHR 0xA9"
          using True by (simp_all add: numeral_2_eq_2)
        have ih: "json_unquote (json_chars ds) = replace_invalid ds"
          using 2(3) [OF False n_def n True] cs(2,3) by (simp add: numeral_3_eq_3)
        have "json_chars (c # cs) = backslash # ''u202'' @ [if d = CHR 0xA8 then CHR ''8'' else CHR ''9''] @ json_chars ds"
          using True False n_def [symmetric] cs(2,3)
          by (simp only: json_chars.simps Let_def if_False if_True n) (simp add: numeral_2_eq_2 numeral_3_eq_3)
        moreover have "replace_invalid (c # cs) = [c, CHR 0x80, d] @ replace_invalid ds"
          using front(3) cs(2,3) by (simp add: numeral_2_eq_2 numeral_3_eq_3)
        ultimately show ?thesis
          using cs(1,4) ih escape_unquote_rune [simplified] by (elim disjE) simp_all
      next
        case plain: False
        have "json_chars (c # cs) = take n (c # cs) @ json_chars (drop (n - 1) cs)"
          by (simp only: json_chars.simps n_def [symmetric] Let_def False n plain if_False)
        then show ?thesis using 2(4) [OF False n_def n plain] front by simp
      qed
    qed
  qed
qed

text \<open>What the encoder writes has no quote of its own, so a reader finds where it ends.\<close>

definition readable :: "string \<Rightarrow> bool" where
  "readable u \<longleftrightarrow>
     (\<forall>t. raw_string (u @ t) = (case raw_string t of None \<Rightarrow> None | Some (k, r) \<Rightarrow> Some (u @ k, r)))"

lemma readable_append: "readable u \<Longrightarrow> readable v \<Longrightarrow> readable (u @ v)"
  by (simp add: readable_def split: option.split)

lemma readable_Nil: "readable []"
  by (simp add: readable_def split: option.split)

lemma readable_plain:
  assumes "c \<noteq> CHR 0x22" "c \<noteq> backslash" "\<not> c < CHR 0x20"
  shows "readable [c]"
  using assms by (simp add: readable_def split: option.split)

lemma readable_list: "list_all (\<lambda>c. c \<noteq> CHR 0x22 \<and> c \<noteq> backslash \<and> \<not> c < CHR 0x20) u \<Longrightarrow> readable u"
proof (induction u)
  case (Cons c u)
  then show ?case using readable_append [OF readable_plain, of c u] by simp
qed (simp add: readable_Nil)

lemma readable_high:
  assumes "list_all (\<lambda>c. CHR 0x80 \<le> c) u"
  shows "readable u"
proof -
  have "c \<noteq> CHR 0x22 \<and> c \<noteq> backslash \<and> \<not> c < CHR 0x20" if "CHR 0x80 \<le> c" for c
    using that order_trans [of "CHR 0x20" "CHR 0x80" c] by (auto simp: backslash_def)
  then show ?thesis by (intro readable_list list.pred_mono_strong [OF assms])
qed

lemma readable_escape:
  "simple_escape e \<Longrightarrow> readable [backslash, e]"
  "list_all ishex [a, b, c, d] \<Longrightarrow> readable [backslash, CHR ''u'', a, b, c, d]"
proof -
  have q: "backslash \<noteq> CHR 0x22" "\<not> simple_escape CHR ''u''" by code_simp+
  show "simple_escape e \<Longrightarrow> readable [backslash, e]" using q by (simp add: readable_def split: option.split)
  have hex: "readable [c]" if "ishex c" for c
  proof -
    have "\<not> ishex CHR 0x22" "\<not> ishex backslash" by code_simp+
    moreover have "\<not> c < CHR 0x20"
    proof
      assume "c < CHR 0x20"
      moreover have "list_all (\<lambda>n. char_of n < CHR 0x20 \<longrightarrow> \<not> ishex (char_of n)) [0..<128]" by code_simp
      moreover have "c < CHR 0x80" using \<open>c < CHR 0x20\<close> by (rule less_trans) simp
      ultimately show False using ascii_enumeration [of "\<lambda>c. c < CHR 0x20 \<longrightarrow> \<not> ishex c" c] that by blast
    qed
    ultimately show ?thesis using that by (intro readable_plain) auto
  qed
  assume h: "list_all ishex [a, b, c, d]"
  have "readable ([a] @ [b] @ [c] @ [d])" using h by (intro readable_append hex) simp_all
  then have "raw_string (a # b # c # d # t) =
      (case raw_string t of None \<Rightarrow> None | Some (k, r) \<Rightarrow> Some (a # b # c # d # k, r))" for t
    by (simp only: readable_def append.simps)
  then show "readable [backslash, CHR ''u'', a, b, c, d]"
    using q h by (simp add: readable_def del: raw_string.simps add: raw_string.simps(2) [of backslash "CHR ''u'' # _"]
        split: option.split)
qed

lemma readable_ascii:
  assumes "c < CHR 0x80"
  shows "readable (json_ascii c)"
proof -
  have e: "simple_escape backslash" "simple_escape CHR 0x22" "simple_escape CHR ''b''" "simple_escape CHR ''f''"
    "simple_escape CHR ''n''" "simple_escape CHR ''r''" "simple_escape CHR ''t''"
    by code_simp+
  show ?thesis
  proof (cases "c < CHR 0x20 \<or> c = CHR ''<'' \<or> c = CHR ''>'' \<or> c = CHR ''&''")
    case False
    then show ?thesis using e readable_plain [of c] by (simp add: json_ascii_def readable_escape)
  next
    case True
    have "list_all (\<lambda>n. ishex (lowerhex (of_char (char_of n) div 16)) \<and> ishex (lowerhex (of_char (char_of n) mod 16))) [0..<128]"
      by code_simp
    from ascii_enumeration [of "\<lambda>c. ishex (lowerhex (of_char c div 16)) \<and> ishex (lowerhex (of_char c mod 16))", OF this assms]
    have "list_all ishex [CHR ''0'', CHR ''0'', lowerhex (of_char c div 16), lowerhex (of_char c mod 16)]"
      by (simp add: ishex_def is_digit_def)
    from readable_escape(2) [OF this] show ?thesis using e True by (simp add: json_ascii_def readable_escape(1))
  qed
qed

lemma readable_chars: "readable (json_chars s)"
proof (induction s rule: json_chars.induct)
  case 1
  show ?case by (simp add: json_chars.simps readable_Nil)
next
  case (2 c cs)
  show ?case
  proof (cases "c < CHR 0x80")
    case True
    then show ?thesis using 2(1) by (simp add: json_chars.simps readable_append readable_ascii)
  next
    case False
    define n where "n = utf8_length (c # cs)"
    have hex: "list_all ishex ''fffd''" "list_all ishex ''2028''" "list_all ishex ''2029''" by code_simp+
    note esc = hex [THEN readable_escape(2)]
    have high: "readable (take n (c # cs))" if "n \<noteq> 0"
      using utf8_length_take(2) [of "c # cs"] that by (intro readable_high) (simp add: n_def)
    show ?thesis
      using 2(2-4) [OF False n_def] readable_append [OF esc(1)] readable_append [OF esc(2)] readable_append [OF esc(3)]
        readable_append [OF high]
      by (simp add: json_chars.simps(2) False n_def [symmetric] Let_def del: take_Suc_Cons)
  qed
qed

lemma raw_string_chars [simp]: "raw_string (json_chars s @ CHR 0x22 # t) = Some (json_chars s, t)"
  using readable_chars [of s] by (simp add: readable_def)

end
