(* ===== verification/Go_Json_Reader.thy ===== *)
theory Go_Json_Reader
  imports Go_Json_Text
begin

text \<open>
  The reading side of \<open>encoding/json\<close>: \<open>Unmarshal\<close> checks the syntax of the whole input and then decodes
  it into a struct. Strings and keys are kept as they stand between their quotes until they are
  decoded. Not modelled: the limit of 10000 on the nesting depth.
\<close>

subsection \<open>Values\<close>

datatype json_value =
    NullValue
  | BoolValue bool
  | NumberValue string
  | StringValue string
  | ArrayValue "json_value list"
  | ObjectValue "(string \<times> json_value) list"

definition json_space :: "char \<Rightarrow> bool" where
  "json_space c \<longleftrightarrow> c = CHR 0x20 \<or> c = CHR 0x09 \<or> c = CHR 0x0D \<or> c = CHR 0x0A"

abbreviation skip_space :: "string \<Rightarrow> string" where
  "skip_space \<equiv> dropWhile json_space"

definition digits :: "string \<Rightarrow> string option" where
  "digits s = (case s of c # cs \<Rightarrow> if is_digit c then Some (dropWhile is_digit cs) else None | [] \<Rightarrow> None)"

definition num_int :: "string \<Rightarrow> string option" where
  "num_int s = (if prefix ''0'' s then Some (tl s) else digits s)"

definition num_frac :: "string \<Rightarrow> string option" where
  "num_frac s = (if prefix ''.'' s then digits (tl s) else Some s)"

definition num_exp :: "string \<Rightarrow> string option" where
  "num_exp s =
     (if prefix ''e'' s \<or> prefix ''E'' s then
        digits (if prefix ''+'' (tl s) \<or> prefix ''-'' (tl s) then tl (tl s) else tl s)
      else Some s)"

definition raw_number :: "string \<Rightarrow> string option" where
  "raw_number s =
     Option.bind (num_int (if prefix ''-'' s then tl s else s)) (\<lambda>s1. Option.bind (num_frac s1) num_exp)"

definition literal :: "string \<Rightarrow> json_value \<Rightarrow> string \<Rightarrow> (json_value \<times> string) option" where
  "literal word v s = (if prefix word s then Some (v, drop (length word) s) else None)"

text \<open>
  Values, members of an object and elements of an array. The first argument is fuel: it bounds the
  number of nested calls, and more than the length of the input is never needed.
\<close>

fun read_value :: "nat \<Rightarrow> string \<Rightarrow> (json_value \<times> string) option"
  and read_members :: "nat \<Rightarrow> string \<Rightarrow> ((string \<times> json_value) list \<times> string) option"
  and read_elements :: "nat \<Rightarrow> string \<Rightarrow> (json_value list \<times> string) option" where
  "read_value 0 s = None"
| "read_value (Suc n) s =
     (case skip_space s of
        [] \<Rightarrow> None
      | c # cs \<Rightarrow>
          if c = CHR 0x22 then map_option (apfst StringValue) (raw_string cs)
          else if c = CHR ''{'' then
            (if prefix ''}'' (skip_space cs) then Some (ObjectValue [], tl (skip_space cs))
             else map_option (apfst ObjectValue) (read_members n cs))
          else if c = CHR ''['' then
            (if prefix '']'' (skip_space cs) then Some (ArrayValue [], tl (skip_space cs))
             else map_option (apfst ArrayValue) (read_elements n cs))
          else if c = CHR ''t'' then literal ''true'' (BoolValue True) (c # cs)
          else if c = CHR ''f'' then literal ''false'' (BoolValue False) (c # cs)
          else if c = CHR ''n'' then literal ''null'' NullValue (c # cs)
          else map_option (\<lambda>r. (NumberValue (take (length (c # cs) - length r) (c # cs)), r)) (raw_number (c # cs)))"
| "read_members 0 s = None"
| "read_members (Suc n) s =
     (case skip_space s of
        [] \<Rightarrow> None
      | c # cs \<Rightarrow>
          if c \<noteq> CHR 0x22 then None
          else
            (case raw_string cs of
               None \<Rightarrow> None
             | Some (key, s1) \<Rightarrow>
                 (if \<not> prefix '':'' (skip_space s1) then None
                  else
                    (case read_value n (tl (skip_space s1)) of
                       None \<Rightarrow> None
                     | Some (v, s2) \<Rightarrow>
                         (if prefix ''}'' (skip_space s2) then Some ([(key, v)], tl (skip_space s2))
                          else if prefix '','' (skip_space s2)
                          then map_option (apfst (\<lambda>ms. (key, v) # ms)) (read_members n (tl (skip_space s2)))
                          else None)))))"
| "read_elements 0 s = None"
| "read_elements (Suc n) s =
     (case read_value n s of
        None \<Rightarrow> None
      | Some (v, s2) \<Rightarrow>
          (if prefix '']'' (skip_space s2) then Some ([v], tl (skip_space s2))
           else if prefix '','' (skip_space s2)
           then map_option (apfst (\<lambda>vs. v # vs)) (read_elements n (tl (skip_space s2)))
           else None))"

definition json_fuel :: "string \<Rightarrow> nat" where
  "json_fuel s = 2 * length s + 2"

definition json_parse :: "string \<Rightarrow> json_value option" where
  "json_parse s =
     (case read_value (json_fuel s) s of
        None \<Rightarrow> None
      | Some (v, rest) \<Rightarrow> if skip_space rest = [] then Some v else None)"


subsection \<open>The fuel suffices\<close>

lemma skip_space_length: "length (skip_space s) \<le> length s"
  by (rule length_dropWhile_le)

lemma digits_length: "digits s = Some r \<Longrightarrow> length r < length s"
  by (auto simp: digits_def less_Suc_eq_le length_dropWhile_le split: list.splits if_splits)

lemma prefix_one_length: "prefix [c] s \<Longrightarrow> length (tl s) < length s"
  by (cases s) auto

lemma num_int_length: "num_int s = Some r \<Longrightarrow> length r < length s"
  by (auto simp: num_int_def dest: digits_length prefix_one_length split: if_splits)

lemma num_frac_length: "num_frac s = Some r \<Longrightarrow> length r \<le> length s"
  by (auto simp: num_frac_def dest!: digits_length split: if_splits)

lemma num_exp_length: "num_exp s = Some r \<Longrightarrow> length r \<le> length s"
  by (auto simp: num_exp_def dest!: digits_length split: if_splits)

lemma raw_number_length:
  assumes "raw_number s = Some r"
  shows "length r < length s"
proof -
  let ?s = "if prefix ''-'' s then tl s else s"
  obtain s1 s2 where "num_int ?s = Some s1" "num_frac s1 = Some s2" "num_exp s2 = Some r"
    using assms by (auto simp: raw_number_def split: bind_splits)
  then have "length s1 < length ?s" "length s2 \<le> length s1" "length r \<le> length s2"
    by - (rule num_int_length num_frac_length num_exp_length, assumption)+
  moreover have "length ?s \<le> length s" by simp
  ultimately show ?thesis by linarith
qed

lemma literal_length: "literal w v s = Some (x, r) \<Longrightarrow> w \<noteq> [] \<Longrightarrow> length r < length s"
  by (auto simp: literal_def prefix_def split: if_splits)

lemma read_length:
  "read_value n s = Some (v, r) \<Longrightarrow> length r < length s"
  "read_members n s = Some (ms, r) \<Longrightarrow> length r < length s"
  "read_elements n s = Some (vs, r) \<Longrightarrow> length r < length s"
proof (induction n s and n s and n s arbitrary: v r and ms r and vs r
    rule: read_value_read_members_read_elements.induct)
  case (2 n s)
  obtain c cs where s: "skip_space s = c # cs" using "2.prems" by (auto split: list.splits)
  have l: "length cs < length s" using skip_space_length [of s] s by simp
  have t: "length (tl (skip_space cs)) \<le> length cs" using skip_space_length [of cs] by simp
  show ?case
    using "2.prems" "2.IH" [OF s] l t skip_space_length [of s] s
    by (auto split: if_splits dest!: raw_string_length raw_number_length literal_length)
next
  case (4 n s)
  obtain cs k s1 v s2 where s: "skip_space s = CHR 0x22 # cs" and k: "raw_string cs = Some (k, s1)"
    and colon: "prefix '':'' (skip_space s1)" and v: "read_value n (tl (skip_space s1)) = Some (v, s2)"
    using "4.prems" by (auto split: list.splits if_splits option.splits)
  have "length cs < length s" using skip_space_length [of s] s by simp
  moreover have "length s1 < length cs" using raw_string_length [OF k] .
  moreover have "length s2 < length (tl (skip_space s1))" using "4.IH"(1) s k colon v by simp
  moreover have "length (tl (skip_space s1)) \<le> length s1" "length (tl (skip_space s2)) \<le> length s2"
    using skip_space_length [of s1] skip_space_length [of s2] by simp_all
  moreover have "length r \<le> length (tl (skip_space s2))"
    using "4.prems" "4.IH"(2) s k colon v by (fastforce split: if_splits)
  ultimately show ?case by linarith
next
  case (6 n s)
  obtain v s2 where v: "read_value n s = Some (v, s2)" using "6.prems" by (auto split: option.splits)
  have "length s2 < length s" using "6.IH"(1) v by simp
  moreover have "length (tl (skip_space s2)) \<le> length s2" using skip_space_length [of s2] by simp
  moreover have "length r \<le> length (tl (skip_space s2))"
    using "6.prems" "6.IH"(2) v by (fastforce split: if_splits)
  ultimately show ?case by linarith
qed simp_all


text \<open>With this much fuel or more, the result does not depend on it.\<close>

lemma read_fuel:
  "n > 2 * length s \<Longrightarrow> read_value (Suc n) s = read_value n s"
  "n > 2 * length s \<Longrightarrow> read_members (Suc n) s = read_members n s"
  "n > 2 * length s + 1 \<Longrightarrow> read_elements (Suc n) s = read_elements n s"
proof (induction n s and n s and n s rule: read_value_read_members_read_elements.induct)
  case (2 n s)
  show ?case
  proof (cases "skip_space s")
    case (Cons c cs)
    have "length cs < length s" using skip_space_length [of s] Cons by simp
    then have "n > 2 * length cs + 1" using "2.prems" by simp
    then have "c = CHR ''{'' \<Longrightarrow> \<not> prefix ''}'' (skip_space cs) \<Longrightarrow> read_members (Suc n) cs = read_members n cs"
      "c = CHR ''['' \<Longrightarrow> \<not> prefix '']'' (skip_space cs) \<Longrightarrow> read_elements (Suc n) cs = read_elements n cs"
      using "2.IH" [OF Cons] by simp_all
    then show ?thesis using Cons by (simp add: read_value.simps(2) del: prefix_Cons)
  next
    case Nil
    then show ?thesis by (simp only: read_value.simps(2) list.case)
  qed
next
  case (4 n s)
  show ?case
  proof (cases "\<exists>cs k s1. skip_space s = CHR 0x22 # cs \<and> raw_string cs = Some (k, s1) \<and> prefix '':'' (skip_space s1)")
    case True
    then obtain cs k s1 where s: "skip_space s = CHR 0x22 # cs" and k: "raw_string cs = Some (k, s1)"
      and colon: "prefix '':'' (skip_space s1)" by blast
    let ?t = "tl (skip_space s1)"
    have t: "length ?t < length s"
      using skip_space_length [of s] skip_space_length [of s1] raw_string_length [OF k] s by simp
    then have v: "read_value (Suc n) ?t = read_value n ?t" using "4.IH"(1) [OF s _ k] colon "4.prems" by simp
    have "read_members (Suc n) (tl (skip_space s2)) = read_members n (tl (skip_space s2))"
      if r: "read_value n ?t = Some (x, s2)" "\<not> prefix ''}'' (skip_space s2)" "prefix '','' (skip_space s2)" for x s2
    proof -
      have "length s2 < length ?t" using read_length(1) [OF r(1)] .
      then have "n > 2 * length (tl (skip_space s2))" using t skip_space_length [of s2] "4.prems" by simp
      then show ?thesis using "4.IH"(2) [OF s _ k] colon r by simp
    qed
    then show ?thesis using s k colon v by (auto simp: read_members.simps(2) simp del: prefix_Cons split: option.split)
  next
    case False
    then show ?thesis by (auto simp: read_members.simps(2) simp del: prefix_Cons split: list.split option.split)
  qed
next
  case (6 n s)
  have v: "read_value (Suc n) s = read_value n s" using "6.IH"(1) "6.prems" by simp
  have "read_elements (Suc n) (tl (skip_space s2)) = read_elements n (tl (skip_space s2))"
    if r: "read_value n s = Some (x, s2)" "\<not> prefix '']'' (skip_space s2)" "prefix '','' (skip_space s2)" for x s2
  proof -
    have "length s2 < length s" using read_length(1) [OF r(1)] .
    then have "n > 2 * length (tl (skip_space s2)) + 1" using skip_space_length [of s2] "6.prems" by simp
    then show ?thesis using "6.IH"(2) [OF r(1)] r by simp
  qed
  then show ?case using v by (auto simp: read_elements.simps(2) simp del: prefix_Cons split: option.split)
qed simp_all

lemma read_value_fuel: "n > 2 * length s \<Longrightarrow> read_value (n + k) s = read_value n s"
  by (induction k) (simp_all add: read_fuel(1) del: read_value.simps)

text \<open>More fuel never changes a result that was found.\<close>

lemma read_mono:
  "read_value n s = Some x \<Longrightarrow> read_value (Suc n) s = Some x"
  "read_members n s = Some y \<Longrightarrow> read_members (Suc n) s = Some y"
  "read_elements n s = Some z \<Longrightarrow> read_elements (Suc n) s = Some z"
proof (induction n s and n s and n s arbitrary: x and y and z rule: read_value_read_members_read_elements.induct)
  case (2 n s)
  then show ?case
  proof (cases "skip_space s")
    case (Cons c cs)
    have "c = CHR ''{'' \<Longrightarrow> \<not> prefix ''}'' (skip_space cs) \<Longrightarrow> \<exists>ms. read_members n cs = Some ms"
      "c = CHR ''['' \<Longrightarrow> \<not> prefix '']'' (skip_space cs) \<Longrightarrow> \<exists>vs. read_elements n cs = Some vs"
      using "2.prems" Cons by (auto simp: read_value.simps(2) simp del: prefix_Cons)
    then have "c = CHR ''{'' \<Longrightarrow> \<not> prefix ''}'' (skip_space cs) \<Longrightarrow> read_members (Suc n) cs = read_members n cs"
      "c = CHR ''['' \<Longrightarrow> \<not> prefix '']'' (skip_space cs) \<Longrightarrow> read_elements (Suc n) cs = read_elements n cs"
      using "2.IH" [OF Cons] by fastforce+
    then have "read_value (Suc (Suc n)) s = read_value (Suc n) s"
      using Cons by (simp del: prefix_Cons read_members.simps read_elements.simps)
    then show ?thesis using "2.prems" by simp
  qed (simp add: read_value.simps(2))
next
  case (4 n s)
  then obtain cs k s1 v s2 where s: "skip_space s = CHR 0x22 # cs" and k: "raw_string cs = Some (k, s1)"
    and colon: "prefix '':'' (skip_space s1)" and v: "read_value n (tl (skip_space s1)) = Some (v, s2)"
    by (auto split: list.splits if_splits option.splits simp: read_members.simps(2) simp del: prefix_Cons)
  have v': "read_value (Suc n) (tl (skip_space s1)) = Some (v, s2)" using "4.IH"(1) [OF s _ k] colon v by simp
  have "read_members (Suc n) (tl (skip_space s2)) = read_members n (tl (skip_space s2))"
    if "\<not> prefix ''}'' (skip_space s2)" "prefix '','' (skip_space s2)"
  proof -
    have "\<exists>ms. read_members n (tl (skip_space s2)) = Some ms"
      using "4.prems" s k colon v that by (auto simp: read_members.simps(2) simp del: prefix_Cons)
    then show ?thesis using "4.IH"(2) [OF s _ k] colon v that by fastforce
  qed
  then show ?case using "4.prems" s k colon v v' by (auto simp: read_members.simps(2) simp del: prefix_Cons split: if_splits)
next
  case (6 n s)
  then obtain v s2 where v: "read_value n s = Some (v, s2)"
    by (auto simp: read_elements.simps(2) simp del: prefix_Cons split: option.splits)
  have v': "read_value (Suc n) s = Some (v, s2)" using "6.IH"(1) v by simp
  have "read_elements (Suc n) (tl (skip_space s2)) = read_elements n (tl (skip_space s2))"
    if "\<not> prefix '']'' (skip_space s2)" "prefix '','' (skip_space s2)"
  proof -
    have "\<exists>vs. read_elements n (tl (skip_space s2)) = Some vs"
      using "6.prems" v that by (auto simp: read_elements.simps(2) simp del: prefix_Cons)
    then show ?thesis using "6.IH"(2) [OF v] that by fastforce
  qed
  then show ?case using "6.prems" v v' by (auto simp: read_elements.simps(2) simp del: prefix_Cons split: if_splits)
qed simp_all

text \<open>So the reader finds whatever any amount of fuel finds.\<close>

lemma read_value_any_fuel:
  "read_value (json_fuel s) s = Some r \<longleftrightarrow> (\<exists>n. read_value n s = Some r)"
proof
  assume "\<exists>n. read_value n s = Some r"
  then obtain n where n: "read_value n s = Some r" by blast
  have "read_value (n + k) s = Some r" for k
    by (induction k) (simp_all add: n read_mono(1) del: read_value.simps)
  from this [of "json_fuel s"] show "read_value (json_fuel s) s = Some r"
    using read_value_fuel [of s "json_fuel s" n] by (simp add: json_fuel_def add.commute)
qed blast

lemma json_parse_any_fuel:
  "json_parse s = Some v \<longleftrightarrow> (\<exists>n rest. read_value n s = Some (v, rest) \<and> skip_space rest = [])"
proof -
  have "json_parse s = Some v \<longleftrightarrow> (\<exists>rest. read_value (json_fuel s) s = Some (v, rest) \<and> skip_space rest = [])"
    unfolding json_parse_def by (auto simp del: read_value.simps split: option.split)
  then show ?thesis unfolding read_value_any_fuel by blast
qed


subsection \<open>Reading what was written\<close>

text \<open>The compact text of a value that has no numbers, as \<open>Marshal\<close> writes it.\<close>

fun json_write :: "json_value \<Rightarrow> string"
  and write_members :: "(string \<times> json_value) list \<Rightarrow> string"
  and write_elements :: "json_value list \<Rightarrow> string" where
  "json_write NullValue = ''null''"
| "json_write (BoolValue b) = (if b then ''true'' else ''false'')"
| "json_write (NumberValue t) = t"
| "json_write (StringValue s) = CHR 0x22 # s @ [CHR 0x22]"
| "json_write (ArrayValue vs) = ''['' @ write_elements vs @ '']''"
| "json_write (ObjectValue ms) = ''{'' @ write_members ms @ ''}''"
| "write_members [] = []"
| "write_members ((k, v) # ms) =
     CHR 0x22 # k @ [CHR 0x22] @ '':'' @ json_write v @ (if ms = [] then [] else '','' @ write_members ms)"
| "write_elements [] = []"
| "write_elements (v # vs) = json_write v @ (if vs = [] then [] else '','' @ write_elements vs)"

fun written_value :: "json_value \<Rightarrow> bool"
  and written_members :: "(string \<times> json_value) list \<Rightarrow> bool"
  and written_elements :: "json_value list \<Rightarrow> bool" where
  "written_value (StringValue s) \<longleftrightarrow> readable s"
| "written_value (ArrayValue vs) \<longleftrightarrow> written_elements vs"
| "written_value (ObjectValue ms) \<longleftrightarrow> written_members ms"
| "written_value (NumberValue t) \<longleftrightarrow> False"
| "written_value v \<longleftrightarrow> True"
| "written_members [] \<longleftrightarrow> True"
| "written_members ((k, v) # ms) \<longleftrightarrow> readable k \<and> written_value v \<and> written_members ms"
| "written_elements [] \<longleftrightarrow> True"
| "written_elements (v # vs) \<longleftrightarrow> written_value v \<and> written_elements vs"

lemma json_write_start:
  assumes "written_value v"
  obtains c cs where "json_write v = c # cs" "List.member ''{[ntf'' c \<or> c = CHR 0x22"
proof (cases v)
  case (BoolValue b)
  then show ?thesis using that by (cases b) simp_all
qed (use assms that in simp_all)

lemma start_facts:
  assumes "List.member ''{[ntf'' c \<or> c = CHR 0x22"
  shows "\<not> json_space c" and "c \<noteq> CHR '']''"
  using assms by (auto simp: json_space_def)

lemma readable_end: "readable s \<Longrightarrow> raw_string (s @ CHR 0x22 # r) = Some (s, r)"
  by (simp add: readable_def)

lemma json_write_length: "written_value v \<Longrightarrow> 2 \<le> length (json_write v)"
  by (cases v) auto

lemma read_written:
  "written_value v \<Longrightarrow> 2 * length (json_write v) \<le> n \<Longrightarrow> read_value n (json_write v @ r) = Some (v, r)"
  "written_members ms \<Longrightarrow> ms \<noteq> [] \<Longrightarrow> 2 * length (write_members ms) < n \<Longrightarrow>
     read_members n (write_members ms @ CHR ''}'' # r) = Some (ms, r)"
  "written_elements vs \<Longrightarrow> vs \<noteq> [] \<Longrightarrow> 2 * length (write_elements vs) < n \<Longrightarrow>
     read_elements n (write_elements vs @ CHR '']'' # r) = Some (vs, r)"
proof (induction v and ms and vs arbitrary: n r and n r and n r
    rule: json_write_write_members_write_elements.induct)
  case 1
  then show ?case by (cases n) (simp_all add: json_space_def literal_def)
next
  case (2 b)
  then show ?case by (cases n; cases b; simp add: json_space_def literal_def)
next
  case (4 s)
  then show ?case by (cases n) (simp_all add: json_space_def readable_end)
next
  case (5 vs)
  then obtain m where n: "n = Suc m" by (cases n) auto
  show ?case
  proof (cases vs)
    case Nil
    then show ?thesis by (simp add: n json_space_def)
  next
    case (Cons w ws)
    then have "written_value w" using 5 by simp
    from json_write_start [OF this] obtain c cs where "json_write w = c # cs" "\<not> json_space c" "c \<noteq> CHR '']''"
      using start_facts by metis
    then obtain t where "write_elements vs = c # t" "\<not> json_space c" "c \<noteq> CHR '']''" using Cons by simp
    moreover have "read_elements m (write_elements vs @ CHR '']'' # r) = Some (vs, r)"
      using 5 Cons n by (intro "5.IH") simp_all
    ultimately show ?thesis by (simp add: n json_space_def)
  qed
next
  case (6 ms)
  then obtain m where n: "n = Suc m" by (cases n) auto
  show ?case
  proof (cases ms)
    case Nil
    then show ?thesis by (simp add: n json_space_def)
  next
    case (Cons k ks)
    moreover have "read_members m (write_members ms @ CHR ''}'' # r) = Some (ms, r)"
      using 6 Cons n by (intro "6.IH") simp_all
    ultimately show ?thesis by (cases k) (simp add: n json_space_def)
  qed
next
  case (8 k v ms)
  then obtain m where n: "n = Suc m" by (cases n) auto
  have "read_value m (json_write v @ t) = Some (v, t)" for t using 8 n by (intro "8.IH"(1)) simp_all
  moreover have "ms \<noteq> [] \<Longrightarrow> read_members m (write_members ms @ CHR ''}'' # r) = Some (ms, r)"
    using 8 n by (intro "8.IH"(2)) simp_all
  moreover obtain c cs where "json_write v = c # cs" "\<not> json_space c"
    using 8 json_write_start [of v] start_facts by (metis written_members.simps(2))
  ultimately show ?case using 8(3) by (simp add: n json_space_def readable_end)
next
  case (10 v vs)
  then obtain m where n: "n = Suc m" by (cases n) auto
  have "read_value m (json_write v @ t) = Some (v, t)" for t using 10 n by (intro "10.IH"(1)) simp_all
  moreover have "vs \<noteq> [] \<Longrightarrow> read_elements m (write_elements vs @ CHR '']'' # r) = Some (vs, r)"
    using 10 n by (intro "10.IH"(2)) simp_all
  ultimately show ?case by (simp add: n json_space_def)
qed simp_all

text \<open>The reader gives back a value that was written.\<close>

lemma json_parse_write: "written_value v \<Longrightarrow> json_parse (json_write v) = Some v"
  using read_written(1) [of v "json_fuel (json_write v)" "[]"] by (simp add: json_parse_def json_fuel_def)

end
