(* ===== verification/Time_Text.thy ===== *)
theory Time_Text
  imports Go_Time Go_Json_Reader
begin

text \<open>
  How a \<open>time.Time\<close> is stored as JSON: \<open>MarshalJSON\<close> writes it in the format of RFC 3339 with its
  nanoseconds, and fails where the year has not four digits; \<open>UnmarshalJSON\<close> reads the raw text of the
  value. A time that was written is read back to the nanosecond.
\<close>

subsection \<open>Writing\<close>

fun pad :: "nat \<Rightarrow> nat \<Rightarrow> string" where
  "pad 0 n = []"
| "pad (Suc k) n = pad k (n div 10) @ [digit (n mod 10)]"

text \<open>A fraction of a second, in nanoseconds, without trailing zeros.\<close>

definition format_fraction :: "nat \<Rightarrow> string" where
  "format_fraction n =
     (if n = 0 then [] else CHR ''.'' # rev (dropWhile (\<lambda>c. c = CHR ''0'') (rev (pad 9 n))))"

definition format_rfc3339_nano :: "time \<Rightarrow> string" where
  "format_rfc3339_nano t =
     (case date_of_day (t div day) of
        (y, m, d) \<Rightarrow>
          format_date y m d @ ''T'' @ format_clock (nat (t mod day div second))
            @ format_fraction (nat (t mod second)) @ ''Z'')"

text \<open>\<open>MarshalJSON\<close>: the text between the quotes, \<open>None\<close> for an error.\<close>

definition marshal_time :: "time \<Rightarrow> json_value option" where
  "marshal_time t = (if four_digit_year t then Some (StringValue (format_rfc3339_nano t)) else None)"

text \<open>\<open>UnmarshalJSON\<close> over an old value, which \<open>null\<close> leaves as it is.\<close>

definition unmarshal_time :: "json_value \<Rightarrow> time \<Rightarrow> time option" where
  "unmarshal_time v old =
     (case v of
        NullValue \<Rightarrow> Some old
      | StringValue raw \<Rightarrow> parse_rfc3339 raw
      | _ \<Rightarrow> None)"

lemma time_text_examples:
  "format_rfc3339_nano 0 = ''0001-01-01T00:00:00Z''"
  "format_rfc3339_nano ((62135596800 + 951826155) * second + 120000000) = ''2000-02-29T12:09:15.12Z''"
  "format_rfc3339_nano ((62135596800 + 951826155) * second + 7) = ''2000-02-29T12:09:15.000000007Z''"
  "parse_rfc3339 ''2000-02-29T12:09:15.000000007Z'' = Some ((62135596800 + 951826155) * second + 7)"
  "marshal_time (315537897600 * second) = None"
  by code_simp+


subsection \<open>Reading what was written\<close>

lemma decimal_append: "decimal (s @ [c]) = decimal s * 10 + (of_char c - 48)"
  by (simp add: decimal_def)

lemma digit_48: "n < 10 \<Longrightarrow> of_char (digit n) - 48 = n"
  using digit_facts(2) [of n] by (simp add: digit_value_def)

lemma decimal_pad: "decimal (pad k n) = n mod 10 ^ k"
proof (induction k arbitrary: n)
  case (Suc k)
  have "n mod 10 ^ Suc k = 10 * (n div 10 mod 10 ^ k) + n mod 10" by (simp add: mod_mult2_eq)
  then show ?case by (simp add: decimal_append Suc digit_48)
qed (simp add: decimal_def)

lemma pad_facts: "length (pad k n) = k" "list_all is_digit (pad k n)"
  by (induction k arbitrary: n) (simp_all add: digit_facts)

lemma decimal_zeros: "decimal (s @ replicate k CHR ''0'') = decimal s * 10 ^ k"
proof (induction k)
  case (Suc k)
  have "s @ replicate (Suc k) CHR ''0'' = (s @ replicate k CHR ''0'') @ [CHR ''0'']"
    by (simp add: replicate_append_same)
  then show ?case using Suc by (simp only: decimal_append) simp
qed simp

lemma trim_zeros:
  obtains k where "s = rev (dropWhile (\<lambda>c. c = CHR ''0'') (rev s)) @ replicate k CHR ''0''"
proof -
  let ?z = "takeWhile (\<lambda>c. c = CHR ''0'') (rev s)"
  have "rev s = ?z @ dropWhile (\<lambda>c. c = CHR ''0'') (rev s)" by simp
  then have "s = rev (dropWhile (\<lambda>c. c = CHR ''0'') (rev s)) @ rev ?z" by (metis rev_append rev_rev_ident)
  moreover have "?z = replicate (length ?z) CHR ''0''"
    by (rule replicate_length_same [symmetric]) (auto dest: set_takeWhileD)
  then have "rev ?z = replicate (length ?z) CHR ''0''" by (metis rev_replicate)
  ultimately show ?thesis using that by metis
qed

text \<open>The fraction, after the seconds and before the zone.\<close>

lemma get_fraction_format:
  assumes "n < 1000000000"
  shows "get_fraction (format_fraction n @ CHR ''Z'' # r) = (n, CHR ''Z'' # r)"
proof (cases "n = 0")
  case True
  then show ?thesis by (simp add: format_fraction_def get_fraction_def split: list.split)
next
  case False
  let ?d = "rev (dropWhile (\<lambda>c. c = CHR ''0'') (rev (pad 9 n)))"
  obtain k where k: "pad 9 n = ?d @ replicate k CHR ''0''" by (rule trim_zeros)
  have len: "length ?d + k = 9" using arg_cong [OF k, of length] by (simp only: pad_facts length_append length_replicate)
  have dig: "list_all is_digit ?d" using pad_facts(2) [of 9 n] k by (metis list_all_append)
  have val: "decimal ?d * 10 ^ k = n"
    using decimal_pad [of 9 n] assms arg_cong [OF k, of decimal] by (simp only: decimal_zeros) simp
  obtain x xs where d: "?d = x # xs" using val False by (cases ?d) (simp_all add: decimal_def)
  have x: "is_digit x" using dig d by simp
  have tw: "takeWhile is_digit (?d @ CHR ''Z'' # r) = ?d"
    using dig by (simp add: takeWhile_append list_all_iff is_digit_def)
  have "take 9 ?d = ?d" "9 - length ?d = k" "decimal ?d * 10 ^ k = n" using len val by simp_all
  then show ?thesis
    using tw x False by (simp add: get_fraction_def format_fraction_def d Let_def)
qed

lemma parse_clock_nano:
  assumes "n < 86400" and "f < 1000000000"
  shows "parse_clock (format_clock n @ format_fraction f @ CHR ''Z'' # s) = Some ((n, f), CHR ''Z'' # s)"
proof -
  have "n div 3600 = n div 60 div 60" by (simp add: div_mult2_eq [symmetric])
  moreover have "n div 60 div 60 * 60 + n div 60 mod 60 = n div 60" "n div 60 * 60 + n mod 60 = n" by simp_all
  ultimately have "n div 3600 * 3600 + n div 60 mod 60 * 60 + n mod 60 = n" by linarith
  moreover have "n div 3600 \<le> 23" "n div 60 mod 60 \<le> 59" "n mod 60 \<le> 59" using assms(1) by simp_all
  ultimately show ?thesis using get_fraction_format [OF assms(2), of s] by (simp add: parse_clock_def format_clock_def)
qed

lemma parse_written_nano:
  assumes "0 \<le> y" "y < 10000" "1 \<le> m" "m \<le> 12" "1 \<le> d" "int d \<le> month_lengths y ! (m - 1)" "d < 100"
    and "n < 86400" "f < 1000000000"
  shows "parse_rfc3339 (format_date y m d @ ''T'' @ format_clock n @ format_fraction f @ ''Z'') =
    Some (day_of_date y m d * day + int n * second + int f)"
  using assms parse_clock_nano [OF assms(8,9), of "[]"]
  by (simp add: parse_rfc3339_def parse_date_format get_zone_def)

text \<open>The parts of a time whose year has four digits.\<close>

lemma time_parts:
  assumes "four_digit_year t"
  obtains y m d n f where
    "format_rfc3339_nano t = format_date y m d @ ''T'' @ format_clock n @ format_fraction f @ ''Z''"
    and "day_of_date y m d * day + int n * second + int f = t"
    and "0 \<le> y" "y < 10000" "1 \<le> m" "m \<le> 12" "1 \<le> d" "int d \<le> month_lengths y ! (m - 1)" "d < 100"
    and "n < 86400" "f < 1000000000"
proof -
  obtain y m d where dt: "date_of_day (t div day) = (y, m, d)" by (cases "date_of_day (t div day)")
  note v = date_of_day_valid [OF dt]
  have y: "0 \<le> y" "y < 10000" using assms v(1) by (simp_all add: four_digit_year_def)
  define n where "n = nat (t mod day div second)"
  define f where "f = nat (t mod second)"
  have "0 \<le> t mod day" "t mod day < day" "0 \<le> t mod second" "t mod second < second" by simp_all
  then have n: "n < 86400" and f: "f < 1000000000" and tn: "int n = t mod day div second" "int f = t mod second"
    by (simp_all add: n_def f_def nat_less_iff div_less_iff_less_mult)
  have "t mod day mod second = t mod second" by (simp add: mod_mod_cancel)
  then have "t div day * day + t mod day div second * second + t mod second = t"
    using div_mult_mod_eq [of "t mod day" second] div_mult_mod_eq [of t day] by linarith
  then have t: "day_of_date y m d * day + int n * second + int f = t" by (simp only: v(6) tn)
  have "month_lengths y ! (m - 1) \<le> 31" using month_lengths_bound [of "m - 1" y] v(2,3) by simp
  then have d: "d < 100" using v(5) by linarith
  show ?thesis
    by (rule that [OF _ t y v(2-5) d n f]) (simp only: format_rfc3339_nano_def dt prod.case n_def f_def)
qed

text \<open>A time with a year of four digits is read back as it was.\<close>

lemma parse_format_nano:
  assumes "four_digit_year t"
  shows "parse_rfc3339 (format_rfc3339_nano t) = Some t"
  using time_parts [OF assms] parse_written_nano by metis

text \<open>The text of a time stands between quotes as it is.\<close>

definition time_char :: "char \<Rightarrow> bool" where
  "time_char c \<longleftrightarrow> is_digit c \<or> List.member ''-:TZ.'' c"

lemma time_char_plain:
  assumes "time_char c"
  shows "c \<noteq> CHR 0x22 \<and> c \<noteq> backslash \<and> \<not> c < CHR 0x20"
proof -
  have "CHR 0x20 \<le> c"
    using assms order_trans [of "CHR 0x20" "CHR ''0''" c] by (auto simp: time_char_def is_digit_def)
  moreover have "\<not> time_char CHR 0x22" "\<not> time_char backslash" by code_simp+
  ultimately show ?thesis using assms by auto
qed

lemma format_chars:
  assumes "four_digit_year t"
  shows "list_all time_char (format_rfc3339_nano t)"
proof -
  obtain y m d n f where t: "format_rfc3339_nano t = format_date y m d @ ''T'' @ format_clock n @ format_fraction f @ ''Z''"
    and b: "0 \<le> y" "y < 10000" "m \<le> 12" "d < 100" "n < 86400"
    using time_parts [OF assms] by metis
  have dig: "time_char (digit k)" if "k < 10" for k using digit_facts(1) [OF that] by (simp add: time_char_def)
  have sep: "time_char CHR ''-''" "time_char CHR '':''" "time_char CHR ''T''" "time_char CHR ''Z''" "time_char CHR ''.''"
    by code_simp+
  have pad2: "list_all time_char (pad2 k)" if "k < 100" for k using that dig by (simp add: pad2_def)
  have pad4: "list_all time_char (pad4 k)" if "k < 10000" for k using that dig by (simp add: pad4_def)
  have "list_all time_char (format_date y m d)" using b sep by (simp add: format_date_def pad2 pad4 nat_less_iff)
  moreover have "n div 3600 < 100" using b by simp
  then have "list_all time_char (format_clock n)" using sep by (simp add: format_clock_def pad2)
  moreover have "list_all time_char (pad k f)" for k using pad_facts(2) [of k f] by (auto simp: list_all_iff time_char_def)
  then have "list_all time_char (format_fraction f)"
    using sep by (auto simp: format_fraction_def list_all_iff dest!: set_dropWhileD)
  ultimately show ?thesis using sep by (simp add: t)
qed

lemma readable_time:
  assumes "four_digit_year t"
  shows "readable (format_rfc3339_nano t)"
  by (intro readable_list list.pred_mono_strong [OF format_chars [OF assms]] time_char_plain)

end
