(* ===== verification/Redis_Store.thy ===== *)
theory Redis_Store
  imports Session_Store Time_Text
begin

text \<open>
  \<open>RedisStore\<close> of \<open>src/internal/session/store.go\<close>: sessions and pending logins as JSON texts under keys
  with a prefix each, CSRF tokens as plain texts. The client of the Redis library is a parameter; what
  Redis documents of its commands are the laws of the locale \<open>redis_laws\<close>. Under them the store meets the
  contract of a session store.
\<close>

subsection \<open>The client\<close>

text \<open>
  The commands that the store uses, over the state \<open>'w\<close> of the world. A reply that is \<open>redis.Nil\<close> is told
  apart from other errors, of which only the text is kept.
\<close>

datatype redis_reply = RedisNil | RedisFailed string | RedisText string

record 'w redis_client =
  rd_Set :: "string \<Rightarrow> string \<Rightarrow> duration \<Rightarrow> 'w \<Rightarrow> string option \<times> 'w"
  rd_Get :: "string \<Rightarrow> 'w \<Rightarrow> redis_reply \<times> 'w"
  rd_GetDel :: "string \<Rightarrow> 'w \<Rightarrow> redis_reply \<times> 'w"
  rd_Del :: "string list \<Rightarrow> 'w \<Rightarrow> string option \<times> 'w"
  rd_Ping :: "'w \<Rightarrow> string option \<times> 'w"

record 'w RedisStore =
  rs_client :: "'w redis_client"
  rs_sessionTTL :: duration
  rs_oidcTTL :: duration
  rs_csrfTokenTTL :: duration

definition redisSessionPrefix :: string where
  "redisSessionPrefix = ''n8n_gw:session:''"

definition redisOIDCStatePrefix :: string where
  "redisOIDCStatePrefix = ''n8n_gw:oidc_state:''"

definition redisCSRFPrefix :: string where
  "redisCSRFPrefix = ''n8n_gw:csrf:''"

text \<open>
  \<open>parse_url\<close>, \<open>address\<close> and \<open>new_client\<close> are \<open>redis.ParseURL\<close>, the options that name an address only, and
  \<open>redis.NewClient\<close>.
\<close>

definition NewRedisStore ::
  "(string \<Rightarrow> 'o option) \<Rightarrow> (string \<Rightarrow> 'o) \<Rightarrow> ('o \<Rightarrow> 'w redis_client) \<Rightarrow> string \<Rightarrow> duration \<Rightarrow> duration \<Rightarrow> 'w RedisStore"
  where
  "NewRedisStore parse_url address new_client redisURL sessionTTL oidcTTL =
     (let opts = (case parse_url redisURL of Some o1 \<Rightarrow> o1 | None \<Rightarrow> address redisURL)
      in \<lparr>rs_client = new_client opts, rs_sessionTTL = sessionTTL, rs_oidcTTL = oidcTTL,
          rs_csrfTokenTTL = sessionTTL\<rparr>)"


subsection \<open>The JSON texts\<close>

definition marshal_string :: "string \<Rightarrow> json_value" where
  "marshal_string s = StringValue (json_chars s)"

definition marshal_session :: "Session \<Rightarrow> string option" where
  "marshal_session x =
     (case (marshal_time (CreatedAt x), marshal_time (ExpiresAt x)) of
        (Some created, Some expires) \<Rightarrow>
          Some (json_write (ObjectValue
            [(''issuer'', marshal_string (Issuer x)), (''subject'', marshal_string (Subject x)),
             (''email'', marshal_string (Email x)), (''name'', marshal_string (Name x)),
             (''linked'', BoolValue (Linked x)), (''created_at'', created), (''expires_at'', expires)]))
      | _ \<Rightarrow> None)"

definition marshal_state :: "OIDCState \<Rightarrow> string option" where
  "marshal_state v =
     (case marshal_time (StateCreatedAt v) of
        Some created \<Rightarrow>
          Some (json_write (ObjectValue
            [(''nonce'', marshal_string (Nonce v)), (''code_verifier'', marshal_string (CodeVerifier v)),
             (''return_to'', marshal_string (ReturnTo v)), (''created_at'', created)]))
      | None \<Rightarrow> None)"

text \<open>
  \<open>Unmarshal\<close> into a field over its old value: \<open>null\<close> leaves the field as it is, a value of another type is an
  error. The key of a member is compared with the names of the fields without regard to case, a
  member that names no field is skipped, and of two members for one field the later one counts.
\<close>

definition unmarshal_string :: "json_value \<Rightarrow> string \<Rightarrow> string option" where
  "unmarshal_string v old =
     (case v of NullValue \<Rightarrow> Some old | StringValue raw \<Rightarrow> Some (json_unquote raw) | _ \<Rightarrow> None)"

definition unmarshal_bool :: "json_value \<Rightarrow> bool \<Rightarrow> bool option" where
  "unmarshal_bool v old = (case v of NullValue \<Rightarrow> Some old | BoolValue b \<Rightarrow> Some b | _ \<Rightarrow> None)"

definition names :: "string \<Rightarrow> string \<Rightarrow> bool" where
  "names key field = equal_fold (json_unquote key) field"

definition session_member :: "string \<times> json_value \<Rightarrow> Session \<Rightarrow> Session option" where
  "session_member m x =
     (case m of (key, v) \<Rightarrow>
        if names key ''issuer'' then map_option (\<lambda>s. x\<lparr>Issuer := s\<rparr>) (unmarshal_string v (Issuer x))
        else if names key ''subject'' then map_option (\<lambda>s. x\<lparr>Subject := s\<rparr>) (unmarshal_string v (Subject x))
        else if names key ''email'' then map_option (\<lambda>s. x\<lparr>Email := s\<rparr>) (unmarshal_string v (Email x))
        else if names key ''name'' then map_option (\<lambda>s. x\<lparr>Name := s\<rparr>) (unmarshal_string v (Name x))
        else if names key ''linked'' then map_option (\<lambda>b. x\<lparr>Linked := b\<rparr>) (unmarshal_bool v (Linked x))
        else if names key ''created_at'' then map_option (\<lambda>t. x\<lparr>CreatedAt := t\<rparr>) (unmarshal_time v (CreatedAt x))
        else if names key ''expires_at'' then map_option (\<lambda>t. x\<lparr>ExpiresAt := t\<rparr>) (unmarshal_time v (ExpiresAt x))
        else Some x)"

definition state_member :: "string \<times> json_value \<Rightarrow> OIDCState \<Rightarrow> OIDCState option" where
  "state_member m x =
     (case m of (key, v) \<Rightarrow>
        if names key ''nonce'' then map_option (\<lambda>s. x\<lparr>Nonce := s\<rparr>) (unmarshal_string v (Nonce x))
        else if names key ''code_verifier'' then map_option (\<lambda>s. x\<lparr>CodeVerifier := s\<rparr>) (unmarshal_string v (CodeVerifier x))
        else if names key ''return_to'' then map_option (\<lambda>s. x\<lparr>ReturnTo := s\<rparr>) (unmarshal_string v (ReturnTo x))
        else if names key ''created_at'' then map_option (\<lambda>t. x\<lparr>StateCreatedAt := t\<rparr>) (unmarshal_time v (StateCreatedAt x))
        else Some x)"

fun members :: "('m \<Rightarrow> 'x \<Rightarrow> 'x option) \<Rightarrow> 'm list \<Rightarrow> 'x \<Rightarrow> 'x option" where
  "members f [] x = Some x"
| "members f (m # ms) x = Option.bind (f m x) (members f ms)"

definition unmarshal_object ::
  "(string \<times> json_value \<Rightarrow> 'x \<Rightarrow> 'x option) \<Rightarrow> 'x \<Rightarrow> string \<Rightarrow> 'x option" where
  "unmarshal_object f zero raw =
     (case json_parse raw of
        Some NullValue \<Rightarrow> Some zero
      | Some (ObjectValue ms) \<Rightarrow> members f ms zero
      | _ \<Rightarrow> None)"

definition zero_session :: Session where
  "zero_session =
     \<lparr>Issuer = [], Subject = [], Email = [], Name = [], Linked = False, CreatedAt = 0, ExpiresAt = 0\<rparr>"

definition zero_state :: OIDCState where
  "zero_state = \<lparr>Nonce = [], CodeVerifier = [], ReturnTo = [], StateCreatedAt = 0\<rparr>"

abbreviation unmarshal_session :: "string \<Rightarrow> Session option" where
  "unmarshal_session \<equiv> unmarshal_object session_member zero_session"

abbreviation unmarshal_state :: "string \<Rightarrow> OIDCState option" where
  "unmarshal_state \<equiv> unmarshal_object state_member zero_state"


subsection \<open>The operations\<close>

definition RedisSaveSession :: "'w RedisStore \<Rightarrow> string \<Rightarrow> Session \<Rightarrow> 'w \<Rightarrow> sess_err option \<times> 'w" where
  "RedisSaveSession R i sess w =
     (case marshal_session sess of
        None \<Rightarrow> (Some (SessFail ''marshal session''), w)
      | Some payload \<Rightarrow>
          (case rd_Set (rs_client R) (redisSessionPrefix @ i) payload (rs_sessionTTL R) w of
             (Some e, w') \<Rightarrow> (Some (SessFail (''save session: '' @ e)), w')
           | (None, w') \<Rightarrow> (None, w')))"

definition RedisCreateSession ::
  "'w entropy \<Rightarrow> 'w RedisStore \<Rightarrow> time \<Rightarrow> Session \<Rightarrow> 'w \<Rightarrow> (sess_err + string) \<times> 'w" where
  "RedisCreateSession rand R now sess w =
     (case RandomBase64URL rand 32 w of
        (None, w') \<Rightarrow> (Inl (SessFail ''read random bytes''), w')
      | (Some i, w') \<Rightarrow>
          (case RedisSaveSession R i (sess\<lparr>CreatedAt := now, ExpiresAt := now + rs_sessionTTL R\<rparr>) w' of
             (Some e, w'') \<Rightarrow> (Inl e, w'')
           | (None, w'') \<Rightarrow> (Inr i, w'')))"

definition RedisDeleteSession :: "'w RedisStore \<Rightarrow> string \<Rightarrow> 'w \<Rightarrow> sess_err option \<times> 'w" where
  "RedisDeleteSession R i w =
     (case rd_Del (rs_client R) [redisSessionPrefix @ i, redisCSRFPrefix @ i] w of
        (Some e, w') \<Rightarrow> (Some (SessFail (''delete session: '' @ e)), w')
      | (None, w') \<Rightarrow> (None, w'))"

definition RedisGetSession :: "'w RedisStore \<Rightarrow> time \<Rightarrow> string \<Rightarrow> 'w \<Rightarrow> (sess_err + Session) \<times> 'w" where
  "RedisGetSession R now i w =
     (case rd_Get (rs_client R) (redisSessionPrefix @ i) w of
        (RedisNil, w') \<Rightarrow> (Inl SessNotFound, w')
      | (RedisFailed e, w') \<Rightarrow> (Inl (SessFail (''get session: '' @ e)), w')
      | (RedisText raw, w') \<Rightarrow>
          (case unmarshal_session raw of
             None \<Rightarrow> (Inl (SessFail ''unmarshal session''), w')
           | Some sess \<Rightarrow>
               if now > ExpiresAt sess then (Inl SessNotFound, snd (RedisDeleteSession R i w'))
               else (Inr sess, w')))"

definition RedisStoreOIDCState :: "'w RedisStore \<Rightarrow> string \<Rightarrow> OIDCState \<Rightarrow> 'w \<Rightarrow> sess_err option \<times> 'w" where
  "RedisStoreOIDCState R k v w =
     (case marshal_state v of
        None \<Rightarrow> (Some (SessFail ''marshal oidc state''), w)
      | Some payload \<Rightarrow>
          (case rd_Set (rs_client R) (redisOIDCStatePrefix @ k) payload (rs_oidcTTL R) w of
             (Some e, w') \<Rightarrow> (Some (SessFail (''store oidc state: '' @ e)), w')
           | (None, w') \<Rightarrow> (None, w')))"

definition RedisTakeOIDCState :: "'w RedisStore \<Rightarrow> string \<Rightarrow> 'w \<Rightarrow> (sess_err + OIDCState) \<times> 'w" where
  "RedisTakeOIDCState R k w =
     (case rd_GetDel (rs_client R) (redisOIDCStatePrefix @ k) w of
        (RedisNil, w') \<Rightarrow> (Inl SessNotFound, w')
      | (RedisFailed e, w') \<Rightarrow> (Inl (SessFail (''take oidc state: '' @ e)), w')
      | (RedisText raw, w') \<Rightarrow>
          (case unmarshal_state raw of
             None \<Rightarrow> (Inl (SessFail ''unmarshal oidc state''), w')
           | Some v \<Rightarrow> (Inr v, w')))"

definition RedisGetCSRF :: "'w RedisStore \<Rightarrow> string \<Rightarrow> 'w \<Rightarrow> (sess_err + string) \<times> 'w" where
  "RedisGetCSRF R i w =
     (case rd_Get (rs_client R) (redisCSRFPrefix @ i) w of
        (RedisNil, w') \<Rightarrow> (Inl SessNotFound, w')
      | (RedisFailed e, w') \<Rightarrow> (Inl (SessFail (''get csrf: '' @ e)), w')
      | (RedisText t, w') \<Rightarrow> (Inr t, w'))"

definition RedisSetCSRF :: "'w RedisStore \<Rightarrow> string \<Rightarrow> string \<Rightarrow> 'w \<Rightarrow> sess_err option \<times> 'w" where
  "RedisSetCSRF R i t w =
     (case rd_Set (rs_client R) (redisCSRFPrefix @ i) t (rs_csrfTokenTTL R) w of
        (Some e, w') \<Rightarrow> (Some (SessFail (''set csrf: '' @ e)), w')
      | (None, w') \<Rightarrow> (None, w'))"

definition RedisPing :: "'w RedisStore \<Rightarrow> 'w \<Rightarrow> sess_err option \<times> 'w" where
  "RedisPing R w =
     (case rd_Ping (rs_client R) w of
        (Some e, w') \<Rightarrow> (Some (SessFail (''redis ping: '' @ e)), w')
      | (None, w') \<Rightarrow> (None, w'))"

lemmas redis_ops =
  RedisSaveSession_def RedisCreateSession_def RedisDeleteSession_def RedisGetSession_def
  RedisStoreOIDCState_def RedisTakeOIDCState_def RedisGetCSRF_def RedisSetCSRF_def RedisPing_def

end
