(* ===== verification/Redis_Laws.thy ===== *)
theory Redis_Laws
  imports Redis_Store
begin

text \<open>
  What the Redis store promises: a session that is written is read back, and wherever Redis does what it
  documents, the store meets the contract of a session store.
\<close>

subsection \<open>Round trips\<close>

definition redis_session :: "Session \<Rightarrow> Session" where
  "redis_session x =
     x\<lparr>Issuer := replace_invalid (Issuer x), Subject := replace_invalid (Subject x),
       Email := replace_invalid (Email x), Name := replace_invalid (Name x)\<rparr>"

definition redis_state :: "OIDCState \<Rightarrow> OIDCState" where
  "redis_state v =
     v\<lparr>Nonce := replace_invalid (Nonce v), CodeVerifier := replace_invalid (CodeVerifier v),
       ReturnTo := replace_invalid (ReturnTo v)\<rparr>"

lemma marshal_time_Some:
  "marshal_time t = Some v \<longleftrightarrow> four_digit_year t \<and> v = StringValue (format_rfc3339_nano t)"
  by (auto simp: marshal_time_def)

lemma session_names:
  "list_all (\<lambda>k. list_all (\<lambda>f. names k f = (k = f))
      [''issuer'', ''subject'', ''email'', ''name'', ''linked'', ''created_at'', ''expires_at''])
    [''issuer'', ''subject'', ''email'', ''name'', ''linked'', ''created_at'', ''expires_at'']"
  by code_simp

lemma state_names:
  "list_all (\<lambda>k. list_all (\<lambda>f. names k f = (k = f)) [''nonce'', ''code_verifier'', ''return_to'', ''created_at''])
    [''nonce'', ''code_verifier'', ''return_to'', ''created_at'']"
  by code_simp

lemma readable_names:
  "list_all readable [''issuer'', ''subject'', ''email'', ''name'', ''linked'', ''created_at'', ''expires_at'',
     ''nonce'', ''code_verifier'', ''return_to'']"
proof -
  have "list_all (list_all (\<lambda>c. c \<noteq> CHR 0x22 \<and> c \<noteq> backslash \<and> \<not> c < CHR 0x20))
    [''issuer'', ''subject'', ''email'', ''name'', ''linked'', ''created_at'', ''expires_at'',
     ''nonce'', ''code_verifier'', ''return_to'']" by code_simp
  then show ?thesis by (rule list.pred_mono_strong) (rule readable_list)
qed

lemma unmarshal_written:
  "written_value (ObjectValue ms) \<Longrightarrow> unmarshal_object f z (json_write (ObjectValue ms)) = members f ms z"
  by (simp only: unmarshal_object_def json_parse_write option.case json_value.case)

lemma unmarshal_field_simps:
  "unmarshal_string (marshal_string s) old = Some (replace_invalid s)"
  "unmarshal_bool (BoolValue b) b0 = Some b"
  "four_digit_year t \<Longrightarrow> unmarshal_time (StringValue (format_rfc3339_nano t)) t0 = Some t"
  "written_value (marshal_string s)"
  by (simp_all add: unmarshal_string_def marshal_string_def json_unquote_chars unmarshal_bool_def unmarshal_time_def
      parse_format_nano readable_chars)

lemma unmarshal_session_marshal:
  assumes "marshal_session x = Some p"
  shows "unmarshal_session p = Some (redis_session x)"
proof -
  have y: "four_digit_year (CreatedAt x)" "four_digit_year (ExpiresAt x)"
    and p: "p = json_write (ObjectValue
      [(''issuer'', marshal_string (Issuer x)), (''subject'', marshal_string (Subject x)),
       (''email'', marshal_string (Email x)), (''name'', marshal_string (Name x)),
       (''linked'', BoolValue (Linked x)), (''created_at'', StringValue (format_rfc3339_nano (CreatedAt x))),
       (''expires_at'', StringValue (format_rfc3339_nano (ExpiresAt x)))])"
    using assms by (auto simp: marshal_session_def marshal_time_Some split: option.splits)
  have n: "names k f = (k = f)" if "k \<in> set [''issuer'', ''subject'', ''email'', ''name'', ''linked'', ''created_at'', ''expires_at'']"
    "f \<in> set [''issuer'', ''subject'', ''email'', ''name'', ''linked'', ''created_at'', ''expires_at'']" for k f
    using session_names that by (simp only: list_all_iff)
  show ?thesis
    unfolding p
    by (subst unmarshal_written)
      (use readable_names y in \<open>simp_all add: unmarshal_field_simps readable_time session_member_def n
        redis_session_def zero_session_def\<close>)
qed

lemma unmarshal_state_marshal:
  assumes "marshal_state v = Some p"
  shows "unmarshal_state p = Some (redis_state v)"
proof -
  have y: "four_digit_year (StateCreatedAt v)"
    and p: "p = json_write (ObjectValue
      [(''nonce'', marshal_string (Nonce v)), (''code_verifier'', marshal_string (CodeVerifier v)),
       (''return_to'', marshal_string (ReturnTo v)),
       (''created_at'', StringValue (format_rfc3339_nano (StateCreatedAt v)))])"
    using assms by (auto simp: marshal_state_def marshal_time_Some split: option.splits)
  have n: "names k f = (k = f)" if "k \<in> set [''nonce'', ''code_verifier'', ''return_to'', ''created_at'']"
    "f \<in> set [''nonce'', ''code_verifier'', ''return_to'', ''created_at'']" for k f
    using state_names that by (simp only: list_all_iff)
  show ?thesis
    unfolding p
    by (subst unmarshal_written)
      (use readable_names y in \<open>simp_all add: unmarshal_field_simps readable_time state_member_def n
        redis_state_def zero_state_def\<close>)
qed


subsection \<open>Redis\<close>

text \<open>
  What Redis documents of its commands: \<open>contents\<close> are the keys that it holds. A key may expire at any
  time, a write that fails may have been carried out, and otherwise only the commands that name a key
  change it.
\<close>

locale redis_laws =
  fixes C :: "'w redis_client" and rand :: "'w entropy" and contents :: "'w \<Rightarrow> string \<rightharpoonup> string"
  assumes set_keeps: "rd_Set C k v t w = (r1, w') \<Longrightarrow> at_most (contents w') (contents w) k v"
    and set_ok: "rd_Set C k v t w = (None, w') \<Longrightarrow> contents w' \<subseteq>\<^sub>m (contents w)(k \<mapsto> v)"
    and get_keeps: "rd_Get C k w = (r2, w') \<Longrightarrow> contents w' \<subseteq>\<^sub>m contents w"
    and get_text: "rd_Get C k w = (RedisText v, w') \<Longrightarrow> contents w k = Some v"
    and get_nil: "rd_Get C k w = (RedisNil, w') \<Longrightarrow> contents w' k = None"
    and getdel_keeps: "rd_GetDel C k w = (r3, w') \<Longrightarrow> contents w' \<subseteq>\<^sub>m contents w"
    and getdel_text: "rd_GetDel C k w = (RedisText v, w') \<Longrightarrow> contents w k = Some v \<and> contents w' k = None"
    and del_keeps: "rd_Del C ks w = (r4, w') \<Longrightarrow> contents w' \<subseteq>\<^sub>m contents w"
    and del_ok: "rd_Del C ks w = (None, w') \<Longrightarrow> k \<in> set ks \<Longrightarrow> contents w' k = None"
    and pong_keeps: "rd_Ping C w = (r5, w') \<Longrightarrow> contents w' \<subseteq>\<^sub>m contents w"
    and rand_keeps: "rand n w = (b, w') \<Longrightarrow> contents w' \<subseteq>\<^sub>m contents w"

text \<open>The values under the keys with a prefix, as far as they can be decoded.\<close>

definition view :: "string \<Rightarrow> (string \<Rightarrow> 'a option) \<Rightarrow> (string \<rightharpoonup> string) \<Rightarrow> string \<rightharpoonup> 'a" where
  "view p dec m i = Option.bind (m (p @ i)) dec"

lemma view_Some: "view p dec m i = Some y \<longleftrightarrow> (\<exists>t. m (p @ i) = Some t \<and> dec t = Some y)"
  by (auto simp: view_def split: bind_splits)

lemma view_le:
  assumes "m' \<subseteq>\<^sub>m m"
  shows "view p dec m' \<subseteq>\<^sub>m view p dec m"
  by (rule map_leI) (auto simp: view_Some dest: map_leD [OF assms])

lemma view_at_most:
  "at_most m' m (p @ k) t \<Longrightarrow> dec t = Some v \<Longrightarrow> at_most (view p dec m') (view p dec m) k v"
  by (fastforce simp: at_most_def view_Some)

lemma view_other:
  assumes "at_most m' m k t" and "\<And>i. p @ i \<noteq> k"
  shows "view p dec m' \<subseteq>\<^sub>m view p dec m"
  by (rule map_leI) (use assms in \<open>unfold at_most_def view_Some, blast\<close>)

lemma view_upd:
  assumes "m' \<subseteq>\<^sub>m m(p @ k \<mapsto> t)" and "dec t = Some v"
  shows "view p dec m' \<subseteq>\<^sub>m (view p dec m)(k \<mapsto> v)"
proof -
  have "view p dec (m(p @ k \<mapsto> t)) = (view p dec m)(k \<mapsto> v)" using assms(2) by (auto simp: view_def)
  then show ?thesis using view_le [OF assms(1), of p dec] by simp
qed

lemma prefixes_differ [simp]:
  "redisSessionPrefix @ i \<noteq> redisOIDCStatePrefix @ j" "redisSessionPrefix @ i \<noteq> redisCSRFPrefix @ j"
  "redisOIDCStatePrefix @ i \<noteq> redisSessionPrefix @ j" "redisOIDCStatePrefix @ i \<noteq> redisCSRFPrefix @ j"
  "redisCSRFPrefix @ i \<noteq> redisSessionPrefix @ j" "redisCSRFPrefix @ i \<noteq> redisOIDCStatePrefix @ j"
  by (simp_all add: redisSessionPrefix_def redisOIDCStatePrefix_def redisCSRFPrefix_def)

definition redis_live :: "('w \<Rightarrow> string \<rightharpoonup> string) \<Rightarrow> 'w \<Rightarrow> string \<rightharpoonup> Session" where
  "redis_live contents w = view redisSessionPrefix unmarshal_session (contents w)"

definition redis_pending :: "('w \<Rightarrow> string \<rightharpoonup> string) \<Rightarrow> 'w \<Rightarrow> string \<rightharpoonup> OIDCState" where
  "redis_pending contents w = view redisOIDCStatePrefix unmarshal_state (contents w)"

definition redis_token :: "('w \<Rightarrow> string \<rightharpoonup> string) \<Rightarrow> 'w \<Rightarrow> string \<rightharpoonup> string" where
  "redis_token contents w = view redisCSRFPrefix Some (contents w)"

lemmas redis_views = redis_live_def redis_pending_def redis_token_def

locale redis_store = redis_laws "rs_client R" rand contents
  for R :: "'w RedisStore" and rand and contents :: "'w \<Rightarrow> string \<rightharpoonup> string"
begin

abbreviation keeps :: "'w \<Rightarrow> 'w \<Rightarrow> bool" where
  "keeps w w' \<equiv> redis_live contents w' \<subseteq>\<^sub>m redis_live contents w
     \<and> redis_pending contents w' \<subseteq>\<^sub>m redis_pending contents w
     \<and> redis_token contents w' \<subseteq>\<^sub>m redis_token contents w"

lemma keepsI: "contents w' \<subseteq>\<^sub>m contents w \<Longrightarrow> keeps w w'"
  by (simp add: redis_views view_le)

lemma keeps_trans: "keeps u v \<Longrightarrow> keeps v w \<Longrightarrow> keeps u w"
  using map_le_trans by (metis (no_types))

lemma save_step:
  assumes "RedisSaveSession R i x w = (r, w')"
  shows "at_most (redis_live contents w') (redis_live contents w) i (redis_session x)
      \<and> redis_pending contents w' \<subseteq>\<^sub>m redis_pending contents w
      \<and> redis_token contents w' \<subseteq>\<^sub>m redis_token contents w"
    and "r = None \<Longrightarrow> redis_live contents w' \<subseteq>\<^sub>m (redis_live contents w)(i \<mapsto> redis_session x)"
proof -
  have "w' = w \<and> r \<noteq> None \<or> (\<exists>p e. marshal_session x = Some p \<and> (r = None \<longleftrightarrow> e = None)
      \<and> rd_Set (rs_client R) (redisSessionPrefix @ i) p (rs_sessionTTL R) w = (e, w'))"
    using assms by (auto simp: RedisSaveSession_def split: option.splits prod.splits)
  then show "at_most (redis_live contents w') (redis_live contents w) i (redis_session x)
      \<and> redis_pending contents w' \<subseteq>\<^sub>m redis_pending contents w
      \<and> redis_token contents w' \<subseteq>\<^sub>m redis_token contents w"
    and "r = None \<Longrightarrow> redis_live contents w' \<subseteq>\<^sub>m (redis_live contents w)(i \<mapsto> redis_session x)"
    by (auto simp: redis_views at_most_le dest!: unmarshal_session_marshal
        intro: view_at_most view_other set_keeps view_upd set_ok)
qed

lemma create_step:
  assumes "RedisCreateSession rand R now x w = (r, w')"
  shows "(\<exists>i. at_most (redis_live contents w') (redis_live contents w) i
        (redis_session (x\<lparr>CreatedAt := now, ExpiresAt := now + rs_sessionTTL R\<rparr>)))
      \<and> redis_pending contents w' \<subseteq>\<^sub>m redis_pending contents w
      \<and> redis_token contents w' \<subseteq>\<^sub>m redis_token contents w"
    and "r = Inr i \<Longrightarrow> redis_live contents w' \<subseteq>\<^sub>m
      (redis_live contents w)(i \<mapsto> redis_session (x\<lparr>CreatedAt := now, ExpiresAt := now + rs_sessionTTL R\<rparr>))"
proof -
  let ?x = "x\<lparr>CreatedAt := now, ExpiresAt := now + rs_sessionTTL R\<rparr>"
  obtain b w1 where b: "rand 32 w = (b, w1)" by (cases "rand 32 w")
  have k: "keeps w w1" using b by (intro keepsI rand_keeps)
  show "(\<exists>i. at_most (redis_live contents w') (redis_live contents w) i (redis_session ?x))
      \<and> redis_pending contents w' \<subseteq>\<^sub>m redis_pending contents w
      \<and> redis_token contents w' \<subseteq>\<^sub>m redis_token contents w"
  proof (cases b)
    case None
    then have "w' = w1" using assms b by (simp add: RedisCreateSession_def RandomBase64URL_def)
    then show ?thesis using k by (simp add: at_most_le)
  next
    case (Some bytes)
    then obtain e where "RedisSaveSession R (base64_raw_url bytes) ?x w1 = (e, w')"
      using assms b by (auto simp: RedisCreateSession_def RandomBase64URL_def split: option.splits prod.splits)
    from save_step(1) [OF this] show ?thesis using k by (blast intro: map_le_trans at_most_trans)
  qed
  assume "r = Inr i"
  then have "RedisSaveSession R i ?x w1 = (None, w')"
    using assms b by (auto simp: RedisCreateSession_def RandomBase64URL_def split: option.splits prod.splits)
  from save_step(2) [OF this] have "redis_live contents w' \<subseteq>\<^sub>m (redis_live contents w1)(i \<mapsto> redis_session ?x)" by simp
  then show "redis_live contents w' \<subseteq>\<^sub>m (redis_live contents w)(i \<mapsto> redis_session ?x)"
    by (rule map_le_trans) (rule map_le_upd [OF conjunct1 [OF k]])
qed

lemma delete_step:
  assumes "RedisDeleteSession R i w = (r, w')"
  shows "keeps w w'" and "r = None \<Longrightarrow> redis_live contents w' i = None \<and> redis_token contents w' i = None"
proof -
  obtain e where d: "rd_Del (rs_client R) [redisSessionPrefix @ i, redisCSRFPrefix @ i] w = (e, w')"
    and r: "r = None \<longleftrightarrow> e = None"
    using assms by (auto simp: RedisDeleteSession_def split: option.splits prod.splits)
  show "keeps w w'" using d by (intro keepsI del_keeps)
  show "r = None \<Longrightarrow> redis_live contents w' i = None \<and> redis_token contents w' i = None"
    using d r del_ok [of "[redisSessionPrefix @ i, redisCSRFPrefix @ i]" w w'] by (simp add: redis_views view_def)
qed

lemma find_step:
  assumes "RedisGetSession R now i w = (r, w')"
  shows "keeps w w'" and "r = Inr x \<Longrightarrow> redis_live contents w i = Some x \<and> now \<le> ExpiresAt x"
    and "r = Inl SessNotFound \<Longrightarrow> (case redis_live contents w' i of None \<Rightarrow> True | Some x \<Rightarrow> ExpiresAt x < now)"
proof -
  obtain y w1 where y: "rd_Get (rs_client R) (redisSessionPrefix @ i) w = (y, w1)"
    by (cases "rd_Get (rs_client R) (redisSessionPrefix @ i) w")
  have k: "keeps w w1" using y by (intro keepsI get_keeps)
  have del: "keeps w1 (snd (RedisDeleteSession R i w1))"
    using delete_step(1) [of i w1] by (cases "RedisDeleteSession R i w1") simp
  have "w' = w1 \<or> w' = snd (RedisDeleteSession R i w1)"
    using assms y by (auto simp: RedisGetSession_def split: redis_reply.splits option.splits if_splits)
  then show kw: "keeps w w'" using k keeps_trans [OF k del] by (elim disjE) simp_all
  {
    assume "r = Inr x"
    then have "\<exists>raw. y = RedisText raw \<and> unmarshal_session raw = Some x \<and> now \<le> ExpiresAt x"
      using assms y by (simp add: RedisGetSession_def split: redis_reply.split_asm option.split_asm if_split_asm)
    then obtain raw where "y = RedisText raw" "unmarshal_session raw = Some x" "now \<le> ExpiresAt x" by blast
    then show "redis_live contents w i = Some x \<and> now \<le> ExpiresAt x"
      using y get_text by (simp add: redis_views view_Some)
  }
  assume missing: "r = Inl SessNotFound"
  show "case redis_live contents w' i of None \<Rightarrow> True | Some x \<Rightarrow> ExpiresAt x < now"
  proof (cases y)
    case RedisNil
    then have "contents w' (redisSessionPrefix @ i) = None"
      using assms y get_nil by (auto simp: RedisGetSession_def)
    then show ?thesis by (simp add: redis_views view_def)
  next
    case (RedisText raw)
    then obtain z where z: "unmarshal_session raw = Some z" "ExpiresAt z < now"
      using assms y missing by (auto simp: RedisGetSession_def split: option.splits if_splits)
    have "redis_live contents w i = Some z" using y RedisText get_text z(1) by (simp add: redis_views view_Some)
    then show ?thesis using map_leD [of "redis_live contents w'" "redis_live contents w" i] kw z(2)
      by (auto split: option.split)
  qed (use assms y missing in \<open>simp add: RedisGetSession_def\<close>)
qed

lemma take_step:
  assumes "RedisTakeOIDCState R k w = (r, w')"
  shows "keeps w w'" and "r = Inr v \<Longrightarrow> redis_pending contents w k = Some v \<and> redis_pending contents w' k = None"
proof -
  obtain y where y: "rd_GetDel (rs_client R) (redisOIDCStatePrefix @ k) w = (y, w')"
    and r: "r = Inr v \<Longrightarrow> \<exists>raw. y = RedisText raw \<and> unmarshal_state raw = Some v"
    using assms by (auto simp: RedisTakeOIDCState_def split: option.splits prod.splits redis_reply.splits)
  show "keeps w w'" using y by (intro keepsI getdel_keeps)
  show "r = Inr v \<Longrightarrow> redis_pending contents w k = Some v \<and> redis_pending contents w' k = None"
    using r y getdel_text by (fastforce simp: redis_views view_def)
qed

lemma store_step:
  assumes "RedisStoreOIDCState R k v w = (r, w')"
  shows "at_most (redis_pending contents w') (redis_pending contents w) k (redis_state v)
      \<and> redis_live contents w' \<subseteq>\<^sub>m redis_live contents w
      \<and> redis_token contents w' \<subseteq>\<^sub>m redis_token contents w"
    and "r = None \<Longrightarrow> redis_pending contents w' \<subseteq>\<^sub>m (redis_pending contents w)(k \<mapsto> redis_state v)"
proof -
  have "w' = w \<and> r \<noteq> None \<or> (\<exists>p e. marshal_state v = Some p \<and> (r = None \<longleftrightarrow> e = None)
      \<and> rd_Set (rs_client R) (redisOIDCStatePrefix @ k) p (rs_oidcTTL R) w = (e, w'))"
    using assms by (auto simp: RedisStoreOIDCState_def split: option.splits prod.splits)
  then show "at_most (redis_pending contents w') (redis_pending contents w) k (redis_state v)
      \<and> redis_live contents w' \<subseteq>\<^sub>m redis_live contents w
      \<and> redis_token contents w' \<subseteq>\<^sub>m redis_token contents w"
    and "r = None \<Longrightarrow> redis_pending contents w' \<subseteq>\<^sub>m (redis_pending contents w)(k \<mapsto> redis_state v)"
    by (auto simp: redis_views at_most_le dest!: unmarshal_state_marshal
        intro: view_at_most view_other set_keeps view_upd set_ok)
qed

lemma csrf_steps:
  "RedisGetCSRF R i w = (r, w') \<Longrightarrow> keeps w w'"
  "RedisGetCSRF R i w = (Inr t, w') \<Longrightarrow> redis_token contents w i = Some t"
  "RedisSetCSRF R i t w = (e, w') \<Longrightarrow> at_most (redis_token contents w') (redis_token contents w) i t
      \<and> redis_live contents w' \<subseteq>\<^sub>m redis_live contents w
      \<and> redis_pending contents w' \<subseteq>\<^sub>m redis_pending contents w"
  "RedisSetCSRF R i t w = (None, w') \<Longrightarrow> redis_token contents w' \<subseteq>\<^sub>m (redis_token contents w)(i \<mapsto> t)"
  "RedisPing R w = (e, w') \<Longrightarrow> keeps w w'"
proof -
  have "r = Inr t \<Longrightarrow> y = RedisText t" "w' = w1"
    if "RedisGetCSRF R i w = (r, w')" "rd_Get (rs_client R) (redisCSRFPrefix @ i) w = (y, w1)" for r y w1
    using that by (auto simp: RedisGetCSRF_def split: redis_reply.splits)
  then show "RedisGetCSRF R i w = (r, w') \<Longrightarrow> keeps w w'"
    "RedisGetCSRF R i w = (Inr t, w') \<Longrightarrow> redis_token contents w i = Some t"
    using get_keeps get_text keepsI
    by (cases "rd_Get (rs_client R) (redisCSRFPrefix @ i) w"; fastforce simp: redis_views view_def)+
  have "\<exists>x. rd_Set (rs_client R) (redisCSRFPrefix @ i) t (rs_csrfTokenTTL R) w = (x, w') \<and> (e = None \<longleftrightarrow> x = None)"
    if "RedisSetCSRF R i t w = (e, w')" for e
    using that by (auto simp: RedisSetCSRF_def split: prod.splits option.splits)
  then show "RedisSetCSRF R i t w = (e, w') \<Longrightarrow> at_most (redis_token contents w') (redis_token contents w) i t
      \<and> redis_live contents w' \<subseteq>\<^sub>m redis_live contents w
      \<and> redis_pending contents w' \<subseteq>\<^sub>m redis_pending contents w"
    "RedisSetCSRF R i t w = (None, w') \<Longrightarrow> redis_token contents w' \<subseteq>\<^sub>m (redis_token contents w)(i \<mapsto> t)"
    unfolding redis_views
    by (fastforce intro!: view_at_most view_other view_upd intro: set_keeps set_ok)+
  show "RedisPing R w = (e, w') \<Longrightarrow> keeps w w'"
    using pong_keeps keepsI by (fastforce simp: RedisPing_def split: prod.splits option.splits)
qed

end

sublocale redis_store \<subseteq> session_store "RedisCreateSession rand R" "RedisSaveSession R" "RedisGetSession R"
  "RedisDeleteSession R" "RedisStoreOIDCState R" "RedisTakeOIDCState R" "RedisGetCSRF R" "RedisSetCSRF R"
  "RedisPing R" "redis_live contents" "redis_pending contents" "redis_token contents"
  redis_session redis_state "\<lambda>_. rs_sessionTTL R"
  by unfold_locales
    (erule create_step save_step find_step delete_step store_step take_step csrf_steps | simp)+

context redis_store
begin

lemma is_session_store:
  "session_store (RedisCreateSession rand R) (RedisSaveSession R) (RedisGetSession R) (RedisDeleteSession R)
     (RedisStoreOIDCState R) (RedisTakeOIDCState R) (RedisGetCSRF R) (RedisSetCSRF R) (RedisPing R)
     (redis_live contents) (redis_pending contents) (redis_token contents) redis_session redis_state
     (\<lambda>_. rs_sessionTTL R)"
  by (rule session_store_axioms)

text \<open>A session that Redis still has, after it was created, is the one that was created.\<close>

lemma created_is_found:
  assumes "RedisCreateSession rand R t0 x w = (Inr i, w1)" and "RedisGetSession R t1 i w1 = (Inr y, w2)"
  shows "y = redis_session (x\<lparr>CreatedAt := t0, ExpiresAt := t0 + rs_sessionTTL R\<rparr>)"
  using created_session_found [OF assms] by simp

end

subsection \<open>An engine\<close>

text \<open>
  A Redis that meets the laws: entries with a deadline, and a clock that every command advances, so that
  entries expire between the commands and during them.
\<close>

record redis_engine =
  re_data :: "string \<rightharpoonup> string \<times> time option"
  re_clock :: time
  re_entropy :: "string list"

definition re_alive :: "redis_engine \<Rightarrow> string \<rightharpoonup> string" where
  "re_alive e k =
     (case re_data e k of
        None \<Rightarrow> None
      | Some (v, deadline) \<Rightarrow> (case deadline of None \<Rightarrow> Some v | Some t \<Rightarrow> if re_clock e < t then Some v else None))"

definition re_tick :: "redis_engine \<Rightarrow> redis_engine" where
  "re_tick e = e\<lparr>re_clock := re_clock e + 1000\<rparr>"

definition re_reply :: "redis_engine \<Rightarrow> string \<Rightarrow> redis_reply" where
  "re_reply e k = (case re_alive e k of None \<Rightarrow> RedisNil | Some v \<Rightarrow> RedisText v)"

definition re_engine :: "redis_engine redis_client" where
  "re_engine =
     \<lparr>rd_Set = (\<lambda>k v ttl e. (None, re_tick (e\<lparr>re_data :=
        (re_data e)(k \<mapsto> (v, if ttl > 0 then Some (re_clock e + ttl) else None))\<rparr>))),
      rd_Get = (\<lambda>k e. (re_reply e k, re_tick e)),
      rd_GetDel = (\<lambda>k e. (re_reply e k, re_tick (e\<lparr>re_data := (re_data e)(k := None)\<rparr>))),
      rd_Del = (\<lambda>ks e. (None, re_tick (e\<lparr>re_data := (\<lambda>k. if List.member ks k then None else re_data e k)\<rparr>))),
      rd_Ping = (\<lambda>e. (None, re_tick e))\<rparr>"

definition re_rand :: "redis_engine entropy" where
  "re_rand n e =
     (case re_entropy e of [] \<Rightarrow> (None, e) | bytes # rest \<Rightarrow> (Some (take n bytes), e\<lparr>re_entropy := rest\<rparr>))"

lemma re_alive_tick: "re_alive (re_tick e) \<subseteq>\<^sub>m re_alive e"
  by (rule map_leI) (auto simp: re_alive_def re_tick_def split: option.splits if_splits)

lemma re_alive_data:
  assumes "\<And>k. d k = None \<or> d k = re_data e k"
  shows "re_alive (e\<lparr>re_data := d\<rparr>) \<subseteq>\<^sub>m re_alive e"
proof (rule map_leI)
  fix k v assume "re_alive (e\<lparr>re_data := d\<rparr>) k = Some v"
  then show "re_alive e k = Some v" using assms [of k] by (elim disjE) (auto simp: re_alive_def split: option.splits)
qed

lemma re_alive_set: "re_alive (e\<lparr>re_data := (re_data e)(k \<mapsto> (v, t))\<rparr>) \<subseteq>\<^sub>m (re_alive e)(k \<mapsto> v)"
  by (rule map_leI) (auto simp: re_alive_def split: option.splits if_splits)

interpretation rds: redis_laws re_engine re_rand re_alive
proof unfold_locales
  note le = map_le_trans [OF re_alive_tick]
  fix k v t ks e e' r n b and w :: redis_engine
  show "rd_Set re_engine k v t e = (None, e') \<Longrightarrow> re_alive e' \<subseteq>\<^sub>m (re_alive e)(k \<mapsto> v)"
    using le [OF re_alive_set] by (auto simp: re_engine_def)
  show "rd_Set re_engine k v t e = (r, e') \<Longrightarrow> at_most (re_alive e') (re_alive e) k v" for r
    using at_most_upd [OF le [OF re_alive_set]] by (auto simp: re_engine_def)
  show "rd_Get re_engine k e = (r, e') \<Longrightarrow> re_alive e' \<subseteq>\<^sub>m re_alive e" for r
    by (auto simp: re_engine_def re_alive_tick)
  show "rd_Get re_engine k e = (RedisText v, e') \<Longrightarrow> re_alive e k = Some v"
    by (auto simp: re_engine_def re_reply_def split: option.splits)
  show "rd_Get re_engine k e = (RedisNil, e') \<Longrightarrow> re_alive e' k = None"
    using map_leD [OF re_alive_tick [of e], of k]
    by (cases "re_alive (re_tick e) k") (auto simp: re_engine_def re_reply_def split: option.splits)
  show "rd_GetDel re_engine k e = (r, e') \<Longrightarrow> re_alive e' \<subseteq>\<^sub>m re_alive e" for r
    using le [OF re_alive_data] by (auto simp: re_engine_def)
  show "rd_GetDel re_engine k e = (RedisText v, e') \<Longrightarrow> re_alive e k = Some v \<and> re_alive e' k = None"
    by (auto simp: re_engine_def re_reply_def re_alive_def re_tick_def split: option.splits)
  show "rd_Del re_engine ks e = (r, e') \<Longrightarrow> re_alive e' \<subseteq>\<^sub>m re_alive e" for r
    using le [OF re_alive_data] by (auto simp: re_engine_def)
  show "rd_Del re_engine ks e = (None, e') \<Longrightarrow> k \<in> set ks \<Longrightarrow> re_alive e' k = None"
    by (auto simp: re_engine_def re_alive_def re_tick_def)
  show "rd_Ping re_engine e = (r, e') \<Longrightarrow> re_alive e' \<subseteq>\<^sub>m re_alive e" for r
    by (auto simp: re_engine_def re_alive_tick)
  show "re_rand n e = (b, e') \<Longrightarrow> re_alive e' \<subseteq>\<^sub>m re_alive e"
    by (auto simp: re_rand_def re_alive_def map_le_def split: list.splits option.splits)
qed

definition demo_redis :: "redis_engine RedisStore" where
  "demo_redis = NewRedisStore (\<lambda>_. None) (\<lambda>u. u) (\<lambda>_. re_engine) ''localhost:6379'' (60 * second) (10 * second)"

interpretation redis: redis_store demo_redis re_rand re_alive
proof (intro redis_store.intro)
  show "redis_laws (rs_client demo_redis) re_rand re_alive"
    using rds.redis_laws_axioms by (simp add: demo_redis_def NewRedisStore_def)
qed


subsection \<open>Properties of the Redis store\<close>

text \<open>
  Property C11. Wherever Redis keeps its documented promises, the Redis store meets the contract that the
  in-memory store meets too: it never makes up a session, a pending login or a token, a value taken or
  deleted is gone, and what is found is what was written, up to bytes that are not UTF-8. This holds
  although entries may expire at any time and a write that fails may have been carried out.
\<close>

theorem redis_store_meets_contract:
  assumes "redis_laws (rs_client R) rand contents"
  shows "session_store (RedisCreateSession rand R) (RedisSaveSession R) (RedisGetSession R) (RedisDeleteSession R)
     (RedisStoreOIDCState R) (RedisTakeOIDCState R) (RedisGetCSRF R) (RedisSetCSRF R) (RedisPing R)
     (redis_live contents) (redis_pending contents) (redis_token contents) redis_session redis_state
     (\<lambda>_. rs_sessionTTL R)"
  by (rule redis_store.is_session_store) (rule redis_store.intro [OF assms])

theorem redis_store_meets_contract_witness:
  "session_store (RedisCreateSession re_rand demo_redis) (RedisSaveSession demo_redis) (RedisGetSession demo_redis)
     (RedisDeleteSession demo_redis) (RedisStoreOIDCState demo_redis) (RedisTakeOIDCState demo_redis)
     (RedisGetCSRF demo_redis) (RedisSetCSRF demo_redis) (RedisPing demo_redis)
     (redis_live re_alive) (redis_pending re_alive) (redis_token re_alive) redis_session redis_state
     (\<lambda>_. 60 * second)"
  using redis_store_meets_contract [of demo_redis re_rand re_alive] rds.redis_laws_axioms
  by (simp add: demo_redis_def NewRedisStore_def)

text \<open>
  Property C12. What the Redis store writes it can read: the JSON text of a session or a pending login is
  decoded to the same value, with its times to the nanosecond, and with every byte of its texts that is not
  UTF-8 replaced by U+FFFD once and for all. The only values that cannot be written are those with a time
  outside the years 0 to 9999.
\<close>

theorem redis_round_trip:
  "(case marshal_session x of
      Some p \<Rightarrow> unmarshal_session p = Some (redis_session x)
    | None \<Rightarrow> \<not> (four_digit_year (CreatedAt x) \<and> four_digit_year (ExpiresAt x)))
   \<and> (case marshal_state v of
        Some p \<Rightarrow> unmarshal_state p = Some (redis_state v)
      | None \<Rightarrow> \<not> four_digit_year (StateCreatedAt v))
   \<and> redis_session (redis_session x) = redis_session x \<and> redis_state (redis_state v) = redis_state v"
  using unmarshal_session_marshal [of x] unmarshal_state_marshal [of v]
  by (auto simp: marshal_session_def marshal_state_def marshal_time_def redis_session_def redis_state_def
      split: option.split)

definition decode_session :: "json_value \<Rightarrow> Session option" where
  "decode_session v =
     (case v of
        NullValue \<Rightarrow> Some zero_session
      | ObjectValue ms \<Rightarrow> members session_member ms zero_session
      | _ \<Rightarrow> None)"

lemma unmarshal_session_any_fuel:
  "unmarshal_session raw = Some x \<longleftrightarrow>
     (\<exists>n v rest. read_value n raw = Some (v, rest) \<and> skip_space rest = [] \<and> decode_session v = Some x)"
proof -
  have "unmarshal_session raw = Some x \<longleftrightarrow> (\<exists>v. json_parse raw = Some v \<and> decode_session v = Some x)"
    by (auto simp: unmarshal_object_def decode_session_def split: option.split json_value.split)
  then show ?thesis unfolding json_parse_any_fuel by blast
qed


end
