(* ===== verification/Metrics.thy ===== *)
theory Metrics
  imports Assembly
begin

text \<open>
  The metrics of \<open>src/internal/httpserver/server.go\<close>: \<open>newMetrics\<close> with the series it creates, and that every
  metric that a handler counts is one of them. The metrics library is a parameter; what is used of it is
  that \<open>WithLabelValues\<close> creates the series of a list of label values, and panics on a wrong number of them.
\<close>

subsection \<open>The metrics\<close>

datatype metric_kind = Counter_Vec | Histogram_Vec | Gauge_Value

record metric =
  metric_kind :: metric_kind
  metric_name :: string
  metric_help :: string
  metric_labels :: "string list"
  metric_series :: "string list list"

record metrics =
  m_requests :: metric
  m_duration :: metric
  m_oidcLogin :: metric
  m_n8nLogin :: metric
  m_vaultOps :: metric
  m_publicInflight :: metric
  m_upstreamErrors :: metric

text \<open>\<open>WithLabelValues\<close>, \<open>None\<close> for its panic, and a loop of such calls.\<close>

definition with_label_values :: "string list \<Rightarrow> metric \<Rightarrow> metric option" where
  "with_label_values ls m =
     (if length ls \<noteq> length (metric_labels m) then None
      else if List.member (metric_series m) ls then Some m
      else Some (m\<lparr>metric_series := metric_series m @ [ls]\<rparr>))"

fun with_series :: "string list list \<Rightarrow> metric \<Rightarrow> metric option" where
  "with_series [] m = Some m"
| "with_series (ls # lss) m = Option.bind (with_label_values ls m) (with_series lss)"

definition counter_vec :: "string \<Rightarrow> string \<Rightarrow> string list \<Rightarrow> metric" where
  "counter_vec name help labels =
     \<lparr>metric_kind = Counter_Vec, metric_name = name, metric_help = help, metric_labels = labels, metric_series = []\<rparr>"

definition registered_metrics :: metrics where
  "registered_metrics =
     \<lparr>m_requests = counter_vec ''n8n_proxy_requests_total'' ''Total n8n proxy requests.'' [''route_class'', ''status''],
      m_duration =
        (counter_vec ''n8n_proxy_request_duration_seconds'' ''n8n proxy request duration.'' [''route_class''])
          \<lparr>metric_kind := Histogram_Vec\<rparr>,
      m_oidcLogin = counter_vec ''n8n_proxy_oidc_login_total'' ''OIDC login attempts.'' [''result''],
      m_n8nLogin = counter_vec ''n8n_proxy_n8n_login_total'' ''n8n login bridge attempts.'' [''result''],
      m_vaultOps = counter_vec ''n8n_proxy_vault_operations_total'' ''Vault operations.'' [''operation'', ''result''],
      m_publicInflight =
        (counter_vec ''n8n_proxy_public_execution_inflight'' ''Inflight public execution requests.'' [])
          \<lparr>metric_kind := Gauge_Value\<rparr>,
      m_upstreamErrors = counter_vec ''n8n_proxy_upstream_errors_total'' ''Upstream errors.'' [''route_class'']\<rparr>"

definition route_classes :: "RouteClass list" where
  "route_classes =
     [RouteInternal, RoutePublicExecution, RouteBlockedNativeLogin, RouteNativeLoginAlias, RouteProtectedConsole]"

definition newMetrics :: "metrics option" where
  "newMetrics =
     (let m = registered_metrics
      in do { requests \<leftarrow> with_series (map (\<lambda>c. [route_class_name c, ''200'']) route_classes) (m_requests m);
              duration \<leftarrow> with_series (map (\<lambda>c. [route_class_name c]) route_classes) (m_duration m);
              oidcLogin \<leftarrow> with_series
                (map (\<lambda>l. [l]) [''started'', ''success'', ''bad_callback'', ''invalid_state'', ''exchange_failed''])
                (m_oidcLogin m);
              n8nLogin \<leftarrow> with_series
                (map (\<lambda>l. [l]) [''success'', ''invalid_credential'', ''mfa_required'', ''rate_limited'', ''error''])
                (m_n8nLogin m);
              vaultOps \<leftarrow> with_series
                [[operation, result]. operation \<leftarrow> [''read'', ''write'', ''delete''],
                                      result \<leftarrow> [''success'', ''not_found'', ''error'']]
                (m_vaultOps m);
              upstreamErrors \<leftarrow> with_series
                (map (\<lambda>c. [route_class_name c]) [RoutePublicExecution, RouteProtectedConsole]) (m_upstreamErrors m);
              Some (m\<lparr>m_requests := requests, m_duration := duration, m_oidcLogin := oidcLogin, m_n8nLogin := n8nLogin,
                      m_vaultOps := vaultOps, m_upstreamErrors := upstreamErrors\<rparr>) })"

text \<open>The metric that an event of the log counts.\<close>

definition metric_of :: "metrics \<Rightarrow> string \<Rightarrow> metric option" where
  "metric_of M n =
     (if n = ''requests'' then Some (m_requests M)
      else if n = ''request_duration'' then Some (m_duration M)
      else if n = ''oidc_login'' then Some (m_oidcLogin M)
      else if n = ''n8n_login'' then Some (m_n8nLogin M)
      else if n = ''vault_operations'' then Some (m_vaultOps M)
      else if n = ''public_execution_inflight'' then Some (m_publicInflight M)
      else None)"

text \<open>
  An event is typed: it counts a metric there is, with a value for each of its labels, and the series
  exists from the start; for requests, the one of the class with status 200 does.
\<close>

fun typed :: "metrics \<Rightarrow> event \<Rightarrow> bool" where
  "typed M (Counted n ls) =
     (case metric_of M n of
        None \<Rightarrow> False
      | Some m \<Rightarrow>
          if metric_kind m = Gauge_Value then ls = [''inc''] \<or> ls = [''dec'']
          else with_label_values ls m \<noteq> None
            \<and> List.member (metric_series m) (if n = ''requests'' then [hd ls, ''200''] else ls))"
| "typed M e = True"

definition all_metrics :: "metrics \<Rightarrow> metric list" where
  "all_metrics M =
     [m_requests M, m_duration M, m_oidcLogin M, m_n8nLogin M, m_vaultOps M, m_publicInflight M, m_upstreamErrors M]"

text \<open>What the handlers count: never a completed login of the provider.\<close>

fun counts :: "event \<Rightarrow> bool" where
  "counts (Counted n ls) \<longleftrightarrow>
     (case newMetrics of None \<Rightarrow> False | Some M \<Rightarrow> typed M (Counted n ls)) \<and> \<not> (n = ''oidc_login'' \<and> ls = [''success''])"
| "counts e = True"

declare counts.simps(1) [simp del]

lemma newMetrics_created:
  obtains M where "newMetrics = Some M"
proof -
  have "newMetrics \<noteq> None" by code_simp
  then show ?thesis using that by auto
qed

lemma counts_labels:
  "counts (Counted ''requests'' [route_class_name c, s])" "counts (Counted ''request_duration'' [route_class_name c])"
  "counts (Counted ''oidc_login'' [''started''])" "counts (Counted ''oidc_login'' [''bad_callback''])"
  "counts (Counted ''oidc_login'' [''invalid_state''])" "counts (Counted ''oidc_login'' [''exchange_failed''])"
  "counts (Counted ''n8n_login'' [''success''])" "counts (Counted ''n8n_login'' [loginResultLabel e])"
  "counts (Counted ''vault_operations'' [''read'', if b then ''not_found'' else ''error''])"
  "counts (Counted ''vault_operations'' [''read'', ''success''])"
  "counts (Counted ''vault_operations'' [''write'', if b then ''success'' else ''error''])"
  "counts (Counted ''vault_operations'' [''delete'', if b then ''success'' else ''error''])"
  "counts (Counted ''public_execution_inflight'' [''inc''])" "counts (Counted ''public_execution_inflight'' [''dec''])"
proof -
  have r: "case newMetrics of None \<Rightarrow> False
      | Some M \<Rightarrow> metric_kind (m_requests M) \<noteq> Gauge_Value \<and> length (metric_labels (m_requests M)) = 2
          \<and> list_all (\<lambda>c. List.member (metric_series (m_requests M)) [route_class_name c, ''200'']) route_classes"
    by code_simp
  obtain M where M: "newMetrics = Some M" by (rule newMetrics_created)
  have "c \<in> set route_classes" by (cases c) (simp_all add: route_classes_def)
  with r show "counts (Counted ''requests'' [route_class_name c, s])"
    unfolding M option.case by (simp add: M counts.simps(1) metric_of_def with_label_values_def list_all_iff)
  have "list_all (\<lambda>c. counts (Counted ''request_duration'' [route_class_name c])) route_classes" by code_simp
  then show "counts (Counted ''request_duration'' [route_class_name c])"
    using \<open>c \<in> set route_classes\<close> by (simp only: list_all_iff)
  have "list_all (\<lambda>l. counts (Counted ''n8n_login'' [l])) [''invalid_credential'', ''mfa_required'', ''rate_limited'', ''error'']"
    by code_simp
  moreover have "loginResultLabel e \<in> set [''invalid_credential'', ''mfa_required'', ''rate_limited'', ''error'']"
    by (cases e) (simp_all add: loginResultLabel_def)
  ultimately show "counts (Counted ''n8n_login'' [loginResultLabel e])" by (simp only: list_all_iff)
  have "list_all (\<lambda>l. counts (Counted ''vault_operations'' l))
      [[''read'', ''not_found''], [''read'', ''error''], [''write'', ''success''], [''write'', ''error''],
       [''delete'', ''success''], [''delete'', ''error'']]"
    by code_simp
  then show "counts (Counted ''vault_operations'' [''read'', if b then ''not_found'' else ''error''])"
    "counts (Counted ''vault_operations'' [''write'', if b then ''success'' else ''error''])"
    "counts (Counted ''vault_operations'' [''delete'', if b then ''success'' else ''error''])"
    by simp_all
  show "counts (Counted ''oidc_login'' [''started''])" "counts (Counted ''oidc_login'' [''bad_callback''])"
    "counts (Counted ''oidc_login'' [''invalid_state''])" "counts (Counted ''oidc_login'' [''exchange_failed''])"
    "counts (Counted ''n8n_login'' [''success''])" "counts (Counted ''vault_operations'' [''read'', ''success''])"
    "counts (Counted ''public_execution_inflight'' [''inc''])" "counts (Counted ''public_execution_inflight'' [''dec''])"
    by code_simp+
qed

lemma counts_events:
  "counts (CreatedSession x r1)" "counts (SavedSession i x r2)" "counts (GotSession i r3)" "counts (DeletedSession i r2)"
  "counts (StoredState k v r2)" "counts (TookState k r4)" "counts (GotCSRF i r1)" "counts (StoredCSRF i t r2)"
  "counts (ReadCredential iss u r5)" "counts (WroteCredential cr r6)" "counts (RemovedCredential iss u r6)"
  "counts (Exchanged cd n ver r7)" "counts (LoggedIn l p hs r8)" "counts (AskedUser ck r9)" "counts (LoggedOut ck r10)"
  "counts (Pinged nm ok)" "counts (PublicProxied q b)" "counts (ConsoleProxied q b)" "counts ServedMetrics"
  "counts (ReadClock tm)" "counts (DrewRandom m)"
  by simp_all

text \<open>The handlers, from the inside out.\<close>

lemma counting_helpers:
  "footprint counts (lookupSessionFromCookies S r)" "footprint counts (requireSession S r)"
  "footprint counts (validateCSRF S r i)" "footprint counts (getCredential S iss u)"
  "footprint counts (putCredential S cr)" "footprint counts (deleteCredential S iss u)"
  "footprint counts (bridgeCredential S r iss u)" "footprint counts (bridgeLogin S r l p b)"
  "footprint counts (loginAndRedirectTo S r sess t)" "footprint counts (currentUserByLogin S r sess)"
  "footprint counts (n8nLogout S r)" "footprint counts (deleteSessions S ids)"
proof -
  show "footprint counts (lookupSessionFromCookies S r)" "footprint counts (requireSession S r)"
    "footprint counts (validateCSRF S r i)" "footprint counts (n8nLogout S r)"
    unfolding lookupSessionFromCookies_def requireSession_def validateCSRF_def n8nLogout_def
    by (intro emits counts_events)+
  show g: "footprint counts (getCredential S iss u)" for iss u
    unfolding getCredential_def by (intro emits counts_events counts_labels)
  show "footprint counts (putCredential S cr)" "footprint counts (deleteCredential S iss u)"
    unfolding putCredential_def deleteCredential_def by (intro emits counts_events counts_labels)+
  show c: "footprint counts (bridgeCredential S r iss u)" for iss u
    unfolding bridgeCredential_def by (intro emits g)
  show l: "footprint counts (bridgeLogin S r l p b)" for l p b
    unfolding bridgeLogin_def by (intro emits counts_events counts_labels)
  show "footprint counts (loginAndRedirectTo S r sess t)" "footprint counts (currentUserByLogin S r sess)"
    unfolding loginAndRedirectTo_def currentUserByLogin_def by (intro emits c l)+
  show "footprint counts (deleteSessions S ids)" by (intro emits counts_events)
qed

lemma counting_endpoints:
  "footprint counts (handleAuthLogin S r)" "footprint counts (handleAuthCallback S r)"
  "footprint counts (handleProxyLogout S r)" "footprint counts (handleN8NLogout S r)"
  "footprint counts (handleN8NSignout S r)" "footprint counts (handleLinkGet S r)"
  "footprint counts (handleLinkDelete S r)" "footprint counts (handleLinkPost S r)"
  "footprint counts (handleReady S)" "footprint counts (handleNativeLoginAlias S r)"
  "footprint counts (handleCurrentUserBridge S r sess)"
proof -
  note steps = emits counts_events counts_labels counting_helpers
  show d: "footprint counts (handleLinkDelete S r)" unfolding handleLinkDelete_def by (intro steps)
  show "footprint counts (handleAuthLogin S r)"
    unfolding handleAuthLogin_def startOIDCLogin_def randomToken_def Let_def by (intro steps)
  show "footprint counts (handleAuthCallback S r)"
    unfolding handleAuthCallback_def bridgeNewSession_def Let_def by (intro steps)
  show "footprint counts (handleProxyLogout S r)" "footprint counts (handleN8NLogout S r)"
    "footprint counts (handleN8NSignout S r)"
    unfolding handleProxyLogout_def handleN8NLogout_def handleN8NSignout_def by (intro steps)+
  show "footprint counts (handleLinkGet S r)" unfolding handleLinkGet_def csrfTokenFor_def by (intro steps)
  show "footprint counts (handleLinkPost S r)"
    unfolding handleLinkPost_def linkCredential_def Let_def by (intro steps d)
  show "footprint counts (handleReady S)" "footprint counts (handleNativeLoginAlias S r)"
    "footprint counts (handleCurrentUserBridge S r sess)"
    unfolding handleReady_def handleNativeLoginAlias_def handleCurrentUserBridge_def Let_def by (intro steps)+
qed

lemma counting_ServeHTTP: "footprint counts (ServeHTTP S r)"
proof -
  note steps = emits counts_events counts_labels counting_helpers counting_endpoints
  have "footprint counts (serveInternal S r)" "footprint counts (serveProtected S r)" for r
    unfolding serveInternal_def serveProtected_def loginAndRedirect_def Let_def by (intro steps)+
  then have "footprint counts (dispatch S r c)" for r c
    by (cases c) (auto simp: dispatch_def intro!: steps)
  then show ?thesis
    unfolding ServeHTTP_def requestID_def Let_def by (intro steps)
qed


end
