(* ===== verification/Worlds.thy ===== *)
theory Worlds
  imports Footprint
begin

text \<open>
  Invariants of the world behind the services: what every call of a service keeps, the gateway keeps.
  \<open>I s log\<close> speaks of the world and of the events so far. The locale has one law per service that the
  handlers call, so an instance only has to look at the services.
\<close>

locale world_invariant =
  fixes S :: "'s Server" and I :: "'s \<Rightarrow> event list \<Rightarrow> bool"
  assumes on_count: "I s l \<Longrightarrow> I s (Counted nm0 ls # l)"
    and on_now: "I s l \<Longrightarrow> srv_now S s = (t, s') \<Longrightarrow> I s' (ReadClock t # l)"
    and on_rand: "I s l \<Longrightarrow> srv_rand S n s = (b, s') \<Longrightarrow> I s' (DrewRandom n # l)"
    and on_create: "I s l \<Longrightarrow> srv_CreateSession S x s = (res1, s') \<Longrightarrow> I s' (CreatedSession x res1 # l)"
    and on_save: "I s l \<Longrightarrow> srv_SaveSession S i x s = (res2, s') \<Longrightarrow> I s' (SavedSession i x res2 # l)"
    and on_get: "I s l \<Longrightarrow> srv_GetSession S i s = (res3, s') \<Longrightarrow> I s' (GotSession i res3 # l)"
    and on_delete: "I s l \<Longrightarrow> srv_DeleteSession S i s = (res4, s') \<Longrightarrow> I s' (DeletedSession i res4 # l)"
    and on_store: "I s l \<Longrightarrow> srv_StoreOIDCState S k v s = (res5, s') \<Longrightarrow> I s' (StoredState k v res5 # l)"
    and on_take: "I s l \<Longrightarrow> srv_TakeOIDCState S k s = (res6, s') \<Longrightarrow> I s' (TookState k res6 # l)"
    and on_get_csrf: "I s l \<Longrightarrow> srv_GetCSRF S i s = (res7, s') \<Longrightarrow> I s' (GotCSRF i res7 # l)"
    and on_set_csrf: "I s l \<Longrightarrow> srv_SetCSRF S i tok s = (res8, s') \<Longrightarrow> I s' (StoredCSRF i tok res8 # l)"
    and on_read: "I s l \<Longrightarrow> srv_GetCredential S is u s = (res9, s') \<Longrightarrow> I s' (ReadCredential is u res9 # l)"
    and on_put: "I s l \<Longrightarrow> srv_PutCredential S c s = (res10, s') \<Longrightarrow> I s' (WroteCredential c res10 # l)"
    and on_remove: "I s l \<Longrightarrow> srv_DeleteCredential S is u s = (res11, s') \<Longrightarrow> I s' (RemovedCredential is u res11 # l)"
    and on_exchange: "I s l \<Longrightarrow> srv_Exchange S cd nc ver s = (res12, s') \<Longrightarrow> I s' (Exchanged cd nc ver res12 # l)"
    and on_login: "I s l \<Longrightarrow> srv_Login S lg p hs s = (res13, s') \<Longrightarrow> I s' (LoggedIn lg p hs res13 # l)"
    and on_user: "I s l \<Longrightarrow> srv_CurrentUser S ck s = (res14, s') \<Longrightarrow> I s' (AskedUser ck res14 # l)"
    and on_logout: "I s l \<Longrightarrow> srv_Logout S ck s = (res15, s') \<Longrightarrow> I s' (LoggedOut ck res15 # l)"
    and on_ping: "I s l \<Longrightarrow> srv_PingSessions S s = (e1, s') \<Longrightarrow> I s' (Pinged nm1 ok1 # l)"
    and on_ping_vault: "I s l \<Longrightarrow> srv_PingCredentials S s = (e2, s') \<Longrightarrow> I s' (Pinged nm2 ok2 # l)"
    and on_ping_n8n: "I s l \<Longrightarrow> srv_PingN8N S s = (e3, s') \<Longrightarrow> I s' (Pinged nm3 ok3 # l)"
    and on_ping_oidc: "I s l \<Longrightarrow> srv_PingOIDC S s = (e4, s') \<Longrightarrow> I s' (Pinged nm4 ok4 # l)"
    and on_public: "I s l \<Longrightarrow> srv_publicProxy S r w s = (pw1, s') \<Longrightarrow> I s' (PublicProxied r (fst pw1) # l)"
    and on_console: "I s l \<Longrightarrow> srv_consoleProxy S r w s = (pw2, s') \<Longrightarrow> I s' (ConsoleProxied r (fst pw2) # l)"
    and on_metrics: "I s l \<Longrightarrow> srv_metricsHTTP S r w s = (pw3, s') \<Longrightarrow> I s' (ServedMetrics # l)"
begin

definition good :: "'s gw \<Rightarrow> bool" where
  "good g \<longleftrightarrow> I (gw_env g) (gw_log g)"

lemma good_call:
  "(\<And>s l res s'. I s l \<Longrightarrow> f s = (res, s') \<Longrightarrow> I s' (ev res # l)) \<Longrightarrow> preserves good (call f ev)"
  by (auto simp: preserves_def good_def wp_call)

lemma good_serve:
  "(\<And>s l w p w' s'. I s l \<Longrightarrow> h r w s = ((p, w'), s') \<Longrightarrow> I s' (ev p # l)) \<Longrightarrow> preserves good (serve h r ev)"
  by (auto simp: preserves_def good_def wp_serve)

lemma good_actions:
  "preserves good (respond f)" "preserves good (set_header k v)" "preserves good RequestID"
  "preserves good (setContextID i)" "preserves good recordedStatus" "preserves good (with_form c)"
  "preserves good (count n ls)"
  unfolding preserves_def good_def setContextID_def recordedStatus_def
  by (simp_all add: wp_respond wp_set_header wp_RequestID wp_act wp_with_form wp_count on_count)
    (simp add: wp_def)

lemmas good_steps = frame good_actions

lemma good_writers:
  "preserves good (writeError r st c)" "preserves good (redirect r t)" "preserves good (setCookie ck)"
  "preserves good (setCookies cks)" "preserves good (redirectToLogin r)"
  "preserves good (writeProxySessionCookies T i)" "preserves good (clearProxySessionCookies T)"
  "preserves good (writeN8NCookies T cs)" "preserves good (setBridgeCookie T)"
  "preserves good (clearBridgeCookie T)" "preserves good (handleN8NLoginError r e b)"
  "preserves good (formValue r k)" "preserves good (parseForm r)"
  unfolding writeError_def redirect_def setCookie_def setCookies_def redirectToLogin_def
    writeProxySessionCookies_def clearProxySessionCookies_def writeN8NCookies_def setBridgeCookie_def
    clearBridgeCookie_def handleN8NLoginError_def formValue_def parseForm_def
  by (intro good_steps)+

lemma good_calls:
  "preserves good (call (srv_now S) ReadClock)"
  "preserves good (call (srv_CreateSession S x) (CreatedSession x))"
  "preserves good (call (srv_SaveSession S i x) (SavedSession i x))"
  "preserves good (call (srv_GetSession S i) (GotSession i))"
  "preserves good (call (srv_DeleteSession S i) (DeletedSession i))"
  "preserves good (call (srv_StoreOIDCState S k v) (StoredState k v))"
  "preserves good (call (srv_TakeOIDCState S k) (TookState k))"
  "preserves good (call (srv_GetCSRF S i) (GotCSRF i))"
  "preserves good (call (srv_SetCSRF S i tok) (StoredCSRF i tok))"
  "preserves good (call (srv_GetCredential S is u) (ReadCredential is u))"
  "preserves good (call (srv_PutCredential S c) (WroteCredential c))"
  "preserves good (call (srv_DeleteCredential S is u) (RemovedCredential is u))"
  "preserves good (call (srv_Exchange S cd nc ver) (Exchanged cd nc ver))"
  "preserves good (call (srv_Login S lg p hs) (LoggedIn lg p hs))"
  "preserves good (call (srv_CurrentUser S ck) (AskedUser ck))"
  "preserves good (call (srv_Logout S ck) (LoggedOut ck))"
  "preserves good (call (srv_PingSessions S) (\<lambda>e. Pinged nm1 (e = None)))"
  "preserves good (call (srv_PingCredentials S) (\<lambda>e. Pinged nm2 (e = None)))"
  "preserves good (call (srv_PingN8N S) (\<lambda>e. Pinged nm3 (e = None)))"
  "preserves good (call (srv_PingOIDC S) (\<lambda>e. Pinged nm4 (e = None)))"
  by (rule good_call, erule on_now on_create on_save on_get on_delete on_store on_take on_get_csrf on_set_csrf
      on_read on_put on_remove on_exchange on_login on_user on_logout on_ping on_ping_vault on_ping_n8n
      on_ping_oidc, assumption)+

lemma good_random: "preserves good (call (RandomBase64URL (srv_rand S) n) (\<lambda>_. DrewRandom n))"
  by (rule good_call) (auto simp: RandomBase64URL_def split: prod.splits intro: on_rand)

lemma good_csrf_token: "preserves good (call (NewCSRFToken (srv_rand S)) (\<lambda>_. DrewRandom 32))"
  using good_random [of 32] by (simp add: NewCSRFToken_def [abs_def])

lemma good_proxies:
  "preserves good (serve (srv_publicProxy S) r (PublicProxied r))"
  "preserves good (serve (srv_consoleProxy S) r (ConsoleProxied r))"
  "preserves good (serve (srv_metricsHTTP S) r (\<lambda>_. ServedMetrics))"
  by (rule good_serve, metis on_public on_console on_metrics fst_conv)+

lemma good_loops: "preserves good (lookupLoop S ids)" "preserves good (deleteSessions S ids)"
  by (induction ids) (auto intro!: good_steps good_calls)

lemmas good_all = good_steps good_writers good_calls good_random good_csrf_token good_proxies good_loops

lemma good_bridge:
  "preserves good (lookupSessionFromCookies S r)" "preserves good (requireSession S r)"
  "preserves good (validateCSRF S r i)" "preserves good (getCredential S is u)"
  "preserves good (bridgeCredential S r is u)" "preserves good (bridgeLogin S r l p b)"
  "preserves good (loginAndRedirectTo S r sess t)" "preserves good (currentUserByLogin S r sess)"
  "preserves good (n8nLogout S r)"
  unfolding loginAndRedirectTo_def currentUserByLogin_def bridgeCredential_def bridgeLogin_def getCredential_def
    validateCSRF_def requireSession_def lookupSessionFromCookies_def n8nLogout_def
  by (intro good_all)+

lemma good_endpoints:
  "preserves good (handleAuthLogin S r)" "preserves good (handleAuthCallback S r)"
  "preserves good (handleProxyLogout S r)" "preserves good (handleN8NLogout S r)"
  "preserves good (handleN8NSignout S r)" "preserves good (handleLinkGet S r)"
  "preserves good (handleLinkDelete S r)" "preserves good (handleLinkPost S r)"
  "preserves good (handleReady S)" "preserves good (handleNativeLoginAlias S r)"
  "preserves good (handleCurrentUserBridge S r sess)"
proof -
  show d: "preserves good (handleLinkDelete S r)"
    unfolding handleLinkDelete_def deleteCredential_def by (intro good_all good_bridge)
  show "preserves good (handleAuthLogin S r)"
    unfolding handleAuthLogin_def startOIDCLogin_def randomToken_def Let_def by (intro good_all good_bridge)
  show "preserves good (handleAuthCallback S r)"
    unfolding handleAuthCallback_def bridgeNewSession_def Let_def by (intro good_all good_bridge)
  show "preserves good (handleProxyLogout S r)" "preserves good (handleN8NLogout S r)"
    "preserves good (handleN8NSignout S r)"
    unfolding handleProxyLogout_def handleN8NLogout_def handleN8NSignout_def by (intro good_all good_bridge)+
  show "preserves good (handleLinkGet S r)"
    unfolding handleLinkGet_def csrfTokenFor_def by (intro good_all good_bridge)
  show "preserves good (handleLinkPost S r)"
    unfolding handleLinkPost_def linkCredential_def putCredential_def Let_def by (intro good_all good_bridge d)
  show "preserves good (handleReady S)" "preserves good (handleNativeLoginAlias S r)"
    "preserves good (handleCurrentUserBridge S r sess)"
    unfolding handleReady_def handleNativeLoginAlias_def handleCurrentUserBridge_def Let_def
    by (intro good_all good_bridge)+
qed

lemma good_ServeHTTP: "preserves good (ServeHTTP S r)"
proof -
  have "preserves good (serveInternal S r)" "preserves good (serveProtected S r)" for r
    unfolding serveInternal_def serveProtected_def loginAndRedirect_def Let_def
    by (intro good_all good_bridge good_endpoints)+
  then have "preserves good (dispatch S r c)" for r c
    by (cases c) (auto simp: dispatch_def intro!: good_all good_endpoints)
  then show ?thesis
    unfolding ServeHTTP_def requestID_def Let_def by (intro good_all)
qed

lemma handle_keeps: "I s [] \<Longrightarrow> I (gw_env (handle S r s)) (gw_log (handle S r s))"
  using preserves_exec [OF good_ServeHTTP] by (fastforce simp: handle_def good_def)

end

end
