(* ===== verification/Provenance.thy ===== *)
theory Provenance
  imports Worlds Endpoints
begin

text \<open>
  Where sessions come from, for a gateway on any session store: if the store never makes up a session, and
  no other service and nothing outside the gateway puts one into it, every session belongs to an identity
  that the provider returned for a login that was started here. The locale \<open>session_keeper\<close> names what is
  needed of the services; it is instantiated for the in-memory store and for the store of the program.
\<close>

subsection \<open>Owners\<close>

definition session_owner :: "Session \<Rightarrow> string \<times> string" where
  "session_owner x = (Issuer x, Subject x)"

text \<open>The identities that the provider has returned for a login that was started here.\<close>

inductive_set verified :: "event set \<Rightarrow> (string \<times> string) set" for F :: "event set" where
  exchanged: "TookState k (Inr v) \<in> F \<Longrightarrow> Exchanged code (Nonce v) (CodeVerifier v) (Inr d) \<in> F \<Longrightarrow>
    (id_Issuer d, id_Subject d) \<in> verified F"

fun provenance :: "event \<Rightarrow> event set \<Rightarrow> bool" where
  "provenance (CreatedSession x res) F = (session_owner x \<in> verified F)"
| "provenance (SavedSession i x res) F =
     (\<exists>sess. GotSession i (Inr sess) \<in> F \<and> session_owner x = session_owner sess)"
| "provenance e F = True"

lemma verified_mono: "F \<subseteq> G \<Longrightarrow> verified F \<subseteq> verified G"
  by (auto elim!: verified.cases intro: verified.intros)

lemma provenance_mono: "provenance e F \<Longrightarrow> F \<subseteq> G \<Longrightarrow> provenance e G"
  using verified_mono by (cases e) (simp_all, blast+)

interpretation prov: trace_policy provenance
  by unfold_locales (auto intro: provenance_mono)

lemma guarded_append:
  "trace_policy A \<Longrightarrow> guarded A l \<Longrightarrow> guarded A h \<Longrightarrow> guarded A (l @ h)"
  by (induction l) (auto elim: trace_policy.mono)

lemma handle_provenance: "guarded provenance (gw_log (handle S r s))"
proof (rule handle_obeys)
  fix e F assume "authorized S (normalizeForwardedHeaders S r) e F"
  then show "provenance e F"
    by (cases e)
      (auto simp: session_owner_def has_identity_def identitySession_def has_session_def intro: verified.intros)
qed

text \<open>
  \<open>all_verified canon m F\<close>: every session among \<open>m\<close>, and every session that was ever returned, belongs to
  a verified identity, up to what the store makes of the texts of an identity (\<open>canon\<close>).
\<close>

definition all_verified ::
  "(string \<times> string \<Rightarrow> string \<times> string) \<Rightarrow> (string \<rightharpoonup> Session) \<Rightarrow> event set \<Rightarrow> bool" where
  "all_verified canon m F \<longleftrightarrow>
     (\<forall>i x. m i = Some x \<longrightarrow> session_owner x \<in> canon ` verified F)
     \<and> (\<forall>i x. GotSession i (Inr x) \<in> F \<longrightarrow> session_owner x \<in> canon ` verified F)"

text \<open>One more event and one change of the sessions: what is new is verified.\<close>

lemma all_verified_step:
  assumes "all_verified canon m F"
    and "\<And>i x. m' i = Some x \<Longrightarrow> m i = Some x \<or> P x"
    and "\<And>i x. e = GotSession i (Inr x) \<Longrightarrow> m i = Some x"
    and "\<And>x. P x \<Longrightarrow> session_owner x \<in> canon ` verified F"
  shows "all_verified canon m' (insert e F)"
proof -
  have m: "canon ` verified F \<subseteq> canon ` verified (insert e F)" by (intro image_mono verified_mono) auto
  show ?thesis
    unfolding all_verified_def
  proof (intro conjI allI impI)
    fix i x assume "m' i = Some x"
    then show "session_owner x \<in> canon ` verified (insert e F)"
      using assms(1,2,4) m unfolding all_verified_def by blast
  next
    fix i x assume "GotSession i (Inr x) \<in> insert e F"
    then show "session_owner x \<in> canon ` verified (insert e F)"
      using assms(1,3) m unfolding all_verified_def by auto
  qed
qed

subsection \<open>What is needed of the services\<close>

locale session_keeper =
  fixes S :: "'s Server" and live :: "'s \<Rightarrow> string \<rightharpoonup> Session" and canon :: "string \<times> string \<Rightarrow> string \<times> string"
  assumes canon_idem: "canon (canon owner) = canon owner"
    and create_live: "srv_CreateSession S x s = (res1, s') \<Longrightarrow> live s' j = Some y \<Longrightarrow>
      live s j = Some y \<or> session_owner y = canon (session_owner x)"
    and save_live: "srv_SaveSession S i x s = (res2, s') \<Longrightarrow> live s' j = Some y \<Longrightarrow>
      live s j = Some y \<or> session_owner y = canon (session_owner x)"
    and get_live: "srv_GetSession S i s = (res3, s') \<Longrightarrow> live s' \<subseteq>\<^sub>m live s"
    and got_live: "srv_GetSession S i s = (Inr x, s') \<Longrightarrow> live s i = Some x"
    and now_live: "srv_now S s = (t, s') \<Longrightarrow> live s' \<subseteq>\<^sub>m live s"
    and rand_live: "srv_rand S n s = (b, s') \<Longrightarrow> live s' \<subseteq>\<^sub>m live s"
    and delete_live: "srv_DeleteSession S i s = (res4, s') \<Longrightarrow> live s' \<subseteq>\<^sub>m live s"
    and store_live: "srv_StoreOIDCState S k v s = (res5, s') \<Longrightarrow> live s' \<subseteq>\<^sub>m live s"
    and take_live: "srv_TakeOIDCState S k s = (res6, s') \<Longrightarrow> live s' \<subseteq>\<^sub>m live s"
    and get_csrf_live: "srv_GetCSRF S i s = (res7, s') \<Longrightarrow> live s' \<subseteq>\<^sub>m live s"
    and set_csrf_live: "srv_SetCSRF S i tok s = (res8, s') \<Longrightarrow> live s' \<subseteq>\<^sub>m live s"
    and read_live: "srv_GetCredential S is u s = (res9, s') \<Longrightarrow> live s' \<subseteq>\<^sub>m live s"
    and put_live: "srv_PutCredential S c s = (res10, s') \<Longrightarrow> live s' \<subseteq>\<^sub>m live s"
    and remove_live: "srv_DeleteCredential S is u s = (res11, s') \<Longrightarrow> live s' \<subseteq>\<^sub>m live s"
    and exchange_live: "srv_Exchange S cd nc ver s = (res12, s') \<Longrightarrow> live s' \<subseteq>\<^sub>m live s"
    and login_live: "srv_Login S lg p hs s = (res13, s') \<Longrightarrow> live s' \<subseteq>\<^sub>m live s"
    and user_live: "srv_CurrentUser S ck s = (res14, s') \<Longrightarrow> live s' \<subseteq>\<^sub>m live s"
    and logout_live: "srv_Logout S ck s = (res15, s') \<Longrightarrow> live s' \<subseteq>\<^sub>m live s"
    and ping_live: "srv_PingSessions S s = (e1, s') \<Longrightarrow> live s' \<subseteq>\<^sub>m live s"
    and ping_vault_live: "srv_PingCredentials S s = (e2, s') \<Longrightarrow> live s' \<subseteq>\<^sub>m live s"
    and ping_n8n_live: "srv_PingN8N S s = (e3, s') \<Longrightarrow> live s' \<subseteq>\<^sub>m live s"
    and ping_oidc_live: "srv_PingOIDC S s = (e4, s') \<Longrightarrow> live s' \<subseteq>\<^sub>m live s"
    and public_live: "srv_publicProxy S r w s = (pw1, s') \<Longrightarrow> live s' \<subseteq>\<^sub>m live s"
    and console_live: "srv_consoleProxy S r w s = (pw2, s') \<Longrightarrow> live s' \<subseteq>\<^sub>m live s"
    and metrics_live: "srv_metricsHTTP S r w s = (pw3, s') \<Longrightarrow> live s' \<subseteq>\<^sub>m live s"

text \<open>
  The worlds and histories that a gateway reaches: it handles one request after the other, and between
  two requests the world changes as it likes, except that nothing adds a session. The history has the
  newest event first.
\<close>

inductive reached :: "'s Server \<Rightarrow> ('s \<Rightarrow> string \<rightharpoonup> Session) \<Rightarrow> 's \<Rightarrow> 's \<Rightarrow> event list \<Rightarrow> bool"
  for S :: "'s Server" and live :: "'s \<Rightarrow> string \<rightharpoonup> Session" and s0 :: 's where
  started: "reached S live s0 s0 []"
| handled: "reached S live s0 s h \<Longrightarrow>
    reached S live s0 (gw_env (handle S r s)) (gw_log (handle S r s) @ h)"
| changed: "reached S live s0 s h \<Longrightarrow> live s' \<subseteq>\<^sub>m live s \<Longrightarrow> reached S live s0 s' h"

lemma reached_provenance: "reached S live s0 s h \<Longrightarrow> guarded provenance h"
  by (induction rule: reached.induct)
    (simp_all add: guarded_append [OF prov.trace_policy_axioms] handle_provenance)

subsection \<open>The invariant\<close>

context session_keeper
begin

text \<open>
  \<open>accounted h s l\<close>: provided that everything in the history was allowed, the sessions are verified. \<open>h\<close>
  is the history before the current request.
\<close>

definition accounted :: "event list \<Rightarrow> 's \<Rightarrow> event list \<Rightarrow> bool" where
  "accounted h s l \<longleftrightarrow> (guarded provenance (l @ h) \<longrightarrow> all_verified canon (live s) (set (l @ h)))"

lemma accounted_step:
  assumes "accounted h s l"
    and "\<And>i x. live s' i = Some x \<Longrightarrow> live s i = Some x \<or> P x"
    and "\<And>i x. e = GotSession i (Inr x) \<Longrightarrow> live s i = Some x"
    and "\<And>x F. P x \<Longrightarrow> provenance e F \<Longrightarrow> all_verified canon (live s) F \<Longrightarrow> session_owner x \<in> canon ` verified F"
  shows "accounted h s' (e # l)"
  unfolding accounted_def
proof
  assume g: "guarded provenance ((e # l) @ h)"
  then have a: "all_verified canon (live s) (set (l @ h))" and p: "provenance e (set (l @ h))"
    using assms(1) by (auto simp: accounted_def)
  show "all_verified canon (live s') (set ((e # l) @ h))"
    using all_verified_step [OF a, of "live s'" P e] assms(2,3) assms(4) [OF _ p a] by simp
qed

lemma accounted_less:
  assumes "accounted h s l" and "live s' \<subseteq>\<^sub>m live s" and "\<And>i x. e \<noteq> GotSession i (Inr x)"
  shows "accounted h s' (e # l)"
  by (rule accounted_step [OF assms(1), where P = "\<lambda>_. False"]) (use assms(3) map_leD [OF assms(2)] in auto)

lemma is_invariant: "world_invariant S (accounted h)"
proof
  fix s s' :: 's and l
  assume a: "accounted h s l"
  show "accounted h s (Counted nm ls # l)" for nm ls by (rule accounted_less [OF a]) simp_all
  show "accounted h s' (CreatedSession x res # l)" if "srv_CreateSession S x s = (res, s')" for x res
    by (rule accounted_step [OF a, where P = "\<lambda>y. session_owner y = canon (session_owner x)"])
      (use create_live [OF that] in auto)
  show "accounted h s' (SavedSession i x res # l)" if "srv_SaveSession S i x s = (res, s')" for i x res
  proof (rule accounted_step [OF a, where P = "\<lambda>y. session_owner y = canon (session_owner x)"])
    fix y F assume y: "session_owner y = canon (session_owner x)" and "provenance (SavedSession i x res) F"
      and v: "all_verified canon (live s) F"
    then obtain sess where "GotSession i (Inr sess) \<in> F" "session_owner x = session_owner sess" by auto
    then have "session_owner x \<in> canon ` verified F" using v by (auto simp: all_verified_def)
    then show "session_owner y \<in> canon ` verified F" unfolding y by (auto simp: canon_idem)
  qed (use save_live [OF that] in auto)
  show "accounted h s' (GotSession i res # l)" if "srv_GetSession S i s = (res, s')" for i res
    by (rule accounted_step [OF a, where P = "\<lambda>_. False"])
      (use map_leD [OF get_live [OF that]] got_live [of i s _ s'] that in auto)
qed (erule accounted_less,
    erule now_live rand_live delete_live store_live take_live get_csrf_live set_csrf_live read_live put_live
      remove_live exchange_live login_live user_live logout_live ping_live ping_vault_live ping_n8n_live
      ping_oidc_live public_live console_live metrics_live, simp)+

lemma reached_verified:
  "reached S live s0 s h \<Longrightarrow> live s0 = Map.empty \<Longrightarrow> all_verified canon (live s) (set h)"
proof (induction rule: reached.induct)
  case started
  then show ?case by (simp add: all_verified_def)
next
  case (handled s h r)
  then have "accounted h s []" by (simp add: accounted_def)
  from world_invariant.handle_keeps [OF is_invariant this, of r]
  show ?case
    using guarded_append [OF prov.trace_policy_axioms handle_provenance [of S r s] reached_provenance [OF handled.hyps]]
    by (simp add: accounted_def)
next
  case (changed s h s')
  then show ?case using map_leD [OF changed.hyps(2)] unfolding all_verified_def by blast
qed

end

end
