(* ===== verification/Logging.thy ===== *)
theory Logging
  imports Go_Strings
begin

text \<open>
  \<open>src/internal/logging/logging.go\<close>: the level of the logger and the redaction of sensitive
  attributes. \<open>'v\<close> is the type of attribute values; \<open>redacted\<close> is the value that replaces one.
\<close>

datatype level = LevelDebug | LevelInfo | LevelWarn | LevelError

text \<open>The levels of \<open>slog\<close> are ordered by their numbers.\<close>

fun level_number :: "level \<Rightarrow> int" where
  "level_number LevelDebug = -4"
| "level_number LevelInfo = 0"
| "level_number LevelWarn = 4"
| "level_number LevelError = 8"

lemma level_number_inject: "level_number l = level_number k \<Longrightarrow> l = k"
  by (cases l; cases k) simp_all

instantiation level :: linorder
begin

definition less_eq_level :: "level \<Rightarrow> level \<Rightarrow> bool" where
  "less_eq_level l k \<longleftrightarrow> level_number l \<le> level_number k"

definition less_level :: "level \<Rightarrow> level \<Rightarrow> bool" where
  "less_level l k \<longleftrightarrow> level_number l < level_number k"

instance
  by standard (auto simp: less_eq_level_def less_level_def dest: level_number_inject)

end

definition sensitiveKeys :: "string list" where
  "sensitiveKeys =
     [''password'', ''n8n_password'', ''authorization'', ''cookie'', ''set-cookie'', ''id_token'',
      ''access_token'', ''refresh_token'', ''code'', ''csrf_token'']"

definition log_level :: "string \<Rightarrow> level" where
  "log_level name =
     (let l = to_lower name in
      if l = ''debug'' then LevelDebug else if l = ''warn'' then LevelWarn
      else if l = ''error'' then LevelError else LevelInfo)"

datatype 'v attr_value = Redacted | Plain 'v

definition RedactKeyValue :: "string \<Rightarrow> 'v attr_value \<Rightarrow> 'v attr_value" where
  "RedactKeyValue key value = (if List.member sensitiveKeys (to_lower key) then Redacted else value)"

record 'v attr =
  attr_name :: string
  attr_val :: "'v attr_value"

definition redactAttr :: "string list \<Rightarrow> 'v attr \<Rightarrow> 'v attr" where
  "redactAttr groups a =
     (if List.member sensitiveKeys (to_lower (attr_name a)) then a\<lparr>attr_val := Redacted\<rparr> else a)"

lemma redaction_tests:
  "list_all (\<lambda>k. RedactKeyValue k (Plain ''secret'') = Redacted)
     [''password'', ''n8n_password'', ''Authorization'', ''Cookie'', ''Set-Cookie'', ''id_token'',
      ''access_token'', ''refresh_token'', ''code'', ''csrf_token'']"
  "RedactKeyValue ''path'' (Plain ''/workflows'') = Plain ''/workflows''"
  by code_simp+

subsection \<open>The logger\<close>

text \<open>
  \<open>New\<close>: \<open>newJSONHandler\<close> is \<open>slog.NewJSONHandler\<close> on the standard output, followed by \<open>slog.New\<close>.
\<close>

record 'v HandlerOptions =
  ho_Level :: level
  ho_ReplaceAttr :: "string list \<Rightarrow> 'v attr \<Rightarrow> 'v attr"

definition NewLogger :: "('v HandlerOptions \<Rightarrow> 'l) \<Rightarrow> string \<Rightarrow> 'l" where
  "NewLogger newJSONHandler name = newJSONHandler \<lparr>ho_Level = log_level name, ho_ReplaceAttr = redactAttr\<rparr>"

text \<open>
  What such a handler does with a record: it drops one below its level, and passes every attribute, with the
  groups that it is in, through \<open>ReplaceAttr\<close>.
\<close>

definition json_handler ::
  "'v HandlerOptions \<Rightarrow> level \<Rightarrow> (string list \<times> 'v attr) list \<Rightarrow> (string list \<times> 'v attr) list option" where
  "json_handler options l attrs =
     (if l < ho_Level options then None
      else Some (map (\<lambda>(groups, a). (groups, ho_ReplaceAttr options groups a)) attrs))"

text \<open>
  The logger writes what \<open>RedactKeyValue\<close> makes of each attribute; whether a record is written depends on its
  level only.
\<close>

lemma logger_redacts:
  "NewLogger json_handler name l attrs =
     (if log_level name \<le> l
      then Some (map (\<lambda>(groups, a). (groups, a\<lparr>attr_val := RedactKeyValue (attr_name a) (attr_val a)\<rparr>)) attrs)
      else None)"
  by (auto simp: NewLogger_def json_handler_def redactAttr_def RedactKeyValue_def not_le)

lemma logger_levels:
  "NewLogger json_handler ''WARN'' LevelInfo [([], \<lparr>attr_name = ''path'', attr_val = Plain ''/''\<rparr>)] = None"
  "NewLogger json_handler ''nonsense'' LevelInfo [([], \<lparr>attr_name = ''Cookie'', attr_val = Plain ''sid=1''\<rparr>)] =
     Some [([], \<lparr>attr_name = ''Cookie'', attr_val = Redacted\<rparr>)]"
  by code_simp+

end
