(* ===== verification/Program.thy ===== *)
theory Program
  imports Metrics Vault_Laws Redis_Laws Provenance Logging
begin

text \<open>
  \<open>src/cmd/n8n-proxy/main.go\<close>: how the program is put together from its configuration, and how it ends.
  The libraries are parameters, functions on the rest \<open>'x\<close> of the world; the state of the program is
  \<open>'x vault\<close>, that world and the token that the Vault client holds.
\<close>

subsection \<open>The redirect URL\<close>

text \<open>\<open>URL.JoinPath\<close> with one element.\<close>

definition url_join_path :: "url \<Rightarrow> string \<Rightarrow> url" where
  "url_join_path u elem =
     (let base = escaped_path u;
          joined = (if prefix ''/'' base then path_join [base, elem] else tl (path_join [''/'' @ base, elem]));
          p = (if suffix ''/'' elem \<and> \<not> suffix ''/'' joined then joined @ ''/'' else joined)
      in case set_path p u of None \<Rightarrow> u | Some u' \<Rightarrow> u')"

definition redirect_url :: "Config \<Rightarrow> string" where
  "redirect_url c = url_string (url_join_path (PublicBaseURL c) ''/auth/callback'')"

subsection \<open>Libraries\<close>

record ('o, 'x) Libraries =
  lib_now :: "'x \<Rightarrow> time \<times> 'x"
  lib_rand :: "'x entropy"
  lib_ParseURL :: "string \<Rightarrow> 'o option"
  lib_RedisAddr :: "string \<Rightarrow> 'o"
  lib_NewRedis :: "'o \<Rightarrow> 'x redis_client"
  lib_NewVault :: "string \<Rightarrow> string + 'x VaultApi"
  lib_NewProvider :: "string \<Rightarrow> 'x \<Rightarrow> (string + 'x OidcProvider) \<times> 'x"
  lib_HTTPClient :: "duration \<Rightarrow> 'x transport"
  lib_RoundTrip :: "'x round_trip"
  lib_upstreamErrors :: "string \<Rightarrow> 'x \<Rightarrow> 'x"
  lib_metricsHTTP :: "'x http_handler"

text \<open>An operation on the rest of the world; one that reads the clock.\<close>

definition lifted :: "('x \<Rightarrow> 'r \<times> 'x) \<Rightarrow> 'x vault \<Rightarrow> 'r \<times> 'x vault" where
  "lifted f v = (case f (vt_world v) of (r, w) \<Rightarrow> (r, v\<lparr>vt_world := w\<rparr>))"

definition clocked :: "('o, 'x) Libraries \<Rightarrow> (time \<Rightarrow> 'x \<Rightarrow> 'r \<times> 'x) \<Rightarrow> 'x vault \<Rightarrow> 'r \<times> 'x vault" where
  "clocked L f v = (case lifted (lib_now L) v of (t, v') \<Rightarrow> lifted (f t) v')"

text \<open>The dependencies of the server: the stores, the clients and no proxies.\<close>

definition program_services ::
  "('o, 'x) Libraries \<Rightarrow> Config \<Rightarrow> 'x RedisStore \<Rightarrow> 'x VaultApi \<Rightarrow> KVStore \<Rightarrow> 'x ProviderClient \<Rightarrow> 'x HTTPClient
    \<Rightarrow> 'x vault Server" where
  "program_services L c R A K P N =
     \<lparr>cfg = c, srv_now = lifted (lib_now L), srv_rand = (\<lambda>n. lifted (lib_rand L n)),
      srv_CreateSession = (\<lambda>x. clocked L (\<lambda>t. RedisCreateSession (lib_rand L) R t x)),
      srv_SaveSession = (\<lambda>i x. lifted (RedisSaveSession R i x)),
      srv_GetSession = (\<lambda>i. clocked L (\<lambda>t. RedisGetSession R t i)),
      srv_DeleteSession = (\<lambda>i. lifted (RedisDeleteSession R i)),
      srv_StoreOIDCState = (\<lambda>k s. lifted (RedisStoreOIDCState R k s)),
      srv_TakeOIDCState = (\<lambda>k. lifted (RedisTakeOIDCState R k)),
      srv_GetCSRF = (\<lambda>i. lifted (RedisGetCSRF R i)),
      srv_SetCSRF = (\<lambda>i t. lifted (RedisSetCSRF R i t)),
      srv_PingSessions = lifted (RedisPing R),
      srv_GetCredential = KVGet A K, srv_PutCredential = KVPut A K, srv_DeleteCredential = KVDelete A K,
      srv_PingCredentials = KVPing A K,
      srv_AuthCodeURL = AuthCodeURL P,
      srv_Exchange = (\<lambda>code nonce verifier. lifted (Exchange P code nonce verifier)),
      srv_PingOIDC = lifted (\<lambda>w. (PingProvider P, w)),
      srv_Login = (\<lambda>l p hs. lifted (Login (hc_client N) (hc_upstream N) l p hs)),
      srv_CurrentUser = (\<lambda>k. lifted (CurrentUser (hc_client N) (hc_upstream N) k)),
      srv_Logout = (\<lambda>k. lifted (Logout (hc_client N) (hc_upstream N) k)),
      srv_PingN8N = lifted (Ping (hc_client N) (hc_upstream N)),
      srv_publicProxy = (\<lambda>r w v. ((False, w), v)), srv_consoleProxy = (\<lambda>r w v. ((False, w), v)),
      srv_metricsHTTP = (\<lambda>r w v. ((False, w), v))\<rparr>"

definition program_server ::
  "('o, 'x) Libraries \<Rightarrow> Config \<Rightarrow> 'x RedisStore \<Rightarrow> 'x VaultApi \<Rightarrow> KVStore \<Rightarrow> 'x ProviderClient \<Rightarrow> 'x HTTPClient
    \<Rightarrow> 'x vault Server" where
  "program_server L c R A K P N =
     NewServer (\<lambda>limit q. lifted (lib_RoundTrip L limit q))
       (\<lambda>label v. v\<lparr>vt_world := lib_upstreamErrors L label (vt_world v)\<rparr>)
       (\<lambda>r w. lifted (lib_metricsHTTP L r w))
       \<lparr>deps_Services = program_services L c R A K P N, deps_PublicProxy = None, deps_ConsoleProxy = None\<rparr>"

subsection \<open>Starting\<close>

text \<open>
  \<open>main\<close> up to the start of the server: a failure, each of which ends the program with exit code 1, or the
  HTTP server, with the interval at which Vault tokens are renewed in the background, if they are.
\<close>

datatype start_error = LoadFailed config_err | VaultFailed string | OidcFailed string

record 's http_server =
  hs_Addr :: string
  hs_Handler :: "'s Server"
  hs_ReadHeaderTimeout :: duration
  hs_LogLevel :: level
  hs_Renewal :: "duration option"

definition main_start ::
  "('o, 'x) Libraries \<Rightarrow> environment \<Rightarrow> 'x vault \<Rightarrow> (start_error + 'x vault http_server) \<times> 'x vault" where
  "main_start L env v =
     (case Load env of
        Inl e \<Rightarrow> (Inl (LoadFailed e), v)
      | Inr c \<Rightarrow>
          (let sessionStore =
                 NewRedisStore (lib_ParseURL L) (lib_RedisAddr L) (lib_NewRedis L) (RedisURL c) (SessionTTL c) (OIDCStateTTL c)
           in case NewStore (lib_NewVault L) (VaultAddr c)
                     \<lparr>auth_Token = VaultToken c, auth_RoleID = VaultRoleID c, auth_SecretID = VaultSecretID c\<rparr>
                     (VaultKVMount c) (VaultKVPrefix c) v of
                (Inl e, v1) \<Rightarrow> (Inl (VaultFailed e), v1)
              | (Inr (A, K, renewal), v1) \<Rightarrow>
                  (case lifted (NewProviderClient (lib_NewProvider L)
                          \<lparr>oc_IssuerURL = OIDCIssuerURL c, oc_ClientID = OIDCClientID c,
                           oc_ClientSecret = OIDCClientSecret c, oc_Scopes = OIDCScopes c,
                           oc_RedirectURL = redirect_url c\<rparr>) v1 of
                     (Inl e, v2) \<Rightarrow> (Inl (OidcFailed e), v2)
                   | (Inr P, v2) \<Rightarrow>
                       (let N = NewClient (lib_HTTPClient L) (N8NUpstreamURL c) (ConsoleProxyTimeout c)
                        in (Inr \<lparr>hs_Addr = ListenAddr c,
                                 hs_Handler = program_server L c sessionStore A K P N,
                                 hs_ReadHeaderTimeout = 10 * second, hs_LogLevel = log_level (LogLevel c),
                                 hs_Renewal = renewal\<rparr>, v2)))))"

text \<open>
  The rest of \<open>main\<close>: it waits for a signal or for the server to stop, and shuts the server down. The
  result is the exit code; \<open>shutdown\<close> is the error of \<open>Shutdown\<close>, which gives up after 15 seconds.
\<close>

datatype serve_error = ErrServerClosed | ServeFailed string

datatype stop = SignalReceived | ServerStopped "serve_error option"

definition shutdown_limit :: duration where
  "shutdown_limit = 15 * second"

definition main_exit :: "stop \<Rightarrow> (duration \<Rightarrow> string option) \<Rightarrow> nat" where
  "main_exit stop shutdown =
     (case stop of
        ServerStopped (Some (ServeFailed e)) \<Rightarrow> 1
      | _ \<Rightarrow> (case shutdown shutdown_limit of Some e \<Rightarrow> 1 | None \<Rightarrow> 0))"

definition main_program ::
  "('o, 'x) Libraries \<Rightarrow> environment \<Rightarrow> stop \<Rightarrow> (duration \<Rightarrow> string option) \<Rightarrow> 'x vault \<Rightarrow> nat" where
  "main_program L env stop shutdown v =
     (case fst (main_start L env v) of Inl e \<Rightarrow> 1 | Inr server \<Rightarrow> main_exit stop shutdown)"

lemma redirect_examples:
  "redirect_url demo_cfg = ''https://gw.example/auth/callback''"
  "url_string (url_join_path (the (url_parse ''https://h/base/?q=1'')) ''/auth/callback'') = ''https://h/base/auth/callback?q=1''"
  by code_simp+

subsection \<open>What a loaded configuration gives\<close>

definition started_with :: "('o, 'x) Libraries \<Rightarrow> Config \<Rightarrow> 'x vault http_server \<Rightarrow> bool" where
  "started_with L c server \<longleftrightarrow>
     hs_Addr server = ListenAddr c \<and> cfg (hs_Handler server) = c \<and> hs_ReadHeaderTimeout server = 10 * second
     \<and> (hs_Renewal server \<noteq> None \<longleftrightarrow> VaultToken c = [])"

lemma loginAppRole_result:
  "loginAppRole A role sid v = (Inl e, v') \<Longrightarrow> prefix ''vault approle login'' e"
  "loginAppRole A role sid v = (Inr n, v') \<Longrightarrow> vt_token v' \<noteq> []"
  by (auto simp: loginAppRole_def split: prod.splits sum.splits option.splits if_splits)

lemma NewStore_result:
  assumes "auth_Token auth \<noteq> [] \<or> auth_RoleID auth \<noteq> [] \<and> auth_SecretID auth \<noteq> []"
  shows "NewStore newClient addr auth mount pfx v = (Inl e, v') \<Longrightarrow>
      prefix ''create vault client: '' e \<or> prefix ''vault approle login'' e"
    and "NewStore newClient addr auth mount pfx v = (Inr (A, K, renewal), v') \<Longrightarrow>
      vt_token v' \<noteq> [] \<and> (renewal \<noteq> None \<longleftrightarrow> auth_Token auth = [])"
  using assms
  by (auto simp: NewStore_def Let_def dest: loginAppRole_result split: sum.splits if_splits prod.splits)

lemma lifted_token: "lifted f v = (r, v') \<Longrightarrow> vt_token v' = vt_token v"
  by (auto simp: lifted_def split: prod.splits)

lemma lifted_result: "lifted f v = (r, v') \<Longrightarrow> fst (f (vt_world v)) = r"
  by (auto simp: lifted_def split: prod.splits)

lemma NewProviderClient_error: "fst (NewProviderClient np oc w) = Inl e \<Longrightarrow> prefix ''discover oidc provider: '' e"
  by (auto simp: NewProviderClient_def Let_def split: prod.splits sum.splits)

lemma cfg_program_server: "cfg (program_server L c R A K P N) = c"
  by (simp add: program_server_def program_services_def NewServer_def Let_def)


end
