(* ===== verification/Production.thy ===== *)
theory Production
  imports Program
begin

text \<open>
  The whole program: its sessions live in Redis, and nothing else that it uses writes to the keys of Redis.
  The locale \<open>program_libraries\<close> says so of the libraries, and the program's server is an instance of
  \<open>session_keeper\<close>.
\<close>

subsection \<open>Operations that add no key\<close>

definition shrinks :: "('w \<Rightarrow> string \<rightharpoonup> string) \<Rightarrow> ('w \<Rightarrow> 'r \<times> 'w) \<Rightarrow> bool" where
  "shrinks C f \<longleftrightarrow> (\<forall>w. C (snd (f w)) \<subseteq>\<^sub>m C w)"

named_theorems shrinking
  "operations that add no key to the store"

lemma shrinksD: "shrinks C f \<Longrightarrow> f w = (r, w') \<Longrightarrow> C w' \<subseteq>\<^sub>m C w"
  by (metis shrinks_def snd_conv)

lemma shrinks_pure [shrinking]: "shrinks C (\<lambda>w. (r, w))"
  by (simp add: shrinks_def)

lemma shrinks_then [shrinking]:
  assumes "shrinks C f" and "\<And>r. shrinks C (g r)"
  shows "shrinks C (\<lambda>w. case f w of (r, w') \<Rightarrow> g r w')"
  unfolding shrinks_def
proof
  fix w
  obtain r w' where f: "f w = (r, w')" by (cases "f w")
  have "C (snd (g r w')) \<subseteq>\<^sub>m C w'" using assms(2) by (simp add: shrinks_def)
  then show "C (snd (case f w of (r, w') \<Rightarrow> g r w')) \<subseteq>\<^sub>m C w"
    using map_le_trans [OF _ shrinksD [OF assms(1) f]] by (simp add: f)
qed

lemma shrinks_option [shrinking]:
  "shrinks C f \<Longrightarrow> (\<And>y. shrinks C (g y)) \<Longrightarrow> shrinks C (\<lambda>w. case x of None \<Rightarrow> f w | Some y \<Rightarrow> g y w)"
  by (cases x) simp_all

lemma shrinks_sum [shrinking]:
  "(\<And>e. shrinks C (f e)) \<Longrightarrow> (\<And>y. shrinks C (g y)) \<Longrightarrow> shrinks C (\<lambda>w. case x of Inl e \<Rightarrow> f e w | Inr y \<Rightarrow> g y w)"
  by (cases x) simp_all

lemma shrinks_prod [shrinking]:
  "(\<And>a b. shrinks C (f a b)) \<Longrightarrow> shrinks C (\<lambda>w. case x of (a, b) \<Rightarrow> f a b w)"
  by (cases x) simp

lemma shrinks_if [shrinking]: "shrinks C f \<Longrightarrow> shrinks C g \<Longrightarrow> shrinks C (\<lambda>w. if b then f w else g w)"
  by (cases b) simp_all

lemma shrinks_bool [shrinking]:
  "shrinks C f \<Longrightarrow> shrinks C g \<Longrightarrow> shrinks C (\<lambda>w. case b of True \<Rightarrow> f w | False \<Rightarrow> g w)"
  by (cases b) simp_all

lemma shrinks_apfst [shrinking]: "shrinks C f \<Longrightarrow> shrinks C (\<lambda>w. apfst g (f w))"
  by (simp add: shrinks_def)

text \<open>What is seen of Redis from a state that holds a Vault token too.\<close>

definition at_world :: "('x \<Rightarrow> 'c) \<Rightarrow> 'x vault \<Rightarrow> 'c" where
  "at_world C v = C (vt_world v)"

lemma shrinks_lifted [shrinking]: "shrinks C f \<Longrightarrow> shrinks (at_world C) (lifted f)"
  by (simp add: shrinks_def lifted_def at_world_def case_prod_unfold)

lemma shrinks_clocked [shrinking]:
  assumes "shrinks C (lib_now L)" and "\<And>t. shrinks C (f t)"
  shows "shrinks (at_world C) (clocked L f)"
  unfolding clocked_def [abs_def] by (intro shrinking assms)

lemma shrinks_token [shrinking]: "(\<And>t. shrinks C (f t)) \<Longrightarrow> shrinks (at_world C) (with_token f)"
  by (simp add: shrinks_def with_token_def at_world_def case_prod_unfold)

subsection \<open>The clients\<close>

lemma shrinks_n8n:
  assumes "\<And>q. shrinks C (T q)"
  shows "shrinks C (Login T u l p hs)" "shrinks C (CurrentUser T u k)" "shrinks C (Logout T u k)" "shrinks C (Ping T u)"
proof -
  show "shrinks C (Login T u l p hs)" "shrinks C (CurrentUser T u k)" "shrinks C (Logout T u k)"
    unfolding Login_def [abs_def] CurrentUser_def [abs_def] Logout_def [abs_def] Let_def
    by (intro shrinking assms)+
  have "shrinks C (ping_root T u)" unfolding ping_root_def [abs_def] by (intro shrinking assms)
  then show "shrinks C (Ping T u)" unfolding Ping_def [abs_def] by (intro shrinking assms)
qed

lemma shrinks_Exchange:
  assumes "\<And>code ver. shrinks C (oa_exchange P code ver)" and "\<And>raw. shrinks C (oa_verify P raw)"
  shows "shrinks C (Exchange P code nonce ver)"
  unfolding Exchange_def [abs_def] by (intro shrinking assms)

lemma shrinks_set_token: "shrinks (at_world C) (\<lambda>v. (r, v\<lparr>vt_token := t\<rparr>))"
  by (simp add: shrinks_def at_world_def)

lemma shrinks_vault:
  assumes "\<And>t p. shrinks C (api_Read A t p)" "\<And>t p d. shrinks C (api_Write A t p d)"
    and "\<And>t p. shrinks C (api_Delete A t p)" "\<And>t. shrinks C (api_LookupSelf A t)" "shrinks C (api_now A)"
  shows "shrinks (at_world C) (KVGet A K i u)" "shrinks (at_world C) (KVPut A K cr)"
    "shrinks (at_world C) (KVDelete A K i u)" "shrinks (at_world C) (KVPing A K)"
proof -
  have "shrinks (at_world C) (loginAppRole A role sid)" for role sid
    unfolding loginAppRole_def [abs_def] by (intro shrinking shrinks_set_token assms)
  then have re: "shrinks (at_world C) (reauthenticateAfterAuthError A K e)" for e
    unfolding reauthenticateAfterAuthError_def [abs_def] by (intro shrinking)
  show "shrinks (at_world C) (KVGet A K i u)" "shrinks (at_world C) (KVDelete A K i u)" "shrinks (at_world C) (KVPing A K)"
    unfolding KVGet_def [abs_def] KVDelete_def [abs_def] KVPing_def [abs_def] Let_def
    by (intro shrinking re assms)+
  have ret: "shrinks (at_world C) (retried A K f)" if "shrinks (at_world C) f" for f :: "'a vault \<Rightarrow> (api_err + 'b) \<times> 'a vault"
    unfolding retried_def [abs_def] by (intro shrinking re that)
  have "KVPut A K cr = (\<lambda>v. case lifted (api_now A) v of (now, v') \<Rightarrow>
      apfst (failure ''vault write credential: '') (retried A K (write_call A K (stamped cr now)) v'))"
    by (rule ext) (simp add: KVPut_retried lifted_def split: prod.split)
  then show "shrinks (at_world C) (KVPut A K cr)"
    using assms by (simp only:) (intro shrinking ret)
qed

text \<open>The reverse proxies.\<close>

lemma shrinks_proxy_ServeHTTP:
  assumes "\<And>limit q. shrinks C (hp_Transport p limit q)" and "\<And>e w. shrinks C (hp_ErrorHandler p e w)"
  shows "shrinks C (proxy_ServeHTTP p limit r w)"
  unfolding proxy_ServeHTTP_def [abs_def] Let_def by (intro shrinking assms)

lemma shrinks_proxy:
  assumes "\<And>limit q. shrinks C (T limit q)" and "\<And>v. C (errors v) \<subseteq>\<^sub>m C v"
  shows "shrinks C (ReverseProxy_ServeHTTP (NewWithPublicBaseAndErrorCallback T U B timeout secure (Some errors)) r w)"
  unfolding ReverseProxy_ServeHTTP_def NewWithPublicBaseAndErrorCallback_def
  using assms by (intro shrinks_proxy_ServeHTTP) (simp_all add: upstreamError_def shrinks_def)

subsection \<open>The program\<close>

text \<open>
  What is needed of the libraries for the program with these clients: Redis keeps its promises, and
  reading the clock, Vault, the provider, n8n and the metrics add no key to it.
\<close>

locale program_libraries = redis_store R "lib_rand L" contents
  for L :: "('o, 'x) Libraries" and R :: "'x RedisStore" and contents :: "'x \<Rightarrow> string \<rightharpoonup> string" +
  fixes A :: "'x VaultApi" and P :: "'x ProviderClient" and N :: "'x HTTPClient"
  assumes clock: "shrinks contents (lib_now L)"
    and vault_read: "shrinks contents (api_Read A token p)"
    and vault_write: "shrinks contents (api_Write A token p d)"
    and vault_delete: "shrinks contents (api_Delete A token p)"
    and vault_lookup: "shrinks contents (api_LookupSelf A token)"
    and vault_clock: "shrinks contents (api_now A)"
    and exchange: "shrinks contents (oa_exchange P code verifier)"
    and verify: "shrinks contents (oa_verify P raw)"
    and n8n: "shrinks contents (hc_client N q)"
    and round_trip: "shrinks contents (lib_RoundTrip L limit request)"
    and error_counter: "contents (lib_upstreamErrors L label w) \<subseteq>\<^sub>m contents w"
    and metrics: "shrinks contents (lib_metricsHTTP L request response)"

definition program_live :: "('x \<Rightarrow> string \<rightharpoonup> string) \<Rightarrow> 'x vault \<Rightarrow> string \<rightharpoonup> Session" where
  "program_live contents v = redis_live contents (vt_world v)"

definition redis_owner :: "string \<times> string \<Rightarrow> string \<times> string" where
  "redis_owner p = (replace_invalid (fst p), replace_invalid (snd p))"

lemma redis_owner_session: "session_owner (redis_session x) = redis_owner (session_owner x)"
  by (simp add: session_owner_def redis_session_def redis_owner_def)

lemma lifted_step: "lifted f v = (r, v') \<Longrightarrow> f (vt_world v) = (r, vt_world v')"
  by (auto simp: lifted_def split: prod.splits)

lemma clocked_step:
  assumes "clocked L f v = (r, v')"
  obtains t w where "lib_now L (vt_world v) = (t, w)" and "f t w = (r, vt_world v')"
  using assms by (auto simp: clocked_def lifted_def split: prod.splits)

lemma shrinks_live: "shrinks (at_world contents) f \<Longrightarrow> f v = (r, v') \<Longrightarrow> program_live contents v' \<subseteq>\<^sub>m program_live contents v"
  unfolding program_live_def redis_live_def by (drule shrinksD, assumption) (simp add: at_world_def view_le)

lemma program_simps:
  "cfg (program_server L c R A K P N) = c"
  "srv_now (program_server L c R A K P N) = lifted (lib_now L)"
  "srv_rand (program_server L c R A K P N) = (\<lambda>n. lifted (lib_rand L n))"
  "srv_CreateSession (program_server L c R A K P N) x = clocked L (\<lambda>t. RedisCreateSession (lib_rand L) R t x)"
  "srv_SaveSession (program_server L c R A K P N) i x = lifted (RedisSaveSession R i x)"
  "srv_GetSession (program_server L c R A K P N) i = clocked L (\<lambda>t. RedisGetSession R t i)"
  "srv_DeleteSession (program_server L c R A K P N) i = lifted (RedisDeleteSession R i)"
  "srv_StoreOIDCState (program_server L c R A K P N) k y = lifted (RedisStoreOIDCState R k y)"
  "srv_TakeOIDCState (program_server L c R A K P N) k = lifted (RedisTakeOIDCState R k)"
  "srv_GetCSRF (program_server L c R A K P N) i = lifted (RedisGetCSRF R i)"
  "srv_SetCSRF (program_server L c R A K P N) i tok = lifted (RedisSetCSRF R i tok)"
  "srv_PingSessions (program_server L c R A K P N) = lifted (RedisPing R)"
  "srv_GetCredential (program_server L c R A K P N) = KVGet A K"
  "srv_PutCredential (program_server L c R A K P N) = KVPut A K"
  "srv_DeleteCredential (program_server L c R A K P N) = KVDelete A K"
  "srv_PingCredentials (program_server L c R A K P N) = KVPing A K"
  "srv_Exchange (program_server L c R A K P N) code nonce ver = lifted (Exchange P code nonce ver)"
  "srv_PingOIDC (program_server L c R A K P N) = lifted (\<lambda>w. (PingProvider P, w))"
  "srv_Login (program_server L c R A K P N) l p hs = lifted (Login (hc_client N) (hc_upstream N) l p hs)"
  "srv_CurrentUser (program_server L c R A K P N) k = lifted (CurrentUser (hc_client N) (hc_upstream N) k)"
  "srv_Logout (program_server L c R A K P N) k = lifted (Logout (hc_client N) (hc_upstream N) k)"
  "srv_PingN8N (program_server L c R A K P N) = lifted (Ping (hc_client N) (hc_upstream N))"
  "srv_publicProxy (program_server L c R A K P N) = newPublicProxy (\<lambda>limit q. lifted (lib_RoundTrip L limit q))
     (\<lambda>label v. v\<lparr>vt_world := lib_upstreamErrors L label (vt_world v)\<rparr>) c"
  "srv_consoleProxy (program_server L c R A K P N) = newConsoleProxy (\<lambda>limit q. lifted (lib_RoundTrip L limit q))
     (\<lambda>label v. v\<lparr>vt_world := lib_upstreamErrors L label (vt_world v)\<rparr>) c"
  "srv_metricsHTTP (program_server L c R A K P N) r w = lifted (lib_metricsHTTP L r w)"
  by (simp_all add: program_server_def program_services_def NewServer_def Let_def)

sublocale program_libraries \<subseteq> keeper:
  session_keeper "program_server L c R A K P N" "program_live contents" redis_owner for c K
proof (unfold_locales, simp_all only: program_simps)
  note live = shrinks_live [where contents = contents]
  have vault: "shrinks (at_world contents) (KVGet A K i u)" "shrinks (at_world contents) (KVPut A K cr)"
    "shrinks (at_world contents) (KVDelete A K i u)" "shrinks (at_world contents) (KVPing A K)" for i u cr
    by (intro shrinks_vault vault_read vault_write vault_delete vault_lookup vault_clock)+
  fix v v' :: "'x vault"
  show "redis_owner (redis_owner owner) = redis_owner owner" for owner by (simp add: redis_owner_def)
  show "program_live contents v j = Some y \<or> session_owner y = redis_owner (session_owner x)"
    if eq: "clocked L (\<lambda>t. RedisCreateSession (lib_rand L) R t x) v = (res, v')"
      and y: "program_live contents v' j = Some y" for x res j y
  proof -
    obtain t w where t: "lib_now L (vt_world v) = (t, w)" "RedisCreateSession (lib_rand L) R t x w = (res, vt_world v')"
      by (rule clocked_step [OF eq])
    from create_keeps [OF t(2)] obtain i where "at_most (redis_live contents (vt_world v')) (redis_live contents w) i
      (redis_session (x\<lparr>CreatedAt := t, ExpiresAt := t + rs_sessionTTL R\<rparr>))" by blast
    moreover have "redis_live contents w \<subseteq>\<^sub>m redis_live contents (vt_world v)"
      using keepsI [OF shrinksD [OF clock t(1)]] by blast
    ultimately have "redis_live contents (vt_world v) j = Some y
        \<or> y = redis_session (x\<lparr>CreatedAt := t, ExpiresAt := t + rs_sessionTTL R\<rparr>)"
      using y unfolding at_most_def program_live_def by (blast dest: map_leD)
    then show ?thesis by (auto simp: program_live_def redis_owner_session) (simp add: session_owner_def)
  qed
  show "program_live contents v j = Some y \<or> session_owner y = redis_owner (session_owner x)"
    if "lifted (RedisSaveSession R i x) v = (res, v')" "program_live contents v' j = Some y" for i x res j y
  proof -
    have "redis_live contents (vt_world v) j = Some y \<or> y = redis_session x"
      using save_keeps [OF lifted_step [OF that(1)]] that(2) unfolding at_most_def program_live_def by blast
    then show ?thesis by (auto simp: program_live_def redis_owner_session)
  qed
  have got: "program_live contents v' \<subseteq>\<^sub>m program_live contents v"
    "res = Inr x \<Longrightarrow> program_live contents v i = Some x"
    if eq: "clocked L (\<lambda>t. RedisGetSession R t i) v = (res, v')" for i res x
  proof -
    obtain t w where t: "lib_now L (vt_world v) = (t, w)" "RedisGetSession R t i w = (res, vt_world v')"
      by (rule clocked_step [OF eq])
    have le: "redis_live contents w \<subseteq>\<^sub>m redis_live contents (vt_world v)"
      using keepsI [OF shrinksD [OF clock t(1)]] by blast
    show "program_live contents v' \<subseteq>\<^sub>m program_live contents v"
      using map_le_trans [OF conjunct1 [OF find_keeps [OF t(2)]] le] by (simp add: program_live_def)
    show "res = Inr x \<Longrightarrow> program_live contents v i = Some x"
      using find_ok [of t i w x "vt_world v'"] t(2) map_leD [OF le] by (simp add: program_live_def)
  qed
  show "program_live contents v' \<subseteq>\<^sub>m program_live contents v" if "clocked L (\<lambda>t. RedisGetSession R t i) v = (res, v')" for i res
    using got(1) [OF that] .
  show "program_live contents v i = Some x" if "clocked L (\<lambda>t. RedisGetSession R t i) v = (Inr x, v')" for i x
    using got(2) [OF that refl] .
  show "program_live contents v' \<subseteq>\<^sub>m program_live contents v" if "lifted (RedisDeleteSession R i) v = (res, v')" for i res
    using remove_keeps [OF lifted_step [OF that]] by (simp add: program_live_def)
  show "program_live contents v' \<subseteq>\<^sub>m program_live contents v" if "lifted (RedisStoreOIDCState R k y) v = (res, v')" for k y res
    using store_state_keeps [OF lifted_step [OF that]] by (simp add: program_live_def)
  show "program_live contents v' \<subseteq>\<^sub>m program_live contents v" if "lifted (RedisTakeOIDCState R k) v = (res, v')" for k res
    using take_state_keeps [OF lifted_step [OF that]] by (simp add: program_live_def)
  show "program_live contents v' \<subseteq>\<^sub>m program_live contents v" if "lifted (RedisGetCSRF R i) v = (res, v')" for i res
    using get_csrf_keeps [OF lifted_step [OF that]] by (simp add: program_live_def)
  show "program_live contents v' \<subseteq>\<^sub>m program_live contents v" if "lifted (RedisSetCSRF R i tok) v = (res, v')" for i tok res
    using set_csrf_keeps [OF lifted_step [OF that]] by (simp add: program_live_def)
  show "program_live contents v' \<subseteq>\<^sub>m program_live contents v" if "lifted (RedisPing R) v = (res, v')" for res
    using ping_keeps [OF lifted_step [OF that]] by (simp add: program_live_def)
  show "program_live contents v' \<subseteq>\<^sub>m program_live contents v" if "lifted (lib_rand L n) v = (res, v')" for n res
    using keepsI [OF rand_keeps [OF lifted_step [OF that]]] by (simp add: program_live_def)
  have proxy: "shrinks (at_world contents) (newPublicProxy (\<lambda>limit q. lifted (lib_RoundTrip L limit q))
       (\<lambda>label v. v\<lparr>vt_world := lib_upstreamErrors L label (vt_world v)\<rparr>) c r w)"
    "shrinks (at_world contents) (newConsoleProxy (\<lambda>limit q. lifted (lib_RoundTrip L limit q))
       (\<lambda>label v. v\<lparr>vt_world := lib_upstreamErrors L label (vt_world v)\<rparr>) c r w)" for r w
    unfolding newPublicProxy_def newConsoleProxy_def BodyLimitMiddleware_def
    by (rule shrinks_proxy; simp add: shrinks_lifted round_trip error_counter at_world_def)+
  show "program_live contents v' \<subseteq>\<^sub>m program_live contents v"
    if "newPublicProxy (\<lambda>limit q. lifted (lib_RoundTrip L limit q))
       (\<lambda>label v. v\<lparr>vt_world := lib_upstreamErrors L label (vt_world v)\<rparr>) c r w v = (res, v')" for r w res
    by (rule live [OF proxy(1) that])
  show "program_live contents v' \<subseteq>\<^sub>m program_live contents v"
    if "newConsoleProxy (\<lambda>limit q. lifted (lib_RoundTrip L limit q))
       (\<lambda>label v. v\<lparr>vt_world := lib_upstreamErrors L label (vt_world v)\<rparr>) c r w v = (res, v')" for r w res
    by (rule live [OF proxy(2) that])
  show "program_live contents v' \<subseteq>\<^sub>m program_live contents v"
    if "lifted (\<lambda>w. (PingProvider P, w)) v = (res, v')" for res
    by (rule live [OF shrinks_lifted [OF shrinks_pure] that])
qed (erule shrinks_live [rotated],
    (rule shrinks_lifted clock shrinks_n8n n8n shrinks_Exchange exchange verify metrics
       shrinks_vault vault_read vault_write vault_delete vault_lookup vault_clock)+)+


context program_libraries
begin

lemma sessions_verified:
  "reached (program_server L c R A K P N) (program_live contents) v0 v h \<Longrightarrow> program_live contents v0 = Map.empty \<Longrightarrow>
     all_verified redis_owner (program_live contents v) (set h)"
  by (rule keeper.reached_verified)

end

subsection \<open>Libraries that keep their promises\<close>

text \<open>On the Redis engine: a provider and an n8n that cannot be reached, and a Vault without secrets.\<close>

definition quiet_libraries :: "(string, redis_engine) Libraries" where
  "quiet_libraries =
     \<lparr>lib_now = (\<lambda>e. (re_clock e, re_tick e)), lib_rand = re_rand,
      lib_ParseURL = (\<lambda>_. None), lib_RedisAddr = (\<lambda>u. u), lib_NewRedis = (\<lambda>_. re_engine),
      lib_NewVault = (\<lambda>_. Inl ''no route''), lib_NewProvider = (\<lambda>_ e. (Inl ''no route'', e)),
      lib_HTTPClient = (\<lambda>_ q e. (Inl ''no route'', e)),
      lib_RoundTrip = (\<lambda>_ q e. (([], Inl DeadlineExceeded), re_tick e)),
      lib_upstreamErrors = (\<lambda>_ e. e), lib_metricsHTTP = (\<lambda>r w e. ((False, write_body ''#'' w), e))\<rparr>"

definition quiet_vault :: "redis_engine VaultApi" where
  "quiet_vault =
     \<lparr>api_Read = (\<lambda>_ _ e. (Inr None, e)), api_Write = (\<lambda>_ _ _ e. (Inr None, e)),
      api_Delete = (\<lambda>_ _ e. (Inr None, e)), api_LookupSelf = (\<lambda>_ e. (Inr None, e)),
      api_RenewSelf = (\<lambda>_ e. (Inr None, e)), api_now = (\<lambda>e. (re_clock e, re_tick e))\<rparr>"

definition quiet_provider :: "redis_engine ProviderClient" where
  "quiet_provider =
     \<lparr>oa_authCodeURL = (\<lambda>s _. ''https://idp/auth?state='' @ query_escape s),
      oa_exchange = (\<lambda>_ _ e. (Inl ''no route'', re_tick e)), oa_verify = (\<lambda>_ e. (Inl ''no key'', e)),
      oa_claims = (\<lambda>_. Inl ''none''), oa_initialized = True\<rparr>"

definition quiet_n8n :: "redis_engine HTTPClient" where
  "quiet_n8n = NewClient (lib_HTTPClient quiet_libraries) (the (url_parse ''http://n8n:5678'')) (60 * second)"

interpretation quiet: program_libraries quiet_libraries demo_redis re_alive quiet_vault quiet_provider quiet_n8n
proof (intro program_libraries.intro program_libraries_axioms.intro)
  show "redis_store demo_redis (lib_rand quiet_libraries) re_alive"
    using redis.redis_store_axioms by (simp add: quiet_libraries_def)
qed (simp_all add: quiet_libraries_def quiet_vault_def quiet_provider_def quiet_n8n_def NewClient_def shrinks_def
    re_alive_tick)


definition quiet_server :: "redis_engine vault Server" where
  "quiet_server = program_server quiet_libraries demo_cfg demo_redis quiet_vault
     \<lparr>kv_mount = ''secret'', kv_prefix = ''n8n-gw/users'', kv_roleID = [], kv_secretID = []\<rparr> quiet_provider quiet_n8n"

definition quiet_start :: "redis_engine vault" where
  "quiet_start = \<lparr>vt_token = ''t'',
     vt_world = \<lparr>re_data = Map.empty, re_clock = demo_time, re_entropy = [''A'', ''B'', ''C'', ''D'']\<rparr>\<rparr>"


end
