(* ===== verification/Status_Recorder.thy ===== *)
theory Status_Recorder
  imports Go_Http
begin

text \<open>
  \<open>statusRecorder\<close> of \<open>src/internal/httpserver/server.go\<close>: the response writer that the handlers get, around that of
  the server. The handlers are modelled on the record \<open>response\<close>, whose field \<open>w_recorded\<close> is the status
  that the recorder notes; here it is shown that this is what the recorder does.
\<close>

text \<open>
  A response writer of \<open>net/http\<close> over the state \<open>'s\<close> of the connection: \<open>Flusher\<close> and \<open>Hijacker\<close> are interfaces that
  it may have or not. \<open>'c\<close> is a hijacked connection.
\<close>

record ('s, 'c) response_writer =
  rw_WriteHeader :: "nat \<Rightarrow> 's \<Rightarrow> 's"
  rw_Flusher :: "('s \<Rightarrow> 's) option"
  rw_Hijacker :: "('s \<Rightarrow> (string + 'c) \<times> 's) option"

record ('s, 'c) statusRecorder =
  sr_ResponseWriter :: "('s, 'c) response_writer"
  sr_status :: nat

definition recorder_WriteHeader ::
  "nat \<Rightarrow> ('s, 'c) statusRecorder \<Rightarrow> 's \<Rightarrow> ('s, 'c) statusRecorder \<times> 's" where
  "recorder_WriteHeader status r s =
     (r\<lparr>sr_status := status\<rparr>, rw_WriteHeader (sr_ResponseWriter r) status s)"

definition recorder_Unwrap :: "('s, 'c) statusRecorder \<Rightarrow> ('s, 'c) response_writer" where
  "recorder_Unwrap r = sr_ResponseWriter r"

definition recorder_Flush :: "('s, 'c) statusRecorder \<Rightarrow> 's \<Rightarrow> 's" where
  "recorder_Flush r s = (case rw_Flusher (sr_ResponseWriter r) of Some flush \<Rightarrow> flush s | None \<Rightarrow> s)"

definition recorder_Hijack :: "('s, 'c) statusRecorder \<Rightarrow> 's \<Rightarrow> (string + 'c) \<times> 's" where
  "recorder_Hijack r s =
     (case rw_Hijacker (sr_ResponseWriter r) of
        None \<Rightarrow> (Inl ''response writer does not support hijacking'', s)
      | Some hijack \<Rightarrow> hijack s)"

text \<open>
  The writer of \<open>net/http\<close> on the response: the first status goes out with the header as it is then. A
  recorder around it does to the response what \<open>write_header\<close> does.
\<close>

definition net_writer :: "(response, 'c) response_writer" where
  "net_writer =
     \<lparr>rw_WriteHeader = (\<lambda>code w. w\<lparr>w_sent := (case w_sent w of None \<Rightarrow> Some (code, w_header w) | Some s \<Rightarrow> Some s)\<rparr>),
      rw_Flusher = None, rw_Hijacker = None\<rparr>"

lemma write_header_recorded:
  "write_header code w =
     (case recorder_WriteHeader code \<lparr>sr_ResponseWriter = net_writer, sr_status = w_recorded w\<rparr> w of
        (r, w') \<Rightarrow> w'\<lparr>w_recorded := sr_status r\<rparr>)"
  by (simp add: recorder_WriteHeader_def net_writer_def write_header_def)

text \<open>The recorder adds nothing to its writer: it can flush and hijack exactly when the writer can.\<close>

lemma recorder_supports:
  "(\<forall>s. isl (fst (recorder_Hijack r s))) \<longleftrightarrow>
     (case rw_Hijacker (recorder_Unwrap r) of None \<Rightarrow> True | Some hijack \<Rightarrow> \<forall>s. isl (fst (hijack s)))"
  "rw_Flusher (recorder_Unwrap r) = None \<Longrightarrow> recorder_Flush r s = s"
  by (simp_all add: recorder_Hijack_def recorder_Unwrap_def recorder_Flush_def split: option.split)

end
