(* ===== verification/Log_Lines.thy ===== *)
theory Log_Lines
  imports Guarantees Logging
begin

text \<open>
  The lines that handling a request writes to the log (\<open>s.logger\<close> in \<open>src/internal/httpserver/server.go\<close>). They
  are a function of the calls that were made and of the response, so they are read off the log of events.
\<close>

record log_line =
  ll_Level :: level
  ll_Message :: string
  ll_Attrs :: "string attr list"

definition plain_attr :: "string \<Rightarrow> string \<Rightarrow> string attr" where
  "plain_attr name value = \<lparr>attr_name = name, attr_val = Plain value\<rparr>"

definition vault_err_text :: "vault_err \<Rightarrow> string" where
  "vault_err_text e = (case e of CredNotFound \<Rightarrow> ''credential not found'' | VaultFail m \<Rightarrow> m)"

definition store_line :: "string \<Rightarrow> string \<Rightarrow> vault_err \<Rightarrow> log_line" where
  "store_line message rid e =
     \<lparr>ll_Level = LevelError, ll_Message = message,
      ll_Attrs = [plain_attr ''request_id'' rid, plain_attr ''error'' (vault_err_text e)]\<rparr>"

text \<open>The lines of \<open>getCredential\<close>, \<open>putCredential\<close> and \<open>deleteCredential\<close>.\<close>

fun credential_line :: "string \<Rightarrow> event \<Rightarrow> log_line option" where
  "credential_line rid (ReadCredential i u (Inl e)) =
     (if e = CredNotFound then None else Some (store_line ''credential store read failed'' rid e))"
| "credential_line rid (WroteCredential c (Some e)) = Some (store_line ''credential store write failed'' rid e)"
| "credential_line rid (RemovedCredential i u (Some e)) = Some (store_line ''credential store delete failed'' rid e)"
| "credential_line rid e = None"

text \<open>The line of the recovery, with the value recovered, and the line at the end, with the milliseconds that it took.\<close>

definition panic_line :: "string \<Rightarrow> string \<Rightarrow> log_line" where
  "panic_line rid recovered =
     \<lparr>ll_Level = LevelError, ll_Message = ''panic recovered'',
      ll_Attrs = [plain_attr ''request_id'' rid, plain_attr ''error'' recovered]\<rparr>"

definition completed_line :: "string \<Rightarrow> request \<Rightarrow> RouteClass \<Rightarrow> nat \<Rightarrow> int \<Rightarrow> log_line" where
  "completed_line rid r class status ms =
     \<lparr>ll_Level = LevelInfo, ll_Message = ''request completed'',
      ll_Attrs = [plain_attr ''request_id'' rid, plain_attr ''method'' (r_method r), plain_attr ''path'' (u_path (r_url r)),
        plain_attr ''route_class'' (route_class_name class), plain_attr ''status'' (nat_decimal status),
        plain_attr ''duration_ms'' (int_decimal ms)]\<rparr>"

text \<open>
  All lines of a request in their order. The value of a panic and the time taken are not part of the model of the
  handlers: \<open>recovered\<close>, \<open>ms\<close>.
\<close>

definition log_lines :: "'s Server \<Rightarrow> request \<Rightarrow> 's \<Rightarrow> string \<Rightarrow> int \<Rightarrow> log_line list" where
  "log_lines S r s recovered ms =
     (let g = handle S r s; rid = gw_request_id (entered S r s)
      in List.map_filter (credential_line rid) (rev (gw_log g))
         @ (if fst (dispatched S r s) then [panic_line rid recovered] else [])
         @ [completed_line rid r (class_of S r) (w_recorded (gw_w g)) ms])"

text \<open>
  What reaches the log: the request's identifier, method, path, class, status and duration, and the texts of
  errors; nothing of its query, of its other headers and of its body, no credential, no session and no token. No
  key is one of those that the logger redacts, so the redaction changes no line.
\<close>

definition log_values :: "'s Server \<Rightarrow> request \<Rightarrow> 's \<Rightarrow> string \<Rightarrow> int \<Rightarrow> (string \<times> string) set" where
  "log_values S r s recovered ms =
     {(''request_id'', gw_request_id (entered S r s)), (''method'', r_method r), (''path'', u_path (r_url r)),
      (''route_class'', route_class_name (class_of S r)),
      (''status'', nat_decimal (w_recorded (gw_w (handle S r s)))), (''duration_ms'', int_decimal ms), (''error'', recovered)}
     \<union> {(''error'', vault_err_text e) | e.
          \<exists>i u c. ReadCredential i u (Inl e) \<in> set (gw_log (handle S r s))
            \<or> WroteCredential c (Some e) \<in> set (gw_log (handle S r s))
            \<or> RemovedCredential i u (Some e) \<in> set (gw_log (handle S r s))}"

lemma credential_line_error:
  "credential_line rid ev = Some l \<Longrightarrow>
     \<exists>message e. l = store_line message rid e
       \<and> (\<exists>i u c. ev = ReadCredential i u (Inl e) \<or> ev = WroteCredential c (Some e) \<or> ev = RemovedCredential i u (Some e))"
  by (induction rid ev rule: credential_line.induct) (auto split: if_splits)

lemma plain_attr_values: "attr_name (plain_attr n v) = n" "attr_val (plain_attr n v) = Plain v"
  by (simp_all add: plain_attr_def)

lemma logged_values:
  assumes "l \<in> set (log_lines S r s recovered ms)" and "a \<in> set (ll_Attrs l)"
  shows "\<exists>v. attr_val a = Plain v \<and> (attr_name a, v) \<in> log_values S r s recovered ms"
proof -
  let ?rid = "gw_request_id (entered S r s)"
  from assms(1) consider
      ev where "ev \<in> set (gw_log (handle S r s))" "credential_line ?rid ev = Some l"
    | "l = panic_line ?rid recovered"
    | "l = completed_line ?rid r (class_of S r) (w_recorded (gw_w (handle S r s))) ms"
    by (auto simp: log_lines_def Let_def List.map_filter_def split: if_splits)
  then show ?thesis
  proof cases
    case 1
    obtain message e where l: "l = store_line message ?rid e"
      and "\<exists>i u c. ev = ReadCredential i u (Inl e) \<or> ev = WroteCredential c (Some e) \<or> ev = RemovedCredential i u (Some e)"
      using credential_line_error [OF 1(2)] by blast
    with 1(1) have "(''error'', vault_err_text e) \<in> log_values S r s recovered ms" by (auto simp: log_values_def)
    then show ?thesis using assms(2) by (auto simp: l store_line_def plain_attr_values log_values_def)
  qed (use assms(2) in \<open>auto simp: panic_line_def completed_line_def plain_attr_values log_values_def\<close>)
qed

lemma logged_keys:
  assumes "l \<in> set (log_lines S r s recovered ms)" and "a \<in> set (ll_Attrs l)"
  shows "redactAttr groups a = a"
proof -
  have "list_all (\<lambda>k. \<not> List.member sensitiveKeys (to_lower k))
      [''request_id'', ''method'', ''path'', ''route_class'', ''status'', ''duration_ms'', ''error'']"
    by code_simp
  moreover have "attr_name a \<in> set [''request_id'', ''method'', ''path'', ''route_class'', ''status'', ''duration_ms'', ''error'']"
    using logged_values [OF assms] by (auto simp: log_values_def)
  ultimately show ?thesis unfolding list_all_iff redactAttr_def by auto
qed

end
