(* ===== verification/System.thy ===== *)
theory System
  imports Provenance
begin

text \<open>
  The gateway on its in-memory stores, with everything else (the clock, n8n, the identity provider, the
  proxies) left open, and what holds after any sequence of requests.
\<close>

subsection \<open>The gateway on the in-memory stores\<close>

record 'x store_world =
  sw_sessions :: MemoryStore
  sw_credentials :: CredentialMap
  sw_rest :: 'x

text \<open>The services outside: functions on the rest of the world, about which nothing is assumed.\<close>

record 'x Outside =
  out_now :: "'x \<Rightarrow> time \<times> 'x"
  out_rand :: "'x entropy"
  out_AuthCodeURL :: "string \<Rightarrow> string \<Rightarrow> string \<Rightarrow> string"
  out_Exchange :: "string \<Rightarrow> string \<Rightarrow> string \<Rightarrow> 'x \<Rightarrow> (string + Identity) \<times> 'x"
  out_PingOIDC :: "'x \<Rightarrow> string option \<times> 'x"
  out_Login :: "string \<Rightarrow> string \<Rightarrow> header list \<Rightarrow> 'x \<Rightarrow> (LoginResult \<times> n8n_err option) \<times> 'x"
  out_CurrentUser :: "string \<Rightarrow> 'x \<Rightarrow> (CurrentUserResult \<times> n8n_err option) \<times> 'x"
  out_Logout :: "string \<Rightarrow> 'x \<Rightarrow> (LogoutResult \<times> n8n_err option) \<times> 'x"
  out_PingN8N :: "'x \<Rightarrow> n8n_err option \<times> 'x"
  out_publicProxy :: "'x http_handler"
  out_consoleProxy :: "'x http_handler"
  out_metricsHTTP :: "'x http_handler"

definition with_rest :: "('x \<Rightarrow> 'r \<times> 'x) \<Rightarrow> 'x store_world \<Rightarrow> 'r \<times> 'x store_world" where
  "with_rest f w = (case f (sw_rest w) of (r, x) \<Rightarrow> (r, w\<lparr>sw_rest := x\<rparr>))"

definition with_sessions :: "(MemoryStore \<Rightarrow> 'r \<times> MemoryStore) \<Rightarrow> 'x store_world \<Rightarrow> 'r \<times> 'x store_world" where
  "with_sessions f w = (case f (sw_sessions w) of (r, m) \<Rightarrow> (r, w\<lparr>sw_sessions := m\<rparr>))"

text \<open>An operation of the session store that reads the clock.\<close>

definition timed :: "'x Outside \<Rightarrow> (time \<Rightarrow> MemoryStore \<Rightarrow> 'r \<times> MemoryStore) \<Rightarrow> 'x store_world \<Rightarrow> 'r \<times> 'x store_world" where
  "timed E f w = (case with_rest (out_now E) w of (t, w') \<Rightarrow> with_sessions (f t) w')"

definition with_credentials ::
  "(CredentialMap \<Rightarrow> 'r \<times> CredentialMap) \<Rightarrow> 'x store_world \<Rightarrow> 'r \<times> 'x store_world" where
  "with_credentials f w = (case f (sw_credentials w) of (r, m) \<Rightarrow> (r, w\<lparr>sw_credentials := m\<rparr>))"

definition memory_server :: "Config \<Rightarrow> 'x Outside \<Rightarrow> 'x store_world Server" where
  "memory_server c E =
     \<lparr>cfg = c, srv_now = with_rest (out_now E), srv_rand = (\<lambda>n. with_rest (out_rand E n)),
      srv_CreateSession = (\<lambda>x. timed E (\<lambda>t. CreateSession t x)),
      srv_SaveSession = (\<lambda>i x. with_sessions (SaveSession i x)),
      srv_GetSession = (\<lambda>i. timed E (\<lambda>t. GetSession t i)),
      srv_DeleteSession = (\<lambda>i. with_sessions (DeleteSession i)),
      srv_StoreOIDCState = (\<lambda>k v. with_sessions (StoreOIDCState k v)),
      srv_TakeOIDCState = (\<lambda>k. with_sessions (TakeOIDCState k)),
      srv_GetCSRF = (\<lambda>i. with_sessions (GetCSRF i)),
      srv_SetCSRF = (\<lambda>i t. with_sessions (SetCSRF i t)),
      srv_PingSessions = with_sessions PingMemory,
      srv_GetCredential = (\<lambda>i u. with_credentials (GetCredential i u)),
      srv_PutCredential = (\<lambda>cr. with_credentials (PutCredential cr)),
      srv_DeleteCredential = (\<lambda>i u. with_credentials (DeleteCredential i u)),
      srv_PingCredentials = with_credentials PingCredentials,
      srv_AuthCodeURL = out_AuthCodeURL E,
      srv_Exchange = (\<lambda>code nonce ver. with_rest (out_Exchange E code nonce ver)),
      srv_PingOIDC = with_rest (out_PingOIDC E),
      srv_Login = (\<lambda>l p hs. with_rest (out_Login E l p hs)),
      srv_CurrentUser = (\<lambda>k. with_rest (out_CurrentUser E k)),
      srv_Logout = (\<lambda>k. with_rest (out_Logout E k)),
      srv_PingN8N = with_rest (out_PingN8N E),
      srv_publicProxy = (\<lambda>r w. with_rest (out_publicProxy E r w)),
      srv_consoleProxy = (\<lambda>r w. with_rest (out_consoleProxy E r w)),
      srv_metricsHTTP = (\<lambda>r w. with_rest (out_metricsHTTP E r w))\<rparr>"

lemma memory_server_simps [simp]:
  "cfg (memory_server c E) = c"
  "srv_now (memory_server c E) = with_rest (out_now E)"
  "srv_rand (memory_server c E) n = with_rest (out_rand E n)"
  "srv_CreateSession (memory_server c E) x = timed E (\<lambda>t. CreateSession t x)"
  "srv_SaveSession (memory_server c E) i x = with_sessions (SaveSession i x)"
  "srv_GetSession (memory_server c E) i = timed E (\<lambda>t. GetSession t i)"
  "srv_DeleteSession (memory_server c E) i = with_sessions (DeleteSession i)"
  "srv_StoreOIDCState (memory_server c E) k v = with_sessions (StoreOIDCState k v)"
  "srv_TakeOIDCState (memory_server c E) k = with_sessions (TakeOIDCState k)"
  "srv_GetCSRF (memory_server c E) i = with_sessions (GetCSRF i)"
  "srv_SetCSRF (memory_server c E) i tok = with_sessions (SetCSRF i tok)"
  "srv_PingSessions (memory_server c E) = with_sessions PingMemory"
  "srv_GetCredential (memory_server c E) iss u = with_credentials (GetCredential iss u)"
  "srv_PutCredential (memory_server c E) cr = with_credentials (PutCredential cr)"
  "srv_DeleteCredential (memory_server c E) iss u = with_credentials (DeleteCredential iss u)"
  "srv_PingCredentials (memory_server c E) = with_credentials PingCredentials"
  "srv_Exchange (memory_server c E) code nonce ver = with_rest (out_Exchange E code nonce ver)"
  "srv_PingOIDC (memory_server c E) = with_rest (out_PingOIDC E)"
  "srv_Login (memory_server c E) l p hs = with_rest (out_Login E l p hs)"
  "srv_CurrentUser (memory_server c E) ck = with_rest (out_CurrentUser E ck)"
  "srv_Logout (memory_server c E) ck = with_rest (out_Logout E ck)"
  "srv_PingN8N (memory_server c E) = with_rest (out_PingN8N E)"
  "srv_publicProxy (memory_server c E) r w = with_rest (out_publicProxy E r w)"
  "srv_consoleProxy (memory_server c E) r w = with_rest (out_consoleProxy E r w)"
  "srv_metricsHTTP (memory_server c E) r w = with_rest (out_metricsHTTP E r w)"
  by (simp_all add: memory_server_def)

subsection \<open>Reachable worlds\<close>

text \<open>
  The gateway handles one request after the other, and between two requests the outside changes as it
  likes (time passes, n8n forgets sessions). The history has the newest event first.
\<close>

inductive reach :: "Config \<Rightarrow> 'x Outside \<Rightarrow> 'x store_world \<Rightarrow> 'x store_world \<Rightarrow> event list \<Rightarrow> bool"
  for c :: Config and E :: "'x Outside" and w0 :: "'x store_world" where
  start: "reach c E w0 w0 []"
| request: "reach c E w0 w h \<Longrightarrow>
    reach c E w0 (gw_env (handle (memory_server c E) r w)) (gw_log (handle (memory_server c E) r w) @ h)"
| outside: "reach c E w0 w h \<Longrightarrow> reach c E w0 (w\<lparr>sw_rest := x\<rparr>) h"

text \<open>A fresh gateway: empty stores.\<close>

definition fresh_world :: "duration \<Rightarrow> duration \<Rightarrow> string list \<Rightarrow> 'x \<Rightarrow> 'x store_world" where
  "fresh_world ttl stateTTL random x =
     \<lparr>sw_sessions = NewMemoryStore ttl stateTTL random, sw_credentials = NewCredentialStore, sw_rest = x\<rparr>"

subsection \<open>Where sessions come from\<close>

lemma world_parts [simp]:
  "sw_sessions (snd (with_rest f w)) = sw_sessions w"
  "sw_credentials (snd (with_rest f w)) = sw_credentials w"
  "sw_sessions (snd (with_credentials k w)) = sw_sessions w"
  "sw_credentials (snd (with_sessions m w)) = sw_credentials w"
  "sw_credentials (snd (timed E n w)) = sw_credentials w"
  by (simp_all add: with_rest_def with_credentials_def with_sessions_def timed_def case_prod_unfold)

lemma with_rest_sessions: "with_rest f w = (res, w') \<Longrightarrow> sw_sessions w' = sw_sessions w"
  using world_parts(1) [of f w] by simp

lemma with_credentials_sessions: "with_credentials f w = (res, w') \<Longrightarrow> sw_sessions w' = sw_sessions w"
  using world_parts(3) [of f w] by simp

lemma with_sessions_step:
  "with_sessions f w = (res, w') \<Longrightarrow> f (sw_sessions w) = (res, sw_sessions w')"
  by (auto simp: with_sessions_def split: prod.splits)

lemma timed_step:
  "timed E f w = (res, w') \<Longrightarrow> \<exists>t. f t (sw_sessions w) = (res, sw_sessions w')"
  by (auto simp: timed_def with_rest_def with_sessions_def split: prod.splits)

text \<open>What each operation of the store does to the sessions.\<close>

lemma created_sessions:
  "CreateSession t x m = (res, m') \<Longrightarrow> sessions m' i = Some y \<Longrightarrow>
     sessions m i = Some y \<or> session_owner y = session_owner x"
  by (auto simp: memory_store_defs session_owner_def split: list.splits if_splits)

lemma saved_sessions:
  "SaveSession j x m = (res, m') \<Longrightarrow> sessions m' i = Some y \<Longrightarrow> sessions m i = Some y \<or> y = x"
  by (auto simp: memory_store_defs split: if_splits)

lemma got_sessions:
  "GetSession t j m = (res, m') \<Longrightarrow>
     (sessions m' i = Some y \<longrightarrow> sessions m i = Some y) \<and> (res = Inr y \<longrightarrow> sessions m j = Some y)"
  by (auto simp: memory_store_defs split: option.splits if_splits)

lemma deleted_sessions: "DeleteSession j m = (res, m') \<Longrightarrow> sessions m' i = Some y \<Longrightarrow> sessions m i = Some y"
  by (auto simp: memory_store_defs split: if_splits)

lemma untouched_sessions:
  "StoreOIDCState k v m = (r1, m') \<Longrightarrow> sessions m' = sessions m"
  "TakeOIDCState k m = (r2, m') \<Longrightarrow> sessions m' = sessions m"
  "GetCSRF j m = (r3, m') \<Longrightarrow> sessions m' = sessions m"
  "SetCSRF j tok m = (r1, m') \<Longrightarrow> sessions m' = sessions m"
  "PingMemory m = (r1, m') \<Longrightarrow> sessions m' = sessions m"
  by (auto simp: memory_store_defs split: option.splits)

interpretation memory: session_keeper "memory_server c E" "\<lambda>w. sessions (sw_sessions w)" "\<lambda>owner. owner"
  for c and E :: "'x Outside"
proof (unfold_locales, simp_all only: memory_server_simps)
  have same: "sessions m' = sessions m \<Longrightarrow> sessions m' \<subseteq>\<^sub>m sessions m" for m m' by simp
  fix w w' :: "'x store_world"
  show "sessions (sw_sessions w) j = Some y \<or> session_owner y = session_owner x"
    if eq: "timed E (\<lambda>t. CreateSession t x) w = (res, w')" and "sessions (sw_sessions w') j = Some y" for x res j y
    using timed_step [OF eq] created_sessions that(2) by blast
  show "sessions (sw_sessions w) j = Some y \<or> session_owner y = session_owner x"
    if "with_sessions (SaveSession i x) w = (res, w')" and "sessions (sw_sessions w') j = Some y" for i x res j y
    using saved_sessions [OF with_sessions_step [OF that(1)] that(2)] by auto
  show "sessions (sw_sessions w') \<subseteq>\<^sub>m sessions (sw_sessions w)" if eq: "timed E (\<lambda>t. GetSession t i) w = (res, w')" for i res
    using timed_step [OF eq] got_sessions by (intro map_leI) blast
  show "sessions (sw_sessions w) i = Some x" if eq: "timed E (\<lambda>t. GetSession t i) w = (Inr x, w')" for i x
    using timed_step [OF eq] got_sessions by blast
  show "sessions (sw_sessions w') \<subseteq>\<^sub>m sessions (sw_sessions w)" if "with_sessions (DeleteSession i) w = (res, w')" for i res
    using deleted_sessions [OF with_sessions_step [OF that]] by (intro map_leI) blast
  show "sessions (sw_sessions w') \<subseteq>\<^sub>m sessions (sw_sessions w)" if "with_sessions (StoreOIDCState k v) w = (res, w')" for k v res
    by (rule same) (rule untouched_sessions(1) [OF with_sessions_step [OF that]])
  show "sessions (sw_sessions w') \<subseteq>\<^sub>m sessions (sw_sessions w)" if "with_sessions (TakeOIDCState k) w = (res, w')" for k res
    by (rule same) (rule untouched_sessions(2) [OF with_sessions_step [OF that]])
  show "sessions (sw_sessions w') \<subseteq>\<^sub>m sessions (sw_sessions w)" if "with_sessions (GetCSRF i) w = (res, w')" for i res
    by (rule same) (rule untouched_sessions(3) [OF with_sessions_step [OF that]])
  show "sessions (sw_sessions w') \<subseteq>\<^sub>m sessions (sw_sessions w)" if "with_sessions (SetCSRF i tok) w = (res, w')" for i tok res
    by (rule same) (rule untouched_sessions(4) [OF with_sessions_step [OF that]])
  show "sessions (sw_sessions w') \<subseteq>\<^sub>m sessions (sw_sessions w)" if "with_sessions PingMemory w = (res, w')" for res
    by (rule same) (rule untouched_sessions(5) [OF with_sessions_step [OF that]])
qed (simp_all add: with_rest_sessions with_credentials_sessions)

lemma reach_reached:
  "reach c E w0 w h \<Longrightarrow> reached (memory_server c E) (\<lambda>w. sessions (sw_sessions w)) w0 w h"
  by (induction rule: reach.induct) (auto intro: reached.intros)

lemma reach_all_verified:
  assumes "reach c E w0 w h" and "sessions (sw_sessions w0) = Map.empty"
  shows "all_verified (\<lambda>owner. owner) (sessions (sw_sessions w)) (set h)"
  using memory.reached_verified [OF reach_reached [OF assms(1)]] assms(2) by simp

text \<open>
  Property C6. Whatever requests arrive, and whatever n8n, the proxies and the provider answer, every
  session that a gateway with initially empty stores holds, and every session it ever gave a request,
  belongs to an identity that the provider returned for a login that was started at this gateway and
  whose state was taken from the store.
\<close>

theorem every_session_is_verified:
  assumes "reach c E (fresh_world ttl stateTTL random x) w h"
  shows "all_verified (\<lambda>owner. owner) (sessions (sw_sessions w)) (set h)"
  by (rule reach_all_verified [OF assms]) (simp add: fresh_world_def NewMemoryStore_def)

end
