(* ===== verification/Store_Machine.thy ===== *)
theory Store_Machine
  imports System
begin

text \<open>
  The in-memory session store as a state machine: its steps are labelled with the events of the log, in
  any order and from any number of clients, since each operation holds the store's lock throughout. The
  gateway is shown to refine it.
\<close>

inductive store_step :: "MemoryStore \<Rightarrow> event \<Rightarrow> MemoryStore \<Rightarrow> bool" where
  create: "CreateSession t x m = (res, m') \<Longrightarrow> store_step m (CreatedSession x res) m'"
| save: "SaveSession i x m = (res, m') \<Longrightarrow> store_step m (SavedSession i x res) m'"
| find: "GetSession t i m = (res, m') \<Longrightarrow> store_step m (GotSession i res) m'"
| drop: "DeleteSession i m = (res, m') \<Longrightarrow> store_step m (DeletedSession i res) m'"
| store: "StoreOIDCState k v m = (res, m') \<Longrightarrow> store_step m (StoredState k v res) m'"
| take: "TakeOIDCState k m = (res, m') \<Longrightarrow> store_step m (TookState k res) m'"
| get_csrf: "GetCSRF i m = (res, m') \<Longrightarrow> store_step m (GotCSRF i res) m'"
| set_csrf: "SetCSRF i tok m = (res, m') \<Longrightarrow> store_step m (StoredCSRF i tok res) m'"

inductive_cases take_stepE: "store_step m (TookState k res) m'"
inductive_cases store_stepE: "store_step m (StoredState k v res) m'"
inductive_cases drop_stepE: "store_step m (DeletedSession i res) m'"

text \<open>The newest event is the head of the run, as in the log.\<close>

inductive store_run :: "MemoryStore \<Rightarrow> event list \<Rightarrow> MemoryStore \<Rightarrow> bool" for m0 :: MemoryStore where
  empty_run: "store_run m0 [] m0"
| step: "store_run m0 es m \<Longrightarrow> store_step m e m' \<Longrightarrow> store_run m0 (e # es) m'"

inductive_simps store_run_Nil: "store_run m0 [] m"
inductive_simps store_run_Cons: "store_run m0 (e # es) m"

subsection \<open>Every state is taken at most as often as it was stored\<close>

fun takes :: "string \<Rightarrow> event \<Rightarrow> bool" where
  "takes k (TookState k' (Inr v)) = (k = k')"
| "takes k e = False"

fun stores :: "string \<Rightarrow> event \<Rightarrow> bool" where
  "stores k (StoredState k' v res) = (k = k')"
| "stores k e = False"

definition times :: "(event \<Rightarrow> bool) \<Rightarrow> event list \<Rightarrow> nat" where
  "times P es = length (filter P es)"

lemma step_balance:
  assumes "store_step m e m'"
  shows "(if takes k e then 1 else 0) + (if states m' k = None then 0 else 1) \<le>
    (if stores k e then 1 else 0) + (if states m k = None then 0 else (1 :: nat))"
  using assms
  by (cases rule: store_step.cases)
    (auto simp: memory_store_defs split: option.splits list.splits if_splits)

lemma run_balance:
  "store_run m0 es m \<Longrightarrow>
     times (takes k) es + (if states m k = None then 0 else 1) \<le>
     times (stores k) es + (if states m0 k = None then 0 else 1)"
proof (induction rule: store_run.induct)
  case (step es m e m')
  then show ?case using step_balance [OF step.hyps(2), of k] by (auto simp: times_def split: if_splits)
qed (simp add: times_def)

subsection \<open>The gateway refines the machine\<close>

fun store_event :: "event \<Rightarrow> bool" where
  "store_event (CreatedSession x res) = True"
| "store_event (SavedSession i x res) = True"
| "store_event (GotSession i res) = True"
| "store_event (DeletedSession i res) = True"
| "store_event (StoredState k v res) = True"
| "store_event (TookState k res) = True"
| "store_event (GotCSRF i res) = True"
| "store_event (StoredCSRF i t res) = True"
| "store_event e = False"

definition simulates :: "MemoryStore \<Rightarrow> 'x store_world \<Rightarrow> event list \<Rightarrow> bool" where
  "simulates m w l \<longleftrightarrow> store_run m (filter store_event l) (sw_sessions w)"

interpretation sim: world_invariant "memory_server c E" "simulates m" for c and E :: "'x Outside" and m
  by unfold_locales
    (auto simp: simulates_def memory_store_defs(9) dest!: with_rest_sessions with_credentials_sessions with_sessions_step
      timed_step intro: store_run.step store_step.intros split: prod.splits)



lemma store_run_append: "store_run m0 es m \<Longrightarrow> store_run m es' m' \<Longrightarrow> store_run m0 (es' @ es) m'"
  by (rotate_tac 1, induction rule: store_run.induct) (auto intro: store_run.step)

lemma reach_store_run:
  "reach c E w0 w h \<Longrightarrow> store_run (sw_sessions w0) (filter store_event h) (sw_sessions w)"
proof (induction rule: reach.induct)
  case (request w h r)
  have "simulates (sw_sessions w) w []" by (simp add: simulates_def store_run.empty_run)
  from sim.handle_keeps [OF this, of c E r] request.IH show ?case
    by (auto simp: simulates_def intro: store_run_append)
qed (auto intro: store_run.empty_run)

lemma times_filter: "(\<And>e. P e \<Longrightarrow> Q e) \<Longrightarrow> times P (filter Q es) = times P es"
  by (induction es) (auto simp: times_def)

lemma takes_store_event: "takes k e \<Longrightarrow> store_event e"
  by (induction k e rule: takes.induct) simp_all

lemma stores_store_event: "stores k e \<Longrightarrow> store_event e"
  by (induction k e rule: stores.induct) simp_all

text \<open>
  No replay of a login: in every history of the gateway, the callbacks that were accepted
  with a state are at most as many as the logins that were started with it, whatever requests
  arrive in between; a state that was never issued is never accepted.
\<close>

theorem no_state_is_replayed:
  assumes "reach c E (fresh_world ttl stateTTL random x) w h"
  shows "times (takes k) h \<le> times (stores k) h"
proof -
  have "states (sw_sessions (fresh_world ttl stateTTL random x)) k = None"
    by (simp add: fresh_world_def NewMemoryStore_def)
  then have "times (takes k) (filter store_event h) \<le> times (stores k) (filter store_event h)"
    using run_balance [OF reach_store_run [OF assms], of k] by (simp split: if_splits)
  then show ?thesis
    by (simp add: times_filter [OF takes_store_event] times_filter [OF stores_store_event])
qed

subsection \<open>Where stored credentials come from\<close>

definition written :: "event list \<Rightarrow> 'x store_world \<Rightarrow> event list \<Rightarrow> bool" where
  "written h w l \<longleftrightarrow> (\<forall>p c. sw_credentials w p = Some c \<longrightarrow> (\<exists>res. WroteCredential c res \<in> set (l @ h)))"

lemma with_rest_credentials: "with_rest f w = (res, w') \<Longrightarrow> sw_credentials w' = sw_credentials w"
  using world_parts(2) [of f w] by simp

lemma with_sessions_credentials: "with_sessions f w = (res, w') \<Longrightarrow> sw_credentials w' = sw_credentials w"
  using world_parts(4) [of f w] by simp

lemma timed_credentials: "timed E f w = (res, w') \<Longrightarrow> sw_credentials w' = sw_credentials w"
  using world_parts(5) [of E f w] by simp

lemma written_same: "written h w l \<Longrightarrow> sw_credentials w' = sw_credentials w \<Longrightarrow> written h w' (e # l)"
  by (auto simp: written_def)

lemma with_credentials_step:
  "with_credentials f w = (res, w') \<Longrightarrow> f (sw_credentials w) = (res, sw_credentials w')"
  by (auto simp: with_credentials_def split: prod.splits)

interpretation wrote: world_invariant "memory_server c E" "written h" for c and E :: "'x Outside" and h
proof (unfold_locales, simp_all only: memory_server_simps)
  fix w w' :: "'x store_world" and l
  assume a: "written h w l"
  show "written h w (Counted n ls # l)" for n ls using a by (auto simp: written_def)
  show "written h w' (WroteCredential cr res # l)" if "with_credentials (PutCredential cr) w = (res, w')" for cr res
  proof -
    have "sw_credentials w' = (sw_credentials w)(PathFor [] (cred_Issuer cr) (cred_Subject cr) \<mapsto> cr)"
      using with_credentials_step [OF that] by (simp add: PutCredential_def)
    then show ?thesis using a by (auto simp: written_def split: if_splits)
  qed
  show "written h w' (ReadCredential i u res # l)" if "with_credentials (GetCredential i u) w = (res, w')" for i u res
    using a with_credentials_step [OF that] by (auto simp: written_def GetCredential_def split: option.splits)
  show "written h w' (RemovedCredential i u res # l)" if "with_credentials (DeleteCredential i u) w = (res, w')" for i u res
  proof -
    have "sw_credentials w' = (sw_credentials w)(PathFor [] i u := None)"
      using with_credentials_step [OF that] by (simp add: DeleteCredential_def)
    then show ?thesis using a by (auto simp: written_def split: if_splits)
  qed
  show "written h w' (Pinged nm ok # l)" if "with_credentials PingCredentials w = (res, w')" for nm ok res
    using a with_credentials_step [OF that] by (auto simp: written_def PingCredentials_def)
qed (rule written_same, assumption, erule with_rest_credentials with_sessions_credentials timed_credentials)+

fun owned :: "event \<Rightarrow> event set \<Rightarrow> bool" where
  "owned (WroteCredential c res) F =
     (\<exists>i sess hs result. GotSession i (Inr sess) \<in> F \<and> session_owner sess = (cred_Issuer c, cred_Subject c)
        \<and> LoggedIn (N8NEmailOrLoginID c) (N8NPassword c) hs (result, None) \<in> F)"
| "owned e F = True"

interpretation own: trace_policy owned
proof unfold_locales
  fix e F G assume "owned e F" and "F \<subseteq> G"
  then show "owned e G" by (cases e) (simp_all, blast)
qed simp

lemma handle_owned: "guarded owned (gw_log (handle S r s))"
proof (rule handle_obeys)
  fix e F assume a: "authorized S (normalizeForwardedHeaders S r) e F"
  show "owned e F"
  proof (cases e)
    case (WroteCredential c res)
    then obtain i sess hs result where "has_session S r F i sess"
      "c = linkedCredential sess (trim_space (submitted r ''n8n_email_or_login_id'')) (submitted r ''n8n_password'')"
      "LoggedIn (N8NEmailOrLoginID c) (N8NPassword c) hs (result, None) \<in> F"
      using a by auto
    then show ?thesis
      unfolding WroteCredential owned.simps
      by (intro exI [of _ i] exI [of _ sess] exI [of _ hs] exI [of _ result])
        (simp add: linkedCredential_def session_owner_def has_session_def)
  qed auto
qed

lemma reach_owned: "reach c E w0 w h \<Longrightarrow> guarded owned h"
  by (induction rule: reach.induct)
    (simp_all add: guarded_append [OF own.trace_policy_axioms] handle_owned)

lemma reach_written: "reach c E w0 w h \<Longrightarrow> sw_credentials w0 = Map.empty \<Longrightarrow> written h w []"
proof (induction rule: reach.induct)
  case (request w h r)
  then have "written h w []" by simp
  from wrote.handle_keeps [OF this, of c E r] show ?case by (simp add: written_def)
qed (simp_all add: written_def)

text \<open>The users that a stored credential may belong to, and the logins that n8n has accepted.\<close>

definition all_owned :: "CredentialMap \<Rightarrow> event set \<Rightarrow> bool" where
  "all_owned m F \<longleftrightarrow> (\<forall>c \<in> ran m. (cred_Issuer c, cred_Subject c) \<in> verified F
     \<and> (\<exists>hs result. LoggedIn (N8NEmailOrLoginID c) (N8NPassword c) hs (result, None) \<in> F))"

text \<open>
  Property C7. Every credential that a gateway with initially empty stores holds belongs to an identity
  that the provider has verified, and is a login that n8n accepted when it was stored.
\<close>

theorem every_credential_is_owned:
  assumes "reach c E (fresh_world ttl stateTTL random x) w h"
  shows "all_owned (sw_credentials w) (set h)"
proof -
  have v: "all_verified (\<lambda>owner. owner) (sessions (sw_sessions w)) (set h)"
    by (rule reach_all_verified [OF assms]) (simp add: fresh_world_def NewMemoryStore_def)
  have wr: "written h w []" by (rule reach_written [OF assms]) (simp add: fresh_world_def NewCredentialStore_def)
  show ?thesis
    unfolding all_owned_def
  proof
    fix cr assume "cr \<in> ran (sw_credentials w)"
    then obtain res where "WroteCredential cr res \<in> set h" using wr by (auto simp: written_def ran_def)
    then have "owned (WroteCredential cr res) (set h)" using own.guarded_mem [OF reach_owned [OF assms]] by blast
    then show "(cred_Issuer cr, cred_Subject cr) \<in> verified (set h)
        \<and> (\<exists>hs result. LoggedIn (N8NEmailOrLoginID cr) (N8NPassword cr) hs (result, None) \<in> set h)"
      using v by (fastforce simp: all_verified_def)
  qed
qed


subsection \<open>After a logout\<close>

lemma entered_env_footprint:
  "sw_sessions (gw_env (entered (memory_server c E) r w)) = sw_sessions w"
  by (auto simp: entered_def prologue_def requestID_def Let_def exec_def run_rules RandomBase64URL_def
      split: option.split)

lemma deleteSessions_sessions:
  "sessions (sw_sessions (gw_env (snd (run_state (deleteSessions (memory_server c E) ids) g)))) =
     (\<lambda>i. if i \<in> set ids then None else sessions (sw_sessions (gw_env g)) i)"
proof (induction ids arbitrary: g)
  case (Cons i ids)
  show ?case
    by (rule ext) (simp add: run_rules Cons.IH with_sessions_def DeleteSession_def)
qed (simp add: run_rules)

lemma logout_sessions:
  assumes "CleanPath (u_path (r_url r)) = ''/auth/logout''" and "r_method r = ''POST''"
    and "i \<in> set (sessionCookieIDs (memory_server c E) r)"
  shows "sessions (sw_sessions (gw_env (handle (memory_server c E) r w))) i = None"
proof -
  let ?S = "memory_server c E"
  let ?r = "normalizeForwardedHeaders ?S r"
  have cls: "class_of ?S r = RouteInternal"
    by (rule internal_class) (simp add: isInternalPath_def assms(1))
  have serve: "serveInternal ?S ?r = State_Monad.bind (handleProxyLogout ?S ?r) (\<lambda>_. State_Monad.return False)"
    using assms by (simp add: serveInternal_def)
  show ?thesis
    using cls serve assms(3)
    by (simp add: handle_parts epilogue_def exec_def dispatched_def dispatch_def handleProxyLogout_def
        n8nLogout_def run_rules redirect_def deleteSessions_sessions)
qed

lemma lookup_missing:
  assumes "\<And>i. i \<in> set ids \<Longrightarrow> sessions (sw_sessions w) i = None"
  shows "fst (lookup_answer (memory_server c E) ids w) = Inl SessNotFound"
  using assms
proof (induction ids arbitrary: w)
  case (Cons i ids)
  obtain w' where w': "srv_GetSession (memory_server c E) i w = (Inl SessNotFound, w')"
    and none: "\<forall>j \<in> set ids. sessions (sw_sessions w') j = None"
    using Cons.prems
    by (auto simp: timed_def with_rest_def with_sessions_def GetSession_def case_prod_unfold)
  show ?case using Cons.IH [of w'] w' none by simp
qed simp

lemma console_without_session:
  assumes "class_of S r = RouteProtectedConsole"
    and "\<And>i sess. fst (session_answer S (normalizeForwardedHeaders S r) (gw_env (entered S r s))) \<noteq> Some (Inr (i, sess))"
  shows "reply (gw_w (handle S r s)) =
    Some (session_reply (normalizeForwardedHeaders S r)
      (fst (session_answer S (normalizeForwardedHeaders S r) (gw_env (entered S r s)))) rest)"
proof -
  let ?r = "normalizeForwardedHeaders S r"
  have run: "fst (run_state (requireSession S ?r) (entered S r s)) = None"
    "reply (gw_w (snd (run_state (requireSession S ?r) (entered S r s)))) =
       Some (session_reply ?r (fst (session_answer S ?r (gw_env (entered S r s)))) rest)"
    using run_requireSession_fails [of "entered S r s" S ?r rest] assms(2) by simp_all
  have "dispatched S r s = (False, snd (run_state (requireSession S ?r) (entered S r s)))"
    unfolding dispatched_def dispatch_def assms(1) RouteClass.case run_simps(1,2) serveProtected_def
    by (simp add: run run_simps(2))
  then show ?thesis using run(2) by (simp add: handle_response)
qed

text \<open>
  Property C14. A logout is effective: after it, a console request that presents only session cookies of
  the logged-out browser is sent to the login, whatever happened outside the gateway in between, and
  also if it still carries the bridge cookie.
\<close>

theorem logged_out_is_logged_out:
  assumes "CleanPath (u_path (r_url r)) = ''/auth/logout''" and "r_method r = ''POST''"
    and "class_of (memory_server c E) r2 = RouteProtectedConsole"
    and "set (sessionCookieIDs (memory_server c E) r2) \<subseteq> set (sessionCookieIDs (memory_server c E) r)"
  shows "reply (gw_w (handle (memory_server c E) r2 ((gw_env (handle (memory_server c E) r w))\<lparr>sw_rest := x\<rparr>))) =
    Some (302, location r2 (loginTarget r2))"
proof -
  let ?S = "memory_server c E"
  let ?w = "(gw_env (handle ?S r w))\<lparr>sw_rest := x\<rparr>"
  let ?r = "normalizeForwardedHeaders ?S r2"
  have "fst (lookup_answer ?S (sessionCookieIDs ?S r2) (gw_env (entered ?S r2 ?w))) = Inl SessNotFound"
    using logout_sessions [OF assms(1,2), of _ c E w] assms(4)
    by (intro lookup_missing) (auto simp: entered_env_footprint)
  then have "fst (session_answer ?S ?r (gw_env (entered ?S r2 ?w))) \<in> {None, Some (Inl SessNotFound)}"
    by (simp add: session_answer_def case_prod_unfold)
  moreover have "location ?r (loginTarget ?r) = location r2 (loginTarget r2)"
    by (simp add: location_def loginTarget_def)
  ultimately show ?thesis
    using console_without_session [OF assms(3), of ?w "\<lambda>_ _. (0, [])"] by (auto simp: session_reply_def)
qed


subsection \<open>A concrete gateway on the memory stores\<close>

text \<open>The rest of the world is a clock that ticks whenever it is read.\<close>

definition demo_outside :: "time Outside" where
  "demo_outside =
     \<lparr>out_now = (\<lambda>t. (t, t + 1)), out_rand = (\<lambda>n t. (None, t)),
      out_AuthCodeURL = (\<lambda>st nonce ver. ''https://idp/auth?state='' @ st),
      out_Exchange = (\<lambda>code nonce ver t.
        (Inr \<lparr>id_Issuer = ''https://idp'', id_Subject = ''u1'', id_Email = ''u@x'', id_Name = ''U''\<rparr>, t)),
      out_PingOIDC = (\<lambda>t. (None, t)),
      out_Login = (\<lambda>l p hs t. ((\<lparr>lr_StatusCode = 200, lr_Body = ''{}'', lr_Cookies = [''n8n-auth=abc'']\<rparr>, None), t)),
      out_CurrentUser = (\<lambda>k t. ((no_user_result, None), t)), out_Logout = (\<lambda>k t. ((no_logout_result, None), t)),
      out_PingN8N = (\<lambda>t. (None, t)),
      out_publicProxy = (\<lambda>r w t. ((False, write_header 200 w), t)),
      out_consoleProxy = (\<lambda>r w t. ((False, write_header 200 w), t)),
      out_metricsHTTP = (\<lambda>r w t. ((False, write_header 200 w), t))\<rparr>"

definition demo_start :: "time store_world" where
  "demo_start = fresh_world (60 * second) (60 * second) [''A'', ''B'', ''C'', ''D'', ''E''] 0"

definition start_request :: request where
  "start_request = demo_request ''GET'' ''/auth/login'' [] (OtherBody [])"

lemma demo_reach:
  "reach demo_cfg demo_outside demo_start
     (gw_env (handle (memory_server demo_cfg demo_outside) start_request demo_start))
     (gw_log (handle (memory_server demo_cfg demo_outside) start_request demo_start) @ [])"
  by (intro reach.request reach.start)

theorem every_session_is_verified_witness:
  "all_verified (\<lambda>owner. owner) (sessions (sw_sessions (gw_env (handle (memory_server demo_cfg demo_outside) start_request demo_start))))
     (set (gw_log (handle (memory_server demo_cfg demo_outside) start_request demo_start)))"
  using every_session_is_verified [OF demo_reach [unfolded demo_start_def]] by (simp add: demo_start_def)

theorem no_state_is_replayed_witness:
  "times (takes ''s'') (gw_log (handle (memory_server demo_cfg demo_outside) start_request demo_start))
     \<le> times (stores ''s'') (gw_log (handle (memory_server demo_cfg demo_outside) start_request demo_start))"
  using no_state_is_replayed [OF demo_reach [unfolded demo_start_def], of "''s''"] by (simp add: demo_start_def)

theorem every_credential_is_owned_witness:
  "all_owned (sw_credentials (gw_env (handle (memory_server demo_cfg demo_outside) start_request demo_start)))
     (set (gw_log (handle (memory_server demo_cfg demo_outside) start_request demo_start)))"
  using every_credential_is_owned [OF demo_reach [unfolded demo_start_def]] by (simp add: demo_start_def)

definition return_request :: request where
  "return_request = demo_request ''GET'' ''/home'' bridge_cookies (OtherBody [])"

lemma return_facts:
  "class_of (memory_server demo_cfg demo_outside) return_request = RouteProtectedConsole"
  "sessionCookieIDs (memory_server demo_cfg demo_outside) return_request = [''sid'']"
  "sessionCookieIDs (memory_server demo_cfg demo_outside) logout_request = [''sid'']"
  "location return_request (loginTarget return_request) = ''/auth/login?return_to=%2Fhome''"
  by code_simp+

theorem logged_out_is_logged_out_witness:
  "reply (gw_w (handle (memory_server demo_cfg demo_outside) return_request
     ((gw_env (handle (memory_server demo_cfg demo_outside) logout_request demo_start))\<lparr>sw_rest := 7\<rparr>))) =
    Some (302, ''/auth/login?return_to=%2Fhome'')"
proof -
  have "r_method logout_request = ''POST''" by (simp add: logout_request_def demo_request_def)
  then show ?thesis
    using logged_out_is_logged_out [where r = logout_request and c = demo_cfg and E = demo_outside
        and ?r2.0 = return_request and w = demo_start and x = 7]
      logout_facts(1) return_facts
    by simp
qed

end
