(* ===== verification/Sign_In.thy ===== *)
theory Sign_In
  imports Store_Machine
begin

text \<open>
  Signing in gets somewhere: when the outside cooperates, the three requests of a sign-in (the login, the callback
  and the first request to the console) lead from a browser without a session to a page of n8n. The
  cooperation is the locale \<open>cooperating\<close>.
\<close>

subsection \<open>One run of each endpoint\<close>

fun stores_login :: "event \<Rightarrow> bool" where
  "stores_login (StoredState k v res) = True"
| "stores_login e = False"

fun creates_session :: "event \<Rightarrow> bool" where
  "creates_session (CreatedSession y res) = True"
| "creates_session e = False"

lemma login_run:
  assumes "sessionCookieIDs S r = []"
    and "RandomBase64URL (srv_rand S) 32 (gw_env g) = (Some state, s1)"
    and "RandomBase64URL (srv_rand S) 32 s1 = (Some nonce, s2)"
    and "RandomBase64URL (srv_rand S) 32 s2 = (Some verifier, s3)"
    and "srv_now S s3 = (t, s4)"
    and "v = \<lparr>Nonce = nonce, CodeVerifier = verifier, ReturnTo = requestedReturnTo r, StateCreatedAt = t\<rparr>"
    and "srv_StoreOIDCState S state v s4 = (None, s5)"
  shows "gw_env (snd (run_state (handleAuthLogin S r) g)) = s5
    \<and> gw_w (snd (run_state (handleAuthLogin S r) g)) = redirect_found r (srv_AuthCodeURL S state nonce verifier) (gw_w g)
    \<and> gw_log (snd (run_state (handleAuthLogin S r) g)) =
        [Counted ''oidc_login'' [''started''], StoredState state v None, ReadClock t, DrewRandom 32, DrewRandom 32,
         DrewRandom 32] @ gw_log g"
  using assms
  by (simp add: handleAuthLogin_def lookupSessionFromCookies_def startOIDCLogin_def randomToken_def Let_def run_rules
      redirect_def)

text \<open>The cookies that the browser is given with a new session.\<close>

abbreviation session_cookies :: "'s Server \<Rightarrow> string \<Rightarrow> cookie list" where
  "session_cookies S sid \<equiv> ProxySessionCookies sid (CookieSecure (cfg S)) (whole_seconds (SessionTTL (cfg S)))"

abbreviation bridge_cookie :: "'s Server \<Rightarrow> cookie" where
  "bridge_cookie S \<equiv> N8NBridgeCookie (CookieSecure (cfg S)) (whole_seconds (SessionTTL (cfg S)))"

definition n8n_cookies :: "'s Server \<Rightarrow> string list \<Rightarrow> response \<Rightarrow> response" where
  "n8n_cookies S cs w =
     w\<lparr>w_header := fold (\<lambda>c. hadd ''Set-Cookie'' (RewriteSetCookie c (CookieSecure (cfg S)))) cs (w_header w)\<rparr>"

lemma n8n_cookies_simps [simp]:
  "fresh (n8n_cookies S cs w) = fresh w"
  "w_header (n8n_cookies S cs w) ''Set-Cookie'' =
     w_header w ''Set-Cookie'' @ map (\<lambda>c. RewriteSetCookie c (CookieSecure (cfg S))) cs"
  by (simp_all add: n8n_cookies_def n8n_cookies_header)

lemma session_cookies_shown: "list_all (\<lambda>c. cookie_string c \<noteq> []) (session_cookies S sid @ [bridge_cookie S])"
proof -
  have "is_token InsecureProxySessionCookieName" "is_token ProxySessionCookieName" "is_token N8NBridgeCookieName"
    by code_simp+
  then show ?thesis
    by (simp add: ProxySessionCookies_def ProxySessionCookie_def N8NBridgeCookie_def ProxySessionCookieNameForSecure_def
        cookie_string_def)
qed

lemma callback_run:
  assumes "query_get (r_url r) ''state'' \<noteq> []" and "query_get (r_url r) ''code'' \<noteq> []"
    and "srv_TakeOIDCState S (query_get (r_url r) ''state'') (gw_env g) = (Inr v, s1)"
    and "srv_Exchange S (query_get (r_url r) ''code'') (Nonce v) (CodeVerifier v) s1 = (Inr ident, s2)"
    and "srv_CreateSession S (identitySession ident) s2 = (Inr sid, s3)"
    and "srv_GetCredential S (id_Issuer ident) (id_Subject ident) s3 = (Inr cred, s4)"
    and "srv_Login S (N8NEmailOrLoginID cred) (N8NPassword cred) [n8nLoginHeaders S r] s4 = ((result, None), s5)"
    and "srv_GetSession S sid s5 = (Inr sess, s6)"
    and "srv_SaveSession S sid (sess\<lparr>Linked := True\<rparr>) s6 = (None, s7)"
  shows "gw_env (snd (run_state (handleAuthCallback S r) g)) = s7
    \<and> gw_w (snd (run_state (handleAuthCallback S r) g)) =
        redirect_found r (safeReturnTo (ReturnTo v)) (set_cookie (bridge_cookie S)
          (n8n_cookies S (lr_Cookies result) (fold set_cookie (session_cookies S sid) (gw_w g))))
    \<and> filter creates_session (gw_log (snd (run_state (handleAuthCallback S r) g))) =
        CreatedSession (identitySession ident) (Inr sid) # filter creates_session (gw_log g)"
  using assms
  by (simp add: handleAuthCallback_def bridgeNewSession_def bridgeCredential_def bridgeLogin_def getCredential_def
      Let_def run_rules redirect_def writeProxySessionCookies_def
      writeN8NCookies_def setBridgeCookie_def n8n_cookies_def)

lemma console_run:
  assumes "sessionCookieIDs S r = [sid]" and "HasN8NBridgeCookie r"
    and "(CleanPath (u_path (r_url r)), r_method r) \<noteq> (''/rest/login'', ''GET'')"
    and "srv_GetSession S sid (gw_env g) = (Inr sess, s1)"
  shows "run_state (serveProtected S r) g =
    (case srv_consoleProxy S r (gw_w g) s1 of ((panicked, w), s2) \<Rightarrow>
       (panicked, g\<lparr>gw_env := s2, gw_w := w,
          gw_log := ConsoleProxied r panicked # GotSession sid (Inr sess) # gw_log g\<rparr>))"
  using assms
  by (auto simp: serveProtected_def requireSession_def lookupSessionFromCookies_def run_rules)


subsection \<open>An outside that cooperates\<close>

text \<open>
  While the rest of the world stays in \<open>X\<close>, the clock stays within \<open>d\<close> of \<open>T\<close>, there is randomness, and
  n8n accepts the stored credential.
\<close>

locale cooperating =
  fixes E :: "'x Outside" and X :: "'x set" and T :: time and d :: duration and cred :: Credential
  assumes clock: "x \<in> X \<Longrightarrow> out_now E x = (t, x') \<Longrightarrow> T \<le> t \<and> t \<le> T + d \<and> x' \<in> X"
    and random: "x \<in> X \<Longrightarrow> out_rand E n x = (b, x') \<Longrightarrow> (\<exists>bytes. b = Some bytes \<and> length bytes = n) \<and> x' \<in> X"
    and accepted: "x \<in> X \<Longrightarrow> out_Login E (N8NEmailOrLoginID cred) (N8NPassword cred) hs x = ((result, err), x') \<Longrightarrow>
      err = None \<and> x' \<in> X"
begin

lemma now_step:
  "sw_rest w \<in> X \<Longrightarrow>
     \<exists>t x. with_rest (out_now E) w = (t, w\<lparr>sw_rest := x\<rparr>) \<and> T \<le> t \<and> t \<le> T + d \<and> x \<in> X"
  using clock [of "sw_rest w"] by (auto simp: with_rest_def split: prod.split)

lemma token_step:
  assumes "sw_rest w \<in> X"
  shows "\<exists>b x. RandomBase64URL (\<lambda>n. with_rest (out_rand E n)) n w = (Some (base64_raw_url b), w\<lparr>sw_rest := x\<rparr>)
      \<and> length b = n \<and> (\<exists>y \<in> X. \<exists>x. out_rand E n y = (Some b, x)) \<and> x \<in> X"
proof -
  obtain b x where r: "out_rand E n (sw_rest w) = (b, x)" by (cases "out_rand E n (sw_rest w)")
  then obtain bytes where b: "b = Some bytes" "length bytes = n" "x \<in> X" using random [OF assms r] by blast
  have "\<exists>y \<in> X. \<exists>x. out_rand E n y = (Some bytes, x)" using assms r b(1) by blast
  then show ?thesis
    using r b by (intro exI [of _ bytes] exI [of _ x]) (simp add: RandomBase64URL_def with_rest_def)
qed

lemma login_step:
  assumes "sw_rest w \<in> X"
  shows "\<exists>result x. with_rest (out_Login E (N8NEmailOrLoginID cred) (N8NPassword cred) hs) w =
      ((result, None), w\<lparr>sw_rest := x\<rparr>) \<and> x \<in> X"
proof -
  obtain result err x where "out_Login E (N8NEmailOrLoginID cred) (N8NPassword cred) hs (sw_rest w) = ((result, err), x)"
    by (metis prod.exhaust)
  then show ?thesis using accepted [OF assms] by (auto simp: with_rest_def)
qed

lemma entered_step:
  assumes "sw_rest w \<in> X"
  shows "\<exists>x \<in> X. gw_env (entered (memory_server c E) r w) = w\<lparr>sw_rest := x\<rparr>"
proof -
  obtain t x where n: "with_rest (out_now E) w = (t, w\<lparr>sw_rest := x\<rparr>)" "x \<in> X" using now_step [OF assms] by blast
  obtain b y where "RandomBase64URL (\<lambda>n. with_rest (out_rand E n)) 16 (w\<lparr>sw_rest := x\<rparr>) =
      (Some (base64_raw_url b), w\<lparr>sw_rest := x, sw_rest := y\<rparr>)" "y \<in> X"
    using token_step [of "w\<lparr>sw_rest := x\<rparr>" 16] n(2) by auto
  then show ?thesis
    using n by (auto simp: entered_def prologue_def requestID_def Let_def exec_def run_rules memory_server_def)
qed

lemma left_step:
  assumes "sw_rest (gw_env (snd (dispatched (memory_server c E) r w))) \<in> X"
  shows "\<exists>x \<in> X. gw_env (handle (memory_server c E) r w) =
      (gw_env (snd (dispatched (memory_server c E) r w)))\<lparr>sw_rest := x\<rparr>"
  using now_step [OF assms] by (auto simp: handle_parts epilogue_def exec_def run_rules)

end


subsection \<open>The three requests\<close>

lemma memory_server_functions:
  "srv_AuthCodeURL (memory_server c E) = out_AuthCodeURL E"
  "srv_rand (memory_server c E) = (\<lambda>n. with_rest (out_rand E n))"
  by (simp_all add: memory_server_def)

lemma no_effects_entered:
  "filter stores_login (gw_log (entered S r s)) = []" "filter creates_session (gw_log (entered S r s)) = []"
proof -
  have "bookkeeping e \<Longrightarrow> \<not> stores_login e \<and> \<not> creates_session e" for e by (cases e) auto
  then show "filter stores_login (gw_log (entered S r s)) = []" "filter creates_session (gw_log (entered S r s)) = []"
    using entered_log [of S r s] by (auto simp: filter_empty_conv list_all_iff)
qed

lemma internal_run:
  assumes "isInternalPath (CleanPath (u_path (r_url r)))"
    and "serveInternal S (normalizeForwardedHeaders S r) = State_Monad.bind h (\<lambda>_. State_Monad.return False)"
  shows "dispatched S r s = (False, snd (run_state h (entered S r s)))"
  using assms(2) internal_class [OF assms(1), of S] by (simp add: dispatched_def dispatch_def run_rules)

context cooperating
begin

lemma login_request:
  assumes "CleanPath (u_path (r_url r)) = ''/auth/login''" and "r_method r = ''GET''"
    and "sessionCookieIDs (memory_server c E) r = []" and "sw_rest w \<in> X"
  shows "\<exists>state v. (\<exists>x \<in> X. gw_env (handle (memory_server c E) r w) =
        w\<lparr>sw_sessions := snd (StoreOIDCState state v (sw_sessions w)), sw_rest := x\<rparr>)
    \<and> state \<noteq> [] \<and> (\<exists>b. (\<exists>y \<in> X. \<exists>x. out_rand E 32 y = (Some b, x)) \<and> state = base64_raw_url b)
    \<and> ReturnTo v = requestedReturnTo r
    \<and> reply (gw_w (handle (memory_server c E) r w)) =
        Some (302, location r (out_AuthCodeURL E state (Nonce v) (CodeVerifier v)))
    \<and> filter stores_login (gw_log (handle (memory_server c E) r w)) = [StoredState state v None]"
proof -
  let ?S = "memory_server c E"
  let ?r = "normalizeForwardedHeaders ?S r"
  have serve: "serveInternal ?S ?r = State_Monad.bind (handleAuthLogin ?S ?r) (\<lambda>_. State_Monad.return False)"
    using assms(1,2) by (simp add: serveInternal_def)
  have ds: "dispatched ?S r w = (False, snd (run_state (handleAuthLogin ?S ?r) (entered ?S r w)))"
    by (rule internal_run) (simp_all add: serve isInternalPath_def assms(1))
  obtain x0 where x0: "x0 \<in> X" "gw_env (entered ?S r w) = w\<lparr>sw_rest := x0\<rparr>"
    using entered_step [OF assms(4)] by blast
  obtain b1 x1 where d1: "RandomBase64URL (srv_rand ?S) 32 (w\<lparr>sw_rest := x0\<rparr>) = (Some (base64_raw_url b1), w\<lparr>sw_rest := x1\<rparr>)"
    "length b1 = 32" "\<exists>y \<in> X. \<exists>x. out_rand E 32 y = (Some b1, x)" "x1 \<in> X"
    using token_step [of "w\<lparr>sw_rest := x0\<rparr>" 32] x0(1) by (auto simp: memory_server_functions(2))
  obtain b2 x2 where d2: "RandomBase64URL (srv_rand ?S) 32 (w\<lparr>sw_rest := x1\<rparr>) = (Some (base64_raw_url b2), w\<lparr>sw_rest := x2\<rparr>)"
    "x2 \<in> X"
    using token_step [of "w\<lparr>sw_rest := x1\<rparr>" 32] d1(4) by (auto simp: memory_server_functions(2))
  obtain b3 x3 where d3: "RandomBase64URL (srv_rand ?S) 32 (w\<lparr>sw_rest := x2\<rparr>) = (Some (base64_raw_url b3), w\<lparr>sw_rest := x3\<rparr>)"
    "x3 \<in> X"
    using token_step [of "w\<lparr>sw_rest := x2\<rparr>" 32] d2(2) by (auto simp: memory_server_functions(2))
  obtain t x4 where n: "srv_now ?S (w\<lparr>sw_rest := x3\<rparr>) = (t, w\<lparr>sw_rest := x4\<rparr>)" "x4 \<in> X"
    using now_step [of "w\<lparr>sw_rest := x3\<rparr>"] d3(2) by auto
  define v where "v = \<lparr>Nonce = base64_raw_url b2, CodeVerifier = base64_raw_url b3,
    ReturnTo = requestedReturnTo ?r, StateCreatedAt = t\<rparr>"
  let ?state = "base64_raw_url b1"
  define w5 where "w5 = w\<lparr>sw_sessions := snd (StoreOIDCState ?state v (sw_sessions w)), sw_rest := x4\<rparr>"
  have store: "srv_StoreOIDCState ?S ?state v (w\<lparr>sw_rest := x4\<rparr>) = (None, w5)"
    by (simp add: with_sessions_def StoreOIDCState_def w5_def)
  have "sessionCookieIDs ?S ?r = []" using assms(3) by simp
  note run = login_run [OF this _ d2(1) d3(1) n(1) v_def store, of "entered ?S r w", unfolded x0(2), OF d1(1)]
  obtain x5 where x5: "x5 \<in> X" "gw_env (handle ?S r w) = w5\<lparr>sw_rest := x5\<rparr>"
    using left_step [of c r w] run n(2) by (auto simp: ds w5_def)
  have "reply (gw_w (handle ?S r w)) = Some (302, location r (out_AuthCodeURL E ?state (Nonce v) (CodeVerifier v)))"
    using run by (simp add: handle_response ds memory_server_functions(1) v_def location_def)
  moreover have "filter stores_login (gw_log (handle ?S r w)) = [StoredState ?state v None]"
    using handle_log [of ?S r w] run by (auto simp: ds no_effects_entered)
  moreover have "?state \<noteq> []"
    using base64_raw_url_length [of b1] d1(2) by auto
  moreover have "ReturnTo v = requestedReturnTo r" by (simp add: v_def requestedReturnTo_def)
  ultimately show ?thesis using x5 d1(3) by (auto simp: w5_def)
qed

end


text \<open>The provider confirms the code for this pending login.\<close>

definition confirms :: "'x Outside \<Rightarrow> 'x set \<Rightarrow> string \<Rightarrow> Identity \<Rightarrow> OIDCState \<Rightarrow> bool" where
  "confirms E X code ident v \<longleftrightarrow>
     (\<forall>x \<in> X. case out_Exchange E code (Nonce v) (CodeVerifier v) x of (res, x') \<Rightarrow> res = Inr ident \<and> x' \<in> X)"

context cooperating
begin

lemma created_step:
  assumes "sw_rest w \<in> X" and "entropy (sw_sessions w) \<noteq> []"
  shows "\<exists>t m x. timed E (\<lambda>t. CreateSession t y) w =
      (Inr (base64_raw_url (take 32 (hd (entropy (sw_sessions w))))), w\<lparr>sw_sessions := m, sw_rest := x\<rparr>)
    \<and> sessions m (base64_raw_url (take 32 (hd (entropy (sw_sessions w))))) = Some (y\<lparr>CreatedAt := t, ExpiresAt := t + mem_ttl (sw_sessions w)\<rparr>) \<and> T \<le> t \<and> x \<in> X"
proof -
  obtain t x where n: "with_rest (out_now E) w = (t, w\<lparr>sw_rest := x\<rparr>)" "T \<le> t" "x \<in> X"
    using now_step [OF assms(1)] by blast
  obtain bytes rest where e: "entropy (sw_sessions w) = bytes # rest"
    using assms(2) by (auto simp: neq_Nil_conv)
  define sid where "sid = base64_raw_url (take 32 bytes)"
  define m where "m = (sw_sessions w)\<lparr>entropy := rest, sessions := (sessions (sw_sessions w))
    (sid \<mapsto> y\<lparr>CreatedAt := t, ExpiresAt := t + mem_ttl (sw_sessions w)\<rparr>)\<rparr>"
  have "timed E (\<lambda>t. CreateSession t y) w = (Inr sid, w\<lparr>sw_sessions := m, sw_rest := x\<rparr>)"
    using n e by (simp add: timed_def with_sessions_def memory_store_defs m_def sid_def)
  then show ?thesis
    using n by (intro exI [of _ t] exI [of _ m] exI [of _ x]) (simp add: m_def sid_def e)
qed

lemma found_step:
  assumes "sw_rest w \<in> X" and "sessions (sw_sessions w) sid = Some y" and "T + d \<le> ExpiresAt y"
  shows "\<exists>x. timed E (\<lambda>t. GetSession t sid) w = (Inr y, w\<lparr>sw_rest := x\<rparr>) \<and> x \<in> X"
  using now_step [OF assms(1)] assms(2,3)
  by (fastforce simp: timed_def with_sessions_def GetSession_def)

lemma callback_request:
  assumes "CleanPath (u_path (r_url r)) = ''/auth/callback''" and "r_method r = ''GET''"
    and state: "query_get (r_url r) ''state'' \<noteq> []" "states (sw_sessions w) (query_get (r_url r) ''state'') = Some v"
    and code: "query_get (r_url r) ''code'' \<noteq> []" "confirms E X (query_get (r_url r) ''code'') ident v"
    and w: "sw_rest w \<in> X" "entropy (sw_sessions w) \<noteq> []" "d \<le> mem_ttl (sw_sessions w)"
    and cred: "sw_credentials w (PathFor [] (id_Issuer ident) (id_Subject ident)) = Some cred"
  shows "\<exists>sid sess. sid = base64_raw_url (take 32 (hd (entropy (sw_sessions w))))
    \<and> sessions (sw_sessions (gw_env (handle (memory_server c E) r w))) sid = Some sess
    \<and> T + d \<le> ExpiresAt sess \<and> sw_rest (gw_env (handle (memory_server c E) r w)) \<in> X
    \<and> reply (gw_w (handle (memory_server c E) r w)) = Some (302, location r (safeReturnTo (ReturnTo v)))
    \<and> set (map cookie_string (session_cookies (memory_server c E) sid @ [bridge_cookie (memory_server c E)]))
        \<subseteq> set (sent_cookies (gw_w (handle (memory_server c E) r w)))
    \<and> filter creates_session (gw_log (handle (memory_server c E) r w)) = [CreatedSession (identitySession ident) (Inr sid)]"
proof -
  let ?S = "memory_server c E"
  let ?r = "normalizeForwardedHeaders ?S r"
  let ?code = "query_get (r_url r) ''code''" and ?state = "query_get (r_url r) ''state''"
  let ?g = "entered ?S r w"
  have serve: "serveInternal ?S ?r = State_Monad.bind (handleAuthCallback ?S ?r) (\<lambda>_. State_Monad.return False)"
    using assms(1,2) by (simp add: serveInternal_def)
  have ds: "dispatched ?S r w = (False, snd (run_state (handleAuthCallback ?S ?r) ?g))"
    by (rule internal_run) (simp_all add: serve isInternalPath_def assms(1))
  obtain x0 where x0: "x0 \<in> X" "gw_env ?g = w\<lparr>sw_rest := x0\<rparr>" using entered_step [OF w(1)] by blast
  define w1 where "w1 = w\<lparr>sw_sessions := (sw_sessions w)\<lparr>states := (states (sw_sessions w))(?state := None)\<rparr>, sw_rest := x0\<rparr>"
  have take: "srv_TakeOIDCState ?S ?state (gw_env ?g) = (Inr v, w1)"
    using state(2) by (simp add: with_sessions_def TakeOIDCState_def w1_def x0)
  obtain x2 where x2: "srv_Exchange ?S ?code (Nonce v) (CodeVerifier v) w1 = (Inr ident, w1\<lparr>sw_rest := x2\<rparr>)" "x2 \<in> X"
    using code(2) x0(1) by (force simp: confirms_def with_rest_def w1_def split: prod.split)
  define sid where "sid = base64_raw_url (take 32 (hd (entropy (sw_sessions w))))"
  obtain t m x3 where create: "srv_CreateSession ?S (identitySession ident) (w1\<lparr>sw_rest := x2\<rparr>) =
      (Inr sid, w1\<lparr>sw_sessions := m, sw_rest := x3\<rparr>)"
    "sessions m sid = Some ((identitySession ident)\<lparr>CreatedAt := t, ExpiresAt := t + mem_ttl (sw_sessions w)\<rparr>)" "T \<le> t" "x3 \<in> X"
    using created_step [of "w1\<lparr>sw_rest := x2\<rparr>" "identitySession ident"] x2(2) w(2) by (auto simp: w1_def sid_def)
  define w3 where "w3 = w1\<lparr>sw_sessions := m, sw_rest := x3\<rparr>"
  define sess where "sess = (identitySession ident)\<lparr>CreatedAt := t, ExpiresAt := t + mem_ttl (sw_sessions w)\<rparr>"
  have get: "srv_GetCredential ?S (id_Issuer ident) (id_Subject ident) w3 = (Inr cred, w3)"
    using cred by (simp add: with_credentials_def GetCredential_def w3_def w1_def)
  obtain result x4 where login: "srv_Login ?S (N8NEmailOrLoginID cred) (N8NPassword cred) [n8nLoginHeaders ?S ?r] w3 =
      ((result, None), w3\<lparr>sw_rest := x4\<rparr>)" "x4 \<in> X"
    using login_step [of w3 "[n8nLoginHeaders ?S ?r]"] create(4) by (auto simp: w3_def)
  have live: "T + d \<le> ExpiresAt sess" using create(3) w(3) by (simp add: sess_def)
  obtain x5 where find: "srv_GetSession ?S sid (w3\<lparr>sw_rest := x4\<rparr>) = (Inr sess, w3\<lparr>sw_rest := x5\<rparr>)" "x5 \<in> X"
    using found_step [of "w3\<lparr>sw_rest := x4\<rparr>" sid sess] login(2) create(2) live by (auto simp: w3_def sess_def)
  define w6 where "w6 = w3\<lparr>sw_sessions := snd (SaveSession sid (sess\<lparr>Linked := True\<rparr>) m), sw_rest := x5\<rparr>"
  have save: "srv_SaveSession ?S sid (sess\<lparr>Linked := True\<rparr>) (w3\<lparr>sw_rest := x5\<rparr>) = (None, w6)"
    by (simp add: with_sessions_def SaveSession_def w6_def w3_def)
  have get': "query_get (r_url ?r) k = query_get (r_url r) k" for k by simp
  note run = callback_run [of ?r, unfolded get', OF state(1) code(1) take x2(1) create(1) [folded w3_def] get login(1)
      find(1) save]
  obtain x7 where x7: "x7 \<in> X" "gw_env (handle ?S r w) = w6\<lparr>sw_rest := x7\<rparr>"
    using left_step [of c r w] run find(2) by (auto simp: ds w6_def)
  let ?w = "set_cookie (bridge_cookie ?S) (n8n_cookies ?S (lr_Cookies result) (fold set_cookie (session_cookies ?S sid) (gw_w ?g)))"
  have gw: "gw_w (handle ?S r w) = redirect_found ?r (safeReturnTo (ReturnTo v)) ?w"
    using run by (simp add: handle_response ds)
  have fresh: "fresh ?w" by simp
  have "set (map cookie_string (session_cookies ?S sid @ [bridge_cookie ?S])) \<subseteq> set (sent_cookies (gw_w (handle ?S r w)))"
    unfolding gw sent_cookies_redirect [OF fresh]
    using session_cookies_shown [where S = ?S and sid = sid] set_cookies_header [of "session_cookies ?S sid"]
    by (auto simp: set_cookie_def)
  moreover have "filter creates_session (gw_log (handle ?S r w)) = [CreatedSession (identitySession ident) (Inr sid)]"
    using handle_log [of ?S r w] run by (auto simp: ds no_effects_entered)
  moreover have "reply (gw_w (handle ?S r w)) = Some (302, location r (safeReturnTo (ReturnTo v)))"
    unfolding gw using fresh by (simp add: location_def)
  moreover have "sessions (sw_sessions (gw_env (handle ?S r w))) sid = Some (sess\<lparr>Linked := True\<rparr>)"
    by (simp add: x7 w6_def SaveSession_def)
  ultimately show ?thesis using x7 live by - (rule exI [of _ sid], intro exI [of _ "sess\<lparr>Linked := True\<rparr>"], simp add: sid_def [symmetric])
qed

lemma console_request:
  assumes "class_of (memory_server c E) r = RouteProtectedConsole"
    and "(CleanPath (u_path (r_url r)), r_method r) \<noteq> (''/rest/login'', ''GET'')"
    and "sessionCookieIDs (memory_server c E) r = [sid]" and "HasN8NBridgeCookie r"
    and "sw_rest w \<in> X" and "sessions (sw_sessions w) sid = Some sess" and "T + d \<le> ExpiresAt sess"
  shows "\<exists>panicked. ConsoleProxied (normalizeForwardedHeaders (memory_server c E) r) panicked
     \<in> set (gw_log (handle (memory_server c E) r w))"
proof -
  let ?S = "memory_server c E"
  let ?r = "normalizeForwardedHeaders ?S r"
  obtain x0 where x0: "x0 \<in> X" "gw_env (entered ?S r w) = w\<lparr>sw_rest := x0\<rparr>" using entered_step [OF assms(5)] by blast
  obtain x1 where "srv_GetSession ?S sid (gw_env (entered ?S r w)) = (Inr sess, w\<lparr>sw_rest := x1\<rparr>)"
    using found_step [of "w\<lparr>sw_rest := x0\<rparr>" sid sess] x0 assms(6,7) by auto
  note run = console_run [of ?S ?r, OF _ _ _ this]
  have "\<exists>panicked. ConsoleProxied ?r panicked \<in> set (gw_log (snd (dispatched ?S r w)))"
    unfolding dispatched_def dispatch_def assms(1) RouteClass.case run_simps(1,2) snd_conv
    by (subst run) (use assms(2-4) in \<open>auto split: prod.split\<close>)
  then show ?thesis using handle_log [of ?S r w] by auto
qed

end


subsection \<open>Signing in\<close>

text \<open>
  What the browser does: it comes back from the provider with the state of the login that was started and a
  code that the provider confirms for it, and then presents the session that it was given.
\<close>

definition returns_with :: "'x Outside \<Rightarrow> 'x set \<Rightarrow> request \<Rightarrow> Identity \<Rightarrow> event list \<Rightarrow> bool" where
  "returns_with E X r ident log \<longleftrightarrow>
     query_get (r_url r) ''code'' \<noteq> []
     \<and> list_all (\<lambda>e. case e of
          StoredState state v res \<Rightarrow>
            query_get (r_url r) ''state'' = state \<and> confirms E X (query_get (r_url r) ''code'') ident v
        | _ \<Rightarrow> True) log"

definition presents :: "'s Server \<Rightarrow> request \<Rightarrow> event list \<Rightarrow> bool" where
  "presents S r log \<longleftrightarrow>
     HasN8NBridgeCookie r
     \<and> list_all (\<lambda>e. case e of CreatedSession y (Inr sid) \<Rightarrow> sessionCookieIDs S r = [sid] | _ \<Rightarrow> True) log"

lemma returns_withD:
  assumes "returns_with E X r ident log" and "filter stores_login log = [StoredState state v res]"
  shows "query_get (r_url r) ''code'' \<noteq> []" and "query_get (r_url r) ''state'' = state"
    and "confirms E X (query_get (r_url r) ''code'') ident v"
proof -
  have "StoredState state v res \<in> set log" using arg_cong [OF assms(2), of set] by auto
  then show "query_get (r_url r) ''code'' \<noteq> []" "query_get (r_url r) ''state'' = state"
    "confirms E X (query_get (r_url r) ''code'') ident v"
    using assms(1) by (auto simp: returns_with_def list_all_iff)
qed

lemma presentsD:
  assumes "presents S r log" and "filter creates_session log = [CreatedSession y (Inr sid)]"
  shows "HasN8NBridgeCookie r" and "sessionCookieIDs S r = [sid]"
proof -
  have "CreatedSession y (Inr sid) \<in> set log" using arg_cong [OF assms(2), of set] by auto
  then show "HasN8NBridgeCookie r" "sessionCookieIDs S r = [sid]"
    using assms(1) by (auto simp: presents_def list_all_iff)
qed

lemma returns_withI:
  "filter stores_login log = [StoredState (query_get (r_url r) ''state'') v res] \<Longrightarrow> query_get (r_url r) ''code'' \<noteq> [] \<Longrightarrow>
     confirms E X (query_get (r_url r) ''code'') ident v \<Longrightarrow> returns_with E X r ident log"
  by (induction log) (auto simp: returns_with_def filter_empty_conv list_all_iff split: event.split if_splits)

lemma presentsI:
  "filter creates_session log = [CreatedSession y (Inr sid)] \<Longrightarrow> HasN8NBridgeCookie r \<Longrightarrow>
     sessionCookieIDs S r = [sid] \<Longrightarrow> presents S r log"
  by (induction log) (auto simp: presents_def filter_empty_conv list_all_iff split: event.split sum.split if_splits)

lemma after_login:
  assumes "cooperating E X T d cred"
    and "CleanPath (u_path (r_url r1)) = ''/auth/login''" "r_method r1 = ''GET''"
    and "sessionCookieIDs (memory_server c E) r1 = []"
    and "CleanPath (u_path (r_url r2)) = ''/auth/callback''" "r_method r2 = ''GET''"
    and "returns_with E X r2 ident (gw_log (handle (memory_server c E) r1 w))"
    and "sw_rest w \<in> X" "entropy (sw_sessions w) \<noteq> []" "d \<le> mem_ttl (sw_sessions w)"
    and "sw_credentials w (PathFor [] (id_Issuer ident) (id_Subject ident)) = Some cred" and "x1 \<in> X"
  shows "\<exists>state v. reply (gw_w (handle (memory_server c E) r1 w)) =
        Some (302, location r1 (out_AuthCodeURL E state (Nonce v) (CodeVerifier v)))
    \<and> filter stores_login (gw_log (handle (memory_server c E) r1 w)) = [StoredState state v None]
    \<and> (let w1 = (gw_env (handle (memory_server c E) r1 w))\<lparr>sw_rest := x1\<rparr>; g2 = handle (memory_server c E) r2 w1
       in \<exists>sid sess. sid = base64_raw_url (take 32 (hd (entropy (sw_sessions w))))
         \<and> sessions (sw_sessions (gw_env g2)) sid = Some sess \<and> T + d \<le> ExpiresAt sess
         \<and> reply (gw_w g2) = Some (302, location r2 (safeReturnTo (requestedReturnTo r1)))
         \<and> set (map cookie_string (session_cookies (memory_server c E) sid @ [bridge_cookie (memory_server c E)]))
             \<subseteq> set (sent_cookies (gw_w g2))
         \<and> filter creates_session (gw_log g2) = [CreatedSession (identitySession ident) (Inr sid)])"
proof -
  let ?S = "memory_server c E"
  obtain state v x where g1: "gw_env (handle ?S r1 w) =
        w\<lparr>sw_sessions := snd (StoreOIDCState state v (sw_sessions w)), sw_rest := x\<rparr>"
    "state \<noteq> []" "ReturnTo v = requestedReturnTo r1"
    "reply (gw_w (handle ?S r1 w)) = Some (302, location r1 (out_AuthCodeURL E state (Nonce v) (CodeVerifier v)))"
    "filter stores_login (gw_log (handle ?S r1 w)) = [StoredState state v None]"
    using cooperating.login_request [OF assms(1-4,8)] by metis
  note returned = returns_withD [OF assms(7) g1(5)]
  let ?w1 = "(gw_env (handle ?S r1 w))\<lparr>sw_rest := x1\<rparr>"
  have w1: "states (sw_sessions ?w1) (query_get (r_url r2) ''state'') = Some v" "sw_rest ?w1 \<in> X"
    "entropy (sw_sessions ?w1) \<noteq> []" "d \<le> mem_ttl (sw_sessions ?w1)"
    "sw_credentials ?w1 (PathFor [] (id_Issuer ident) (id_Subject ident)) = Some cred"
    using assms(9-12) by (simp_all add: g1(1) StoreOIDCState_def returned(2))
  have state: "query_get (r_url r2) ''state'' \<noteq> []" using returned(2) g1(2) by simp
  show ?thesis
    using cooperating.callback_request [OF assms(1,5,6) state w1(1) returned(1,3) w1(2-5), of c] g1
    unfolding Let_def by - (rule exI [of _ state], rule exI [of _ v], simp add: StoreOIDCState_def, blast)
qed


text \<open>
  Property C15. Signing in succeeds. If n8n accepts the stored credential, the provider confirms the code that the
  browser brings back, the clock advances by no more than the lifetime of a session, and there is randomness,
  then: the login is answered with a redirect to the provider; the callback creates exactly one session, gives
  the browser its cookies and redirects it to the page that it asked for; and the next
  request to the console with these cookies reaches n8n. Between the requests the outside may
  change as it likes, within this.
\<close>

theorem sign_in_completes:
  assumes "cooperating E X T d cred"
    and "CleanPath (u_path (r_url r1)) = ''/auth/login''" "r_method r1 = ''GET''"
    and "sessionCookieIDs (memory_server c E) r1 = []"
    and "CleanPath (u_path (r_url r2)) = ''/auth/callback''" "r_method r2 = ''GET''"
    and "returns_with E X r2 ident (gw_log (handle (memory_server c E) r1 w))"
    and "class_of (memory_server c E) r3 = RouteProtectedConsole"
    and "(CleanPath (u_path (r_url r3)), r_method r3) \<noteq> (''/rest/login'', ''GET'')"
    and "presents (memory_server c E) r3
      (gw_log (handle (memory_server c E) r2 ((gw_env (handle (memory_server c E) r1 w))\<lparr>sw_rest := x1\<rparr>)))"
    and "sw_rest w \<in> X" "entropy (sw_sessions w) \<noteq> []" "d \<le> mem_ttl (sw_sessions w)"
    and "sw_credentials w (PathFor [] (id_Issuer ident) (id_Subject ident)) = Some cred"
    and "x1 \<in> X" "x2 \<in> X"
  shows "let g1 = handle (memory_server c E) r1 w;
      g2 = handle (memory_server c E) r2 ((gw_env g1)\<lparr>sw_rest := x1\<rparr>);
      g3 = handle (memory_server c E) r3 ((gw_env g2)\<lparr>sw_rest := x2\<rparr>)
    in (\<exists>state v. reply (gw_w g1) = Some (302, location r1 (out_AuthCodeURL E state (Nonce v) (CodeVerifier v)))
          \<and> StoredState state v None \<in> set (gw_log g1))
     \<and> (\<exists>sid. filter creates_session (gw_log g2) = [CreatedSession (identitySession ident) (Inr sid)]
          \<and> reply (gw_w g2) = Some (302, location r2 (safeReturnTo (requestedReturnTo r1)))
          \<and> set (map cookie_string (session_cookies (memory_server c E) sid @ [bridge_cookie (memory_server c E)]))
              \<subseteq> set (sent_cookies (gw_w g2)))
     \<and> (\<exists>panicked. ConsoleProxied (normalizeForwardedHeaders (memory_server c E) r3) panicked \<in> set (gw_log g3))"
proof -
  let ?S = "memory_server c E"
  define g1 where "g1 = handle ?S r1 w"
  define g2 where "g2 = handle ?S r2 ((gw_env g1)\<lparr>sw_rest := x1\<rparr>)"
  define g3 where "g3 = handle ?S r3 ((gw_env g2)\<lparr>sw_rest := x2\<rparr>)"
  obtain state v sid sess where
    login: "reply (gw_w g1) = Some (302, location r1 (out_AuthCodeURL E state (Nonce v) (CodeVerifier v)))"
      "filter stores_login (gw_log g1) = [StoredState state v None]" and
    callback: "sessions (sw_sessions (gw_env g2)) sid = Some sess" "T + d \<le> ExpiresAt sess"
      "reply (gw_w g2) = Some (302, location r2 (safeReturnTo (requestedReturnTo r1)))"
      "set (map cookie_string (session_cookies ?S sid @ [bridge_cookie ?S])) \<subseteq> set (sent_cookies (gw_w g2))"
      "filter creates_session (gw_log g2) = [CreatedSession (identitySession ident) (Inr sid)]"
    using after_login [OF assms(1-7,11-15)] unfolding g1_def g2_def Let_def by metis
  have stored: "StoredState state v None \<in> set (gw_log g1)" using arg_cong [OF login(2), of set] by auto
  note session = presentsD [OF assms(10) [folded g1_def, folded g2_def] callback(5)]
  have "\<exists>panicked. ConsoleProxied (normalizeForwardedHeaders ?S r3) panicked \<in> set (gw_log g3)"
    unfolding g3_def using callback(1,2) assms(16)
    by (intro cooperating.console_request [OF assms(1,8,9) session(2,1), of _ sess]) simp_all
  then show ?thesis
    using login(1) stored callback(3-5)
    unfolding Let_def g1_def [symmetric] g2_def [symmetric] g3_def [symmetric] by blast
qed


subsection \<open>A cooperating outside\<close>

definition kind_outside :: "time Outside" where
  "kind_outside = demo_outside\<lparr>out_now := (\<lambda>t. (t, t)), out_rand := (\<lambda>n t. (Some (replicate n CHR ''A''), t))\<rparr>"

definition kind_credential :: Credential where
  "kind_credential = demo_credential ''good''"

definition kind_start :: "time store_world" where
  "kind_start = (fresh_world (60 * second) (60 * second) [''A''] 0)\<lparr>sw_credentials := (\<lambda>_. Some kind_credential)\<rparr>"

interpretation kind: cooperating kind_outside "{0}" 0 0 kind_credential
  by unfold_locales (auto simp: kind_outside_def demo_outside_def)

definition home_login :: request where
  "home_login = demo_request ''GET'' ''/auth/login?return_to=/home'' [] (OtherBody [])"

definition home_callback :: request where
  "home_callback =
     demo_request ''GET'' (''/auth/callback?code=c&state='' @ base64_raw_url (replicate 32 CHR ''A'')) [] (OtherBody [])"

definition home_console :: request where
  "home_console = demo_request ''GET'' ''/home'' (''__Host-n8np_session='' @ base64_raw_url ''A'' @ ''; n8np_n8n_bridge=1'')
     (OtherBody [])"

lemma home_facts:
  "CleanPath (u_path (r_url home_login)) = ''/auth/login''"
  "sessionCookieIDs (memory_server demo_cfg kind_outside) home_login = []"
  "CleanPath (u_path (r_url home_callback)) = ''/auth/callback''"
  "CleanPath (u_path (r_url home_console)) = ''/home''"
  "class_of (memory_server demo_cfg kind_outside) home_console = RouteProtectedConsole"
  "location home_callback (safeReturnTo (requestedReturnTo home_login)) = ''/home''"
  by code_simp+

lemma home_login_log:
  "\<exists>v. filter stores_login (gw_log (handle (memory_server demo_cfg kind_outside) home_login kind_start)) =
     [StoredState (base64_raw_url (replicate 32 CHR ''A'')) v None]"
proof -
  have "r_method home_login = ''GET''" "sw_rest kind_start \<in> {0}"
    by (simp_all add: home_login_def demo_request_def kind_start_def fresh_world_def NewCredentialStore_def)
  from kind.login_request [OF home_facts(1) this(1) home_facts(2) this(2)]
  obtain b y x v where "out_rand kind_outside 32 y = (Some b, x)"
    "filter stores_login (gw_log (handle (memory_server demo_cfg kind_outside) home_login kind_start)) =
      [StoredState (base64_raw_url b) v None]" by metis
  then show ?thesis by (auto simp: kind_outside_def)
qed

lemma home_queries:
  "query_get (r_url home_callback) ''state'' = base64_raw_url (replicate 32 CHR ''A'')"
  "query_get (r_url home_callback) ''code'' = ''c''"
  "sessionCookieIDs (memory_server demo_cfg kind_outside) home_console = [base64_raw_url ''A'']"
  "HasN8NBridgeCookie home_console"
  by code_simp+

lemma home_methods: "r_method home_login = ''GET''" "r_method home_callback = ''GET''"
  by (simp_all add: home_login_def home_callback_def demo_request_def)

lemma kind_facts:
  "sw_rest kind_start \<in> {0}" "entropy (sw_sessions kind_start) = [''A'']" "0 \<le> mem_ttl (sw_sessions kind_start)"
  "sw_credentials kind_start i = Some kind_credential"
  by (simp_all add: kind_start_def fresh_world_def NewMemoryStore_def)

lemma home_returns:
  "returns_with kind_outside {0} home_callback (FakeIdentity demo_oidc)
     (gw_log (handle (memory_server demo_cfg kind_outside) home_login kind_start))"
proof -
  have "confirms kind_outside {0} ''c'' (FakeIdentity demo_oidc) v" for v
    by (simp add: confirms_def kind_outside_def demo_outside_def demo_oidc_def)
  then show ?thesis
    using home_login_log by (auto simp: home_queries intro: returns_withI)
qed

lemma home_presents:
  "presents (memory_server demo_cfg kind_outside) home_console
     (gw_log (handle (memory_server demo_cfg kind_outside) home_callback
       ((gw_env (handle (memory_server demo_cfg kind_outside) home_login kind_start))\<lparr>sw_rest := 0\<rparr>)))"
proof -
  have "entropy (sw_sessions kind_start) \<noteq> []" by (simp add: kind_facts)
  from after_login [OF kind.cooperating_axioms home_facts(1) home_methods(1) home_facts(2,3) home_methods(2) home_returns
      kind_facts(1) this kind_facts(3,4) singletonI]
  show ?thesis
    unfolding Let_def by (elim exE conjE) (rule presentsI, assumption, simp_all add: home_queries kind_facts)
qed

theorem sign_in_completes_witness:
  "reply (gw_w (handle (memory_server demo_cfg kind_outside) home_callback
     ((gw_env (handle (memory_server demo_cfg kind_outside) home_login kind_start))\<lparr>sw_rest := 0\<rparr>))) =
   Some (302, ''/home'')"
proof -
  have e: "entropy (sw_sessions kind_start) \<noteq> []" by (simp add: kind_facts)
  have p: "(CleanPath (u_path (r_url home_console)), r_method home_console) \<noteq> (''/rest/login'', ''GET'')"
    by (simp add: home_facts)
  from sign_in_completes [OF kind.cooperating_axioms home_facts(1) home_methods(1) home_facts(2,3) home_methods(2)
      home_returns home_facts(5) p home_presents kind_facts(1) e kind_facts(3,4) singletonI singletonI]
  show ?thesis unfolding Let_def using home_facts(6) by auto
qed

end
