(* ===== verification/Concurrent.thy ===== *)
theory Concurrent
  imports Sign_In "HOL-Library.Sublist"
begin

text \<open>
  Requests that run at the same time. A request that runs beside others sees services that answer anything, so
  its log is the log of handling it with some server; what happens is an interleaving of these logs, in which the
  calls of the stores are steps of the stores that all requests share. What holds of every request
  and is monotone in the history holds of every interleaving.
\<close>

subsection \<open>Interleavings\<close>

text \<open>
  \<open>interleaved ls h\<close>: \<open>h\<close> is an interleaving of the logs \<open>ls\<close>. As in the logs, the newest event comes
  first; it is the newest of one of the logs.
\<close>

inductive interleaved :: "'e list list \<Rightarrow> 'e list \<Rightarrow> bool" where
  all_done: "list_all (\<lambda>l. l = []) ls \<Longrightarrow> interleaved ls []"
| one: "i < length ls \<Longrightarrow> ls ! i = e # l \<Longrightarrow> interleaved (ls[i := l]) h \<Longrightarrow> interleaved ls (e # h)"

lemma interleaved_set: "interleaved ls h \<Longrightarrow> l \<in> set ls \<Longrightarrow> set l \<subseteq> set h"
proof (induction arbitrary: l rule: interleaved.induct)
  case (one i ls e r h)
  show ?case
  proof (cases "l = ls ! i")
    case True
    have "r \<in> set (ls[i := r])" using one.hyps(1) by (rule set_update_memI)
    then show ?thesis using one.IH [of r] one.hyps(2) True by auto
  next
    case False
    then obtain j where "j < length ls" "ls ! j = l" "j \<noteq> i" using one.prems by (metis in_set_conv_nth)
    then have "l \<in> set (ls[i := r])" by (metis length_list_update nth_list_update_neq nth_mem)
    then show ?thesis using one.IH [of l] by auto
  qed
qed (auto simp: list_all_iff)

lemma interleaved_append: "interleaved ls h \<Longrightarrow> i < length ls \<Longrightarrow> interleaved (ls[i := l @ ls ! i]) (l @ h)"
proof (induction l)
  case (Cons e l)
  have "interleaved ((ls[i := (e # l) @ ls ! i])[i := l @ ls ! i]) (l @ h)" using Cons by simp
  then show ?case using Cons.prems(2) by (simp add: interleaved.one [of i _ e "l @ ls ! i"])
qed simp

lemma interleaved_serial: "interleaved [l, m] (l @ m)" "interleaved [l, m] (m @ l)"
proof -
  have "interleaved [[], []] []" by (rule interleaved.all_done) simp
  note first = interleaved_append [OF this, of 0 l, simplified] interleaved_append [OF this, of 1 m, simplified]
  show "interleaved [l, m] (l @ m)" using interleaved_append [OF first(2), of 0 l] by simp
  show "interleaved [l, m] (m @ l)" using interleaved_append [OF first(1), of 1 m] by simp
qed

text \<open>What a request has done so far is an older part of its log.\<close>

definition request_logs :: "('s Server \<times> request \<times> 's) list \<Rightarrow> event list list" where
  "request_logs reqs = map (\<lambda>(S, r, s). gw_log (handle S r s)) reqs"

definition running :: "('s Server \<times> request \<times> 's) list \<Rightarrow> event list \<Rightarrow> bool" where
  "running reqs h \<longleftrightarrow> (\<exists>parts. list_all2 suffix parts (request_logs reqs) \<and> interleaved parts h)"

context trace_policy
begin

lemma guarded_suffix: "guarded A (zs @ l) \<Longrightarrow> guarded A l"
  by (induction zs) simp_all

lemma interleaved_guarded: "interleaved ls h \<Longrightarrow> list_all (guarded A) ls \<Longrightarrow> guarded A h"
proof (induction rule: interleaved.induct)
  case (one i ls e l h)
  have g: "guarded A (e # l)" using one.prems one.hyps(1,2) by (metis list_all_length)
  then have "list_all (guarded A) (ls[i := l])"
    using one.prems set_update_subset_insert [of ls i l] unfolding list_all_iff by auto
  moreover have "set l \<subseteq> set h"
    using interleaved_set [OF one.hyps(3)] set_update_memI [OF one.hyps(1)] by blast
  ultimately show ?case using one.IH g mono by auto
qed simp

lemma running_guarded:
  fixes reqs :: "('s Server \<times> request \<times> 's) list"
  assumes "running reqs h" and "\<And>(S :: 's Server) r s. guarded A (gw_log (handle S r s))"
  shows "guarded A h"
proof -
  obtain parts where p: "list_all2 suffix parts (request_logs reqs)" "interleaved parts h"
    using assms(1) by (auto simp: running_def)
  have "guarded A l" if "l \<in> set parts" for l
  proof -
    obtain j where j: "j < length parts" "parts ! j = l" using \<open>l \<in> set parts\<close> by (auto simp: in_set_conv_nth)
    then have k: "j < length reqs" "suffix l (request_logs reqs ! j)"
      using list_all2_lengthD [OF p(1)] list_all2_nthD [OF p(1) j(1)] by (simp_all add: request_logs_def)
    obtain S r s where "reqs ! j = (S, r, s)" by (cases "reqs ! j")
    then have "request_logs reqs ! j = gw_log (handle S r s)" using k(1) by (simp add: request_logs_def)
    moreover obtain zs where "request_logs reqs ! j = zs @ l" using k(2) by (rule suffixE)
    ultimately show ?thesis using assms(2) [of S r s] guarded_suffix [of zs l] by simp
  qed
  then show ?thesis using interleaved_guarded [OF p(2)] by (simp add: list_all_iff)
qed

end

subsection \<open>The shared stores\<close>

text \<open>
  The in-memory stores as one machine: the store of the sessions makes its steps, that of the credentials its own,
  and all other events are local to a request or happen outside.
\<close>

fun credential_event :: "event \<Rightarrow> bool" where
  "credential_event (ReadCredential i u res) = True"
| "credential_event (WroteCredential c res) = True"
| "credential_event (RemovedCredential i u res) = True"
| "credential_event e = False"

inductive shared_step :: "MemoryStore \<times> CredentialMap \<Rightarrow> event \<Rightarrow> MemoryStore \<times> CredentialMap \<Rightarrow> bool" where
  session: "store_step m e m' \<Longrightarrow> shared_step (m, c) e (m', c)"
| read_cred: "GetCredential i u c = (res, c') \<Longrightarrow> shared_step (m, c) (ReadCredential i u res) (m, c')"
| write_cred: "PutCredential cr c = (res, c') \<Longrightarrow> shared_step (m, c) (WroteCredential cr res) (m, c')"
| remove_cred: "DeleteCredential i u c = (res, c') \<Longrightarrow> shared_step (m, c) (RemovedCredential i u res) (m, c')"
| elsewhere: "\<not> store_event e \<Longrightarrow> \<not> credential_event e \<Longrightarrow> shared_step w e w"

inductive shared_run ::
  "MemoryStore \<times> CredentialMap \<Rightarrow> event list \<Rightarrow> MemoryStore \<times> CredentialMap \<Rightarrow> bool"
  for w0 :: "MemoryStore \<times> CredentialMap" where
  no_step: "shared_run w0 [] w0"
| next_step: "shared_run w0 h w \<Longrightarrow> shared_step w e w' \<Longrightarrow> shared_run w0 (e # h) w'"

inductive_simps shared_run_Nil [simp]: "shared_run w0 [] w"
inductive_simps shared_run_Cons: "shared_run w0 (e # h) w"

lemma shared_run_append: "shared_run w0 h w \<Longrightarrow> shared_run w h' w' \<Longrightarrow> shared_run w0 (h' @ h) w'"
  by (rotate_tac 1, induction rule: shared_run.induct) (auto intro: shared_run.next_step)

text \<open>A gateway that handles one request makes such a run.\<close>

definition follows :: "MemoryStore \<times> CredentialMap \<Rightarrow> 'x store_world \<Rightarrow> event list \<Rightarrow> bool" where
  "follows w0 w l \<longleftrightarrow> shared_run w0 l (sw_sessions w, sw_credentials w)"

lemma follows_step:
  "follows w0 w l \<Longrightarrow> shared_step (sw_sessions w, sw_credentials w) e (sw_sessions w', sw_credentials w') \<Longrightarrow>
     follows w0 w' (e # l)"
  unfolding follows_def by (rule shared_run.next_step)

lemma follows_sessions:
  "follows w0 w l \<Longrightarrow> store_step (sw_sessions w) e (sw_sessions w') \<Longrightarrow> sw_credentials w' = sw_credentials w \<Longrightarrow>
     follows w0 w' (e # l)"
  by (erule follows_step) (simp add: shared_step.session)

lemma follows_local:
  "follows w0 w l \<Longrightarrow> \<not> store_event e \<Longrightarrow> \<not> credential_event e \<Longrightarrow> sw_sessions w' = sw_sessions w \<Longrightarrow>
     sw_credentials w' = sw_credentials w \<Longrightarrow> follows w0 w' (e # l)"
  by (erule follows_step) (simp add: shared_step.elsewhere)

interpretation follow: world_invariant "memory_server c E" "follows w0" for c and E :: "'x Outside" and w0
proof (unfold_locales, simp_all only: memory_server_simps)
  fix w w' :: "'x store_world" and l
  assume f: "follows w0 w l"
  show "follows w0 w' (CreatedSession x res # l)" if "timed E (\<lambda>t. CreateSession t x) w = (res, w')" for x res
    using timed_step [OF that] timed_credentials [OF that] by (auto intro: follows_sessions [OF f] store_step.create)
  show "follows w0 w' (GotSession i res # l)" if "timed E (\<lambda>t. GetSession t i) w = (res, w')" for i res
    using timed_step [OF that] timed_credentials [OF that] by (auto intro: follows_sessions [OF f] store_step.find)
  note on_sessions = with_sessions_step with_sessions_credentials
  show "follows w0 w' (SavedSession i x res # l)" if "with_sessions (SaveSession i x) w = (res, w')" for i x res
    using on_sessions [OF that] by (intro follows_sessions [OF f] store_step.save)
  show "follows w0 w' (DeletedSession i res # l)" if "with_sessions (DeleteSession i) w = (res, w')" for i res
    using on_sessions [OF that] by (intro follows_sessions [OF f] store_step.drop)
  show "follows w0 w' (StoredState k v res # l)" if "with_sessions (StoreOIDCState k v) w = (res, w')" for k v res
    using on_sessions [OF that] by (intro follows_sessions [OF f] store_step.store)
  show "follows w0 w' (TookState k res # l)" if "with_sessions (TakeOIDCState k) w = (res, w')" for k res
    using on_sessions [OF that] by (intro follows_sessions [OF f] store_step.take)
  show "follows w0 w' (GotCSRF i res # l)" if "with_sessions (GetCSRF i) w = (res, w')" for i res
    using on_sessions [OF that] by (intro follows_sessions [OF f] store_step.get_csrf)
  show "follows w0 w' (StoredCSRF i tok res # l)" if "with_sessions (SetCSRF i tok) w = (res, w')" for i tok res
    using on_sessions [OF that] by (intro follows_sessions [OF f] store_step.set_csrf)
  note on_credentials = with_credentials_step with_credentials_sessions
  show "follows w0 w' (ReadCredential i u res # l)" if "with_credentials (GetCredential i u) w = (res, w')" for i u res
    using on_credentials [OF that] by (intro follows_step [OF f]) (simp add: shared_step.read_cred)
  show "follows w0 w' (WroteCredential cr res # l)" if "with_credentials (PutCredential cr) w = (res, w')" for cr res
    using on_credentials [OF that] by (intro follows_step [OF f]) (simp add: shared_step.write_cred)
  show "follows w0 w' (RemovedCredential i u res # l)" if "with_credentials (DeleteCredential i u) w = (res, w')" for i u res
    using on_credentials [OF that] by (intro follows_step [OF f]) (simp add: shared_step.remove_cred)
  show "follows w0 w' (Pinged nm ok # l)" if "with_credentials PingCredentials w = (res, w')" for nm ok res
    using on_credentials [OF that] by (intro follows_local [OF f]) (simp_all add: PingCredentials_def)
  show "follows w0 w' (Pinged nm ok # l)" if "with_sessions PingMemory w = (res, w')" for nm ok res
    using on_sessions [OF that] by (intro follows_local [OF f]) (simp_all add: PingMemory_def)
  show "follows w0 w (Counted nm ls # l)" for nm ls by (rule follows_local [OF f]) simp_all
qed (erule follows_local, simp, simp, erule with_rest_sessions, erule with_rest_credentials)+

lemma handled_run:
  "shared_run (sw_sessions w, sw_credentials w) (gw_log (handle (memory_server c E) r w))
     (sw_sessions (gw_env (handle (memory_server c E) r w)), sw_credentials (gw_env (handle (memory_server c E) r w)))"
  using follow.handle_keeps [of "(sw_sessions w, sw_credentials w)" w c E r] by (simp add: follows_def)

subsection \<open>Any interleaving is safe\<close>

lemma store_step_verified:
  assumes "store_step m e m'" and "provenance e F" and v: "all_verified (\<lambda>owner. owner) (sessions m) F"
  shows "all_verified (\<lambda>owner. owner) (sessions m') (insert e F)"
proof -
  have same: "all_verified (\<lambda>owner. owner) (sessions m') (insert e F)"
    if "sessions m' = sessions m" "\<And>i x. e \<noteq> GotSession i (Inr x)" for e
    using that by (intro all_verified_step [OF v, where P = "\<lambda>y. False"]) auto
  from assms(1) show ?thesis
  proof cases
    case (create t x res)
    then show ?thesis
      using created_sessions [OF create(2)] assms(2)
      by (intro all_verified_step [OF v, where P = "\<lambda>y. session_owner y = session_owner x"]) auto
  next
    case (save i x res)
    then show ?thesis
      using saved_sessions [OF save(2)] assms(2) v
      by (intro all_verified_step [OF v, where P = "\<lambda>y. y = x"]) (auto simp: all_verified_def)
  next
    case (find t i res)
    then show ?thesis
      using got_sessions [OF find(2)] by (intro all_verified_step [OF v, where P = "\<lambda>y. False"]) auto
  next
    case (drop i res)
    then show ?thesis
      using deleted_sessions [OF drop(2)] by (intro all_verified_step [OF v, where P = "\<lambda>y. False"]) auto
  qed (auto intro!: same dest: untouched_sessions)
qed

lemma shared_run_verified:
  "shared_run w0 h w \<Longrightarrow> guarded provenance h \<Longrightarrow> sessions (fst w0) = Map.empty \<Longrightarrow>
     all_verified (\<lambda>owner. owner) (sessions (fst w)) (set h)"
proof (induction rule: shared_run.induct)
  case (next_step h w e w')
  then have v: "all_verified (\<lambda>owner. owner) (sessions (fst w)) (set h)" and p: "provenance e (set h)" by simp_all
  from next_step.hyps(2) show ?case
  proof cases
    case (session m m' c)
    then show ?thesis using store_step_verified [OF session(3) p] v by simp
  qed (use all_verified_step [OF v, where P = "\<lambda>y. False" and m' = "sessions (fst w')" and e = e] in \<open>auto elim: store_event.elims\<close>)
qed (simp add: all_verified_def)

lemma shared_run_written:
  "shared_run w0 h w \<Longrightarrow> snd w0 = Map.empty \<Longrightarrow> snd w p = Some cr \<Longrightarrow> \<exists>res. WroteCredential cr res \<in> set h"
proof (induction arbitrary: p rule: shared_run.induct)
  case (next_step h w e w')
  from next_step.hyps(2) show ?case
    using next_step.IH next_step.prems
    by cases (auto simp: GetCredential_def PutCredential_def DeleteCredential_def split: option.splits if_splits)
qed simp

lemma shared_run_balance:
  "shared_run w0 h w \<Longrightarrow> times (takes k) h + (if states (fst w) k = None then 0 else 1) \<le>
     times (stores k) h + (if states (fst w0) k = None then 0 else 1)"
proof (induction rule: shared_run.induct)
  case (next_step h w e w')
  have "(if takes k e then 1 else 0) + (if states (fst w') k = None then 0 else 1) \<le>
      (if stores k e then 1 else 0) + (if states (fst w) k = None then 0 else (1 :: nat))"
    using next_step.hyps(2)
    by cases (use step_balance [of _ e _ k] takes_store_event [of k e] in auto)
  then show ?case using next_step.IH by (auto simp: times_def split: if_splits)
qed (simp add: times_def)

text \<open>
  Property C9. Requests that run at the same time are as safe as one after the other. Take any requests, each handled
  as far as it may be, and any interleaving of what they do in which the calls of the in-memory stores,
  initially empty, answer as the stores do; everything else may answer anything. Then every session that is held or was
  returned belongs to an identity that the provider verified, every stored credential to such an identity and to
  a login that n8n accepted, and no state was accepted more often than it was issued.
\<close>

theorem concurrent_requests_are_safe:
  assumes "running reqs h"
    and "shared_run (NewMemoryStore ttl stateTTL random, NewCredentialStore) h (m, creds)"
  shows "all_verified (\<lambda>owner. owner) (sessions m) (set h) \<and> all_owned creds (set h)
    \<and> times (takes k) h \<le> times (stores k) h"
proof -
  have g: "guarded provenance h" "guarded owned h"
    using prov.running_guarded own.running_guarded assms(1) handle_provenance handle_owned by blast+
  have v: "all_verified (\<lambda>owner. owner) (sessions m) (set h)"
    using shared_run_verified [OF assms(2) g(1)] by (simp add: NewMemoryStore_def)
  have o: "all_owned creds (set h)"
    unfolding all_owned_def
  proof
    fix cr assume "cr \<in> ran creds"
    then obtain p where "creds p = Some cr" by (auto simp: ran_def)
    then obtain res where "WroteCredential cr res \<in> set h"
      using shared_run_written [OF assms(2)] by (auto simp: NewCredentialStore_def)
    then have "owned (WroteCredential cr res) (set h)" by (rule own.guarded_mem [OF g(2)])
    then show "(cred_Issuer cr, cred_Subject cr) \<in> verified (set h)
        \<and> (\<exists>hs result. LoggedIn (N8NEmailOrLoginID cr) (N8NPassword cr) hs (result, None) \<in> set h)"
      using v by (fastforce simp: all_verified_def)
  qed
  show ?thesis
    using v o shared_run_balance [OF assms(2), of k] by (simp add: NewMemoryStore_def split: if_splits)
qed

text \<open>A login and the callback that it leads to.\<close>

abbreviation first_start :: "time store_world" where
  "first_start \<equiv> fresh_world (60 * second) (60 * second) [''A''] 0"

abbreviation first_server :: "time store_world Server" where
  "first_server \<equiv> memory_server demo_cfg kind_outside"

theorem concurrent_requests_are_safe_witness:
  "let one = handle first_server home_login first_start; two = handle first_server home_callback (gw_env one);
       h = gw_log two @ gw_log one; w = gw_env two in
     all_verified (\<lambda>owner. owner) (sessions (sw_sessions w)) (set h) \<and> all_owned (sw_credentials w) (set h)
     \<and> times (takes (base64_raw_url (replicate 32 CHR ''A''))) h \<le> times (stores (base64_raw_url (replicate 32 CHR ''A''))) h"
proof -
  let ?one = "handle first_server home_login first_start"
  let ?two = "handle first_server home_callback (gw_env ?one)"
  let ?h = "gw_log ?two @ gw_log ?one" and ?w = "gw_env ?two"
  have "interleaved [gw_log ?two, gw_log ?one] ?h" by (rule interleaved_serial(1))
  then have "running [(first_server, home_callback, gw_env ?one), (first_server, home_login, first_start)] ?h"
    unfolding running_def request_logs_def by (intro exI [of _ "[gw_log ?two, gw_log ?one]"]) simp
  moreover have "shared_run (NewMemoryStore (60 * second) (60 * second) [''A''], NewCredentialStore) ?h
      (sw_sessions ?w, sw_credentials ?w)"
    using shared_run_append [OF handled_run [of first_start] handled_run] by (simp add: fresh_world_def)
  ultimately show ?thesis
    unfolding Let_def by (rule concurrent_requests_are_safe)
qed

end
