(* ===== verification/Races.thy ===== *)
theory Races
  imports Concurrent
begin

text \<open>
  A logout beside a link: what goes wrong when two requests of one session run at the same time, as an
  interleaving in the sense of \<open>Concurrent\<close>.
\<close>

subsection \<open>The two requests\<close>

lemma link_run:
  assumes "r_method r = ''POST''" and "gw_form g = None" and "submitted r ''_method'' \<noteq> ''DELETE''"
    and "sessionCookieIDs S r = [sid]" and "srv_GetSession S sid (gw_env g) = (Inr sess, s1)"
    and "srv_GetCSRF S sid s1 = (Inr (submitted r ''csrf_token''), s2)" and "submitted r ''csrf_token'' \<noteq> []"
    and "trim_space (submitted r ''n8n_email_or_login_id'') = l" "l \<noteq> []" "submitted r ''n8n_password'' = p" "p \<noteq> []"
    and "srv_Login S l p [n8nLoginHeaders S r] s2 = ((result, None), s3)"
    and "srv_PutCredential S (linkedCredential sess l p) s3 = (None, s4)"
  shows "gw_log (snd (run_state (handleLinkPost S r) g)) =
    [SavedSession sid (sess\<lparr>Linked := True\<rparr>) (fst (srv_SaveSession S sid (sess\<lparr>Linked := True\<rparr>) s4)),
     Counted ''vault_operations'' [''write'', ''success''],
     WroteCredential (linkedCredential sess l p) None, Counted ''n8n_login'' [''success''],
     LoggedIn l p [n8nLoginHeaders S r] (result, None)]
    @ [GotCSRF sid (Inr (submitted r ''csrf_token'')), GotSession sid (Inr sess)] @ gw_log g"
proof -
  let ?g = "g\<lparr>gw_form := parse_multipart_form r None\<rparr>"
  have form: "read_form r (g'\<lparr>gw_env := s, gw_log := es\<rparr>)" if "gw_form g' = parse_multipart_form r None" for g' :: "'s gw" and s es
    using that assms(1) by (simp add: read_form_def)
  have first: "run_state (formValue r ''_method'') g = (submitted r ''_method'', ?g)"
    using assms(1,2) by (simp add: formValue_def run_rules submitted_def)
  show ?thesis
    using assms(3-)
    by (simp add: handleLinkPost_def run_rules first requireSession_def lookupSessionFromCookies_def validateCSRF_def
        read_form_parse [OF form] read_form_value [OF form] EqualToken_eq linkCredential_def bridgeLogin_def putCredential_def
        redirect_def writeN8NCookies_def setBridgeCookie_def Let_def)
qed

lemma local_run: "list_all (\<lambda>e. \<not> store_event e \<and> \<not> credential_event e) l \<Longrightarrow> shared_run w l w"
  by (induction l) (auto intro: shared_run.no_step shared_run.next_step [OF _ shared_step.elsewhere] simp del: shared_run_Nil)

lemma entered_run: "shared_run w (gw_log (entered S r s)) w"
proof (rule local_run)
  have "bookkeeping e \<Longrightarrow> \<not> store_event e \<and> \<not> credential_event e" for e by (cases e) auto
  then show "list_all (\<lambda>e. \<not> store_event e \<and> \<not> credential_event e) (gw_log (entered S r s))"
    using entered_log [of S r s] by (auto simp: list_all_iff)
qed

definition race_start :: "time store_world" where
  "race_start = \<lparr>sw_sessions = w_sessions (demo_world None), sw_credentials = NewCredentialStore, sw_rest = 0\<rparr>"

abbreviation race_server :: "time store_world Server" where
  "race_server \<equiv> memory_server demo_cfg kind_outside"

lemma race_requests:
  "submitted link_request ''_method'' = []" "submitted link_request ''csrf_token'' = ''tok''"
  "trim_space (submitted link_request ''n8n_email_or_login_id'') = ''me''" "submitted link_request ''n8n_password'' = ''good''"
  "sessionCookieIDs race_server link_request = [''sid'']" "sessionCookieIDs race_server logout_request = [''sid'']"
  "class_of race_server return_request = RouteProtectedConsole" "sessionCookieIDs race_server return_request = [''sid'']"
  "CleanPath (u_path (r_url return_request)) = ''/home''" "HasN8NBridgeCookie return_request"
  "location logout_request ''/'' = ''/''"
  by code_simp+

lemma race_methods: "r_method link_request = ''POST''" "r_method logout_request = ''POST''" "r_method return_request = ''GET''"
  by (simp_all add: link_request_def logout_request_def return_request_def demo_request_def)

lemma race_stores:
  "sessions (sw_sessions race_start) ''sid'' = Some demo_session" "csrf (sw_sessions race_start) ''sid'' = Some ''tok''"
  "sw_rest race_start = 0" "ExpiresAt demo_session = 160 * second"
  by (simp_all add: race_start_def demo_world_def NewMemoryStore_def memory_store_defs demo_session_def)

text \<open>The link request: what it has read, and what it does after it.\<close>

lemma link_log:
  obtains late where
    "gw_log (handle race_server link_request race_start) =
       late @ [GotCSRF ''sid'' (Inr ''tok''), GotSession ''sid'' (Inr demo_session)] @ gw_log (entered race_server link_request race_start)"
    and "\<And>m c. \<exists>c'. shared_run (m, c) late (snd (SaveSession ''sid'' (demo_session\<lparr>Linked := True\<rparr>) m), c')"
proof -
  let ?S = race_server and ?r = "normalizeForwardedHeaders race_server link_request"
  let ?g = "entered ?S link_request race_start"
  let ?save = "demo_session\<lparr>Linked := True\<rparr>"
  have serve: "serveInternal ?S ?r = State_Monad.bind (handleLinkPost ?S ?r) (\<lambda>_. State_Monad.return False)"
    using link_path race_methods(1) by (simp add: serveInternal_def)
  have ds: "dispatched ?S link_request race_start = (False, snd (run_state (handleLinkPost ?S ?r) ?g))"
    by (rule internal_run) (simp_all add: serve isInternalPath_def link_path)
  obtain x where x: "gw_env ?g = race_start\<lparr>sw_rest := x\<rparr>" "x = 0"
    using kind.entered_step [of race_start demo_cfg link_request] race_stores(3) by auto
  have zero: "race_start\<lparr>sw_rest := 0\<rparr> = race_start" by (simp add: race_start_def)
  have find: "srv_GetSession ?S ''sid'' (gw_env ?g) = (Inr demo_session, race_start)"
    using kind.found_step [of race_start "''sid''" demo_session] race_stores by (auto simp: x zero)
  have csrf: "srv_GetCSRF ?S ''sid'' race_start = (Inr (submitted ?r ''csrf_token''), race_start)"
    using race_stores(2) by (simp add: with_sessions_def GetCSRF_def race_requests)
  let ?cr = "linkedCredential demo_session ''me'' ''good''"
  obtain result where login: "srv_Login ?S ''me'' ''good'' [n8nLoginHeaders ?S ?r] race_start = ((result, None), race_start)"
    using kind.login_step [of race_start "[n8nLoginHeaders ?S ?r]"] race_stores(3)
    by (auto simp: kind_credential_def demo_credential_def zero)
  let ?w = "race_start\<lparr>sw_credentials := snd (PutCredential ?cr (sw_credentials race_start))\<rparr>"
  have put: "srv_PutCredential ?S ?cr race_start = (None, ?w)"
    by (simp add: with_credentials_def PutCredential_def)
  have save: "fst (srv_SaveSession ?S ''sid'' ?save ?w) = None" by (simp add: with_sessions_def SaveSession_def)
  have run: "gw_log (snd (run_state (handleLinkPost ?S ?r) ?g)) =
      [SavedSession ''sid'' ?save None, Counted ''vault_operations'' [''write'', ''success''], WroteCredential ?cr None,
       Counted ''n8n_login'' [''success''], LoggedIn ''me'' ''good'' [n8nLoginHeaders ?S ?r] (result, None)]
      @ [GotCSRF ''sid'' (Inr ''tok''), GotSession ''sid'' (Inr demo_session)] @ gw_log ?g"
    using link_run [OF _ _ _ _ find csrf _ _ _ _ _ login put] race_methods(1) save
    by (simp add: race_requests entered_simps(1))
  obtain t where log: "gw_log (handle ?S link_request race_start) =
      [Counted ''request_duration'' [route_class_name (class_of ?S link_request)],
       Counted ''requests'' [route_class_name (class_of ?S link_request),
         nat_decimal (w_recorded (gw_w (handle ?S link_request race_start)))], ReadClock t]
      @ gw_log (snd (run_state (handleLinkPost ?S ?r) ?g))"
    using handle_log [of ?S link_request race_start] by (auto simp: ds)
  define late where "late =
    [Counted ''request_duration'' [route_class_name (class_of ?S link_request)],
     Counted ''requests'' [route_class_name (class_of ?S link_request),
       nat_decimal (w_recorded (gw_w (handle ?S link_request race_start)))], ReadClock t,
     SavedSession ''sid'' ?save None, Counted ''vault_operations'' [''write'', ''success''], WroteCredential ?cr None,
     Counted ''n8n_login'' [''success''], LoggedIn ''me'' ''good'' [n8nLoginHeaders ?S ?r] (result, None)]"
  have "\<exists>c'. shared_run (m, c) late (snd (SaveSession ''sid'' ?save m), c')" for m c
  proof -
    let ?m = "snd (SaveSession ''sid'' ?save m)" and ?c = "snd (PutCredential ?cr c)"
    note run_step = shared_run.next_step
    have "shared_run (m, c) [Counted ''n8n_login'' [''success''], LoggedIn ''me'' ''good'' [n8nLoginHeaders ?S ?r] (result, None)] (m, c)"
      by (rule local_run) simp
    from run_step [OF this shared_step.write_cred [of ?cr c None ?c]]
    have "shared_run (m, c) [WroteCredential ?cr None, Counted ''n8n_login'' [''success''],
        LoggedIn ''me'' ''good'' [n8nLoginHeaders ?S ?r] (result, None)] (m, ?c)"
      by (simp add: PutCredential_def)
    from run_step [OF run_step [OF this shared_step.elsewhere] shared_step.session [OF store_step.save [of "''sid''" ?save m None ?m]],
        of "Counted ''vault_operations'' [''write'', ''success'']"]
    have "shared_run (m, c) [SavedSession ''sid'' ?save None, Counted ''vault_operations'' [''write'', ''success''],
        WroteCredential ?cr None, Counted ''n8n_login'' [''success''],
        LoggedIn ''me'' ''good'' [n8nLoginHeaders ?S ?r] (result, None)] (?m, ?c)"
      by (simp add: SaveSession_def)
    moreover have "shared_run (?m, ?c) [Counted ''request_duration'' [route_class_name (class_of ?S link_request)],
        Counted ''requests'' [route_class_name (class_of ?S link_request),
          nat_decimal (w_recorded (gw_w (handle ?S link_request race_start)))], ReadClock t] (?m, ?c)"
      by (rule local_run) simp
    ultimately show ?thesis
      using shared_run_append [of "(m, c)" _ "(?m, ?c)" _ "(?m, ?c)"] by (intro exI [of _ ?c]) (fastforce simp: late_def)
  qed
  then show ?thesis using that [of late] log run by (simp add: late_def)
qed

text \<open>
  Property C16. A defect: a logout can be undone by a request that runs at the same time. A browser links its
  n8n account, and while that request is under way it logs out: the logout is answered as usual. The link request has read the
  session before and saves it when it has linked the account, so the session is back: with the cookie from before
  the logout, the browser is let through to the console.
\<close>

theorem logout_race:
  "\<exists>h m creds.
     interleaved [gw_log (handle race_server link_request race_start), gw_log (handle race_server logout_request race_start)] h
   \<and> shared_run (sw_sessions race_start, sw_credentials race_start) h (m, creds)
   \<and> reply (gw_w (handle race_server logout_request race_start)) = Some (302, ''/'')
   \<and> (\<exists>panicked. ConsoleProxied (normalizeForwardedHeaders race_server return_request) panicked
        \<in> set (gw_log (handle race_server return_request (race_start\<lparr>sw_sessions := m\<rparr>))))"
proof -
  let ?S = race_server and ?w = "(sw_sessions race_start, sw_credentials race_start)"
  let ?out = "handle ?S logout_request race_start"
  let ?m1 = "sw_sessions (gw_env ?out)" and ?save = "demo_session\<lparr>Linked := True\<rparr>"
  obtain late where log: "gw_log (handle ?S link_request race_start) = late @
      [GotCSRF ''sid'' (Inr ''tok''), GotSession ''sid'' (Inr demo_session)] @ gw_log (entered ?S link_request race_start)"
    and later: "\<And>m c. \<exists>c'. shared_run (m, c) late (snd (SaveSession ''sid'' ?save m), c')"
    by (rule link_log) blast
  define early where "early =
    [GotCSRF ''sid'' (Inr ''tok''), GotSession ''sid'' (Inr demo_session)] @ gw_log (entered ?S link_request race_start)"
  let ?m = "snd (SaveSession ''sid'' ?save ?m1)"
  let ?h = "late @ gw_log ?out @ early"
  have "interleaved [early, gw_log ?out] (gw_log ?out @ early)" by (rule interleaved_serial(2))
  then have mixed: "interleaved [gw_log (handle ?S link_request race_start), gw_log ?out] ?h"
    using interleaved_append [of "[early, gw_log ?out]" "gw_log ?out @ early" 0 late] by (simp add: log early_def)
  have "shared_run ?w early ?w"
  proof -
    have "store_step (sw_sessions race_start) (GotSession ''sid'' (Inr demo_session)) (sw_sessions race_start)"
      using race_stores by (intro store_step.find [of 0]) (simp add: GetSession_def)
    moreover have "store_step (sw_sessions race_start) (GotCSRF ''sid'' (Inr ''tok'')) (sw_sessions race_start)"
      using race_stores by (intro store_step.get_csrf) (simp add: GetCSRF_def)
    ultimately show ?thesis
      using entered_run [of ?w ?S link_request race_start]
      by (auto simp: early_def intro!: shared_run.next_step shared_step.session)
  qed
  then have "shared_run ?w (gw_log ?out @ early) (?m1, sw_credentials (gw_env ?out))"
    using shared_run_append handled_run by blast
  moreover obtain creds where "shared_run (?m1, sw_credentials (gw_env ?out)) late (?m, creds)" using later by blast
  ultimately have run: "shared_run ?w ?h (?m, creds)" by (rule shared_run_append)
  have "reply (gw_w ?out) = Some (302, ''/'')"
    using logout_reply [of logout_request ?S race_start] race_methods race_requests logout_facts(1) by simp
  moreover have "\<exists>panicked. ConsoleProxied (normalizeForwardedHeaders ?S return_request) panicked
      \<in> set (gw_log (handle ?S return_request (race_start\<lparr>sw_sessions := ?m\<rparr>)))"
    using kind.console_request [of demo_cfg return_request "''sid''" "race_start\<lparr>sw_sessions := ?m\<rparr>" ?save]
      race_requests race_methods race_stores
    by (simp add: SaveSession_def)
  ultimately show ?thesis using mixed run by blast
qed

end
