(* ===== verification/Spec2Isabelle.thy ===== *)
theory Spec2Isabelle
  imports Assembly Vault_Laws Redis_Laws Metrics Production Status_Recorder Log_Lines Races
begin

text \<open>
  A model of the n8n gateway (\<open>src/\<close>, Go) and the theorems that make it correct. The gateway stands in front of
  an n8n instance. It passes webhooks and forms on to n8n without a login (\<open>RoutePublicExecution\<close>), asks for a
  login at an OpenID Connect provider for everything else, keeps the login to n8n of each user in
  Vault, and logs the user in at n8n with it. n8n's own login form is blocked.

  \<^bold>\<open>The parts of the program, and where they are modelled.\<close>

  \<^item> \<open>cmd/n8n-proxy/main.go\<close>: \<open>Program\<close>. \<open>main_start\<close> puts the components together from the configuration,
    \<open>main_program\<close> is the exit code. \<open>program_server\<close> is the server that the program runs.
  \<^item> \<open>internal/config\<close>: \<open>Config\<close> (\<open>Load\<close> and its helpers); \<open>internal/logging\<close>: \<open>Logging\<close>.
  \<^item> \<open>internal/httpserver/routes.go\<close>: \<open>Routes\<close> (\<open>ClassifyRoute\<close>).
  \<^item> \<open>internal/httpserver/server.go\<close>: \<open>Handlers\<close>, one definition per handler, up to \<open>ServeHTTP\<close> and \<open>handle\<close>,
    over the state of a request that \<open>Gateway\<close> defines; \<open>Link_Page\<close> (the template); \<open>Return_Url\<close> (where a
    browser may be sent, with \<open>internal/security/return_url.go\<close>); \<open>Assembly\<close> (\<open>New\<close>, as \<open>NewServer\<close>);
    \<open>Metrics\<close> (\<open>newMetrics\<close>); \<open>Status_Recorder\<close> (\<open>statusRecorder\<close>); \<open>Log_Lines\<close> (what a request
    writes to the log, as a function of its calls).
  \<^item> \<open>internal/proxy\<close>: \<open>Reverse_Proxy\<close>, on \<open>Go_Proxy\<close>, a model of \<open>httputil.ReverseProxy\<close>.
  \<^item> \<open>internal/security\<close>: \<open>Cookies\<close> (\<open>cookie.go\<close>), \<open>Tokens\<close> (\<open>random.go\<close>, \<open>csrf.go\<close>).
  \<^item> \<open>internal/session\<close>: \<open>Session_Store\<close> (the data, the contract \<open>session_store\<close> of \<open>session.Store\<close>, and
    \<open>memory.go\<close>), \<open>Redis_Store\<close> (\<open>store.go\<close>).
  \<^item> \<open>internal/vault\<close>: \<open>Credential_Store\<close> (the data, the paths, the contract \<open>credential_store\<close> and
    \<open>memory.go\<close>), \<open>Vault_Store\<close> (\<open>KVStore\<close>, its logins and the renewal of its tokens).
  \<^item> \<open>internal/n8n\<close>, \<open>internal/oidc\<close>: \<open>N8n_Client\<close>, \<open>Oidc_Client\<close>, with the fakes of the tests.
  \<^item> The standard library, as far as the program uses it: \<open>Go_Strings\<close>, \<open>Go_Path\<close>, \<open>Go_Url\<close>, \<open>Go_Net\<close>,
    \<open>Go_Http\<close> (headers, forms, cookies, the response writer, redirects), \<open>Go_Json\<close>, \<open>Go_Json_Text\<close>,
    \<open>Go_Json_Reader\<close> (\<open>encoding/json\<close>), \<open>Go_Time\<close>, \<open>Time_Text\<close>, \<open>Go_Proxy\<close>.

  \<^bold>\<open>How the model corresponds to the code.\<close> A Go string is a list of bytes, an \<open>error\<close> a value of a sum or
  option type, whose constructors are the errors that the code tells apart. A service that \<open>Server\<close> holds is a
  function on a world of any type, about which nothing is assumed; the concrete worlds are
  the in-memory stores (\<open>System\<close>), the program with Redis and Vault (\<open>Program\<close>), and the world of the tests
  (\<open>Demo\<close>). A handler is a program in the state monad on the record \<open>gw\<close>: the world, the identifier and the
  parsed form of the request, the response written so far, and a log of every service call with its
  result and of every metric counted, which nothing reads. The response writer keeps apart the header map, which
  handlers may still change, and the block that has been sent. Third-party libraries are parameters:
  the transport of HTTP, the OAuth2 and ID token libraries, the clients of Vault and Redis, the metrics handler,
  the entropy source and the clock.

  \<^bold>\<open>The interfaces.\<close> \<open>session_store\<close> and \<open>credential_store\<close> are the contracts of the two store interfaces: a
  store may forget and a failed write may have happened, but it makes nothing up. The in-memory stores are
  interpretations, and the stores on Redis and Vault are sublocales wherever the engine keeps the promises in
  \<open>redis_laws\<close> and \<open>vault_kv2\<close>, for which an engine is given each. \<open>trace_policy\<close> (\<open>Safety\<close>) is a policy
  on the log, \<open>response_invariant\<close> (\<open>Responses\<close>) and \<open>world_invariant\<close> (\<open>Worlds\<close>) turn what every action or service
  call keeps into what every request keeps, \<open>session_keeper\<close> (\<open>Provenance\<close>) is what a gateway needs of its
  services so that its sessions are verified, \<open>program_libraries\<close> (\<open>Production\<close>) the same of the libraries of
  the program, and \<open>cooperating\<close> (\<open>Sign_In\<close>) what an outside is that lets a user sign in.

  \<^bold>\<open>What is shown.\<close>

  \<^item> For every request, whatever the services answer (\<open>Guarantees\<close>): C1 to C5, what is done only after what.
    Credentials, sessions, logins and console requests are bound to the session, the CSRF token and the
    provider's answer; the class of a route bounds what it can reach.
  \<^item> For every sequence of requests: C6 to C8 and C10 (\<open>System\<close>, \<open>Store_Machine\<close>, \<open>Production\<close>). Sessions and
    credentials belong to verified identities, with the in-memory stores and in the assembled program; the gateway
    refines the state machine of its store.
  \<^item> For requests that run at the same time: C9 (\<open>Concurrent\<close>). A request beside others is a request whose services
    answer anything; the calls of all requests are interleaved, and those of the in-memory stores are steps of the
    stores that they share. Sessions, credentials and states are as safe as one request after the other.
    What is not is C16 (\<open>Races\<close>).
  \<^item> The Redis store: C11 to C13. Signing out and in: C14 to C16, C15 being the one that something good happens.
  \<^item> The replies on every branch, as tables over the answers of the services (\<open>Replies\<close>, \<open>Endpoints\<close>): C17 to C20.
  \<^item> The program with its proxies (\<open>Assembly\<close>, \<open>Upstream\<close>): C21 to C25 and C28; starting and ending C26, metrics C27.
  \<^item> The components by themselves: routes C29 and C30, return targets C31, cookies C32 to C34, configuration C35,
    the OpenID Connect client C36, the Vault store C37 to C40.

  Three theorems show defects: C16 (a logout that is undone by a link request that runs at the same time), C24 (an
  interim response of n8n clears the security headers), and part of C27 (completed logins are not counted); so do
  parts of C23, C25, C28 and C40, and \<open>backslash_return_escapes\<close>, \<open>expired_session_keeps_csrf\<close> and \<open>panics_are_recovered\<close>.

  \<^bold>\<open>Bounds and fuel.\<close> \<open>duration_parts\<close> has the length of the text as fuel, of which each round reads some
  (\<open>duration_parts_fuel\<close>). The JSON reader has twice the length of the text and two (\<open>json_fuel\<close>): every call of it reads
  a byte or goes down one of the three kinds of values (\<open>read_fuel\<close>), and the reader finds whatever any amount of fuel
  finds (\<open>json_parse_any_fuel\<close>). All other recursions are structural or have a measure. Durations are
  parsed on 64-bit words as in Go; other integers of the program stay far from their bounds, which
  C40 shows for the one that is multiplied.

  \<^bold>\<open>Not modelled.\<close> The lines that \<open>main\<close> and \<open>KVStore\<close> write to the log, and how
  \<open>slog\<close> prints a line. The server of \<open>net/http\<close>, with its limits on requests, signals and the listening socket are
  inputs; writing to the client does not fail. Response trailers. The form of a request that a handler has parsed
  is not taken out of the body that a proxy sends; no request has both. Time zones: a time is its instant.
  The limit of \<open>encoding/json\<close> on the depth of values. Contexts and their cancellation, except for the time limits of
  the proxies. Requests that run at the same time are interleaved for the in-memory stores, whose operations are single
  steps; with Redis and Vault, \<open>reached\<close> handles one request after the other, with any change of the outside in
  between. An operation of a store reads the clock when it starts. The renewal
  of Vault tokens runs in the background; \<open>renewalTick\<close> is one round of its loop.
\<close>

end
